(* ===== verification/NM_Prelude.thy ===== *)
theory NM_Prelude
  imports Main "HOL-Library.Word"
begin

text \<open>
  Shared prelude of the development: the machine types of the sources, the collections of
  simplification facts the components fill, the list operations that \<open>std::list\<close> and
  \<open>std::vector\<close> loops with an early exit compute, and the decimal conversions
  \<open>std::to_string\<close> and \<open>std::stol\<close> of the C++ library.
\<close>

unbundle bit_operations_syntax

section \<open>Collections of facts\<close>

named_theorems nm_consts \<open>numeric values of the named constants of the headers\<close>
named_theorems nm_frame \<open>fields an operation leaves unchanged\<close>
named_theorems nm_inv \<open>operations that keep an invariant\<close>
named_theorems parcel_rules \<open>reading back what was written to a parcel\<close>

section \<open>Machine types\<close>

text \<open>
  Signed and unsigned integers of the same width share one word type; the signed reading is
  \<^const>\<open>sint\<close>, and a conversion between the two is the identity, as in C++.
\<close>

type_synonym uint8 = "8 word"
type_synonym uint16 = "16 word"
type_synonym uint32 = "32 word"
type_synonym uint64 = "64 word"
type_synonym int32 = "32 word"

section \<open>Faults\<close>

text \<open>The result of code that may access memory it must not.\<close>

datatype 'a run = Fault | Done 'a

section \<open>Loops over lists with an early exit\<close>

text \<open>Erase the first element that satisfies a condition, as \<open>list.erase(it); return;\<close> does.\<close>

fun erase_first :: "('a \<Rightarrow> bool) \<Rightarrow> 'a list \<Rightarrow> 'a list" where
  "erase_first P [] = []"
| "erase_first P (x # xs) = (if P x then xs else x # erase_first P xs)"

text \<open>Update the first element that satisfies a condition and leave the loop.\<close>

fun update_first :: "('a \<Rightarrow> bool) \<Rightarrow> ('a \<Rightarrow> 'a) \<Rightarrow> 'a list \<Rightarrow> 'a list" where
  "update_first P f [] = []"
| "update_first P f (x # xs) = (if P x then f x # xs else x # update_first P f xs)"

lemma set_erase_first_subset: "set (erase_first P xs) \<subseteq> set xs"
  by (induction xs) auto

lemma erase_first_none [simp]: "\<forall>x \<in> set xs. \<not> P x \<Longrightarrow> erase_first P xs = xs"
  by (induction xs) auto

lemma in_erase_first_other: "x \<in> set xs \<Longrightarrow> \<not> P x \<Longrightarrow> x \<in> set (erase_first P xs)"
  by (induction xs) auto

lemma distinct_map_erase_first: "distinct (map f xs) \<Longrightarrow> distinct (map f (erase_first P xs))"
  using set_erase_first_subset [of P] by (induction xs) (auto simp: image_def)

lemma distinct_erase_first: "distinct xs \<Longrightarrow> distinct (erase_first P xs)"
  using distinct_map_erase_first [of id] by simp

lemma erase_first_unique:
  assumes "distinct (map f xs)"
  shows "erase_first (\<lambda>x. f x = k) xs = filter (\<lambda>x. f x \<noteq> k) xs"
  using assms
proof (induction xs)
  case (Cons x xs)
  show ?case
  proof (cases "f x = k")
    case True
    with Cons.prems have "\<forall>y \<in> set xs. f y \<noteq> k" by (auto simp: image_iff)
    with True show ?thesis by simp
  next
    case False
    with Cons show ?thesis by simp
  qed
qed simp

lemma filter_erase_first_other:
  "(\<And>x. P x \<Longrightarrow> \<not> Q x) \<Longrightarrow> filter Q (erase_first P xs) = filter Q xs"
  by (induction xs) auto

lemma update_first_none [simp]: "\<forall>x \<in> set xs. \<not> P x \<Longrightarrow> update_first P f xs = xs"
  by (induction xs) auto

lemma map_update_first_same: "(\<And>x. g (f x) = g x) \<Longrightarrow> map g (update_first P f xs) = map g xs"
  by (induction xs) auto

lemma length_update_first [simp]: "length (update_first P f xs) = length xs"
  by (induction xs) auto

lemma set_update_first: "set (update_first P f xs) \<subseteq> set xs \<union> f ` set xs"
  by (induction xs) auto

lemma find_Some_D: "find P xs = Some x \<Longrightarrow> x \<in> set xs \<and> P x"
  by (induction xs) (auto split: if_splits)

lemma find_None_D: "find P xs = None \<Longrightarrow> x \<in> set xs \<Longrightarrow> \<not> P x"
  by (induction xs) (auto split: if_splits)

lemma find_append: "find P (xs @ ys) = (case find P xs of None \<Rightarrow> find P ys | Some x \<Rightarrow> Some x)"
  by (induction xs) auto

lemma find_cong_pred: "(\<And>x. x \<in> set xs \<Longrightarrow> P x = Q x) \<Longrightarrow> find P xs = find Q xs"
  by (induction xs) auto

lemma find_unique:
  assumes "distinct (map f xs)" and "x \<in> set xs"
  shows "find (\<lambda>y. f y = f x) xs = Some x"
  using assms by (induction xs) (auto simp: image_def)

lemma find_erase_first_None:
  assumes "distinct (map f xs)"
  shows "find (\<lambda>y. f y = k) (erase_first (\<lambda>y. f y = k) xs) = None"
  using assms by (simp add: erase_first_unique find_None_iff)

lemma find_erase_first_other:
  "(\<And>x. P x \<Longrightarrow> \<not> Q x) \<Longrightarrow> find Q (erase_first P xs) = find Q xs"
  by (induction xs) auto

lemma erase_first_map: "erase_first P (map f xs) = map f (erase_first (\<lambda>x. P (f x)) xs)"
  by (induction xs) auto

lemma find_map: "find P (map f xs) = map_option f (find (\<lambda>x. P (f x)) xs)"
  by (induction xs) auto

lemma set_erase_first_find:
  "find P xs = Some x \<Longrightarrow> distinct xs \<Longrightarrow> set (erase_first P xs) = set xs - {x}"
  by (induction xs) (auto split: if_splits dest: find_Some_D)

lemma erase_first_cong:
  "(\<And>x. x \<in> set xs \<Longrightarrow> P x = Q x) \<Longrightarrow> erase_first P xs = erase_first Q xs"
  by (induction xs) auto

lemma erase_first_find_filter:
  "find P xs = Some x \<Longrightarrow> distinct xs \<Longrightarrow> erase_first P xs = filter (\<lambda>y. y \<noteq> x) xs"
proof (induction xs)
  case (Cons a xs)
  then show ?case by (cases "P a") (auto intro!: filter_True [symmetric] dest: find_Some_D)
qed simp

text \<open>How an update changes the number of elements with a property.\<close>

lemma filter_update:
  "j < length xs \<Longrightarrow> length (filter P (xs[j := w])) + of_bool (P (xs ! j)) = length (filter P xs) + of_bool (P w)"
proof (induction xs arbitrary: j)
  case (Cons x xs)
  then show ?case by (cases j) auto
qed simp

section \<open>Reachable states\<close>

inductive reach :: "('s \<Rightarrow> bool) \<Rightarrow> ('s \<Rightarrow> 's \<Rightarrow> bool) \<Rightarrow> 's \<Rightarrow> bool" for init step where
  reach_init: "init s \<Longrightarrow> reach init step s"
| reach_step: "reach init step s \<Longrightarrow> step s t \<Longrightarrow> reach init step t"

locale transition_system =
  fixes init :: "'s \<Rightarrow> bool"
    and step :: "'s \<Rightarrow> 's \<Rightarrow> bool"
    and inv :: "'s \<Rightarrow> bool"
  assumes init_inv: "init s \<Longrightarrow> inv s"
    and step_inv: "inv s \<Longrightarrow> step s t \<Longrightarrow> inv t"
begin

lemma reach_inv: "reach init step s \<Longrightarrow> inv s"
  by (induction rule: reach.induct) (auto intro: init_inv step_inv)

end

section \<open>Decimal conversions\<close>

text \<open>\<open>std::to_string\<close> of an unsigned value: its decimal digits without leading zeros.\<close>

definition digit_char :: "nat \<Rightarrow> char" where
  "digit_char d = char_of (48 + d)"

definition isdigit :: "char \<Rightarrow> bool" where
  "isdigit c \<longleftrightarrow> 48 \<le> (of_char c :: nat) \<and> (of_char c :: nat) \<le> 57"

definition digit_val :: "char \<Rightarrow> nat" where
  "digit_val c = of_char c - 48"

fun nat_to_string :: "nat \<Rightarrow> string" where
  "nat_to_string n =
     (if n < 10 then [digit_char n] else nat_to_string (n div 10) @ [digit_char (n mod 10)])"

declare nat_to_string.simps [simp del]

definition to_string_u32 :: "uint32 \<Rightarrow> string" where
  "to_string_u32 w = nat_to_string (unat w)"

text \<open>\<open>std::to_string\<close> of a signed 32-bit value.\<close>

definition to_string_i32 :: "int32 \<Rightarrow> string" where
  "to_string_i32 w =
     (if sint w < 0 then CHR ''-'' # nat_to_string (nat (- sint w))
      else nat_to_string (nat (sint w)))"

text \<open>
  \<open>std::stol\<close> in base ten: white space is skipped, a sign is optional, the longest run of
  digits is read and what follows it is ignored. No digit raises \<open>std::invalid_argument\<close>, a
  value that \<open>long\<close> cannot hold raises \<open>std::out_of_range\<close>. The width of
  \<open>long\<close> depends on the target (32 bits on arm, 64 on arm64), so it is an argument.
\<close>

datatype std_exn = invalid_argument | out_of_range

definition isspace :: "char \<Rightarrow> bool" where
  "isspace c \<longleftrightarrow> c = CHR '' '' \<or> (9 \<le> (of_char c :: nat) \<and> (of_char c :: nat) \<le> 13)"

definition digits_val :: "string \<Rightarrow> nat" where
  "digits_val ds = foldl (\<lambda>a c. a * 10 + digit_val c) 0 ds"

definition stol :: "nat \<Rightarrow> string \<Rightarrow> std_exn + int" where
  "stol long_bits s =
     (let s1 = dropWhile isspace s;
          neg = (s1 \<noteq> [] \<and> hd s1 = CHR ''-'');
          s2 = (if s1 \<noteq> [] \<and> (hd s1 = CHR ''-'' \<or> hd s1 = CHR ''+'') then tl s1 else s1);
          ds = takeWhile isdigit s2;
          v = (if neg then - int (digits_val ds) else int (digits_val ds))
      in if ds = [] then Inl invalid_argument
         else if v < - (2 ^ (long_bits - 1)) \<or> 2 ^ (long_bits - 1) \<le> v then Inl out_of_range
         else Inr v)"

lemma isdigit_digit_char [simp]: "d < 10 \<Longrightarrow> isdigit (digit_char d)"
  by (simp add: isdigit_def digit_char_def)

lemma digit_val_digit_char [simp]: "d < 10 \<Longrightarrow> digit_val (digit_char d) = d"
  by (simp add: digit_val_def digit_char_def)

lemma nat_to_string_nonempty [simp]: "nat_to_string n \<noteq> []"
  by (subst nat_to_string.simps) simp

lemma nat_to_string_digits: "\<forall>c \<in> set (nat_to_string n). isdigit c"
proof (induction n rule: nat_to_string.induct)
  case (1 n)
  show ?case
  proof (cases "n < 10")
    case True
    then show ?thesis by (subst nat_to_string.simps) simp
  next
    case False
    with 1 show ?thesis by (subst nat_to_string.simps) auto
  qed
qed

lemma digits_val_snoc: "digits_val (ds @ [c]) = digits_val ds * 10 + digit_val c"
  by (simp add: digits_val_def)

lemma digits_val_to_string [simp]: "digits_val (nat_to_string n) = n"
proof (induction n rule: nat_to_string.induct)
  case (1 n)
  show ?case
  proof (cases "n < 10")
    case True
    then show ?thesis by (subst nat_to_string.simps) (simp add: digits_val_def)
  next
    case False
    with 1 show ?thesis
      by (subst nat_to_string.simps) (simp add: digits_val_snoc)
  qed
qed

lemma nat_to_string_inject [simp]: "nat_to_string m = nat_to_string n \<longleftrightarrow> m = n"
  by (metis digits_val_to_string)

lemma to_string_u32_inject [simp]: "to_string_u32 v = to_string_u32 w \<longleftrightarrow> v = w"
  by (simp add: to_string_u32_def word_unat_eq_iff)

lemma isdigit_no_sign: "isdigit c \<Longrightarrow> \<not> isspace c \<and> c \<noteq> CHR ''-'' \<and> c \<noteq> CHR ''+''"
  by (auto simp: isdigit_def isspace_def)

lemma stol_digits:
  assumes "ds \<noteq> []" and "\<forall>c \<in> set ds. isdigit c"
  shows "stol long_bits ds =
    (if 2 ^ (long_bits - 1) \<le> int (digits_val ds) then Inl out_of_range else Inr (int (digits_val ds)))"
proof -
  from assms obtain c cs where ds: "ds = c # cs" and c: "isdigit c" by (cases ds) auto
  have "takeWhile isdigit ds = ds" using assms(2) by simp
  moreover have "\<not> int (digits_val ds) < - (2 ^ (long_bits - 1))"
    using zero_less_power [of "2 :: int" "long_bits - 1"] by linarith
  ultimately show ?thesis
    using isdigit_no_sign [OF c] assms(1) by (simp add: stol_def Let_def ds)
qed

lemma stol_nat_to_string:
  "stol long_bits (nat_to_string n) =
    (if 2 ^ (long_bits - 1) \<le> int n then Inl out_of_range else Inr (int n))"
  using stol_digits [OF nat_to_string_nonempty nat_to_string_digits, of long_bits n] by simp

lemma stol_to_string_u32_64 [simp]: "stol 64 (to_string_u32 w) = Inr (uint w)"
proof -
  have "uint w < 2 ^ 32" using unsigned_less [of w] by simp
  then have "\<not> (2 :: int) ^ (64 - 1) \<le> int (unat w)" by simp
  then show ?thesis by (simp only: to_string_u32_def stol_nat_to_string if_False) simp
qed

text \<open>A \<open>char\<close> buffer, or the pointer \<open>c_str()\<close>, read as a string ends at its first null byte.\<close>

definition c_str :: "string \<Rightarrow> string" where
  "c_str s = takeWhile (\<lambda>c. c \<noteq> CHR 0x00) s"

end
