(* ===== verification/NM_Types.thy ===== *)
theory NM_Types
  imports NM_Prelude
begin

text \<open>
  The enumerations and named constants of the headers: network types and capabilities
  (\<open>net_specifier.h\<close>), service states (\<open>net_service.h\<close>), the internal result codes
  (\<open>net_conn_types.h\<close>), the codes returned to clients (\<open>net_conn_constants.h\<close>) and the
  codes of the policy and common headers. A code is an \<open>int32_t\<close>.
\<close>

section \<open>Network types and capabilities\<close>

datatype NetworkType = NET_TYPE_UNKNOWN | NET_TYPE_CELLULAR | NET_TYPE_ETHERNET | NET_TYPE_MAX

fun NetworkType_val :: "NetworkType \<Rightarrow> uint32" where
  "NetworkType_val NET_TYPE_UNKNOWN = 0"
| "NetworkType_val NET_TYPE_CELLULAR = 1"
| "NetworkType_val NET_TYPE_ETHERNET = 2"
| "NetworkType_val NET_TYPE_MAX = 3"

text \<open>
  \<open>static_cast<NetworkType>(netType)\<close>. The sources cast only after the range check of
  \<open>RegisterNetSupplier\<close>, so only the values 1 and 2 occur.
\<close>

definition NetworkType_cast :: "uint32 \<Rightarrow> NetworkType" where
  "NetworkType_cast v =
     (if v = 0 then NET_TYPE_UNKNOWN else if v = 1 then NET_TYPE_CELLULAR
      else if v = 2 then NET_TYPE_ETHERNET else NET_TYPE_MAX)"

datatype NetCapabilities =
    NET_CAPABILITIES_NONE | NET_CAPABILITIES_INTERNET | NET_CAPABILITIES_MMS | NET_CAPABILITIES_MAX

fun NetCapabilities_val :: "NetCapabilities \<Rightarrow> uint64" where
  "NetCapabilities_val NET_CAPABILITIES_NONE = 0"
| "NetCapabilities_val NET_CAPABILITIES_INTERNET = 1"
| "NetCapabilities_val NET_CAPABILITIES_MMS = 2"
| "NetCapabilities_val NET_CAPABILITIES_MAX = 3"

lemma NetworkType_val_inject [simp]: "NetworkType_val a = NetworkType_val b \<longleftrightarrow> a = b"
  by (cases a; cases b) auto

lemma NetworkType_cast_val [simp]: "NetworkType_cast (NetworkType_val t) = t"
  by (cases t) (auto simp: NetworkType_cast_def)

lemma NetworkType_val_cast: "v \<le> 3 \<Longrightarrow> NetworkType_val (NetworkType_cast v) = v"
proof -
  assume "v \<le> 3"
  then have "unat v \<le> 3" by (simp add: word_le_nat_alt)
  then have "unat v = 0 \<or> unat v = 1 \<or> unat v = 2 \<or> unat v = 3" by linarith
  then have "v = 0 \<or> v = 1 \<or> v = 2 \<or> v = 3" by (auto simp: word_unat_eq_iff)
  then show ?thesis by (auto simp: NetworkType_cast_def)
qed

lemma NetCapabilities_val_inject [simp]: "NetCapabilities_val a = NetCapabilities_val b \<longleftrightarrow> a = b"
  by (cases a; cases b) auto

section \<open>Service states\<close>

datatype ServiceState =
    SERVICE_STATE_UNKNOWN | SERVICE_STATE_IDLE | SERVICE_STATE_CONNECTING | SERVICE_STATE_READY
  | SERVICE_STATE_CONNECTED | SERVICE_STATE_DISCONNECTING | SERVICE_STATE_DISCONNECTED
  | SERVICE_STATE_FAILURE

fun ServiceState_val :: "ServiceState \<Rightarrow> int32" where
  "ServiceState_val SERVICE_STATE_UNKNOWN = 0"
| "ServiceState_val SERVICE_STATE_IDLE = 1"
| "ServiceState_val SERVICE_STATE_CONNECTING = 2"
| "ServiceState_val SERVICE_STATE_READY = 3"
| "ServiceState_val SERVICE_STATE_CONNECTED = 4"
| "ServiceState_val SERVICE_STATE_DISCONNECTING = 5"
| "ServiceState_val SERVICE_STATE_DISCONNECTED = 6"
| "ServiceState_val SERVICE_STATE_FAILURE = 7"

datatype ServiceRunningState = STATE_STOPPED | STATE_RUNNING

section \<open>Result codes\<close>

datatype ResultCode =
    ERR_NONE | ERR_SERVICE_REQUEST_SUCCESS | ERR_SERVICE_REQUEST_CONNECT_FAIL
  | ERR_SERVICE_UPDATE_NET_LINK_INFO_FAIL | ERR_SERVICE_CONNECTING | ERR_SERVICE_CONNECTED
  | ERR_SERVICE_DISCONNECTED_FAIL | ERR_SERVICE_DISCONNECTING | ERR_SERVICE_DISCONNECTED_SUCCESS
  | ERR_SERVICE_NULL_PTR | ERR_NO_SUPPLIER | ERR_NO_NETWORK | ERR_INVALID_PARAMS
  | ERR_INVALID_NETORK_TYPE | ERR_SERVICE_UPDATE_NET_LINK_INFO_SUCCES
  | ERR_NET_MONITOR_OPT_SUCCESS | ERR_NET_MONITOR_OPT_FAILED | ERR_NET_SUPPLIER_NO_API
  | ERR_NET_TYPE_NOT_FOUND | ERR_NO_ANY_NET_TYPE | ERR_NO_REGISTERED

text \<open>The enumerator values: the position in the list above, negated.\<close>

fun ResultCode_val :: "ResultCode \<Rightarrow> int32" where
  "ResultCode_val ERR_NONE = 0"
| "ResultCode_val ERR_SERVICE_REQUEST_SUCCESS = - 1"
| "ResultCode_val ERR_SERVICE_REQUEST_CONNECT_FAIL = - 2"
| "ResultCode_val ERR_SERVICE_UPDATE_NET_LINK_INFO_FAIL = - 3"
| "ResultCode_val ERR_SERVICE_CONNECTING = - 4"
| "ResultCode_val ERR_SERVICE_CONNECTED = - 5"
| "ResultCode_val ERR_SERVICE_DISCONNECTED_FAIL = - 6"
| "ResultCode_val ERR_SERVICE_DISCONNECTING = - 7"
| "ResultCode_val ERR_SERVICE_DISCONNECTED_SUCCESS = - 8"
| "ResultCode_val ERR_SERVICE_NULL_PTR = - 9"
| "ResultCode_val ERR_NO_SUPPLIER = - 10"
| "ResultCode_val ERR_NO_NETWORK = - 11"
| "ResultCode_val ERR_INVALID_PARAMS = - 12"
| "ResultCode_val ERR_INVALID_NETORK_TYPE = - 13"
| "ResultCode_val ERR_SERVICE_UPDATE_NET_LINK_INFO_SUCCES = - 14"
| "ResultCode_val ERR_NET_MONITOR_OPT_SUCCESS = - 15"
| "ResultCode_val ERR_NET_MONITOR_OPT_FAILED = - 16"
| "ResultCode_val ERR_NET_SUPPLIER_NO_API = - 17"
| "ResultCode_val ERR_NET_TYPE_NOT_FOUND = - 18"
| "ResultCode_val ERR_NO_ANY_NET_TYPE = - 19"
| "ResultCode_val ERR_NO_REGISTERED = - 20"

datatype NetConnResultCode =
    NET_CONN_SUCCESS | NET_CONN_ERR_GET_REMOTE_OBJECT_FAILED | NET_CONN_ERR_INPUT_NULL_PTR
  | NET_CONN_ERR_INVALID_SUPPLIER_ID | NET_CONN_ERR_INVALID_PARAMETER
  | NET_CONN_ERR_NET_TYPE_NOT_FOUND | NET_CONN_ERR_NO_ANY_NET_TYPE | NET_CONN_ERR_NO_REGISTERED
  | NET_CONN_ERR_INTERNAL_ERROR

fun NetConnResultCode_val :: "NetConnResultCode \<Rightarrow> int32" where
  "NetConnResultCode_val NET_CONN_SUCCESS = 0"
| "NetConnResultCode_val NET_CONN_ERR_GET_REMOTE_OBJECT_FAILED = - 1"
| "NetConnResultCode_val NET_CONN_ERR_INPUT_NULL_PTR = - 2"
| "NetConnResultCode_val NET_CONN_ERR_INVALID_SUPPLIER_ID = - 3"
| "NetConnResultCode_val NET_CONN_ERR_INVALID_PARAMETER = - 4"
| "NetConnResultCode_val NET_CONN_ERR_NET_TYPE_NOT_FOUND = - 5"
| "NetConnResultCode_val NET_CONN_ERR_NO_ANY_NET_TYPE = - 6"
| "NetConnResultCode_val NET_CONN_ERR_NO_REGISTERED = - 7"
| "NetConnResultCode_val NET_CONN_ERR_INTERNAL_ERROR = - 1000"

lemma ResultCode_val_inject [simp]: "ResultCode_val a = ResultCode_val b \<longleftrightarrow> a = b"
  by (cases a; cases b) simp_all

end
