(* ===== verification/Parcel_IO.thy ===== *)
theory Parcel_IO
  imports NM_Types
begin

text \<open>
  The parcels of the inter-process communication. \<open>Parcel\<close> and \<open>MessageParcel\<close> belong to
  the operating system, not to this repository, so a parcel is a parameter: a record of
  operations on an abstract parcel type \<open>'p\<close>. What the sources rely on is \<open>parcel_laws\<close>:
  a successful write appends one typed item, and reading the type of the first item returns and
  consumes it. Writes may fail (\<open>Write\<close> returns \<open>False\<close>), reads of something else may
  do anything. The typed members (\<open>WriteUint8\<close>, \<open>ReadString\<close>, ...), the early-return
  chains of the sources and the interface \<open>codec\<close> of a marshalled type are built on it.
\<close>

section \<open>Parcels as a parameter\<close>

datatype parcel_item =
    I_Bool bool | I_Uint8 uint8 | I_Uint16 uint16 | I_Uint32 uint32 | I_Uint64 uint64
  | I_Int32 int32 | I_String string | I_Token string | I_Remote nat | I_Uint32Vector "uint32 list"

datatype item_kind =
    K_Bool | K_Uint8 | K_Uint16 | K_Uint32 | K_Uint64 | K_Int32 | K_String | K_Token | K_Remote
  | K_Uint32Vector

fun kind_of :: "parcel_item \<Rightarrow> item_kind" where
  "kind_of (I_Bool _) = K_Bool"
| "kind_of (I_Uint8 _) = K_Uint8"
| "kind_of (I_Uint16 _) = K_Uint16"
| "kind_of (I_Uint32 _) = K_Uint32"
| "kind_of (I_Uint64 _) = K_Uint64"
| "kind_of (I_Int32 _) = K_Int32"
| "kind_of (I_String _) = K_String"
| "kind_of (I_Token _) = K_Token"
| "kind_of (I_Remote _) = K_Remote"
| "kind_of (I_Uint32Vector _) = K_Uint32Vector"

record 'p parcel_ops =
  Write :: "parcel_item \<Rightarrow> 'p \<Rightarrow> bool \<times> 'p"
  Read :: "item_kind \<Rightarrow> 'p \<Rightarrow> parcel_item option \<times> 'p"
  new_parcel :: "'p"
  contents :: "'p \<Rightarrow> parcel_item list"

definition parcel_laws :: "'p parcel_ops \<Rightarrow> bool" where
  "parcel_laws P \<longleftrightarrow>
     contents P (new_parcel P) = [] \<and>
     (\<forall>i p p'. Write P i p = (True, p') \<longrightarrow> contents P p' = contents P p @ [i]) \<and>
     (\<forall>i p r. contents P p = i # r \<longrightarrow>
        (\<exists>p'. Read P (kind_of i) p = (Some i, p') \<and> contents P p' = r)) \<and>
     (\<forall>k p i p'. Read P k p = (Some i, p') \<longrightarrow> kind_of i = k)"

text \<open>The parcels whose writes never fail, as when there is memory for every request.\<close>

definition parcel_never_fails :: "'p parcel_ops \<Rightarrow> bool" where
  "parcel_never_fails P \<longleftrightarrow> (\<forall>i p. fst (Write P i p))"

section \<open>Typed members\<close>

type_synonym 'p writer = "'p \<Rightarrow> bool \<times> 'p"
type_synonym ('p, 'a) reader = "'p \<Rightarrow> 'a option \<times> 'p"

definition WriteBool :: "'p parcel_ops \<Rightarrow> bool \<Rightarrow> 'p writer" where
  "WriteBool P v = Write P (I_Bool v)"
definition WriteUint8 :: "'p parcel_ops \<Rightarrow> uint8 \<Rightarrow> 'p writer" where
  "WriteUint8 P v = Write P (I_Uint8 v)"
definition WriteUint16 :: "'p parcel_ops \<Rightarrow> uint16 \<Rightarrow> 'p writer" where
  "WriteUint16 P v = Write P (I_Uint16 v)"
definition WriteUint32 :: "'p parcel_ops \<Rightarrow> uint32 \<Rightarrow> 'p writer" where
  "WriteUint32 P v = Write P (I_Uint32 v)"
definition WriteUint64 :: "'p parcel_ops \<Rightarrow> uint64 \<Rightarrow> 'p writer" where
  "WriteUint64 P v = Write P (I_Uint64 v)"
definition WriteInt32 :: "'p parcel_ops \<Rightarrow> int32 \<Rightarrow> 'p writer" where
  "WriteInt32 P v = Write P (I_Int32 v)"
definition WriteString :: "'p parcel_ops \<Rightarrow> string \<Rightarrow> 'p writer" where
  "WriteString P v = Write P (I_String v)"
definition WriteToken :: "'p parcel_ops \<Rightarrow> string \<Rightarrow> 'p writer" where
  "WriteToken P v = Write P (I_Token v)"
definition WriteRemoteObject :: "'p parcel_ops \<Rightarrow> nat \<Rightarrow> 'p writer" where
  "WriteRemoteObject P v = Write P (I_Remote v)"
definition WriteUInt32Vector :: "'p parcel_ops \<Rightarrow> uint32 list \<Rightarrow> 'p writer" where
  "WriteUInt32Vector P v = Write P (I_Uint32Vector v)"

lemmas write_defs = WriteBool_def WriteUint8_def WriteUint16_def WriteUint32_def WriteUint64_def
  WriteInt32_def WriteString_def WriteToken_def WriteRemoteObject_def WriteUInt32Vector_def

definition read_as :: "(parcel_item \<Rightarrow> 'a option) \<Rightarrow> (parcel_item option \<times> 'p) \<Rightarrow> 'a option \<times> 'p" where
  "read_as f r = (Option.bind (fst r) f, snd r)"

definition ReadBool :: "'p parcel_ops \<Rightarrow> ('p, bool) reader" where
  "ReadBool P p = read_as (\<lambda>i. case i of I_Bool v \<Rightarrow> Some v | _ \<Rightarrow> None) (Read P K_Bool p)"
definition ReadUint8 :: "'p parcel_ops \<Rightarrow> ('p, uint8) reader" where
  "ReadUint8 P p = read_as (\<lambda>i. case i of I_Uint8 v \<Rightarrow> Some v | _ \<Rightarrow> None) (Read P K_Uint8 p)"
definition ReadUint16 :: "'p parcel_ops \<Rightarrow> ('p, uint16) reader" where
  "ReadUint16 P p = read_as (\<lambda>i. case i of I_Uint16 v \<Rightarrow> Some v | _ \<Rightarrow> None) (Read P K_Uint16 p)"
definition ReadUint32 :: "'p parcel_ops \<Rightarrow> ('p, uint32) reader" where
  "ReadUint32 P p = read_as (\<lambda>i. case i of I_Uint32 v \<Rightarrow> Some v | _ \<Rightarrow> None) (Read P K_Uint32 p)"
definition ReadUint64 :: "'p parcel_ops \<Rightarrow> ('p, uint64) reader" where
  "ReadUint64 P p = read_as (\<lambda>i. case i of I_Uint64 v \<Rightarrow> Some v | _ \<Rightarrow> None) (Read P K_Uint64 p)"
definition ReadInt32 :: "'p parcel_ops \<Rightarrow> ('p, int32) reader" where
  "ReadInt32 P p = read_as (\<lambda>i. case i of I_Int32 v \<Rightarrow> Some v | _ \<Rightarrow> None) (Read P K_Int32 p)"
definition ReadString :: "'p parcel_ops \<Rightarrow> ('p, string) reader" where
  "ReadString P p = read_as (\<lambda>i. case i of I_String v \<Rightarrow> Some v | _ \<Rightarrow> None) (Read P K_String p)"
definition ReadRemoteObject :: "'p parcel_ops \<Rightarrow> ('p, nat) reader" where
  "ReadRemoteObject P p = read_as (\<lambda>i. case i of I_Remote v \<Rightarrow> Some v | _ \<Rightarrow> None) (Read P K_Remote p)"
definition ReadUInt32Vector :: "'p parcel_ops \<Rightarrow> ('p, uint32 list) reader" where
  "ReadUInt32Vector P p =
     read_as (\<lambda>i. case i of I_Uint32Vector v \<Rightarrow> Some v | _ \<Rightarrow> None) (Read P K_Uint32Vector p)"

text \<open>
  The members that return the value itself return a default when nothing can be read:
  an empty token, 0, \<open>false\<close>, an empty string.
\<close>

definition ReadInterfaceToken :: "'p parcel_ops \<Rightarrow> 'p \<Rightarrow> string \<times> 'p" where
  "ReadInterfaceToken P p =
     (let r = read_as (\<lambda>i. case i of I_Token v \<Rightarrow> Some v | _ \<Rightarrow> None) (Read P K_Token p)
      in (case fst r of Some v \<Rightarrow> v | None \<Rightarrow> [], snd r))"
definition ReadInt32_value :: "'p parcel_ops \<Rightarrow> 'p \<Rightarrow> int32" where
  "ReadInt32_value P p = (case fst (ReadInt32 P p) of Some v \<Rightarrow> v | None \<Rightarrow> 0)"
definition ReadBool_value :: "'p parcel_ops \<Rightarrow> 'p \<Rightarrow> bool" where
  "ReadBool_value P p = (case fst (ReadBool P p) of Some v \<Rightarrow> v | None \<Rightarrow> False)"

section \<open>Chains of writes and reads\<close>

text \<open>\<open>if (!w) return false;\<close> for each writer in turn, then \<open>return true\<close>.\<close>

fun write_seq :: "'p writer list \<Rightarrow> 'p writer" where
  "write_seq [] p = (True, p)"
| "write_seq (w # ws) p = (let r = w p in if fst r then write_seq ws (snd r) else (False, snd r))"

text \<open>\<open>if (!parcel.Read(v)) return nullptr;\<close> followed by the rest of the function.\<close>

definition read_then :: "('p, 'a) reader \<Rightarrow> ('a \<Rightarrow> ('p, 'b) reader) \<Rightarrow> ('p, 'b) reader" where
  "read_then r k p = (let x = r p in case fst x of Some v \<Rightarrow> k v (snd x) | None \<Rightarrow> (None, snd x))"

definition read_done :: "'a \<Rightarrow> ('p, 'a) reader" where
  "read_done v p = (Some v, p)"

text \<open>\<open>for (i = 0; i < size; i++)\<close> reading one element each time.\<close>

fun read_n :: "('p, 'a) reader \<Rightarrow> nat \<Rightarrow> ('p, 'a list) reader" where
  "read_n r 0 = read_done []"
| "read_n r (Suc n) = read_then r (\<lambda>x. read_then (read_n r n) (\<lambda>xs. read_done (x # xs)))"

text \<open>One value after another.\<close>

definition read_pair :: "('p, 'a) reader \<Rightarrow> ('p, 'b) reader \<Rightarrow> ('p, 'a \<times> 'b) reader" where
  "read_pair r q = read_then r (\<lambda>a. read_then q (\<lambda>b. read_done (a, b)))"

text \<open>A list written as its 32-bit size followed by the elements, and the loop that reads it.\<close>

definition write_counted :: "'p parcel_ops \<Rightarrow> ('a \<Rightarrow> 'p writer) \<Rightarrow> 'a list \<Rightarrow> 'p writer" where
  "write_counted P w xs = write_seq (WriteUint32 P (of_nat (length xs)) # map w xs)"

definition read_counted :: "'p parcel_ops \<Rightarrow> ('p, 'a) reader \<Rightarrow> ('p, 'a list) reader" where
  "read_counted P r = read_then (ReadUint32 P) (\<lambda>size. read_n r (unat size))"

definition counted_items :: "('a \<Rightarrow> parcel_item list) \<Rightarrow> 'a list \<Rightarrow> parcel_item list" where
  "counted_items f xs = I_Uint32 (of_nat (length xs)) # concat (map f xs)"

definition short_list :: "'a list \<Rightarrow> bool" where
  "short_list xs \<longleftrightarrow> length xs < 2 ^ 32"

section \<open>What is written can be read\<close>

definition encodes :: "'p parcel_ops \<Rightarrow> 'p writer \<Rightarrow> parcel_item list \<Rightarrow> bool" where
  "encodes P w its \<longleftrightarrow> (\<forall>p p'. w p = (True, p') \<longrightarrow> contents P p' = contents P p @ its)"

definition decodes :: "'p parcel_ops \<Rightarrow> ('p, 'a) reader \<Rightarrow> parcel_item list \<Rightarrow> 'a \<Rightarrow> bool" where
  "decodes P r its v \<longleftrightarrow>
     (\<forall>p rest. contents P p = its @ rest \<longrightarrow> (\<exists>p'. r p = (Some v, p') \<and> contents P p' = rest))"

definition always_writes :: "'p writer \<Rightarrow> bool" where
  "always_writes w \<longleftrightarrow> (\<forall>p. fst (w p))"

lemma encodes_item: "parcel_laws P \<Longrightarrow> encodes P (Write P i) [i]"
  by (simp add: encodes_def parcel_laws_def)

lemma encodes_typed [parcel_rules]:
  assumes "parcel_laws P"
  shows "encodes P (WriteBool P b) [I_Bool b]" "encodes P (WriteUint8 P u8) [I_Uint8 u8]"
    "encodes P (WriteUint16 P u16) [I_Uint16 u16]" "encodes P (WriteUint32 P u32) [I_Uint32 u32]"
    "encodes P (WriteUint64 P u64) [I_Uint64 u64]" "encodes P (WriteInt32 P i32) [I_Int32 i32]"
    "encodes P (WriteString P s) [I_String s]" "encodes P (WriteToken P s) [I_Token s]"
    "encodes P (WriteRemoteObject P r) [I_Remote r]"
    "encodes P (WriteUInt32Vector P us) [I_Uint32Vector us]"
  using encodes_item [OF assms] by (simp_all add: write_defs)

lemma always_writes_typed:
  assumes "parcel_never_fails P"
  shows "always_writes (WriteBool P b)" "always_writes (WriteUint8 P u8)"
    "always_writes (WriteUint16 P u16)" "always_writes (WriteUint32 P u32)"
    "always_writes (WriteUint64 P u64)" "always_writes (WriteInt32 P i32)"
    "always_writes (WriteString P s)" "always_writes (WriteToken P s)"
    "always_writes (WriteRemoteObject P r)" "always_writes (WriteUInt32Vector P us)"
  using assms by (simp_all add: write_defs always_writes_def parcel_never_fails_def)

lemma encodes_Nil: "encodes P (write_seq []) []"
  by (simp add: encodes_def)

lemma encodes_Cons:
  assumes "encodes P w its" and "encodes P (write_seq ws) its'"
  shows "encodes P (write_seq (w # ws)) (its @ its')"
  unfolding encodes_def
proof (intro allI impI)
  fix p p'
  assume run: "write_seq (w # ws) p = (True, p')"
  then obtain q where "w p = (True, q)" and "write_seq ws q = (True, p')"
    by (cases "w p") (auto simp: Let_def split: if_splits)
  with assms show "contents P p' = contents P p @ its @ its'"
    by (simp add: encodes_def)
qed

lemma encodes_seq_list:
  assumes "list_all2 (encodes P) ws itss"
  shows "encodes P (write_seq ws) (concat itss)"
  using assms
proof (induction rule: list_all2_induct)
  case Nil
  show ?case unfolding concat.simps by (rule encodes_Nil)
next
  case (Cons w ws its itss)
  show ?case unfolding concat.simps using Cons.hyps(1) Cons.IH by (rule encodes_Cons)
qed

lemma encodes_Cons_item [parcel_rules]:
  assumes "encodes P w [i]" and "encodes P (write_seq ws) its"
  shows "encodes P (write_seq (w # ws)) (i # its)"
  using encodes_Cons [OF assms] by simp

lemmas [parcel_rules] = encodes_Nil encodes_Cons

lemma always_writes_seq: "\<forall>w \<in> set ws. always_writes w \<Longrightarrow> always_writes (write_seq ws)"
proof (induction ws)
  case (Cons w ws)
  then show ?case by (simp add: always_writes_def Let_def)
qed (simp add: always_writes_def)

lemma decodes_typed [parcel_rules]:
  assumes "parcel_laws P"
  shows "decodes P (ReadBool P) [I_Bool b] b" "decodes P (ReadUint8 P) [I_Uint8 u8] u8"
    "decodes P (ReadUint16 P) [I_Uint16 u16] u16" "decodes P (ReadUint32 P) [I_Uint32 u32] u32"
    "decodes P (ReadUint64 P) [I_Uint64 u64] u64" "decodes P (ReadInt32 P) [I_Int32 i32] i32"
    "decodes P (ReadString P) [I_String s] s" "decodes P (ReadRemoteObject P) [I_Remote r] r"
    "decodes P (ReadUInt32Vector P) [I_Uint32Vector us] us"
proof -
  have rd: "\<exists>p'. Read P (kind_of i) p = (Some i, p') \<and> contents P p' = r"
    if "contents P p = i # r" for i p r
    using assms that by (simp add: parcel_laws_def)
  show "decodes P (ReadBool P) [I_Bool b] b" "decodes P (ReadUint8 P) [I_Uint8 u8] u8"
    "decodes P (ReadUint16 P) [I_Uint16 u16] u16" "decodes P (ReadUint32 P) [I_Uint32 u32] u32"
    "decodes P (ReadUint64 P) [I_Uint64 u64] u64" "decodes P (ReadInt32 P) [I_Int32 i32] i32"
    "decodes P (ReadString P) [I_String s] s" "decodes P (ReadRemoteObject P) [I_Remote r] r"
    "decodes P (ReadUInt32Vector P) [I_Uint32Vector us] us"
    by (auto simp: decodes_def ReadBool_def ReadUint8_def ReadUint16_def ReadUint32_def
        ReadUint64_def ReadInt32_def ReadString_def ReadRemoteObject_def ReadUInt32Vector_def
        read_as_def dest!: rd)
qed

lemma decodes_token:
  assumes "parcel_laws P" and "contents P p = I_Token t # rest"
  shows "\<exists>p'. ReadInterfaceToken P p = (t, p') \<and> contents P p' = rest"
proof -
  from assms obtain p' where "Read P (kind_of (I_Token t)) p = (Some (I_Token t), p')"
    and "contents P p' = rest"
    unfolding parcel_laws_def by blast
  then show ?thesis by (simp add: ReadInterfaceToken_def read_as_def)
qed

lemma decodes_then [parcel_rules]:
  assumes "decodes P r its v" and "decodes P (k v) its' u"
  shows "decodes P (read_then r k) (its @ its') u"
  unfolding decodes_def
proof (intro allI impI)
  fix p rest
  assume "contents P p = (its @ its') @ rest"
  then obtain q where "r p = (Some v, q)" and "contents P q = its' @ rest"
    using assms(1) by (auto simp: decodes_def)
  then show "\<exists>p'. read_then r k p = (Some u, p') \<and> contents P p' = rest"
    using assms(2) by (auto simp: decodes_def read_then_def)
qed

lemma decodes_done [parcel_rules]: "decodes P (read_done v) [] v"
  by (simp add: decodes_def read_done_def)

lemma decodes_done_eq: "v = u \<Longrightarrow> decodes P (read_done v) [] u"
  by (simp add: decodes_done)

lemma decodes_then_item [parcel_rules]:
  assumes "decodes P r [i] v" and "decodes P (k v) its u"
  shows "decodes P (read_then r k) (i # its) u"
  using decodes_then [of P r "[i]" v k its u] assms by simp

lemma decodes_pair:
  assumes "decodes P r its x" and "decodes P q its' y"
  shows "decodes P (read_pair r q) (its @ its') (x, y)"
  using decodes_then [OF assms(1), of "\<lambda>x. read_then q (\<lambda>y. read_done (x, y))" "its' @ []" "(x, y)"]
    decodes_then [OF assms(2), of "\<lambda>y. read_done (x, y)" "[]" "(x, y)"]
  by (simp add: read_pair_def decodes_done)

lemma decodes_n [parcel_rules]:
  assumes "\<And>x. x \<in> set xs \<Longrightarrow> decodes P r (f x) x"
  shows "decodes P (read_n r (length xs)) (concat (map f xs)) xs"
  using assms
proof (induction xs)
  case (Cons x xs)
  have tl: "decodes P (read_n r (length xs)) (concat (map f xs)) xs" using Cons by simp
  have "decodes P (read_then (read_n r (length xs)) (\<lambda>ys. read_done (x # ys)))
      (concat (map f xs) @ []) (x # xs)"
    by (rule decodes_then [OF tl decodes_done])
  then show ?case
    using decodes_then [of P r "f x" x] Cons.prems by fastforce
qed (simp add: decodes_done)

lemma read_then_Some: "read_then r k p = (Some v, q) \<longleftrightarrow> (\<exists>a p1. r p = (Some a, p1) \<and> k a p1 = (Some v, q))"
  by (cases "r p") (auto simp: read_then_def Let_def split: option.splits)

lemma read_done_Some: "read_done v p = (Some u, q) \<longleftrightarrow> u = v \<and> q = p"
  by (auto simp: read_done_def)

lemma read_pair_Some: "read_pair r q p = (Some (a, b), rest) \<longleftrightarrow> (\<exists>p1. r p = (Some a, p1) \<and> q p1 = (Some b, rest))"
  by (auto simp: read_pair_def read_then_Some read_done_Some)

lemma decodes_value:
  assumes "decodes P (ReadInt32 P) [I_Int32 v] v" and "contents P p = I_Int32 v # rest"
  shows "ReadInt32_value P p = v"
proof -
  obtain p' where "ReadInt32 P p = (Some v, p')"
    using assms(1) [unfolded decodes_def, rule_format, of p rest] assms(2) by auto
  then show ?thesis by (simp add: ReadInt32_value_def)
qed

lemma decodes_bool_value:
  assumes "decodes P (ReadBool P) [I_Bool v] v" and "contents P p = I_Bool v # rest"
  shows "ReadBool_value P p = v"
proof -
  obtain p' where "ReadBool P p = (Some v, p')"
    using assms(1) [unfolded decodes_def, rule_format, of p rest] assms(2) by auto
  then show ?thesis by (simp add: ReadBool_value_def)
qed

section \<open>The interface of a marshalled type\<close>

text \<open>
  A type with \<open>Marshalling\<close> and \<open>Unmarshalling\<close>: the items an object is written as, and
  the objects (\<open>valid\<close>) that are read back unchanged. The counted lists of the sources are
  written with a 32-bit size, so a longer list is not valid.
\<close>

locale codec =
  fixes P :: "'p parcel_ops"
    and marshal :: "'a \<Rightarrow> 'p writer"
    and unmarshal :: "('p, 'a) reader"
    and items :: "'a \<Rightarrow> parcel_item list"
    and valid :: "'a \<Rightarrow> bool"
  assumes marshal_encodes: "parcel_laws P \<Longrightarrow> encodes P (marshal x) (items x)"
    and marshal_writes: "parcel_never_fails P \<Longrightarrow> always_writes (marshal x)"
    and unmarshal_decodes: "parcel_laws P \<Longrightarrow> valid x \<Longrightarrow> decodes P unmarshal (items x) x"
begin

lemma roundtrip:
  assumes "parcel_laws P" and "valid x" and "contents P p = []" and "marshal x p = (True, p')"
  shows "\<exists>p''. unmarshal p' = (Some x, p'') \<and> contents P p'' = []"
  using marshal_encodes [OF assms(1), of x] unmarshal_decodes [OF assms(1,2)] assms(3,4)
  by (auto simp: encodes_def decodes_def)

lemma marshal_list_encodes:
  assumes "parcel_laws P"
  shows "encodes P (write_seq (map marshal xs)) (concat (map items xs))"
  using assms by (intro encodes_seq_list) (simp add: list_all2_map1 list_all2_map2
      list_all2_same marshal_encodes)

lemma marshal_list_writes:
  assumes "parcel_never_fails P"
  shows "always_writes (write_seq (map marshal xs))"
  using assms by (intro always_writes_seq) (auto simp: marshal_writes)

lemma unmarshal_list_decodes:
  assumes "parcel_laws P" and "\<forall>x \<in> set xs. valid x"
  shows "decodes P (read_n unmarshal (length xs)) (concat (map items xs)) xs"
  using assms by (intro decodes_n) (simp add: unmarshal_decodes)

lemma counted_encodes:
  assumes "parcel_laws P"
  shows "encodes P (write_counted P marshal xs) (counted_items items xs)"
  unfolding write_counted_def counted_items_def
  using assms by (intro encodes_Cons_item encodes_typed marshal_list_encodes)

lemma counted_writes:
  assumes "parcel_never_fails P"
  shows "always_writes (write_counted P marshal xs)"
  unfolding write_counted_def
  using assms by (intro always_writes_seq) (auto simp: marshal_writes always_writes_typed)

lemma counted_decodes:
  assumes "parcel_laws P" and "\<forall>x \<in> set xs. valid x" and "short_list xs"
  shows "decodes P (read_counted P unmarshal) (counted_items items xs) xs"
proof -
  have "unat (of_nat (length xs) :: uint32) = length xs"
    using assms(3) by (simp add: short_list_def unat_of_nat)
  then show ?thesis
    unfolding read_counted_def counted_items_def
    using unmarshal_list_decodes [OF assms(1,2)] decodes_typed(4) [OF assms(1)]
    by (intro decodes_then_item) auto
qed

end

section \<open>A parcel that satisfies the laws\<close>

text \<open>The items in order; used to evaluate the model on concrete parcels.\<close>

definition list_parcel :: "parcel_item list parcel_ops" where
  "list_parcel = \<lparr>Write = (\<lambda>i p. (True, p @ [i])),
     Read = (\<lambda>k p. case p of [] \<Rightarrow> (None, []) | i # r \<Rightarrow> if kind_of i = k then (Some i, r) else (None, p)),
     new_parcel = [], contents = id\<rparr>"

lemma list_parcel_laws [simp]: "parcel_laws list_parcel"
  by (auto simp: parcel_laws_def list_parcel_def split: list.splits if_splits)

lemma list_parcel_never_fails [simp]: "parcel_never_fails list_parcel"
  by (simp add: parcel_never_fails_def list_parcel_def)

end
