(* ===== verification/Ipc.thy ===== *)
theory Ipc
  imports Parcel_IO
begin

text \<open>
  What the proxies, stubs and clients share. A request is written to a parcel with a check after each
  write, sent with a code, checked against the interface descriptor and dispatched through the table
  of the stub; the proxy then reads the reply. The codes of the IPC framework and its
  \<open>SendRequest\<close> are parameters. The clients keep a cached proxy that a death notification drops.
\<close>

section \<open>Requests\<close>

record ipc_codes =
  ERR_FLATTEN_OBJECT :: int32
  ERR_NULL_OBJECT :: int32
  IPC_PROXY_ERR :: int32

text \<open>\<open>Remote()\<close> is null or an object whose \<open>SendRequest\<close> takes code, data and reply.\<close>

type_synonym ('p, 's) send_request = "uint32 \<Rightarrow> 'p \<Rightarrow> 'p \<Rightarrow> 's \<Rightarrow> int32 \<times> 'p \<times> 's"

text \<open>\<open>if (!data.Write(...)) return e;\<close> for each write in turn; a write whose result is ignored cannot fail.\<close>

fun write_checked :: "('p writer \<times> 'e) list \<Rightarrow> 'p \<Rightarrow> 'e + 'p" where
  "write_checked [] p = Inr p"
| "write_checked ((w, e) # ws) p = (let r = w p in if fst r then write_checked ws (snd r) else Inl e)"

definition ignoring_failure :: "'p writer \<Rightarrow> 'p writer" where
  "ignoring_failure w p = (True, snd (w p))"

text \<open>
  The common shape of a proxy method: write, take the remote object, send, and read the reply unless
  an error came back. \<open>null\<close> is the result without a remote object, \<open>failed\<close> the one for an error.
\<close>

definition proxy_call ::
    "'p parcel_ops \<Rightarrow> ('p, 's) send_request option \<Rightarrow> uint32 \<Rightarrow> ('p writer \<times> 'r) list \<Rightarrow> 'r \<Rightarrow> (int32 \<Rightarrow> 'r)
       \<Rightarrow> ('p \<Rightarrow> 'r) \<Rightarrow> 's \<Rightarrow> 'r \<times> 's" where
  "proxy_call P remote code ws null failed result s =
     (case write_checked ws (new_parcel P) of Inl e \<Rightarrow> (e, s)
      | Inr data \<Rightarrow>
          (case remote of None \<Rightarrow> (null, s)
           | Some send \<Rightarrow>
               (case send code data (new_parcel P) s of (error, reply, t) \<Rightarrow>
                  if error \<noteq> 0 then (failed error, t) else (result reply, t))))"

text \<open>\<open>OnRemoteRequest\<close>: the token is compared, then the table searched.\<close>

definition stub_dispatch ::
    "'p parcel_ops \<Rightarrow> string \<Rightarrow> ('p \<Rightarrow> 's \<Rightarrow> 'r) \<Rightarrow> (uint32 \<Rightarrow> ('p \<Rightarrow> 'p \<Rightarrow> 's \<Rightarrow> 'r) option)
       \<Rightarrow> (uint32 \<Rightarrow> 'p \<Rightarrow> 'p \<Rightarrow> 's \<Rightarrow> 'r) \<Rightarrow> uint32 \<Rightarrow> 'p \<Rightarrow> 'p \<Rightarrow> 's \<Rightarrow> 'r" where
  "stub_dispatch P descriptor mismatch table fallback code data reply s =
     (case ReadInterfaceToken P data of (token, data') \<Rightarrow>
        if token \<noteq> descriptor then mismatch reply s
        else case table code of Some h \<Rightarrow> h data' reply s | None \<Rightarrow> fallback code data' reply s)"

text \<open>\<open>if (!reply.Write(v)) return ERR_FLATTEN_OBJECT; return ERR_NONE;\<close>\<close>

definition reply_with :: "ipc_codes \<Rightarrow> 'p writer \<Rightarrow> 'p \<Rightarrow> 's \<Rightarrow> int32 \<times> 'p \<times> 's" where
  "reply_with C w reply s = (let r = w reply in (if fst r then 0 else ERR_FLATTEN_OBJECT C, snd r, s))"

lemma write_checked_ok: "write_seq (map fst ws) p = (True, q) \<Longrightarrow> write_checked ws p = Inr q"
  by (induction ws p rule: write_checked.induct) (auto simp: Let_def split: if_splits)

lemma write_seq_single [simp]: "write_seq [w] = w"
  by (rule ext) (simp add: Let_def prod_eq_iff split: if_splits)

lemma ignoring_always: "always_writes w \<Longrightarrow> ignoring_failure w = w"
  by (rule ext) (simp add: ignoring_failure_def always_writes_def prod_eq_iff)

lemma stub_dispatch_wrong_token:
  "fst (ReadInterfaceToken P data) \<noteq> descriptor \<Longrightarrow>
    stub_dispatch P descriptor mismatch table fallback code data reply s = mismatch reply s"
  by (simp add: stub_dispatch_def split_def)

text \<open>A written request is read by the stub: the token matches and the arguments come back.\<close>

context codec
begin

lemma request:
  assumes "parcel_laws P" and "parcel_never_fails P" and "valid x"
    and "map fst ws = WriteToken P d # us" and "marshal x = write_seq us"
  shows "\<exists>data data' rest. write_checked ws (new_parcel P) = Inr data \<and> ReadInterfaceToken P data = (d, data') \<and>
    unmarshal data' = (Some x, rest)"
proof -
  obtain p1 where p1: "WriteToken P d (new_parcel P) = (True, p1)"
    using always_writes_typed(8) [OF assms(2)] unfolding always_writes_def by (metis prod.collapse)
  obtain q where q: "write_seq us p1 = (True, q)"
    using marshal_writes [OF assms(2)] assms(5) unfolding always_writes_def by (metis prod.collapse)
  have ws: "write_seq (map fst ws) (new_parcel P) = (True, q)" using p1 q assms(4) by simp
  have "contents P p1 = [I_Token d]" using encodes_typed(8) [OF assms(1)] p1 assms(1) by (simp add: encodes_def parcel_laws_def)
  then have "contents P q = I_Token d # items x"
    using marshal_encodes [OF assms(1), of x] q assms(5) by (simp add: encodes_def)
  then obtain data' where d: "ReadInterfaceToken P q = (d, data')" "contents P data' = items x @ []"
    using decodes_token [OF assms(1)] by fastforce
  then obtain rest where "unmarshal data' = (Some x, rest)"
    using unmarshal_decodes [OF assms(1,3)] unfolding decodes_def by blast
  then show ?thesis using d(1) write_checked_ok [OF ws] by blast
qed

text \<open>The whole way: the proxy's call is the stub's handler on the arguments.\<close>

lemma proxy_reaches_stub:
  assumes "parcel_laws P" and "parcel_never_fails P" and "valid x"
    and "map fst ws = WriteToken P d # us" and "marshal x = write_seq us"
  shows "\<exists>data data' rest. unmarshal data' = (Some x, rest) \<and> ReadInterfaceToken P data = (d, data') \<and>
    proxy_call P (Some send) code ws null failed result s =
      (case send code data (new_parcel P) s of (error, reply, t) \<Rightarrow> if error \<noteq> 0 then (failed error, t) else (result reply, t))"
  using request [OF assms] by (force simp: proxy_call_def)

text \<open>
  With a stub behind the remote object the call runs the handler the table holds for the code, on
  the arguments that were written, and the proxy takes its result from the reply of the handler.
\<close>

lemma call_through:
  assumes "parcel_laws P" and "parcel_never_fails P" and "valid x"
    and "map fst ws = WriteToken P d # us" and "marshal x = write_seq us" and "table code = Some h"
    and "\<And>data' rest. unmarshal data' = (Some x, rest) \<Longrightarrow> h data' (new_parcel P) s = hr"
    and "\<And>data. stub_dispatch P d mismatch table fallback code data (new_parcel P) s = hr \<Longrightarrow>
      send code data (new_parcel P) s = (err, reply, t)"
  shows "proxy_call P (Some send) code ws null failed result s = (if err \<noteq> 0 then failed err else result reply, t)"
proof -
  obtain data data' rest where d: "unmarshal data' = (Some x, rest)" "ReadInterfaceToken P data = (d, data')"
    "proxy_call P (Some send) code ws null failed result s =
      (case send code data (new_parcel P) s of (error, reply, t) \<Rightarrow> if error \<noteq> 0 then (failed error, t) else (result reply, t))"
    using proxy_reaches_stub [OF assms(1-5), where send = send and code = code and null = null and failed = failed
        and result = result and s = s] by blast
  have "stub_dispatch P d mismatch table fallback code data (new_parcel P) s = hr"
    using d(2) assms(6) assms(7) [OF d(1)] by (simp add: stub_dispatch_def)
  then show ?thesis using d(3) assms(8) by simp
qed

end

section \<open>Replies\<close>

lemma reply_written:
  assumes "parcel_laws P" and "parcel_never_fails P" and "encodes P w [i]" and "always_writes w"
  shows "\<exists>reply. reply_with C w (new_parcel P) s = (0, reply, s) \<and> contents P reply = [i]"
proof -
  obtain reply where r: "w (new_parcel P) = (True, reply)" using assms(4) unfolding always_writes_def by (metis prod.collapse)
  then show ?thesis using assms(1,3) by (simp add: reply_with_def encodes_def parcel_laws_def)
qed

lemma reply_int32:
  assumes "parcel_laws P" and "parcel_never_fails P"
  shows "\<exists>reply. reply_with C (WriteInt32 P v) (new_parcel P) s = (0, reply, s) \<and> ReadInt32_value P reply = v"
  using reply_written [OF assms encodes_typed(6) [OF assms(1)] always_writes_typed(6) [OF assms(2)]]
    decodes_value [OF decodes_typed(6) [OF assms(1)]] by metis

lemma reply_bool:
  assumes "parcel_laws P" and "parcel_never_fails P"
  shows "\<exists>reply. reply_with C (WriteBool P v) (new_parcel P) s = (0, reply, s) \<and> ReadBool_value P reply = v"
  using reply_written [OF assms encodes_typed(1) [OF assms(1)] always_writes_typed(1) [OF assms(2)]]
    decodes_bool_value [OF decodes_typed(1) [OF assms(1)]] by metis

lemma reply_vector:
  assumes "parcel_laws P" and "parcel_never_fails P"
  shows "\<exists>reply rest. reply_with C (WriteUInt32Vector P us) (new_parcel P) s = (0, reply, s) \<and> ReadUInt32Vector P reply = (Some us, rest)"
proof -
  obtain reply where r: "reply_with C (WriteUInt32Vector P us) (new_parcel P) s = (0, reply, s)" "contents P reply = [I_Uint32Vector us]"
    using reply_written [OF assms encodes_typed(10) [OF assms(1), of us] always_writes_typed(10) [OF assms(2)], of C s] by blast
  then show ?thesis using decodes_typed(9) [OF assms(1), of us] unfolding decodes_def by fastforce
qed

section \<open>Clients\<close>

text \<open>
  The clients look up the remote object of the service once, register for its death and keep the
  proxy. Objects are numbers; the system ability manager is a parameter.
\<close>

record client_env =
  ce_hasManager :: bool
  ce_CheckSystemAbility :: "nat option"
  ce_IsProxyObject :: "nat \<Rightarrow> bool"
  ce_AddDeathRecipient :: "nat \<Rightarrow> bool"
  ce_iface_cast :: "nat \<Rightarrow> nat option"
  ce_AsObject :: "nat \<Rightarrow> nat"

record client_state =
  cl_service :: "nat option"
  cl_hasRecipient :: bool

definition client_GetProxy :: "client_env \<Rightarrow> client_state \<Rightarrow> nat option \<times> client_state" where
  "client_GetProxy E c =
     (if cl_service c \<noteq> None then (cl_service c, c)
      else if \<not> ce_hasManager E then (None, c)
      else case ce_CheckSystemAbility E of None \<Rightarrow> (None, c)
        | Some remote \<Rightarrow>
            (let c1 = c\<lparr>cl_hasRecipient := True\<rparr> in
             if ce_IsProxyObject E remote \<and> \<not> ce_AddDeathRecipient E remote then (None, c1)
             else (ce_iface_cast E remote, c1\<lparr>cl_service := ce_iface_cast E remote\<rparr>)))"

definition client_OnRemoteDied :: "client_env \<Rightarrow> nat option \<Rightarrow> client_state \<Rightarrow> client_state" where
  "client_OnRemoteDied E remote c =
     (case remote of None \<Rightarrow> c
      | Some r \<Rightarrow>
          (case cl_service c of None \<Rightarrow> c
           | Some p \<Rightarrow> if ce_AsObject E p \<noteq> r then c else c\<lparr>cl_service := None\<rparr>))"

text \<open>A client method: without a proxy the error of the method, otherwise the call of the proxy.\<close>

definition client_call :: "client_env \<Rightarrow> (nat \<Rightarrow> 's \<Rightarrow> 'r \<times> 's) \<Rightarrow> 'r \<Rightarrow> client_state \<Rightarrow> 's \<Rightarrow> 'r \<times> client_state \<times> 's" where
  "client_call E call none c s =
     (case client_GetProxy E c of
        (None, c') \<Rightarrow> (none, c', s)
      | (Some p, c') \<Rightarrow> (case call p s of (r, t) \<Rightarrow> (r, c', t)))"

section \<open>A concrete client\<close>

definition sample_client :: client_env where
  "sample_client = \<lparr>ce_hasManager = True, ce_CheckSystemAbility = Some 7, ce_IsProxyObject = (\<lambda>_. True), ce_AddDeathRecipient = (\<lambda>_. True),
     ce_iface_cast = Some, ce_AsObject = id\<rparr>"

definition fresh_client :: client_state where "fresh_client = \<lparr>cl_service = None, cl_hasRecipient = False\<rparr>"

definition joined_client :: client_state where "joined_client = \<lparr>cl_service = Some 7, cl_hasRecipient = True\<rparr>"

lemma sample_GetProxy: "client_GetProxy sample_client fresh_client = (Some 7, joined_client)"
  by (simp add: sample_client_def client_GetProxy_def fresh_client_def joined_client_def Let_def)

end
