(* ===== verification/Netd_Controller.thy ===== *)
theory Netd_Controller
  imports NM_Types
begin

text \<open>
  \<open>NetdController\<close> (\<open>services/common\<close>): the single object through which the services
  drive the network daemon. With \<open>NATIVE_NETD_FEATURE\<close> the daemon library does the work,
  without it every operation succeeds at once except \<open>NetworkAddRoute\<close>, which adds the
  route with a socket of its own. Both builds are modelled: the flag is a field of the environment.
  The daemon library is a prebuilt binary, the sockets belong to the system; what they answer is
  a parameter and may depend on every call made so far. The calls are kept, in order, in the log
  \<open>nd_log\<close>.
\<close>

section \<open>Calls, environment and state\<close>

text \<open>\<open>interface_configuration_parcel\<close> of the daemon headers.\<close>

record interface_config =
  if_ifName :: string
  if_hwAddr :: string
  if_ipv4Addr :: string
  if_prefixLength :: int32
  if_flags :: "string list"

text \<open>The fields of \<open>struct addrinfo\<close> the sources use; a result list is a HOL list.\<close>

record addrinfo =
  ai_flags :: int32
  ai_family :: int32
  ai_socktype :: int32
  ai_protocol :: int32
  ai_sin_addr :: uint32
  ai_sin6_addr :: "128 word"
  ai_canonname :: "string option"

text \<open>The fields of \<open>struct rtentry\<close> that \<open>AddRoute\<close> fills.\<close>

record rtentry =
  rt_gateway_addr :: uint32
  rt_dst_addr :: uint32
  rt_genmask_addr :: uint32
  rt_dev :: "string option"
  rt_flags_gateway :: bool

datatype netd_call =
    N_init
  | N_networkCreatePhysical int32 int32
  | N_networkDestroy int32
  | N_networkAddInterface int32 string
  | N_networkRemoveInterface int32 string
  | N_networkAddRoute int32 string string string
  | N_networkRemoveRoute int32 string string string
  | N_interfaceGetConfig string
  | N_interfaceSetConfig interface_config
  | N_interfaceClearAddrs string
  | N_interfaceGetMtu string
  | N_interfaceSetMtu string int32
  | N_interfaceAddAddress string string int32
  | N_interfaceDelAddress string string int32
  | N_setResolverConfig uint16 uint16 uint8 "string list" "string list"
  | N_getResolverInfo uint16
  | N_createNetworkCache uint16
  | N_destoryNetworkCache uint16
  | N_flushNetworkCache uint16
  | N_getaddrinfo string addrinfo uint16
  | S_socket int32
  | S_ioctl_addrt int32 rtentry
  | S_close int32

record netd_env =
  native :: bool
  native_result :: "netd_call list \<Rightarrow> netd_call \<Rightarrow> int32"
  native_getConfig :: "netd_call list \<Rightarrow> string \<Rightarrow> interface_config"
  native_resolverInfo ::
    "netd_call list \<Rightarrow> uint16 \<Rightarrow> string list \<Rightarrow> string list \<Rightarrow> string list \<times> string list \<times> uint16 \<times> uint8"
  native_addrinfo :: "netd_call list \<Rightarrow> string \<Rightarrow> addrinfo \<Rightarrow> uint16 \<Rightarrow> addrinfo list"
  sys_socket :: "netd_call list \<Rightarrow> int32"
  sys_inet_aton :: "string \<Rightarrow> uint32 option"
  sys_ioctl :: "netd_call list \<Rightarrow> int32 \<Rightarrow> rtentry \<Rightarrow> int32"

text \<open>\<open>nd_netdService\<close> and \<open>nd_dnsResolvService\<close>: whether the pointer is set.\<close>

record netd_state =
  nd_initFlag :: bool
  nd_netdService :: bool
  nd_dnsResolvService :: bool
  nd_log :: "netd_call list"

definition netd_logs :: "netd_call list \<Rightarrow> netd_state \<Rightarrow> netd_state" where
  "netd_logs cs s = s\<lparr>nd_log := nd_log s @ cs\<rparr>"

section \<open>Construction\<close>

definition NetdController_Init :: "netd_env \<Rightarrow> netd_state \<Rightarrow> netd_state" where
  "NetdController_Init E s =
     (if nd_initFlag s then s
      else let s1 = s\<lparr>nd_initFlag := True\<rparr>
           in if native E
              then netd_logs [N_init] (s1\<lparr>nd_netdService := True, nd_dnsResolvService := True\<rparr>)
              else s1)"

definition NetdController_new :: "netd_env \<Rightarrow> netd_state" where
  "NetdController_new E = NetdController_Init E
     \<lparr>nd_initFlag = False, nd_netdService = False, nd_dnsResolvService = False, nd_log = []\<rparr>"

text \<open>\<open>GetInstance\<close>: the object is created by the first call and shared by the later ones.\<close>

definition NetdController_GetInstance :: "netd_env \<Rightarrow> netd_state option \<Rightarrow> netd_state" where
  "NetdController_GetInstance E single = (case single of None \<Rightarrow> NetdController_new E | Some s \<Rightarrow> s)"

section \<open>Operations on networks, interfaces and the resolver\<close>

text \<open>
  The body shared by the operations: the native build refuses when the service pointer is null and
  otherwise forwards the call; the other build returns 0.
\<close>

definition netd_forward :: "netd_env \<Rightarrow> bool \<Rightarrow> netd_call \<Rightarrow> netd_state \<Rightarrow> int32 \<times> netd_state" where
  "netd_forward E svc c s =
     (if native E
      then if \<not> svc then (ResultCode_val ERR_SERVICE_UPDATE_NET_LINK_INFO_FAIL, s)
           else (native_result E (nd_log s) c, netd_logs [c] s)
      else (0, s))"

definition NetdController_NetworkCreatePhysical ::
    "netd_env \<Rightarrow> int32 \<Rightarrow> int32 \<Rightarrow> netd_state \<Rightarrow> int32 \<times> netd_state" where
  "NetdController_NetworkCreatePhysical E netId permission s =
     netd_forward E (nd_netdService s) (N_networkCreatePhysical netId permission) s"

definition NetdController_NetworkDestroy :: "netd_env \<Rightarrow> int32 \<Rightarrow> netd_state \<Rightarrow> int32 \<times> netd_state" where
  "NetdController_NetworkDestroy E netId s =
     netd_forward E (nd_netdService s) (N_networkDestroy netId) s"

definition NetdController_NetworkAddInterface ::
    "netd_env \<Rightarrow> int32 \<Rightarrow> string \<Rightarrow> netd_state \<Rightarrow> int32 \<times> netd_state" where
  "NetdController_NetworkAddInterface E netId iface s =
     netd_forward E (nd_netdService s) (N_networkAddInterface netId iface) s"

definition NetdController_NetworkRemoveInterface ::
    "netd_env \<Rightarrow> int32 \<Rightarrow> string \<Rightarrow> netd_state \<Rightarrow> int32 \<times> netd_state" where
  "NetdController_NetworkRemoveInterface E netId iface s =
     netd_forward E (nd_netdService s) (N_networkRemoveInterface netId iface) s"

text \<open>
  \<open>AddRoute\<close> of the build without the daemon. \<open>inet_aton\<close> returns 1 for a valid
  address and 0 for an invalid one, in which case the zeroed field keeps its value; the sources
  test for a negative result, so that test is written out on the value returned.
\<close>

definition inet_aton_ret :: "netd_env \<Rightarrow> string \<Rightarrow> int32" where
  "inet_aton_ret E a = (if sys_inet_aton E a = None then 0 else 1)"

definition inet_aton_addr :: "netd_env \<Rightarrow> string \<Rightarrow> uint32" where
  "inet_aton_addr E a = (case sys_inet_aton E a of None \<Rightarrow> 0 | Some v \<Rightarrow> v)"

definition NetdController_AddRoute ::
    "netd_env \<Rightarrow> string \<Rightarrow> string \<Rightarrow> string \<Rightarrow> string \<Rightarrow> netd_state \<Rightarrow> int32 \<times> netd_state" where
  "NetdController_AddRoute E ip netMask gateWay devName s =
     (let fd = sys_socket E (nd_log s); s1 = netd_logs [S_socket fd] s
      in if sint fd < 0 then (- 1, s1)
         else if sint (inet_aton_ret E gateWay) < 0 then (- 1, s1)
         else if sint (inet_aton_ret E ip) < 0 then (- 1, s1)
         else if sint (inet_aton_ret E netMask) < 0 then (- 1, s1)
         else
           let rt = \<lparr>rt_gateway_addr = inet_aton_addr E gateWay, rt_dst_addr = inet_aton_addr E ip,
                 rt_genmask_addr = inet_aton_addr E netMask,
                 rt_dev = (if devName \<noteq> [] then Some devName else None), rt_flags_gateway = True\<rparr>;
               r = sys_ioctl E (nd_log s1) fd rt;
               s2 = netd_logs [S_ioctl_addrt fd rt] s1
           in if sint r < 0 then (- 1, s2) else (0, netd_logs [S_close fd] s2))"

definition NetdController_NetworkAddRoute ::
    "netd_env \<Rightarrow> int32 \<Rightarrow> string \<Rightarrow> string \<Rightarrow> string \<Rightarrow> netd_state \<Rightarrow> int32 \<times> netd_state" where
  "NetdController_NetworkAddRoute E netId ifName destination nextHop s =
     (if native E
      then netd_forward E (nd_netdService s) (N_networkAddRoute netId ifName destination nextHop) s
      else NetdController_AddRoute E destination ''0.0.0.0'' nextHop ifName s)"

definition NetdController_NetworkRemoveRoute ::
    "netd_env \<Rightarrow> int32 \<Rightarrow> string \<Rightarrow> string \<Rightarrow> string \<Rightarrow> netd_state \<Rightarrow> int32 \<times> netd_state" where
  "NetdController_NetworkRemoveRoute E netId ifName destination nextHop s =
     netd_forward E (nd_netdService s) (N_networkRemoveRoute netId ifName destination nextHop) s"

text \<open>\<open>std::find\<close> of one flag, erase it when found, append the other.\<close>

definition swap_flag :: "string \<Rightarrow> string \<Rightarrow> string list \<Rightarrow> string list" where
  "swap_flag old new flags = erase_first (\<lambda>f. f = old) flags @ [new]"

definition NetdController_SetInterfaceDown :: "netd_env \<Rightarrow> string \<Rightarrow> netd_state \<Rightarrow> netd_state" where
  "NetdController_SetInterfaceDown E iface s =
     (if native E \<and> nd_netdService s
      then let cfg = native_getConfig E (nd_log s) iface;
               cfg' = cfg\<lparr>if_flags := swap_flag ''up'' ''down'' (if_flags cfg)\<rparr>
           in netd_logs [N_interfaceGetConfig iface, N_interfaceSetConfig cfg'] s
      else s)"

definition NetdController_SetInterfaceUp :: "netd_env \<Rightarrow> string \<Rightarrow> netd_state \<Rightarrow> netd_state" where
  "NetdController_SetInterfaceUp E iface s =
     (if native E \<and> nd_netdService s
      then let cfg = native_getConfig E (nd_log s) iface;
               cfg' = cfg\<lparr>if_flags := swap_flag ''down'' ''up'' (if_flags cfg)\<rparr>
           in netd_logs [N_interfaceGetConfig iface, N_interfaceSetConfig cfg'] s
      else s)"

definition NetdController_InterfaceClearAddrs :: "netd_env \<Rightarrow> string \<Rightarrow> netd_state \<Rightarrow> netd_state" where
  "NetdController_InterfaceClearAddrs E ifName s =
     (if native E \<and> nd_netdService s then netd_logs [N_interfaceClearAddrs ifName] s else s)"

definition NetdController_InterfaceGetMtu :: "netd_env \<Rightarrow> string \<Rightarrow> netd_state \<Rightarrow> int32 \<times> netd_state" where
  "NetdController_InterfaceGetMtu E ifName s =
     netd_forward E (nd_netdService s) (N_interfaceGetMtu ifName) s"

definition NetdController_InterfaceSetMtu ::
    "netd_env \<Rightarrow> string \<Rightarrow> int32 \<Rightarrow> netd_state \<Rightarrow> int32 \<times> netd_state" where
  "NetdController_InterfaceSetMtu E ifName mtu s =
     netd_forward E (nd_netdService s) (N_interfaceSetMtu ifName mtu) s"

definition NetdController_InterfaceAddAddress ::
    "netd_env \<Rightarrow> string \<Rightarrow> string \<Rightarrow> int32 \<Rightarrow> netd_state \<Rightarrow> int32 \<times> netd_state" where
  "NetdController_InterfaceAddAddress E ifName ipAddr prefixLength s =
     netd_forward E (nd_netdService s) (N_interfaceAddAddress ifName ipAddr prefixLength) s"

definition NetdController_InterfaceDelAddress ::
    "netd_env \<Rightarrow> string \<Rightarrow> string \<Rightarrow> int32 \<Rightarrow> netd_state \<Rightarrow> int32 \<times> netd_state" where
  "NetdController_InterfaceDelAddress E ifName ipAddr prefixLength s =
     netd_forward E (nd_netdService s) (N_interfaceDelAddress ifName ipAddr prefixLength) s"

definition NetdController_SetResolverConfig ::
    "netd_env \<Rightarrow> uint16 \<Rightarrow> uint16 \<Rightarrow> uint8 \<Rightarrow> string list \<Rightarrow> string list \<Rightarrow> netd_state \<Rightarrow> int32 \<times> netd_state" where
  "NetdController_SetResolverConfig E netId baseTimeoutMsec retryCount servers domains s =
     netd_forward E (nd_dnsResolvService s)
       (N_setResolverConfig netId baseTimeoutMsec retryCount servers domains) s"

text \<open>The four reference parameters are passed in and returned.\<close>

definition NetdController_GetResolverInfo ::
    "netd_env \<Rightarrow> uint16 \<Rightarrow> string list \<Rightarrow> string list \<Rightarrow> uint16 \<Rightarrow> uint8 \<Rightarrow> netd_state \<Rightarrow>
     (int32 \<times> string list \<times> string list \<times> uint16 \<times> uint8) \<times> netd_state" where
  "NetdController_GetResolverInfo E netId servers domains baseTimeoutMsec retryCount s =
     (if native E
      then if \<not> nd_dnsResolvService s
           then ((ResultCode_val ERR_SERVICE_UPDATE_NET_LINK_INFO_FAIL, servers, domains,
                  baseTimeoutMsec, retryCount), s)
           else ((native_result E (nd_log s) (N_getResolverInfo netId),
                  native_resolverInfo E (nd_log s) netId servers domains),
                 netd_logs [N_getResolverInfo netId] s)
      else ((0, servers, domains, baseTimeoutMsec, retryCount), s))"

definition NetdController_CreateNetworkCache :: "netd_env \<Rightarrow> uint16 \<Rightarrow> netd_state \<Rightarrow> int32 \<times> netd_state" where
  "NetdController_CreateNetworkCache E netId s =
     netd_forward E (nd_dnsResolvService s) (N_createNetworkCache netId) s"

definition NetdController_DestoryNetworkCache :: "netd_env \<Rightarrow> uint16 \<Rightarrow> netd_state \<Rightarrow> int32 \<times> netd_state" where
  "NetdController_DestoryNetworkCache E netId s =
     netd_forward E (nd_dnsResolvService s) (N_destoryNetworkCache netId) s"

definition NetdController_FlushNetworkCache :: "netd_env \<Rightarrow> uint16 \<Rightarrow> netd_state \<Rightarrow> int32 \<times> netd_state" where
  "NetdController_FlushNetworkCache E netId s =
     netd_forward E (nd_dnsResolvService s) (N_flushNetworkCache netId) s"

text \<open>
  \<open>serverName\<close> is not passed on: the library is called with a null service. The result
  list is empty where the sources have a null pointer.
\<close>

definition NetdController_GetAddrInfo ::
    "netd_env \<Rightarrow> string \<Rightarrow> string \<Rightarrow> addrinfo \<Rightarrow> uint16 \<Rightarrow> netd_state \<Rightarrow> (int32 \<times> addrinfo list) \<times> netd_state" where
  "NetdController_GetAddrInfo E hostName serverName hints netId s =
     (if native E
      then if \<not> nd_dnsResolvService s
           then ((ResultCode_val ERR_SERVICE_UPDATE_NET_LINK_INFO_FAIL, []), s)
           else ((native_result E (nd_log s) (N_getaddrinfo hostName hints netId),
                  native_addrinfo E (nd_log s) hostName hints netId),
                 netd_logs [N_getaddrinfo hostName hints netId] s)
      else ((0, []), s))"

section \<open>Lemmas\<close>

lemma netd_logs_simps [simp]:
  "nd_log (netd_logs cs s) = nd_log s @ cs"
  "nd_initFlag (netd_logs cs s) = nd_initFlag s"
  "nd_netdService (netd_logs cs s) = nd_netdService s"
  "nd_dnsResolvService (netd_logs cs s) = nd_dnsResolvService s"
  "netd_logs cs' (netd_logs cs s) = netd_logs (cs @ cs') s"
  "netd_logs [] s = s"
  by (simp_all add: netd_logs_def)

text \<open>A controller made by \<open>GetInstance\<close> of the native build has both services.\<close>

definition netd_ready :: "netd_env \<Rightarrow> netd_state \<Rightarrow> bool" where
  "netd_ready E s \<longleftrightarrow> (native E \<longrightarrow> nd_netdService s \<and> nd_dnsResolvService s)"

lemma netd_ready_logs [simp]: "netd_ready E (netd_logs cs s) = netd_ready E s"
  by (simp add: netd_ready_def)

lemma netd_ready_new [simp]: "netd_ready E (NetdController_new E)"
  by (simp add: netd_ready_def NetdController_new_def NetdController_Init_def)

lemma netd_forward_log: "snd (netd_forward E svc c s) = netd_logs (if native E \<and> svc then [c] else []) s"
  by (simp add: netd_forward_def)

lemmas netd_ops_defs = NetdController_NetworkCreatePhysical_def NetdController_NetworkDestroy_def
  NetdController_NetworkAddInterface_def NetdController_NetworkRemoveInterface_def
  NetdController_NetworkRemoveRoute_def NetdController_InterfaceGetMtu_def
  NetdController_InterfaceSetMtu_def NetdController_InterfaceAddAddress_def
  NetdController_InterfaceDelAddress_def NetdController_SetResolverConfig_def
  NetdController_CreateNetworkCache_def NetdController_DestoryNetworkCache_def
  NetdController_FlushNetworkCache_def

lemma sint_neg_one [simp]: "sint (- 1 :: int32) = - 1"
  by simp

lemma inet_aton_never_negative [simp]: "\<not> sint (inet_aton_ret E a) < 0"
  by (simp add: inet_aton_ret_def)

lemma AddRoute_log:
  "\<exists>cs. snd (NetdController_AddRoute E ip netMask gw dev s) = netd_logs cs s"
  by (simp add: NetdController_AddRoute_def Let_def) blast

lemma netd_AddRoute_ready [simp]:
  "netd_ready E (snd (NetdController_NetworkAddRoute E i a b c s)) = netd_ready E s"
proof -
  obtain cs where "snd (NetdController_AddRoute E b ''0.0.0.0'' c a s) = netd_logs cs s"
    using AddRoute_log by blast
  then show ?thesis by (simp add: NetdController_NetworkAddRoute_def netd_forward_log)
qed

lemma swap_flag_set:
  assumes "distinct flags"
  shows "set (swap_flag a b flags) = insert b (set flags - {a})"
  using erase_first_unique [of id flags a] assms by (auto simp: swap_flag_def)

lemma swap_flag_others:
  "filter (\<lambda>f. f \<noteq> ''up'' \<and> f \<noteq> ''down'') (swap_flag ''up'' ''down'' flags) =
     filter (\<lambda>f. f \<noteq> ''up'' \<and> f \<noteq> ''down'') flags"
  "filter (\<lambda>f. f \<noteq> ''up'' \<and> f \<noteq> ''down'') (swap_flag ''down'' ''up'' flags) =
     filter (\<lambda>f. f \<noteq> ''up'' \<and> f \<noteq> ''down'') flags"
  by (simp_all add: swap_flag_def filter_erase_first_other)

section \<open>Properties\<close>


text \<open>
  When the daemon is there and the interface's flags have no duplicates,
  \<open>SetInterfaceDown\<close> reads the configuration and writes it back with \<open>down\<close>, without
  \<open>up\<close>, and with all the other flags in their order; \<open>SetInterfaceUp\<close> does the
  same with the two exchanged.
\<close>

theorem SetInterface_flags:
  assumes "native E" and "nd_netdService s"
    and "distinct (if_flags (native_getConfig E (nd_log s) iface))"
  shows "(\<exists>cfg. nd_log (NetdController_SetInterfaceDown E iface s) =
        nd_log s @ [N_interfaceGetConfig iface, N_interfaceSetConfig cfg] \<and>
      ''down'' \<in> set (if_flags cfg) \<and> ''up'' \<notin> set (if_flags cfg) \<and>
      filter (\<lambda>f. f \<noteq> ''up'' \<and> f \<noteq> ''down'') (if_flags cfg) =
        filter (\<lambda>f. f \<noteq> ''up'' \<and> f \<noteq> ''down'') (if_flags (native_getConfig E (nd_log s) iface))) \<and>
    (\<exists>cfg. nd_log (NetdController_SetInterfaceUp E iface s) =
        nd_log s @ [N_interfaceGetConfig iface, N_interfaceSetConfig cfg] \<and>
      ''up'' \<in> set (if_flags cfg) \<and> ''down'' \<notin> set (if_flags cfg) \<and>
      filter (\<lambda>f. f \<noteq> ''up'' \<and> f \<noteq> ''down'') (if_flags cfg) =
        filter (\<lambda>f. f \<noteq> ''up'' \<and> f \<noteq> ''down'') (if_flags (native_getConfig E (nd_log s) iface)))"
  using assms swap_flag_set [OF assms(3)] swap_flag_others
  by (simp add: NetdController_SetInterfaceDown_def NetdController_SetInterfaceUp_def Let_def)

theorem SetInterface_flags_witness:
  "\<exists>E s. native E \<and> ''up'' \<in> set (if_flags (native_getConfig E (nd_log s) ''eth0'')) \<and>
    (\<exists>cfg. nd_log (NetdController_SetInterfaceDown E ''eth0'' s) =
      nd_log s @ [N_interfaceGetConfig ''eth0'', N_interfaceSetConfig cfg] \<and> ''up'' \<notin> set (if_flags cfg))"
proof -
  let ?E = "\<lparr>native = True, native_result = (\<lambda>_ _. 0),
    native_getConfig = (\<lambda>_ i. \<lparr>if_ifName = i, if_hwAddr = [], if_ipv4Addr = [], if_prefixLength = 0,
      if_flags = [''up'', ''running'']\<rparr>), native_resolverInfo = (\<lambda>_ _ sv dm. (sv, dm, 0, 0)),
    native_addrinfo = (\<lambda>_ _ _ _. []), sys_socket = (\<lambda>_. 3), sys_inet_aton = (\<lambda>_. None),
    sys_ioctl = (\<lambda>_ _ _. 0)\<rparr>"
  have "native ?E" and "nd_netdService (NetdController_new ?E)"
    and "distinct (if_flags (native_getConfig ?E (nd_log (NetdController_new ?E)) ''eth0''))"
    by (simp_all add: NetdController_new_def NetdController_Init_def)
  from SetInterface_flags [OF this] have "\<exists>cfg. nd_log (NetdController_SetInterfaceDown ?E ''eth0'' (NetdController_new ?E)) =
      nd_log (NetdController_new ?E) @ [N_interfaceGetConfig ''eth0'', N_interfaceSetConfig cfg] \<and>
      ''up'' \<notin> set (if_flags cfg)" by blast
  moreover have "native ?E \<and> ''up'' \<in> set (if_flags (native_getConfig ?E (nd_log (NetdController_new ?E)) ''eth0''))"
    by simp
  ultimately show ?thesis by blast
qed

end
