(* ===== verification/Parcelables.thy ===== *)
theory Parcelables
  imports Parcel_IO
begin

text \<open>
  The data types that travel between processes (\<open>interfaces/innerkits/native/*/include\<close>,
  \<open>frameworks/innerkitsimpl\<close>): \<open>INetAddr\<close>, \<open>Route\<close>, \<open>NetLinkInfo\<close>,
  \<open>NetSpecifier\<close>, \<open>NetSupplierInfo\<close>, \<open>NetConnCallbackInfo\<close>,
  \<open>StaticConfiguration\<close>, \<open>InterfaceConfiguration\<close> and \<open>DnsAddrInfo\<close>, each
  a record with its \<open>Marshalling\<close>, the static \<open>Marshalling\<close> of a pointer
  (\<open>None\<close> is \<open>nullptr\<close>), \<open>Unmarshalling\<close>, \<open>operator==\<close> and
  \<open>ToString\<close>. Every type is an instance of the interface \<open>codec\<close>. Allocation with
  \<open>std::make_unique\<close> throws rather than return \<open>nullptr\<close>, so that branch of the
  sources has no counterpart.
\<close>

section \<open>Text building blocks\<close>

definition quote :: string where "quote = [CHR 0x22]"
definition newline :: string where "newline = [CHR 0x0A]"
definition tab4 :: string where "tab4 = ''    ''"

definition to_string_word :: "'a::len word \<Rightarrow> string" where
  "to_string_word w = nat_to_string (unat w)"

text \<open>A labelled line: a new line, the indentation, the text.\<close>

definition line :: "string \<Rightarrow> string \<Rightarrow> string" where
  "line tab txt = newline @ tab @ txt"

section \<open>INetAddr\<close>

record INetAddr =
  ia_type :: uint8
  ia_family :: uint8
  ia_prefixlen :: uint8
  ia_address :: string
  ia_netMask :: string
  ia_hostName :: string

definition IP_UNKNOWN :: uint8 where "IP_UNKNOWN = 0"
definition IPV4 :: uint8 where "IPV4 = 1"
definition IPV6 :: uint8 where "IPV6 = 2"

definition INetAddr_new :: INetAddr where
  "INetAddr_new = \<lparr>ia_type = IP_UNKNOWN, ia_family = 0, ia_prefixlen = 0,
     ia_address = [], ia_netMask = [], ia_hostName = []\<rparr>"

definition INetAddr_eq :: "INetAddr \<Rightarrow> INetAddr \<Rightarrow> bool" where
  "INetAddr_eq a b \<longleftrightarrow> ia_type a = ia_type b \<and> ia_family a = ia_family b \<and>
     ia_prefixlen a = ia_prefixlen b \<and> ia_address a = ia_address b \<and>
     ia_netMask a = ia_netMask b \<and> ia_hostName a = ia_hostName b"

definition INetAddr_Marshalling :: "'p parcel_ops \<Rightarrow> INetAddr \<Rightarrow> 'p writer" where
  "INetAddr_Marshalling P a = write_seq
     [WriteUint8 P (ia_type a), WriteUint8 P (ia_family a), WriteUint8 P (ia_prefixlen a),
      WriteString P (ia_address a), WriteString P (ia_netMask a), WriteString P (ia_hostName a)]"

definition INetAddr_Unmarshalling :: "'p parcel_ops \<Rightarrow> ('p, INetAddr) reader" where
  "INetAddr_Unmarshalling P =
     read_then (ReadUint8 P) (\<lambda>ty.
     read_then (ReadUint8 P) (\<lambda>fam.
     read_then (ReadUint8 P) (\<lambda>pre.
     read_then (ReadString P) (\<lambda>addr.
     read_then (ReadString P) (\<lambda>mask.
     read_then (ReadString P) (\<lambda>host.
     read_done \<lparr>ia_type = ty, ia_family = fam, ia_prefixlen = pre,
       ia_address = addr, ia_netMask = mask, ia_hostName = host\<rparr>))))))"

text \<open>A null pointer is refused, an object is written field by field.\<close>

definition INetAddr_Marshalling_ptr :: "'p parcel_ops \<Rightarrow> INetAddr option \<Rightarrow> 'p writer" where
  "INetAddr_Marshalling_ptr P ob p = (case ob of None \<Rightarrow> (False, p)
     | Some a \<Rightarrow> write_seq
         [WriteUint8 P (ia_type a), WriteUint8 P (ia_family a), WriteUint8 P (ia_prefixlen a),
          WriteString P (ia_address a), WriteString P (ia_netMask a), WriteString P (ia_hostName a)] p)"

text \<open>The \<open>tab\<close> argument is not used by this one.\<close>

definition INetAddr_ToString :: "string \<Rightarrow> INetAddr \<Rightarrow> string" where
  "INetAddr_ToString tab a =
     ''{'' @ quote @ ''family_'' @ quote @ '':'' @ quote @ to_string_word (ia_family a) @ quote @ '','' @
     quote @ ''prefixlen_'' @ quote @ '':'' @ quote @ to_string_word (ia_prefixlen a) @ quote @ '','' @
     quote @ ''address_'' @ quote @ '':'' @ quote @ ia_address a @ quote @ '','' @
     quote @ ''netMask_'' @ quote @ '':'' @ quote @ ia_netMask a @ quote @ ''}''"

definition INetAddr_items :: "INetAddr \<Rightarrow> parcel_item list" where
  "INetAddr_items a = [I_Uint8 (ia_type a), I_Uint8 (ia_family a), I_Uint8 (ia_prefixlen a),
     I_String (ia_address a), I_String (ia_netMask a), I_String (ia_hostName a)]"

lemma INetAddr_eq_iff [simp]: "INetAddr_eq a b \<longleftrightarrow> a = b"
  by (cases a; cases b) (simp add: INetAddr_eq_def)

interpretation inet_addr: codec P "INetAddr_Marshalling P" "INetAddr_Unmarshalling P" INetAddr_items
  "\<lambda>_. True" for P
proof unfold_locales
  fix x
  show "encodes P (INetAddr_Marshalling P x) (INetAddr_items x)" if "parcel_laws P"
    unfolding INetAddr_Marshalling_def INetAddr_items_def
    using that by (intro parcel_rules)
  show "always_writes (INetAddr_Marshalling P x)" if "parcel_never_fails P"
    using that unfolding INetAddr_Marshalling_def
    by (intro always_writes_seq) (simp add: always_writes_typed)
  show "decodes P (INetAddr_Unmarshalling P) (INetAddr_items x) x" if "parcel_laws P"
    unfolding INetAddr_Unmarshalling_def INetAddr_items_def
    by ((rule decodes_then_item, rule decodes_typed [OF that])+) (simp add: decodes_done_eq)
qed

section \<open>Route\<close>

record Route =
  rt_iface :: string
  rt_destination :: INetAddr
  rt_gateway :: INetAddr

definition Route_eq :: "Route \<Rightarrow> Route \<Rightarrow> bool" where
  "Route_eq a b \<longleftrightarrow> rt_iface a = rt_iface b \<and> INetAddr_eq (rt_destination a) (rt_destination b) \<and>
     INetAddr_eq (rt_gateway a) (rt_gateway b)"

definition Route_Marshalling :: "'p parcel_ops \<Rightarrow> Route \<Rightarrow> 'p writer" where
  "Route_Marshalling P r = write_seq
     [WriteString P (rt_iface r), INetAddr_Marshalling P (rt_destination r),
      INetAddr_Marshalling P (rt_gateway r)]"

definition Route_Unmarshalling :: "'p parcel_ops \<Rightarrow> ('p, Route) reader" where
  "Route_Unmarshalling P =
     read_then (ReadString P) (\<lambda>iface.
     read_then (INetAddr_Unmarshalling P) (\<lambda>destination.
     read_then (INetAddr_Unmarshalling P) (\<lambda>gateway.
     read_done \<lparr>rt_iface = iface, rt_destination = destination, rt_gateway = gateway\<rparr>)))"

definition Route_Marshalling_ptr :: "'p parcel_ops \<Rightarrow> Route option \<Rightarrow> 'p writer" where
  "Route_Marshalling_ptr P ob p = (case ob of None \<Rightarrow> (False, p)
     | Some r \<Rightarrow> write_seq
         [WriteString P (rt_iface r), INetAddr_Marshalling P (rt_destination r),
          INetAddr_Marshalling P (rt_gateway r)] p)"

definition Route_ToString :: "string \<Rightarrow> Route \<Rightarrow> string" where
  "Route_ToString tab r =
     line tab ''[Route]'' @
     line tab ''iface_ = '' @ rt_iface r @
     line tab ''destination_ = '' @ INetAddr_ToString (tab @ tab4) (rt_destination r) @
     line tab ''gateway_ = '' @ INetAddr_ToString (tab @ tab4) (rt_gateway r)"

definition Route_items :: "Route \<Rightarrow> parcel_item list" where
  "Route_items r = I_String (rt_iface r) # INetAddr_items (rt_destination r) @
     INetAddr_items (rt_gateway r) @ []"

lemma Route_eq_iff [simp]: "Route_eq a b \<longleftrightarrow> a = b"
  by (cases a; cases b) (simp add: Route_eq_def)

interpretation route: codec P "Route_Marshalling P" "Route_Unmarshalling P" Route_items
  "\<lambda>_. True" for P
proof unfold_locales
  fix x
  show "encodes P (Route_Marshalling P x) (Route_items x)" if "parcel_laws P"
    unfolding Route_Marshalling_def Route_items_def
    using that by (intro parcel_rules inet_addr.marshal_encodes)
  show "always_writes (Route_Marshalling P x)" if "parcel_never_fails P"
    using that unfolding Route_Marshalling_def
    by (intro always_writes_seq) (simp add: always_writes_typed inet_addr.marshal_writes)
  show "decodes P (Route_Unmarshalling P) (Route_items x) x" if "parcel_laws P"
    unfolding Route_Unmarshalling_def Route_items_def
    by (rule decodes_then_item, rule decodes_typed [OF that])
      ((rule decodes_then, rule inet_addr.unmarshal_decodes [OF that TrueI])+, simp add: decodes_done_eq)
qed

section \<open>NetLinkInfo\<close>

record NetLinkInfo =
  li_ifaceName :: string
  li_domain :: string
  li_netAddrList :: "INetAddr list"
  li_dnsList :: "INetAddr list"
  li_routeList :: "Route list"
  li_mtu :: uint16

definition NetLinkInfo_new :: NetLinkInfo where
  "NetLinkInfo_new = \<lparr>li_ifaceName = [], li_domain = [], li_netAddrList = [], li_dnsList = [],
     li_routeList = [], li_mtu = 0\<rparr>"

definition NetLinkInfo_Marshalling :: "'p parcel_ops \<Rightarrow> NetLinkInfo \<Rightarrow> 'p writer" where
  "NetLinkInfo_Marshalling P i = write_seq
     [WriteString P (li_ifaceName i), WriteString P (li_domain i),
      write_counted P (INetAddr_Marshalling P) (li_netAddrList i),
      write_counted P (INetAddr_Marshalling P) (li_dnsList i),
      write_counted P (Route_Marshalling P) (li_routeList i),
      WriteUint16 P (li_mtu i)]"

definition NetLinkInfo_Unmarshalling :: "'p parcel_ops \<Rightarrow> ('p, NetLinkInfo) reader" where
  "NetLinkInfo_Unmarshalling P =
     read_then (ReadString P) (\<lambda>ifaceName.
     read_then (ReadString P) (\<lambda>domain.
     read_then (read_counted P (INetAddr_Unmarshalling P)) (\<lambda>netAddrList.
     read_then (read_counted P (INetAddr_Unmarshalling P)) (\<lambda>dnsList.
     read_then (read_counted P (Route_Unmarshalling P)) (\<lambda>routeList.
     read_then (ReadUint16 P) (\<lambda>mtu.
     read_done \<lparr>li_ifaceName = ifaceName, li_domain = domain, li_netAddrList = netAddrList,
       li_dnsList = dnsList, li_routeList = routeList, li_mtu = mtu\<rparr>))))))"

definition NetLinkInfo_Marshalling_ptr :: "'p parcel_ops \<Rightarrow> NetLinkInfo option \<Rightarrow> 'p writer" where
  "NetLinkInfo_Marshalling_ptr P ob p = (case ob of None \<Rightarrow> (False, p)
     | Some i \<Rightarrow> write_seq
         [WriteString P (li_ifaceName i), WriteString P (li_domain i),
          write_counted P (INetAddr_Marshalling P) (li_netAddrList i),
          write_counted P (INetAddr_Marshalling P) (li_dnsList i),
          write_counted P (Route_Marshalling P) (li_routeList i),
          WriteUint16 P (li_mtu i)] p)"

definition NetLinkInfo_ToString :: "string \<Rightarrow> NetLinkInfo \<Rightarrow> string" where
  "NetLinkInfo_ToString tab i =
     line tab ''[NetLinkInfo]'' @
     line tab ''ifaceName_ = '' @ li_ifaceName i @
     line tab ''domain_ = '' @ li_domain i @
     line tab ''netAddrList_ = '' @ concat (map (INetAddr_ToString (tab @ tab4)) (li_netAddrList i)) @
     line tab ''dnsList_ = '' @ concat (map (INetAddr_ToString (tab @ tab4)) (li_dnsList i)) @
     line tab ''routeList_ = '' @ concat (map (Route_ToString (tab @ tab4)) (li_routeList i)) @
     line tab ''mtu_ = '' @ to_string_word (li_mtu i)"

definition NetLinkInfo_items :: "NetLinkInfo \<Rightarrow> parcel_item list" where
  "NetLinkInfo_items i = I_String (li_ifaceName i) # I_String (li_domain i) #
     counted_items INetAddr_items (li_netAddrList i) @
     counted_items INetAddr_items (li_dnsList i) @
     counted_items Route_items (li_routeList i) @
     I_Uint16 (li_mtu i) # []"

definition NetLinkInfo_short :: "NetLinkInfo \<Rightarrow> bool" where
  "NetLinkInfo_short i \<longleftrightarrow>
     short_list (li_netAddrList i) \<and> short_list (li_dnsList i) \<and> short_list (li_routeList i)"

interpretation net_link_info: codec P "NetLinkInfo_Marshalling P" "NetLinkInfo_Unmarshalling P"
  NetLinkInfo_items NetLinkInfo_short for P
proof unfold_locales
  fix x
  show "encodes P (NetLinkInfo_Marshalling P x) (NetLinkInfo_items x)" if "parcel_laws P"
    unfolding NetLinkInfo_Marshalling_def NetLinkInfo_items_def
    using that by (intro parcel_rules inet_addr.counted_encodes route.counted_encodes)
  show "always_writes (NetLinkInfo_Marshalling P x)" if "parcel_never_fails P"
    using that unfolding NetLinkInfo_Marshalling_def
    by (intro always_writes_seq)
      (simp add: always_writes_typed inet_addr.counted_writes route.counted_writes)
  show "decodes P (NetLinkInfo_Unmarshalling P) (NetLinkInfo_items x) x"
    if laws: "parcel_laws P" and "NetLinkInfo_short x"
  proof -
    have dec: "decodes P (read_counted P (INetAddr_Unmarshalling P))
        (counted_items INetAddr_items (li_netAddrList x)) (li_netAddrList x)"
      "decodes P (read_counted P (INetAddr_Unmarshalling P))
        (counted_items INetAddr_items (li_dnsList x)) (li_dnsList x)"
      "decodes P (read_counted P (Route_Unmarshalling P))
        (counted_items Route_items (li_routeList x)) (li_routeList x)"
      using that by (auto intro!: inet_addr.counted_decodes route.counted_decodes
          simp: NetLinkInfo_short_def)
    show ?thesis
      unfolding NetLinkInfo_Unmarshalling_def NetLinkInfo_items_def
      by (rule decodes_then_item, rule decodes_typed [OF laws])+
        ((rule decodes_then, rule dec)+, rule decodes_then_item, rule decodes_typed [OF laws],
          simp add: decodes_done_eq)
  qed
qed

section \<open>NetSpecifier\<close>

record NetSpecifier =
  sp_ident :: string
  sp_netType :: uint32
  sp_netCapabilities :: uint64

definition NetSpecifier_Marshalling :: "'p parcel_ops \<Rightarrow> NetSpecifier \<Rightarrow> 'p writer" where
  "NetSpecifier_Marshalling P s = write_seq
     [WriteString P (sp_ident s), WriteUint32 P (sp_netType s), WriteUint64 P (sp_netCapabilities s)]"

definition NetSpecifier_Unmarshalling :: "'p parcel_ops \<Rightarrow> ('p, NetSpecifier) reader" where
  "NetSpecifier_Unmarshalling P =
     read_then (ReadString P) (\<lambda>ident.
     read_then (ReadUint32 P) (\<lambda>netType.
     read_then (ReadUint64 P) (\<lambda>netCapabilities.
     read_done \<lparr>sp_ident = ident, sp_netType = netType, sp_netCapabilities = netCapabilities\<rparr>)))"

definition NetSpecifier_Marshalling_ptr :: "'p parcel_ops \<Rightarrow> NetSpecifier option \<Rightarrow> 'p writer" where
  "NetSpecifier_Marshalling_ptr P ob p = (case ob of None \<Rightarrow> (False, p)
     | Some s \<Rightarrow> write_seq
         [WriteString P (sp_ident s), WriteUint32 P (sp_netType s),
          WriteUint64 P (sp_netCapabilities s)] p)"

definition NetSpecifier_ToString :: "string \<Rightarrow> NetSpecifier \<Rightarrow> string" where
  "NetSpecifier_ToString tab s =
     line tab ''[NetSpecifier]'' @
     line tab ''ident_ = '' @ sp_ident s @
     line tab ''netType_ = '' @ to_string_word (sp_netType s) @
     line tab ''netCapabilities_ = '' @ to_string_word (sp_netCapabilities s)"

definition NetSpecifier_less :: "NetSpecifier \<Rightarrow> NetSpecifier \<Rightarrow> bool" where
  "NetSpecifier_less a b \<longleftrightarrow> sp_netType a < sp_netType b \<or>
     (sp_netType a = sp_netType b \<and> sp_netCapabilities a < sp_netCapabilities b)"

definition NetSpecifier_items :: "NetSpecifier \<Rightarrow> parcel_item list" where
  "NetSpecifier_items s = [I_String (sp_ident s), I_Uint32 (sp_netType s), I_Uint64 (sp_netCapabilities s)]"

interpretation net_specifier: codec P "NetSpecifier_Marshalling P" "NetSpecifier_Unmarshalling P"
  NetSpecifier_items "\<lambda>_. True" for P
proof unfold_locales
  fix x
  show "encodes P (NetSpecifier_Marshalling P x) (NetSpecifier_items x)" if "parcel_laws P"
    unfolding NetSpecifier_Marshalling_def NetSpecifier_items_def
    using that by (intro parcel_rules)
  show "always_writes (NetSpecifier_Marshalling P x)" if "parcel_never_fails P"
    using that unfolding NetSpecifier_Marshalling_def
    by (intro always_writes_seq) (simp add: always_writes_typed)
  show "decodes P (NetSpecifier_Unmarshalling P) (NetSpecifier_items x) x" if "parcel_laws P"
    unfolding NetSpecifier_Unmarshalling_def NetSpecifier_items_def
    by ((rule decodes_then_item, rule decodes_typed [OF that])+) (simp add: decodes_done_eq)
qed

section \<open>NetSupplierInfo\<close>

record NetSupplierInfo =
  si_isAvailable :: bool
  si_isRoaming :: bool
  si_strength :: uint8
  si_frequency :: uint32

definition NetSupplierInfo_new :: NetSupplierInfo where
  "NetSupplierInfo_new = \<lparr>si_isAvailable = False, si_isRoaming = False, si_strength = 0, si_frequency = 0\<rparr>"

definition NetSupplierInfo_Marshalling :: "'p parcel_ops \<Rightarrow> NetSupplierInfo \<Rightarrow> 'p writer" where
  "NetSupplierInfo_Marshalling P s = write_seq
     [WriteBool P (si_isAvailable s), WriteBool P (si_isRoaming s), WriteUint8 P (si_strength s),
      WriteUint32 P (si_frequency s)]"

definition NetSupplierInfo_Unmarshalling :: "'p parcel_ops \<Rightarrow> ('p, NetSupplierInfo) reader" where
  "NetSupplierInfo_Unmarshalling P =
     read_then (ReadBool P) (\<lambda>isAvailable.
     read_then (ReadBool P) (\<lambda>isRoaming.
     read_then (ReadUint8 P) (\<lambda>strength.
     read_then (ReadUint32 P) (\<lambda>frequency.
     read_done \<lparr>si_isAvailable = isAvailable, si_isRoaming = isRoaming, si_strength = strength,
       si_frequency = frequency\<rparr>))))"

definition NetSupplierInfo_Marshalling_ptr :: "'p parcel_ops \<Rightarrow> NetSupplierInfo option \<Rightarrow> 'p writer" where
  "NetSupplierInfo_Marshalling_ptr P ob p = (case ob of None \<Rightarrow> (False, p)
     | Some s \<Rightarrow> write_seq
         [WriteBool P (si_isAvailable s), WriteBool P (si_isRoaming s), WriteUint8 P (si_strength s),
          WriteUint32 P (si_frequency s)] p)"

definition to_string_bool :: "bool \<Rightarrow> string" where
  "to_string_bool b = (if b then ''1'' else ''0'')"

definition NetSupplierInfo_ToString :: "string \<Rightarrow> NetSupplierInfo \<Rightarrow> string" where
  "NetSupplierInfo_ToString tab s =
     line tab ''[NetSupplierInfo]'' @
     line tab ''isAvailable_ = '' @ to_string_bool (si_isAvailable s) @
     line tab ''isRoaming_ = '' @ to_string_bool (si_isRoaming s) @
     line tab ''strength_ = '' @ to_string_word (si_strength s) @
     line tab ''frequency_ = '' @ to_string_word (si_frequency s)"

definition NetSupplierInfo_items :: "NetSupplierInfo \<Rightarrow> parcel_item list" where
  "NetSupplierInfo_items s = [I_Bool (si_isAvailable s), I_Bool (si_isRoaming s),
     I_Uint8 (si_strength s), I_Uint32 (si_frequency s)]"

interpretation net_supplier_info: codec P "NetSupplierInfo_Marshalling P"
  "NetSupplierInfo_Unmarshalling P" NetSupplierInfo_items "\<lambda>_. True" for P
proof unfold_locales
  fix x
  show "encodes P (NetSupplierInfo_Marshalling P x) (NetSupplierInfo_items x)" if "parcel_laws P"
    unfolding NetSupplierInfo_Marshalling_def NetSupplierInfo_items_def
    using that by (intro parcel_rules)
  show "always_writes (NetSupplierInfo_Marshalling P x)" if "parcel_never_fails P"
    using that unfolding NetSupplierInfo_Marshalling_def
    by (intro always_writes_seq) (simp add: always_writes_typed)
  show "decodes P (NetSupplierInfo_Unmarshalling P) (NetSupplierInfo_items x) x" if "parcel_laws P"
    unfolding NetSupplierInfo_Unmarshalling_def NetSupplierInfo_items_def
    by ((rule decodes_then_item, rule decodes_typed [OF that])+) (simp add: decodes_done_eq)
qed

section \<open>NetConnCallbackInfo\<close>

record NetConnCallbackInfo =
  ci_netState :: int32
  ci_netType :: uint32

definition NetConnCallbackInfo_Marshalling :: "'p parcel_ops \<Rightarrow> NetConnCallbackInfo \<Rightarrow> 'p writer" where
  "NetConnCallbackInfo_Marshalling P c = write_seq
     [WriteInt32 P (ci_netState c), WriteUint32 P (ci_netType c)]"

definition NetConnCallbackInfo_Unmarshalling :: "'p parcel_ops \<Rightarrow> ('p, NetConnCallbackInfo) reader" where
  "NetConnCallbackInfo_Unmarshalling P =
     read_then (ReadInt32 P) (\<lambda>netState.
     read_then (ReadUint32 P) (\<lambda>netType.
     read_done \<lparr>ci_netState = netState, ci_netType = netType\<rparr>))"

definition NetConnCallbackInfo_Marshalling_ptr ::
    "'p parcel_ops \<Rightarrow> NetConnCallbackInfo option \<Rightarrow> 'p writer" where
  "NetConnCallbackInfo_Marshalling_ptr P ob p = (case ob of None \<Rightarrow> (False, p)
     | Some c \<Rightarrow> write_seq [WriteInt32 P (ci_netState c), WriteUint32 P (ci_netType c)] p)"

definition NetConnCallbackInfo_ToString :: "string \<Rightarrow> NetConnCallbackInfo \<Rightarrow> string" where
  "NetConnCallbackInfo_ToString tab c =
     line tab ''[NetConnCallbackInfo]'' @
     line tab ''netState_ = '' @ to_string_i32 (ci_netState c) @
     line tab ''netType_ = '' @ to_string_word (ci_netType c)"

definition NetConnCallbackInfo_items :: "NetConnCallbackInfo \<Rightarrow> parcel_item list" where
  "NetConnCallbackInfo_items c = [I_Int32 (ci_netState c), I_Uint32 (ci_netType c)]"

interpretation net_conn_callback_info: codec P "NetConnCallbackInfo_Marshalling P"
  "NetConnCallbackInfo_Unmarshalling P" NetConnCallbackInfo_items "\<lambda>_. True" for P
proof unfold_locales
  fix x
  show "encodes P (NetConnCallbackInfo_Marshalling P x) (NetConnCallbackInfo_items x)" if "parcel_laws P"
    unfolding NetConnCallbackInfo_Marshalling_def NetConnCallbackInfo_items_def
    using that by (intro parcel_rules)
  show "always_writes (NetConnCallbackInfo_Marshalling P x)" if "parcel_never_fails P"
    using that unfolding NetConnCallbackInfo_Marshalling_def
    by (intro always_writes_seq) (simp add: always_writes_typed)
  show "decodes P (NetConnCallbackInfo_Unmarshalling P) (NetConnCallbackInfo_items x) x"
    if "parcel_laws P"
    unfolding NetConnCallbackInfo_Unmarshalling_def NetConnCallbackInfo_items_def
    by ((rule decodes_then_item, rule decodes_typed [OF that])+) (simp add: decodes_done_eq)
qed

section \<open>StaticConfiguration and InterfaceConfiguration\<close>

record StaticConfiguration =
  sc_ipAddr :: INetAddr
  sc_route :: INetAddr
  sc_gate :: INetAddr
  sc_netMask :: INetAddr
  sc_dnsServers :: "INetAddr list"
  sc_domain :: string

definition StaticConfiguration_Marshalling :: "'p parcel_ops \<Rightarrow> StaticConfiguration \<Rightarrow> 'p writer" where
  "StaticConfiguration_Marshalling P s = write_seq
     [INetAddr_Marshalling P (sc_ipAddr s), INetAddr_Marshalling P (sc_route s),
      INetAddr_Marshalling P (sc_gate s), INetAddr_Marshalling P (sc_netMask s),
      write_counted P (INetAddr_Marshalling P) (sc_dnsServers s), WriteString P (sc_domain s)]"

definition StaticConfiguration_Unmarshalling :: "'p parcel_ops \<Rightarrow> ('p, StaticConfiguration) reader" where
  "StaticConfiguration_Unmarshalling P =
     read_then (INetAddr_Unmarshalling P) (\<lambda>ipAddr.
     read_then (INetAddr_Unmarshalling P) (\<lambda>rte.
     read_then (INetAddr_Unmarshalling P) (\<lambda>gate.
     read_then (INetAddr_Unmarshalling P) (\<lambda>netMask.
     read_then (read_counted P (INetAddr_Unmarshalling P)) (\<lambda>dnsServers.
     read_then (ReadString P) (\<lambda>domain.
     read_done \<lparr>sc_ipAddr = ipAddr, sc_route = rte, sc_gate = gate, sc_netMask = netMask,
       sc_dnsServers = dnsServers, sc_domain = domain\<rparr>))))))"

definition StaticConfiguration_items :: "StaticConfiguration \<Rightarrow> parcel_item list" where
  "StaticConfiguration_items s =
     INetAddr_items (sc_ipAddr s) @ INetAddr_items (sc_route s) @ INetAddr_items (sc_gate s) @
     INetAddr_items (sc_netMask s) @ counted_items INetAddr_items (sc_dnsServers s) @
     I_String (sc_domain s) # []"

interpretation static_configuration: codec P "StaticConfiguration_Marshalling P"
  "StaticConfiguration_Unmarshalling P" StaticConfiguration_items
  "\<lambda>s. short_list (sc_dnsServers s)" for P
proof unfold_locales
  fix x
  show "encodes P (StaticConfiguration_Marshalling P x) (StaticConfiguration_items x)" if "parcel_laws P"
    unfolding StaticConfiguration_Marshalling_def StaticConfiguration_items_def
    using that by (intro parcel_rules inet_addr.counted_encodes inet_addr.marshal_encodes)
  show "always_writes (StaticConfiguration_Marshalling P x)" if "parcel_never_fails P"
    using that unfolding StaticConfiguration_Marshalling_def
    by (intro always_writes_seq)
      (simp add: always_writes_typed inet_addr.counted_writes inet_addr.marshal_writes)
  show "decodes P (StaticConfiguration_Unmarshalling P) (StaticConfiguration_items x) x"
    if laws: "parcel_laws P" and "short_list (sc_dnsServers x)"
  proof -
    have dec: "decodes P (read_counted P (INetAddr_Unmarshalling P))
        (counted_items INetAddr_items (sc_dnsServers x)) (sc_dnsServers x)"
      using that by (intro inet_addr.counted_decodes) simp_all
    show ?thesis
      unfolding StaticConfiguration_Unmarshalling_def StaticConfiguration_items_def
      by (rule decodes_then, rule inet_addr.unmarshal_decodes [OF laws TrueI])+
        (rule decodes_then, rule dec, rule decodes_then_item, rule decodes_typed [OF laws],
          simp add: decodes_done_eq)
  qed
qed

text \<open>
  \<open>IPSetMode\<close> is an unscoped enumeration stored as an \<open>int\<close>: a value read from a parcel
  is not checked, so the mode is kept as the 32-bit value.
\<close>

definition STATIC :: int32 where "STATIC = 0"
definition DHCP :: int32 where "DHCP = 1"

record InterfaceConfiguration =
  ic_mode :: int32
  ic_ipStatic :: StaticConfiguration

definition InterfaceConfiguration_Marshalling :: "'p parcel_ops \<Rightarrow> InterfaceConfiguration \<Rightarrow> 'p writer" where
  "InterfaceConfiguration_Marshalling P c = write_seq
     [WriteInt32 P (ic_mode c), StaticConfiguration_Marshalling P (ic_ipStatic c)]"

definition InterfaceConfiguration_Unmarshalling :: "'p parcel_ops \<Rightarrow> ('p, InterfaceConfiguration) reader" where
  "InterfaceConfiguration_Unmarshalling P =
     read_then (ReadInt32 P) (\<lambda>mode.
     read_then (StaticConfiguration_Unmarshalling P) (\<lambda>sc.
     read_done \<lparr>ic_mode = mode, ic_ipStatic = sc\<rparr>))"

definition InterfaceConfiguration_items :: "InterfaceConfiguration \<Rightarrow> parcel_item list" where
  "InterfaceConfiguration_items c =
     I_Int32 (ic_mode c) # StaticConfiguration_items (ic_ipStatic c) @ []"

definition InterfaceConfiguration_short :: "InterfaceConfiguration \<Rightarrow> bool" where
  "InterfaceConfiguration_short c \<longleftrightarrow> short_list (sc_dnsServers (ic_ipStatic c))"

interpretation interface_configuration: codec P "InterfaceConfiguration_Marshalling P"
  "InterfaceConfiguration_Unmarshalling P" InterfaceConfiguration_items
  InterfaceConfiguration_short for P
proof unfold_locales
  fix x
  show "encodes P (InterfaceConfiguration_Marshalling P x) (InterfaceConfiguration_items x)"
    if "parcel_laws P"
    unfolding InterfaceConfiguration_Marshalling_def InterfaceConfiguration_items_def
    using that by (intro parcel_rules static_configuration.marshal_encodes)
  show "always_writes (InterfaceConfiguration_Marshalling P x)" if "parcel_never_fails P"
    using that unfolding InterfaceConfiguration_Marshalling_def
    by (intro always_writes_seq)
      (simp add: always_writes_typed static_configuration.marshal_writes)
  show "decodes P (InterfaceConfiguration_Unmarshalling P) (InterfaceConfiguration_items x) x"
    if laws: "parcel_laws P" and "InterfaceConfiguration_short x"
    unfolding InterfaceConfiguration_Unmarshalling_def InterfaceConfiguration_items_def
    using that(2) unfolding InterfaceConfiguration_short_def
    by (intro decodes_then_item [OF decodes_typed(6) [OF laws]]
        decodes_then [OF static_configuration.unmarshal_decodes [OF laws]] decodes_done_eq) simp_all
qed

section \<open>DnsAddrInfo\<close>

record DnsAddrInfo =
  da_flags :: int32
  da_family :: int32
  da_sockType :: int32
  da_protocol :: int32
  da_addr :: string
  da_canonName :: string

definition DnsAddrInfo_Marshalling :: "'p parcel_ops \<Rightarrow> DnsAddrInfo \<Rightarrow> 'p writer" where
  "DnsAddrInfo_Marshalling P d = write_seq
     [WriteInt32 P (da_flags d), WriteInt32 P (da_family d), WriteInt32 P (da_sockType d),
      WriteInt32 P (da_protocol d), WriteString P (da_addr d)]"

text \<open>\<open>canonName_\<close> is not in the parcel: it keeps the empty string of a new object.\<close>

definition DnsAddrInfo_Unmarshalling :: "'p parcel_ops \<Rightarrow> ('p, DnsAddrInfo) reader" where
  "DnsAddrInfo_Unmarshalling P =
     read_then (ReadInt32 P) (\<lambda>flags.
     read_then (ReadInt32 P) (\<lambda>family.
     read_then (ReadInt32 P) (\<lambda>sockType.
     read_then (ReadInt32 P) (\<lambda>protocol.
     read_then (ReadString P) (\<lambda>addr.
     read_done \<lparr>da_flags = flags, da_family = family, da_sockType = sockType,
       da_protocol = protocol, da_addr = addr, da_canonName = []\<rparr>)))))"

definition DnsAddrInfo_items :: "DnsAddrInfo \<Rightarrow> parcel_item list" where
  "DnsAddrInfo_items d = [I_Int32 (da_flags d), I_Int32 (da_family d), I_Int32 (da_sockType d),
     I_Int32 (da_protocol d), I_String (da_addr d)]"

lemma DnsAddrInfo_decodes:
  assumes "parcel_laws P"
  shows "decodes P (DnsAddrInfo_Unmarshalling P) (DnsAddrInfo_items d) (d\<lparr>da_canonName := []\<rparr>)"
  unfolding DnsAddrInfo_Unmarshalling_def DnsAddrInfo_items_def
  by ((rule decodes_then_item, rule decodes_typed [OF assms])+) (simp add: decodes_done_eq)

interpretation dns_addr_info: codec P "DnsAddrInfo_Marshalling P" "DnsAddrInfo_Unmarshalling P"
  DnsAddrInfo_items "\<lambda>d. da_canonName d = []" for P
proof unfold_locales
  fix x
  show "encodes P (DnsAddrInfo_Marshalling P x) (DnsAddrInfo_items x)" if "parcel_laws P"
    unfolding DnsAddrInfo_Marshalling_def DnsAddrInfo_items_def
    using that by (intro parcel_rules)
  show "always_writes (DnsAddrInfo_Marshalling P x)" if "parcel_never_fails P"
    using that unfolding DnsAddrInfo_Marshalling_def
    by (intro always_writes_seq) (simp add: always_writes_typed)
  show "decodes P (DnsAddrInfo_Unmarshalling P) (DnsAddrInfo_items x) x"
    if "parcel_laws P" "da_canonName x = []"
    using DnsAddrInfo_decodes [OF that(1), of x] that(2) by (cases x) simp
qed

section \<open>Properties\<close>

text \<open>
  A \<open>NetLinkInfo\<close> written to an empty parcel is read back unchanged, with its
  addresses, DNS servers and routes in order, and the parcel is used up: for every parcel
  implementation that keeps the laws, provided each list has fewer than 2^32 elements, the range
  of the size field.
\<close>

theorem NetLinkInfo_roundtrip:
  assumes "parcel_laws P" and "NetLinkInfo_short x" and "contents P p = []"
    and "NetLinkInfo_Marshalling P x p = (True, p')"
  shows "\<exists>p''. NetLinkInfo_Unmarshalling P p' = (Some x, p'') \<and> contents P p'' = []"
  using assms by (rule net_link_info.roundtrip)

theorem NetLinkInfo_roundtrip_witness:
  "\<exists>p' p''. NetLinkInfo_Marshalling list_parcel
       (NetLinkInfo_new\<lparr>li_ifaceName := ''eth0'', li_dnsList := [INetAddr_new]\<rparr>) [] = (True, p') \<and>
     NetLinkInfo_Unmarshalling list_parcel p' =
       (Some (NetLinkInfo_new\<lparr>li_ifaceName := ''eth0'', li_dnsList := [INetAddr_new]\<rparr>), p'')"
proof -
  let ?x = "NetLinkInfo_new\<lparr>li_ifaceName := ''eth0'', li_dnsList := [INetAddr_new]\<rparr>"
  have "NetLinkInfo_short ?x"
    by (simp add: NetLinkInfo_short_def short_list_def NetLinkInfo_new_def)
  moreover have "contents list_parcel [] = []" by (simp add: list_parcel_def)
  moreover obtain p' where "NetLinkInfo_Marshalling list_parcel ?x [] = (True, p')"
    using net_link_info.marshal_writes [OF list_parcel_never_fails, of ?x]
    by (cases "NetLinkInfo_Marshalling list_parcel ?x []") (auto simp: always_writes_def dest: spec [of _ "[]"])
  ultimately show ?thesis
    using NetLinkInfo_roundtrip [OF list_parcel_laws, of ?x "[]" p'] by blast
qed

text \<open>
  An \<open>InterfaceConfiguration\<close> (mode, four addresses, DNS servers, domain) written to an
  empty parcel is read back unchanged.
\<close>

theorem InterfaceConfiguration_roundtrip:
  assumes "parcel_laws P" and "InterfaceConfiguration_short x" and "contents P p = []"
    and "InterfaceConfiguration_Marshalling P x p = (True, p')"
  shows "\<exists>p''. InterfaceConfiguration_Unmarshalling P p' = (Some x, p'') \<and> contents P p'' = []"
  using assms by (rule interface_configuration.roundtrip)

theorem InterfaceConfiguration_roundtrip_witness:
  "\<exists>p' p''. InterfaceConfiguration_Marshalling list_parcel
       \<lparr>ic_mode = DHCP, ic_ipStatic = \<lparr>sc_ipAddr = INetAddr_new, sc_route = INetAddr_new,
         sc_gate = INetAddr_new, sc_netMask = INetAddr_new, sc_dnsServers = [], sc_domain = ''lan''\<rparr>\<rparr> [] =
       (True, p') \<and>
     InterfaceConfiguration_Unmarshalling list_parcel p' =
       (Some \<lparr>ic_mode = DHCP, ic_ipStatic = \<lparr>sc_ipAddr = INetAddr_new, sc_route = INetAddr_new,
         sc_gate = INetAddr_new, sc_netMask = INetAddr_new, sc_dnsServers = [], sc_domain = ''lan''\<rparr>\<rparr>, p'')"
proof -
  let ?x = "\<lparr>ic_mode = DHCP, ic_ipStatic = \<lparr>sc_ipAddr = INetAddr_new, sc_route = INetAddr_new,
         sc_gate = INetAddr_new, sc_netMask = INetAddr_new, sc_dnsServers = [], sc_domain = ''lan''\<rparr>\<rparr>"
  have "InterfaceConfiguration_short ?x"
    by (simp add: InterfaceConfiguration_short_def short_list_def)
  moreover have "contents list_parcel [] = []" by (simp add: list_parcel_def)
  moreover obtain p' where "InterfaceConfiguration_Marshalling list_parcel ?x [] = (True, p')"
    using interface_configuration.marshal_writes [OF list_parcel_never_fails, of ?x]
    by (cases "InterfaceConfiguration_Marshalling list_parcel ?x []")
      (auto simp: always_writes_def dest: spec [of _ "[]"])
  ultimately show ?thesis
    using InterfaceConfiguration_roundtrip [OF list_parcel_laws, of ?x "[]" p'] by blast
qed

text \<open>
  A \<open>DnsAddrInfo\<close> read back from a parcel has every field of the one written except the
  canonical name, which neither \<open>Marshalling\<close> nor \<open>Unmarshalling\<close> transfers: the
  receiver always sees an empty \<open>canonName_\<close>.
\<close>

theorem DnsAddrInfo_loses_canonName:
  assumes "parcel_laws P" and "contents P p = []" and "DnsAddrInfo_Marshalling P d p = (True, p')"
  shows "\<exists>p''. DnsAddrInfo_Unmarshalling P p' = (Some (d\<lparr>da_canonName := []\<rparr>), p'')"
proof -
  have "contents P p' = DnsAddrInfo_items d @ []"
    using dns_addr_info.marshal_encodes [OF assms(1), of d] assms(2,3) by (simp add: encodes_def)
  then show ?thesis
    using DnsAddrInfo_decodes [OF assms(1), of d] unfolding decodes_def by blast
qed

theorem DnsAddrInfo_loses_canonName_witness:
  "\<exists>p' p''. DnsAddrInfo_Marshalling list_parcel \<lparr>da_flags = 2, da_family = 2, da_sockType = 1,
       da_protocol = 6, da_addr = ''10.0.0.1'', da_canonName = ''a.b''\<rparr> [] = (True, p') \<and>
     DnsAddrInfo_Unmarshalling list_parcel p' = (Some \<lparr>da_flags = 2, da_family = 2, da_sockType = 1,
       da_protocol = 6, da_addr = ''10.0.0.1'', da_canonName = []\<rparr>, p'')"
proof -
  let ?d = "\<lparr>da_flags = 2, da_family = 2, da_sockType = 1,
       da_protocol = 6, da_addr = ''10.0.0.1'', da_canonName = ''a.b''\<rparr>"
  have "contents list_parcel [] = []" by (simp add: list_parcel_def)
  moreover obtain p' where "DnsAddrInfo_Marshalling list_parcel ?d [] = (True, p')"
    using dns_addr_info.marshal_writes [OF list_parcel_never_fails, of ?d]
    by (cases "DnsAddrInfo_Marshalling list_parcel ?d []")
      (auto simp: always_writes_def dest: spec [of _ "[]"])
  ultimately show ?thesis
    using DnsAddrInfo_loses_canonName [OF list_parcel_laws, of "[]" ?d p'] by auto
qed

end
