(* ===== verification/Net_Supplier.thy ===== *)
theory Net_Supplier
  imports Netd_Controller Parcelables
begin

text \<open>
  The outside world of the connection service and the suppliers of networks:
  \<open>NetControllerFactory\<close>, \<open>TelephonyController\<close>
  (\<open>services/netconnmanager/src/net_controller\<close>), \<open>BroadcastManager\<close>
  (\<open>services/common\<close>) and \<open>NetSupplier\<close>. The cellular data service and the common
  event service are other programs: what they answer is a parameter, and what they are asked is
  kept, in order, in the log \<open>wd_events\<close> together with the notifications sent to callbacks.
\<close>

section \<open>The world\<close>

record BroadcastInfo =
  bi_action :: string
  bi_data :: string
  bi_code :: int32
  bi_ordered :: bool

text \<open>A callback object is known by the address of its remote object.\<close>

type_synonym callback = nat

datatype conn_event =
    EvRequestNet string uint32
  | EvReleaseNet string uint32
  | EvBroadcast BroadcastInfo "(string \<times> string) list"
  | EvCallback callback NetConnCallbackInfo

record conn_env =
  env_netd :: netd_env
  env_requestNet :: "conn_event list \<Rightarrow> string \<Rightarrow> uint32 \<Rightarrow> int32"
  env_releaseNet :: "conn_event list \<Rightarrow> string \<Rightarrow> uint32 \<Rightarrow> int32"
  env_publish :: "conn_event list \<Rightarrow> BroadcastInfo \<Rightarrow> (string \<times> string) list \<Rightarrow> bool"

record world =
  wd_netd :: netd_state
  wd_events :: "conn_event list"

definition world_logs :: "conn_event list \<Rightarrow> world \<Rightarrow> world" where
  "world_logs es w = w\<lparr>wd_events := wd_events w @ es\<rparr>"

text \<open>Run an operation of the daemon controller inside the world and drop its result.\<close>

definition with_netd :: "(netd_state \<Rightarrow> int32 \<times> netd_state) \<Rightarrow> world \<Rightarrow> world" where
  "with_netd f w = w\<lparr>wd_netd := snd (f (wd_netd w))\<rparr>"

lemma world_logs_simps [simp]:
  "wd_events (world_logs es w) = wd_events w @ es"
  "wd_netd (world_logs es w) = wd_netd w"
  "world_logs es' (world_logs es w) = world_logs (es @ es') w"
  "world_logs [] w = w"
  by (simp_all add: world_logs_def)

lemma with_netd_simps [simp]:
  "wd_events (with_netd f w) = wd_events w"
  "wd_netd (with_netd f w) = snd (f (wd_netd w))"
  by (simp_all add: with_netd_def)

section \<open>BroadcastManager\<close>

text \<open>
  \<open>SendBroadcastEx\<close> publishes an event unless the action is empty. The three public
  overloads forward to it; the connection service uses the one with string parameters.
\<close>

definition BroadcastManager_SendBroadcastEx ::
    "conn_env \<Rightarrow> BroadcastInfo \<Rightarrow> (string \<times> string) list \<Rightarrow> world \<Rightarrow> bool \<times> world" where
  "BroadcastManager_SendBroadcastEx E info param w =
     (if bi_action info = [] then (False, w)
      else (env_publish E (wd_events w) info param, world_logs [EvBroadcast info param] w))"

definition BroadcastManager_SendBroadcast ::
    "conn_env \<Rightarrow> BroadcastInfo \<Rightarrow> (string \<times> string) list \<Rightarrow> world \<Rightarrow> bool \<times> world" where
  "BroadcastManager_SendBroadcast E info param w = BroadcastManager_SendBroadcastEx E info param w"

section \<open>Network controllers\<close>

datatype INetController = TelephonyController

type_synonym net_controllers = "uint32 \<rightharpoonup> INetController"

definition TelephonyController_RequestNetwork ::
    "conn_env \<Rightarrow> string \<Rightarrow> NetCapabilities \<Rightarrow> world \<Rightarrow> int32 \<times> world" where
  "TelephonyController_RequestNetwork E ident cap w =
     (let c = ucast (NetCapabilities_val cap)
      in (env_requestNet E (wd_events w) ident c, world_logs [EvRequestNet ident c] w))"

definition TelephonyController_ReleaseNetwork ::
    "conn_env \<Rightarrow> string \<Rightarrow> NetCapabilities \<Rightarrow> world \<Rightarrow> int32 \<times> world" where
  "TelephonyController_ReleaseNetwork E ident cap w =
     (let c = ucast (NetCapabilities_val cap)
      in (env_releaseNet E (wd_events w) ident c, world_logs [EvReleaseNet ident c] w))"

fun INetController_RequestNetwork ::
    "conn_env \<Rightarrow> INetController \<Rightarrow> string \<Rightarrow> NetCapabilities \<Rightarrow> world \<Rightarrow> int32 \<times> world" where
  "INetController_RequestNetwork E TelephonyController ident cap w =
     TelephonyController_RequestNetwork E ident cap w"

fun INetController_ReleaseNetwork ::
    "conn_env \<Rightarrow> INetController \<Rightarrow> string \<Rightarrow> NetCapabilities \<Rightarrow> world \<Rightarrow> int32 \<times> world" where
  "INetController_ReleaseNetwork E TelephonyController ident cap w =
     TelephonyController_ReleaseNetwork E ident cap w"

definition NetControllerFactory_GetNetControllerFromMap ::
    "uint32 \<Rightarrow> net_controllers \<Rightarrow> INetController option" where
  "NetControllerFactory_GetNetControllerFromMap netType cs = cs netType"

definition NetControllerFactory_MakeNetController ::
    "uint32 \<Rightarrow> net_controllers \<Rightarrow> INetController option \<times> net_controllers" where
  "NetControllerFactory_MakeNetController netType cs =
     (case NetControllerFactory_GetNetControllerFromMap netType cs of
        Some c \<Rightarrow> (Some c, cs)
      | None \<Rightarrow>
          if netType = NetworkType_val NET_TYPE_CELLULAR
          then (Some TelephonyController, cs(NetworkType_val NET_TYPE_CELLULAR \<mapsto> TelephonyController))
          else (None, cs))"

section \<open>NetSupplier\<close>

record net_supplier =
  ns_netController :: "INetController option"
  ns_netSupplierType :: NetworkType
  ns_netSupplierIdent :: string
  ns_supplierId :: uint32
  ns_frequency :: uint16
  ns_strength :: uint8
  ns_connected :: bool
  ns_isAvailable :: bool
  ns_isRoaming :: bool

definition g_nextNetSupplierId_init :: uint32 where
  "g_nextNetSupplierId_init = 0x03EB"

text \<open>The constructor takes the next identifier; the counter wraps at 32 bits.\<close>

definition NetSupplier_new ::
    "NetworkType \<Rightarrow> string \<Rightarrow> net_controllers \<times> uint32 \<Rightarrow> net_supplier \<times> net_controllers \<times> uint32" where
  "NetSupplier_new ty ident st =
     (let (ctl, cs) = NetControllerFactory_MakeNetController (NetworkType_val ty) (fst st)
      in (\<lparr>ns_netController = ctl, ns_netSupplierType = ty, ns_netSupplierIdent = ident,
           ns_supplierId = snd st, ns_frequency = 0, ns_strength = 0, ns_connected = False,
           ns_isAvailable = False, ns_isRoaming = False\<rparr>, cs, snd st + 1))"

definition NetSupplier_eq :: "net_supplier \<Rightarrow> net_supplier \<Rightarrow> bool" where
  "NetSupplier_eq a b \<longleftrightarrow> ns_supplierId a = ns_supplierId b \<and>
     ns_netSupplierType a = ns_netSupplierType b \<and> ns_netSupplierIdent a = ns_netSupplierIdent b"

definition REG_OK :: int32 where "REG_OK = 1"

definition NetSupplier_SupplierConnection ::
    "conn_env \<Rightarrow> NetCapabilities \<Rightarrow> net_supplier \<Rightarrow> world \<Rightarrow> bool \<times> net_supplier \<times> world" where
  "NetSupplier_SupplierConnection E cap spl w =
     (case ns_netController spl of
          None \<Rightarrow> (False, spl, w)
        | Some ctl \<Rightarrow>
            let (errCode, w') = INetController_RequestNetwork E ctl (ns_netSupplierIdent spl) cap w
            in if errCode = REG_OK then (True, spl\<lparr>ns_connected := True\<rparr>, w') else (False, spl, w'))"

definition NetSupplier_SupplierDisconnection ::
    "conn_env \<Rightarrow> NetCapabilities \<Rightarrow> net_supplier \<Rightarrow> world \<Rightarrow> bool \<times> net_supplier \<times> world" where
  "NetSupplier_SupplierDisconnection E cap spl w =
     (case ns_netController spl of
          None \<Rightarrow> (False, spl, w)
        | Some ctl \<Rightarrow>
            let (errCode, w') = INetController_ReleaseNetwork E ctl (ns_netSupplierIdent spl) cap w
            in if errCode = REG_OK then (True, spl\<lparr>ns_connected := False\<rparr>, w') else (False, spl, w'))"

text \<open>\<open>frequency_\<close> has 16 bits, the field of \<open>NetSupplierInfo\<close> 32: the assignment truncates.\<close>

definition NetSupplier_UpdateNetSupplierInfo :: "NetSupplierInfo \<Rightarrow> net_supplier \<Rightarrow> net_supplier" where
  "NetSupplier_UpdateNetSupplierInfo info spl =
     spl\<lparr>ns_isAvailable := si_isAvailable info, ns_isRoaming := si_isRoaming info,
         ns_strength := si_strength info, ns_frequency := ucast (si_frequency info)\<rparr>"

text \<open>The getters of strength and frequency are declared to return \<open>bool\<close>.\<close>

definition NetSupplier_GetStrength :: "net_supplier \<Rightarrow> bool" where
  "NetSupplier_GetStrength spl \<longleftrightarrow> ns_strength spl \<noteq> 0"

definition NetSupplier_GetFrequency :: "net_supplier \<Rightarrow> bool" where
  "NetSupplier_GetFrequency spl \<longleftrightarrow> ns_frequency spl \<noteq> 0"

section \<open>Lemmas\<close>

lemma NetSupplier_eq_refl [simp]: "NetSupplier_eq a a"
  by (simp add: NetSupplier_eq_def)

text \<open>The map of controllers holds at most the telephony controller, under its own type.\<close>

definition controllers_inv :: "net_controllers \<Rightarrow> bool" where
  "controllers_inv cs \<longleftrightarrow> dom cs \<subseteq> {NetworkType_val NET_TYPE_CELLULAR}"

lemma MakeNetController_inv [nm_inv]:
  "controllers_inv cs \<Longrightarrow> controllers_inv (snd (NetControllerFactory_MakeNetController t cs))"
  by (auto simp: controllers_inv_def NetControllerFactory_MakeNetController_def split: option.splits)

lemma MakeNetController_cellular:
  assumes "controllers_inv cs"
  shows "fst (NetControllerFactory_MakeNetController (NetworkType_val t) cs) =
    (if t = NET_TYPE_CELLULAR then Some TelephonyController else None)"
proof (cases "cs (NetworkType_val t)")
  case None
  then show ?thesis
    using NetworkType_val_inject [of t NET_TYPE_CELLULAR]
    by (simp add: NetControllerFactory_MakeNetController_def NetControllerFactory_GetNetControllerFromMap_def
        del: NetworkType_val_inject)
next
  case (Some c)
  then have "NetworkType_val t = NetworkType_val NET_TYPE_CELLULAR"
    using assms unfolding controllers_inv_def by blast
  then have "t = NET_TYPE_CELLULAR" using NetworkType_val_inject by blast
  with Some show ?thesis
    by (cases c) (simp add: NetControllerFactory_MakeNetController_def NetControllerFactory_GetNetControllerFromMap_def)
qed

lemma NetSupplier_new_fields:
  assumes "controllers_inv (fst st)" and "NetSupplier_new ty ident st = (spl, cs, n)"
  shows "ns_netController spl = (if ty = NET_TYPE_CELLULAR then Some TelephonyController else None)"
    "ns_netSupplierType spl = ty" "ns_netSupplierIdent spl = ident" "ns_supplierId spl = snd st"
    "\<not> ns_connected spl" "controllers_inv cs" "n = snd st + 1"
  using assms MakeNetController_cellular [OF assms(1), of ty] MakeNetController_inv [OF assms(1)]
  by (auto simp: NetSupplier_new_def Let_def split: prod.splits) (metis snd_conv)+

text \<open>What a release does: nothing for a supplier without a controller, else one request.\<close>

lemma SupplierDisconnection_None:
  "ns_netController spl = None \<Longrightarrow>
    NetSupplier_SupplierDisconnection E cap spl w = (False, spl, w)"
  by (simp add: NetSupplier_SupplierDisconnection_def)

definition release_ok :: "conn_env \<Rightarrow> conn_event list \<Rightarrow> string \<Rightarrow> NetCapabilities \<Rightarrow> bool" where
  "release_ok E es ident cap \<longleftrightarrow> env_releaseNet E es ident (ucast (NetCapabilities_val cap)) = REG_OK"

lemma SupplierDisconnection_Some:
  "ns_netController spl = Some TelephonyController \<Longrightarrow>
    NetSupplier_SupplierDisconnection E cap spl w =
      (release_ok E (wd_events w) (ns_netSupplierIdent spl) cap,
       if release_ok E (wd_events w) (ns_netSupplierIdent spl) cap then spl\<lparr>ns_connected := False\<rparr> else spl,
       world_logs [EvReleaseNet (ns_netSupplierIdent spl) (ucast (NetCapabilities_val cap))] w)"
  by (simp add: NetSupplier_SupplierDisconnection_def TelephonyController_ReleaseNetwork_def Let_def
      release_ok_def)

text \<open>A supplier only changes its status fields after its construction.\<close>

definition supplier_id_eq :: "net_supplier \<Rightarrow> net_supplier \<Rightarrow> bool" where
  "supplier_id_eq a b \<longleftrightarrow> ns_netController a = ns_netController b \<and>
     ns_netSupplierType a = ns_netSupplierType b \<and> ns_netSupplierIdent a = ns_netSupplierIdent b \<and>
     ns_supplierId a = ns_supplierId b"

lemma UpdateNetSupplierInfo_id: "supplier_id_eq (NetSupplier_UpdateNetSupplierInfo info spl) spl"
  by (simp add: supplier_id_eq_def NetSupplier_UpdateNetSupplierInfo_def)

lemma SupplierDisconnection_id:
  "supplier_id_eq (fst (snd (NetSupplier_SupplierDisconnection E cap spl w))) spl"
  by (auto simp: NetSupplier_SupplierDisconnection_def supplier_id_eq_def Let_def
      split: option.splits prod.splits)

end
