(* ===== verification/Net_Id_Manager.thy ===== *)
theory Net_Id_Manager
  imports NM_Types
begin

text \<open>
  \<open>NetIdManager\<close> (\<open>net_id_manager.h\<close>, \<open>net_id_manager.cpp\<close>): the pool of
  network identifiers. The map \<open>netIdInUse\<close> is a partial function; the loop of
  \<open>ReserveNetId\<close> is recursion on the number of iterations left. The interface the
  connection service relies on is the locale \<open>id_pool\<close>, interpreted here on the model.
  A member such as \<open>lastNetId_\<close> is the record field \<open>lastNetId\<close>: a name of the logic
  cannot end in an underscore, here and in every other theory. Every value lies between -1 and \<open>MAX_NET_ID\<close>, so \<open>int32_t\<close> never wraps here.
\<close>

section \<open>The model\<close>

definition TUN_IF_RANGE :: int where "TUN_IF_RANGE = 0x0400"
definition MAX_NET_ID :: int where "MAX_NET_ID = 65535 - TUN_IF_RANGE"
definition MIN_NET_ID :: int where "MIN_NET_ID = 100"

record net_id_manager =
  lastNetId :: int
  maxNetId :: int
  netIdInUse :: "int \<rightharpoonup> bool"

definition NetIdManager_init :: net_id_manager where
  "NetIdManager_init = \<lparr>lastNetId = - 1, maxNetId = MAX_NET_ID, netIdInUse = Map.empty\<rparr>"

text \<open>One iteration moves \<open>lastNetId\<close> on; a free identifier is marked and ends the loop.\<close>

definition next_net_id :: "net_id_manager \<Rightarrow> int" where
  "next_net_id m = (if lastNetId m < maxNetId m then lastNetId m + 1 else MIN_NET_ID)"

fun ReserveNetId_loop :: "nat \<Rightarrow> net_id_manager \<Rightarrow> net_id_manager" where
  "ReserveNetId_loop 0 m = m"
| "ReserveNetId_loop (Suc n) m =
     (let m1 = m\<lparr>lastNetId := next_net_id m\<rparr>
      in if netIdInUse m1 (lastNetId m1) = None
         then m1\<lparr>netIdInUse := (netIdInUse m1)(lastNetId m1 \<mapsto> True)\<rparr>
         else ReserveNetId_loop n m1)"

definition NetIdManager_ReserveNetId :: "net_id_manager \<Rightarrow> int \<times> net_id_manager" where
  "NetIdManager_ReserveNetId m =
     (let m' = ReserveNetId_loop (nat (maxNetId m - MIN_NET_ID + 1)) m in (lastNetId m', m'))"

definition NetIdManager_ReleaseNetId :: "int \<Rightarrow> net_id_manager \<Rightarrow> net_id_manager" where
  "NetIdManager_ReleaseNetId netId m =
     (if netIdInUse m netId \<noteq> None then m\<lparr>netIdInUse := (netIdInUse m)(netId := None)\<rparr> else m)"

lemmas net_id_consts [nm_consts] = TUN_IF_RANGE_def MAX_NET_ID_def MIN_NET_ID_def

section \<open>Invariant and scan lemmas\<close>

text \<open>
  The identifiers below \<open>MIN_NET_ID\<close> are handed out once, in order, before the first wrap;
  while \<open>lastNetId\<close> is still below \<open>MIN_NET_ID\<close> everything above it is free.
\<close>

definition net_id_inv :: "net_id_manager \<Rightarrow> bool" where
  "net_id_inv m \<longleftrightarrow>
     - 1 \<le> lastNetId m \<and> lastNetId m \<le> MAX_NET_ID \<and> maxNetId m = MAX_NET_ID \<and>
     dom (netIdInUse m) \<subseteq> {0..MAX_NET_ID} \<and>
     (lastNetId m < MIN_NET_ID \<longrightarrow> dom (netIdInUse m) \<subseteq> {0..lastNetId m})"

definition net_id_free :: "net_id_manager \<Rightarrow> bool" where
  "net_id_free m \<longleftrightarrow> (\<exists>i. MIN_NET_ID \<le> i \<and> i \<le> MAX_NET_ID \<and> i \<notin> dom (netIdInUse m))"

lemma net_id_inv_init [nm_inv]: "net_id_inv NetIdManager_init"
  by (simp add: net_id_inv_def NetIdManager_init_def nm_consts)

lemma next_net_id_range: "net_id_inv m \<Longrightarrow> 0 \<le> next_net_id m \<and> next_net_id m \<le> MAX_NET_ID"
  by (auto simp: net_id_inv_def next_net_id_def nm_consts)

lemma net_id_inv_mark:
  assumes "net_id_inv m" and "netIdInUse m (next_net_id m) = None"
  shows "net_id_inv (m\<lparr>lastNetId := next_net_id m,
    netIdInUse := (netIdInUse m)(next_net_id m \<mapsto> True)\<rparr>)"
  using assms by (auto simp: net_id_inv_def next_net_id_def nm_consts)

lemma net_id_inv_skip:
  assumes "net_id_inv m" and "netIdInUse m (next_net_id m) \<noteq> None"
  shows "net_id_inv (m\<lparr>lastNetId := next_net_id m\<rparr>) \<and> MIN_NET_ID \<le> next_net_id m"
proof -
  have "MIN_NET_ID \<le> next_net_id m"
  proof (rule ccontr)
    assume small: "\<not> MIN_NET_ID \<le> next_net_id m"
    then have "lastNetId m < MIN_NET_ID" and nx: "next_net_id m = lastNetId m + 1"
      using assms(1) by (auto simp: next_net_id_def net_id_inv_def split: if_splits)
    then have "dom (netIdInUse m) \<subseteq> {0..lastNetId m}"
      using assms(1) by (simp add: net_id_inv_def)
    moreover have "next_net_id m \<in> dom (netIdInUse m)" using assms(2) by auto
    ultimately show False using nx by auto
  qed
  then show ?thesis
    using assms(1) next_net_id_range [OF assms(1)] by (auto simp: net_id_inv_def)
qed

lemma loop_Suc_free:
  "netIdInUse m (next_net_id m) = None \<Longrightarrow> ReserveNetId_loop (Suc n) m =
    m\<lparr>lastNetId := next_net_id m, netIdInUse := (netIdInUse m)(next_net_id m \<mapsto> True)\<rparr>"
  by (simp add: Let_def)

lemma loop_Suc_used:
  "netIdInUse m (next_net_id m) \<noteq> None \<Longrightarrow>
   ReserveNetId_loop (Suc n) m = ReserveNetId_loop n (m\<lparr>lastNetId := next_net_id m\<rparr>)"
  by (auto simp: Let_def)

declare ReserveNetId_loop.simps(2) [simp del]

lemma ReserveNetId_loop_inv: "net_id_inv m \<Longrightarrow> net_id_inv (ReserveNetId_loop n m)"
proof (induction n m rule: ReserveNetId_loop.induct)
  case (2 n m)
  show ?case
  proof (cases "netIdInUse m (next_net_id m) = None")
    case True
    then show ?thesis using net_id_inv_mark [OF 2(2)] by (simp add: loop_Suc_free)
  next
    case False
    then show ?thesis using 2 net_id_inv_skip [OF 2(2)] by (simp add: loop_Suc_used)
  qed
qed simp

lemma ReserveNetId_inv [nm_inv]:
  "net_id_inv m \<Longrightarrow> net_id_inv (snd (NetIdManager_ReserveNetId m))"
  by (simp add: NetIdManager_ReserveNetId_def Let_def ReserveNetId_loop_inv)

lemma ReserveNetId_range:
  "net_id_inv m \<Longrightarrow> MIN_NET_ID \<le> MAX_NET_ID \<Longrightarrow>
   0 \<le> fst (NetIdManager_ReserveNetId m) \<and> fst (NetIdManager_ReserveNetId m) \<le> MAX_NET_ID"
proof -
  assume inv: "net_id_inv m"
  have "0 < n \<Longrightarrow> 0 \<le> lastNetId (ReserveNetId_loop n m)" if "net_id_inv m" for n m
    using that
  proof (induction n m rule: ReserveNetId_loop.induct)
    case (2 n m)
    show ?case
    proof (cases "netIdInUse m (next_net_id m) = None")
      case True
      then show ?thesis using next_net_id_range [OF 2(3)] by (simp add: loop_Suc_free)
    next
      case False
      then show ?thesis using 2 next_net_id_range [OF 2(3)] net_id_inv_skip [OF 2(3)]
        by (cases n) (simp_all add: loop_Suc_used)
    qed
  qed simp
  from this [OF inv, of "nat (maxNetId m - MIN_NET_ID + 1)"] show ?thesis
    using inv ReserveNetId_loop_inv [OF inv, of "nat (maxNetId m - MIN_NET_ID + 1)"]
    by (auto simp: NetIdManager_ReserveNetId_def Let_def net_id_inv_def nm_consts)
qed

lemma ReleaseNetId_inv [nm_inv]:
  "net_id_inv m \<Longrightarrow> net_id_inv (NetIdManager_ReleaseNetId i m)"
  by (auto simp: net_id_inv_def NetIdManager_ReleaseNetId_def split: if_splits)

text \<open>What a scan of \<open>n\<close> steps does when it meets a free identifier, and when it does not.\<close>

fun step_ids :: "nat \<Rightarrow> int \<Rightarrow> int" where
  "step_ids 0 i = i"
| "step_ids (Suc k) i = step_ids k (if i < MAX_NET_ID then i + 1 else MIN_NET_ID)"

lemma loop_all_used:
  assumes "maxNetId m = MAX_NET_ID"
    and "\<forall>k < n. step_ids (Suc k) (lastNetId m) \<in> dom (netIdInUse m)"
  shows "ReserveNetId_loop n m = m\<lparr>lastNetId := step_ids n (lastNetId m)\<rparr>"
  using assms
proof (induction n arbitrary: m)
  case (Suc n)
  let ?m1 = "m\<lparr>lastNetId := next_net_id m\<rparr>"
  have nx: "step_ids (Suc 0) (lastNetId m) = next_net_id m"
    using Suc.prems(1) by (simp add: next_net_id_def)
  then have used: "netIdInUse m (next_net_id m) \<noteq> None"
    using Suc.prems(2) by (metis domIff zero_less_Suc)
  have "\<forall>k < n. step_ids (Suc k) (lastNetId ?m1) \<in> dom (netIdInUse ?m1)"
    using Suc.prems(2) nx by auto
  then have "ReserveNetId_loop n ?m1 = ?m1\<lparr>lastNetId := step_ids n (lastNetId ?m1)\<rparr>"
    using Suc.prems(1) by (intro Suc.IH) simp_all
  then show ?case using used nx by (simp add: loop_Suc_used)
qed simp

lemma loop_finds_free:
  assumes "maxNetId m = MAX_NET_ID"
    and "k < n" and "step_ids (Suc k) (lastNetId m) \<notin> dom (netIdInUse m)"
  shows "\<exists>i. i \<notin> dom (netIdInUse m) \<and>
    ReserveNetId_loop n m = m\<lparr>lastNetId := i, netIdInUse := (netIdInUse m)(i \<mapsto> True)\<rparr>"
  using assms
proof (induction n arbitrary: m k)
  case (Suc n)
  let ?m1 = "m\<lparr>lastNetId := next_net_id m\<rparr>"
  have nx: "step_ids (Suc 0) (lastNetId m) = next_net_id m"
    using Suc.prems(1) by (simp add: next_net_id_def)
  show ?case
  proof (cases "netIdInUse m (next_net_id m) = None")
    case True
    have "next_net_id m \<notin> dom (netIdInUse m)" using True by auto
    with loop_Suc_free [OF True, of n] show ?thesis by blast
  next
    case False
    then obtain j where k: "k = Suc j" using Suc.prems(3) nx by (cases k) auto
    have "step_ids (Suc j) (lastNetId ?m1) \<notin> dom (netIdInUse ?m1)"
      using Suc.prems(3) Suc.prems(1) k by (simp add: next_net_id_def)
    with Suc.prems(1,2) k have "\<exists>i. i \<notin> dom (netIdInUse ?m1) \<and> ReserveNetId_loop n ?m1 =
        ?m1\<lparr>lastNetId := i, netIdInUse := (netIdInUse ?m1)(i \<mapsto> True)\<rparr>"
      by (intro Suc.IH [of ?m1 j]) simp_all
    moreover have "?m1\<lparr>lastNetId := i, netIdInUse := (netIdInUse ?m1)(i \<mapsto> True)\<rparr> =
        m\<lparr>lastNetId := i, netIdInUse := (netIdInUse m)(i \<mapsto> True)\<rparr>" for i by simp
    ultimately show ?thesis unfolding loop_Suc_used [OF False] by fastforce
  qed
qed simp

text \<open>The scan moves up to \<open>MAX_NET_ID\<close>, then runs through the whole range again.\<close>

lemma step_ids_lin: "i + int k \<le> MAX_NET_ID \<Longrightarrow> step_ids k i = i + int k"
  by (induction k arbitrary: i) auto

lemma step_ids_add: "step_ids (a + b) i = step_ids b (step_ids a i)"
  by (induction a arbitrary: i) auto

lemma step_ids_wrap:
  assumes "i \<le> MAX_NET_ID" and "MIN_NET_ID + int k \<le> MAX_NET_ID"
  shows "step_ids (nat (MAX_NET_ID - i) + Suc k) i = MIN_NET_ID + int k"
proof -
  have "step_ids (nat (MAX_NET_ID - i)) i = MAX_NET_ID"
    using assms(1) step_ids_lin [of i "nat (MAX_NET_ID - i)"] by simp
  then show ?thesis using assms(2) step_ids_lin [of MIN_NET_ID k]
    by (simp add: step_ids_add del: add_Suc_right)
qed

lemma step_ids_covers:
  assumes "MIN_NET_ID - 1 \<le> i" and "i \<le> MAX_NET_ID" and "MIN_NET_ID \<le> j" and "j \<le> MAX_NET_ID"
  shows "\<exists>k < nat (MAX_NET_ID - MIN_NET_ID + 1). step_ids (Suc k) i = j"
proof (cases "i < j")
  case True
  then have "step_ids (Suc (nat (j - i - 1))) i = j"
    using assms(4) step_ids_lin [of i "Suc (nat (j - i - 1))"] by simp
  moreover have "nat (j - i - 1) < nat (MAX_NET_ID - MIN_NET_ID + 1)"
    using True assms by linarith
  ultimately show ?thesis by blast
next
  case False
  then have "step_ids (nat (MAX_NET_ID - i) + Suc (nat (j - MIN_NET_ID))) i = j"
    using assms step_ids_wrap [of i "nat (j - MIN_NET_ID)"] by simp
  moreover have "nat (MAX_NET_ID - i) + nat (j - MIN_NET_ID) < nat (MAX_NET_ID - MIN_NET_ID + 1)"
    using False assms by linarith
  ultimately show ?thesis by (metis add_Suc_right)
qed

lemma step_ids_cycle:
  assumes "MIN_NET_ID \<le> i" and "i \<le> MAX_NET_ID"
  shows "step_ids (nat (MAX_NET_ID - MIN_NET_ID + 1)) i = i"
proof -
  have "nat (MAX_NET_ID - MIN_NET_ID + 1) = nat (MAX_NET_ID - i) + Suc (nat (i - MIN_NET_ID))"
    using assms by linarith
  then show ?thesis using step_ids_wrap [of i "nat (i - MIN_NET_ID)"] assms by simp
qed

lemma ReserveNetId_free:
  assumes "net_id_inv m" and "net_id_free m"
  shows "\<exists>i. i \<notin> dom (netIdInUse m) \<and> NetIdManager_ReserveNetId m =
    (i, m\<lparr>lastNetId := i, netIdInUse := (netIdInUse m)(i \<mapsto> True)\<rparr>)"
proof -
  have mx: "maxNetId m = MAX_NET_ID" using assms(1) by (simp add: net_id_inv_def)
  have "\<exists>k < nat (MAX_NET_ID - MIN_NET_ID + 1).
      step_ids (Suc k) (lastNetId m) \<notin> dom (netIdInUse m)"
  proof (cases "lastNetId m < MIN_NET_ID - 1")
    case True
    then have "step_ids (Suc 0) (lastNetId m) = lastNetId m + 1" by (simp add: nm_consts)
    moreover have "lastNetId m + 1 \<notin> dom (netIdInUse m)"
      using assms(1) True by (auto simp: net_id_inv_def)
    ultimately show ?thesis
      by (intro exI [of _ 0]) (simp add: nm_consts)
  next
    case False
    obtain j where "MIN_NET_ID \<le> j" "j \<le> MAX_NET_ID" "j \<notin> dom (netIdInUse m)"
      using assms(2) by (auto simp: net_id_free_def)
    then show ?thesis
      using step_ids_covers [of "lastNetId m" j] False assms(1)
      by (auto simp: net_id_inv_def simp del: step_ids.simps)
  qed
  then show ?thesis
    using loop_finds_free [OF mx] mx
    by (fastforce simp: NetIdManager_ReserveNetId_def Let_def simp del: step_ids.simps)
qed

section \<open>The pool as an interface\<close>

text \<open>Draw \<open>n\<close> identifiers one after the other from a pool.\<close>

fun reserve_seq :: "('m \<Rightarrow> 'i \<times> 'm) \<Rightarrow> nat \<Rightarrow> 'm \<Rightarrow> 'i list \<times> 'm" where
  "reserve_seq r 0 m = ([], m)"
| "reserve_seq r (Suc n) m =
     (let is = reserve_seq r n (snd (r m)) in (fst (r m) # fst is, snd is))"

locale id_pool =
  fixes reserve :: "'m \<Rightarrow> 'i \<times> 'm"
    and used :: "'m \<Rightarrow> 'i set"
    and avail :: "'m \<Rightarrow> bool"
    and inv :: "'m \<Rightarrow> bool"
  assumes reserve_inv: "inv m \<Longrightarrow> inv (snd (reserve m))"
    and reserve_fresh: "inv m \<Longrightarrow> avail m \<Longrightarrow> fst (reserve m) \<notin> used m"
    and reserve_used:
      "inv m \<Longrightarrow> avail m \<Longrightarrow> used (snd (reserve m)) = insert (fst (reserve m)) (used m)"
begin

lemma reserve_seq_inv: "inv m \<Longrightarrow> inv (snd (reserve_seq reserve n m))"
  by (induction n arbitrary: m) (auto simp: Let_def reserve_inv)

lemma reserve_seq_distinct:
  assumes "inv m" and "\<forall>k < n. avail (snd (reserve_seq reserve k m))"
  shows "distinct (fst (reserve_seq reserve n m)) \<and>
    set (fst (reserve_seq reserve n m)) \<inter> used m = {}"
  using assms
proof (induction n arbitrary: m)
  case (Suc n)
  let ?m = "snd (reserve m)"
  have av: "avail m" using Suc.prems(2) [rule_format, of 0] by simp
  have "\<forall>k < n. avail (snd (reserve_seq reserve k ?m))"
    using Suc.prems(2) [rule_format, of "Suc k" for k] by (simp add: Let_def)
  then have "distinct (fst (reserve_seq reserve n ?m)) \<and>
      set (fst (reserve_seq reserve n ?m)) \<inter> used ?m = {}"
    using Suc.IH reserve_inv [OF Suc.prems(1)] by blast
  then show ?case
    using reserve_used [OF Suc.prems(1) av] reserve_fresh [OF Suc.prems(1) av]
    by (auto simp: Let_def)
qed simp

end

interpretation net_ids: id_pool NetIdManager_ReserveNetId "\<lambda>m. dom (netIdInUse m)"
  net_id_free net_id_inv
proof unfold_locales
  show "net_id_inv (snd (NetIdManager_ReserveNetId m))" if "net_id_inv m" for m
    using that by (rule ReserveNetId_inv)
  show "fst (NetIdManager_ReserveNetId m) \<notin> dom (netIdInUse m)"
    if "net_id_inv m" "net_id_free m" for m
    using ReserveNetId_free [OF that] by auto
  show "dom (netIdInUse (snd (NetIdManager_ReserveNetId m))) =
      insert (fst (NetIdManager_ReserveNetId m)) (dom (netIdInUse m))"
    if "net_id_inv m" "net_id_free m" for m
    using ReserveNetId_free [OF that] by auto
qed

section \<open>Properties\<close>

lemma ReserveNetId_from_prefix:
  assumes "k \<le> nat MAX_NET_ID"
  shows "NetIdManager_ReserveNetId
      \<lparr>lastNetId = int k - 1, maxNetId = MAX_NET_ID, netIdInUse = (\<lambda>i. if 0 \<le> i \<and> i < int k then Some True else None)\<rparr> =
    (int k, \<lparr>lastNetId = int (Suc k) - 1, maxNetId = MAX_NET_ID,
      netIdInUse = (\<lambda>i. if 0 \<le> i \<and> i < int (Suc k) then Some True else None)\<rparr>)"
proof -
  let ?f = "\<lambda>k::nat. \<lambda>i. if 0 \<le> i \<and> i < int k then Some True else None"
  have "(?f k)(int k \<mapsto> True) = ?f (Suc k)" by (auto simp: fun_eq_iff)
  moreover obtain n where "nat (MAX_NET_ID - MIN_NET_ID + 1) = Suc n"
    by (cases "nat (MAX_NET_ID - MIN_NET_ID + 1)") (auto simp: nm_consts)
  moreover have "int k - 1 < MAX_NET_ID" using assms by (simp add: nm_consts)
  ultimately show ?thesis
    by (simp add: NetIdManager_ReserveNetId_def loop_Suc_free next_net_id_def Let_def)
qed

lemma reserve_seq_prefix:
  assumes "k + n \<le> Suc (nat MAX_NET_ID)"
  shows "fst (reserve_seq NetIdManager_ReserveNetId n
      \<lparr>lastNetId = int k - 1, maxNetId = MAX_NET_ID, netIdInUse = (\<lambda>i. if 0 \<le> i \<and> i < int k then Some True else None)\<rparr>) =
    map int [k..<k + n]"
  using assms
proof (induction n arbitrary: k)
  case (Suc n)
  have "k \<le> nat MAX_NET_ID" and "Suc k + n \<le> Suc (nat MAX_NET_ID)" using Suc.prems by simp_all
  then show ?case
    using Suc.IH [of "Suc k"] by (simp add: Let_def ReserveNetId_from_prefix upt_rec)
qed simp

text \<open>
  C21. As long as some identifier between \<open>MIN_NET_ID\<close> and \<open>MAX_NET_ID\<close> is free,
  \<open>ReserveNetId\<close> returns an identifier that was not in use, within the range of identifiers,
  marks exactly it as used, and keeps the invariant of the manager.
\<close>

theorem ReserveNetId_fresh:
  assumes "net_id_inv m" and "net_id_free m"
  shows "fst (NetIdManager_ReserveNetId m) \<notin> dom (netIdInUse m) \<and>
    0 \<le> fst (NetIdManager_ReserveNetId m) \<and> fst (NetIdManager_ReserveNetId m) \<le> MAX_NET_ID \<and>
    dom (netIdInUse (snd (NetIdManager_ReserveNetId m))) =
      insert (fst (NetIdManager_ReserveNetId m)) (dom (netIdInUse m)) \<and>
    net_id_inv (snd (NetIdManager_ReserveNetId m))"
  using net_ids.reserve_fresh [OF assms] net_ids.reserve_used [OF assms]
    net_ids.reserve_inv [OF assms(1)] ReserveNetId_range [OF assms(1)]
  by (simp add: nm_consts)

theorem ReserveNetId_fresh_witness:
  "fst (NetIdManager_ReserveNetId NetIdManager_init) \<notin> dom (netIdInUse NetIdManager_init)"
proof -
  have "net_id_free NetIdManager_init"
    by (auto simp: net_id_free_def NetIdManager_init_def nm_consts intro!: exI [of _ 100])
  then show ?thesis using ReserveNetId_fresh [OF net_id_inv_init] by blast
qed

text \<open>
  The identifiers drawn from a new manager without any release are \<open>0, 1, 2, \<dots>\<close> in
  order, up to \<open>MAX_NET_ID\<close>: all distinct, but the first hundred lie below
  \<open>MIN_NET_ID\<close>, because \<open>lastNetId_\<close> starts at -1.
\<close>

theorem net_ids_in_order:
  assumes "n \<le> nat MAX_NET_ID + 1"
  shows "fst (reserve_seq NetIdManager_ReserveNetId n NetIdManager_init) = map int [0..<n]"
proof -
  have "NetIdManager_init = \<lparr>lastNetId = int 0 - 1, maxNetId = MAX_NET_ID,
      netIdInUse = (\<lambda>i. if 0 \<le> i \<and> i < int 0 then Some True else None)\<rparr>"
    by (auto simp: NetIdManager_init_def fun_eq_iff)
  then show ?thesis using assms reserve_seq_prefix [of 0 n] by simp
qed

theorem net_ids_in_order_witness:
  "fst (reserve_seq NetIdManager_ReserveNetId 3 NetIdManager_init) = [0, 1, 2] \<and> 2 < MIN_NET_ID"
  using net_ids_in_order [of 3] by (simp add: nm_consts upt_rec)

text \<open>
  When every identifier from \<open>MIN_NET_ID\<close> to \<open>MAX_NET_ID\<close> is in use, the loop
  of \<open>ReserveNetId\<close> ends without finding one and the identifier it returns is already in
  use; the manager is unchanged. No code calls \<open>ReleaseNetId\<close>, so the pool does run out.
\<close>

theorem ReserveNetId_exhausted:
  assumes "net_id_inv m" and "MIN_NET_ID \<le> lastNetId m" and "\<not> net_id_free m"
  shows "NetIdManager_ReserveNetId m = (lastNetId m, m) \<and> lastNetId m \<in> dom (netIdInUse m)"
proof -
  have inv: "maxNetId m = MAX_NET_ID" "lastNetId m \<le> MAX_NET_ID"
    using assms(1) by (simp_all add: net_id_inv_def)
  have mem: "i \<in> dom (netIdInUse m)" if "MIN_NET_ID \<le> i" "i \<le> MAX_NET_ID" for i
    using assms(3) that by (auto simp: net_id_free_def)
  have rng: "MIN_NET_ID \<le> step_ids k i \<and> step_ids k i \<le> MAX_NET_ID"
    if "MIN_NET_ID \<le> i" "i \<le> MAX_NET_ID" for k i
    using that by (induction k arbitrary: i) (auto simp: nm_consts)
  have "ReserveNetId_loop (nat (MAX_NET_ID - MIN_NET_ID + 1)) m =
      m\<lparr>lastNetId := step_ids (nat (MAX_NET_ID - MIN_NET_ID + 1)) (lastNetId m)\<rparr>"
    using inv assms(2) rng mem by (intro loop_all_used) (auto simp del: step_ids.simps)
  then show ?thesis
    using inv assms(2) mem step_ids_cycle by (simp add: NetIdManager_ReserveNetId_def)
qed

theorem ReserveNetId_exhausted_witness:
  "fst (NetIdManager_ReserveNetId \<lparr>lastNetId = MAX_NET_ID, maxNetId = MAX_NET_ID,
     netIdInUse = (\<lambda>i. if 0 \<le> i \<and> i \<le> MAX_NET_ID then Some True else None)\<rparr>) = MAX_NET_ID"
proof -
  let ?m = "\<lparr>lastNetId = MAX_NET_ID, maxNetId = MAX_NET_ID,
     netIdInUse = (\<lambda>i. if 0 \<le> i \<and> i \<le> MAX_NET_ID then Some True else None)\<rparr>"
  have "net_id_inv ?m" and "MIN_NET_ID \<le> lastNetId ?m" and "\<not> net_id_free ?m"
    by (auto simp: net_id_inv_def net_id_free_def nm_consts split: if_splits)
  from ReserveNetId_exhausted [OF this] show ?thesis by simp
qed

end
