(* ===== verification/Network_Model.thy ===== *)
theory Network_Model
  imports Net_Supplier Net_Id_Manager
begin

text \<open>
  \<open>Network\<close> (\<open>network.h\<close>, \<open>network.cpp\<close>): one network of a supplier. The object
  is a record; \<open>supplier_\<close> is the address of the supplier, and the operations that call the
  supplier take it and return it updated. The daemon is reached through the world. The routes and
  the interface the daemon has for a network are computed from its call log, and the interface
  \<open>mirrored_table\<close> states how a table is brought from one list to another by the two loops of
  \<open>UpdateRoutes\<close>.
\<close>

section \<open>State\<close>

record network =
  nw_netLinkInfo :: NetLinkInfo
  nw_ipAddr :: INetAddr
  nw_dns :: INetAddr
  nw_route :: Route
  nw_isPhyNetCreated :: bool
  nw_isConnecting :: bool
  nw_isConnected :: bool
  nw_supplier :: nat
  nw_netId :: int

definition nw_id32 :: "network \<Rightarrow> int32" where "nw_id32 nw = of_int (nw_netId nw)"
definition nw_id16 :: "network \<Rightarrow> uint16" where "nw_id16 nw = of_int (nw_netId nw)"

definition Network_new ::
    "conn_env \<Rightarrow> nat \<Rightarrow> net_id_manager \<Rightarrow> world \<Rightarrow> network \<times> net_id_manager \<times> world" where
  "Network_new E supplier idm w =
     (let (netId, idm') = NetIdManager_ReserveNetId idm;
          nw = \<lparr>nw_netLinkInfo = NetLinkInfo_new, nw_ipAddr = INetAddr_new, nw_dns = INetAddr_new,
             nw_route = \<lparr>rt_iface = [], rt_destination = INetAddr_new, rt_gateway = INetAddr_new\<rparr>,
             nw_isPhyNetCreated = False, nw_isConnecting = False, nw_isConnected = False,
             nw_supplier = supplier, nw_netId = netId\<rparr>
      in (nw, idm', with_netd (NetdController_CreateNetworkCache (env_netd E) (nw_id16 nw)) w))"

definition Network_delete :: "conn_env \<Rightarrow> network \<Rightarrow> world \<Rightarrow> world" where
  "Network_delete E nw w = with_netd (NetdController_DestoryNetworkCache (env_netd E) (nw_id16 nw)) w"

text \<open>Both suppliers are there whenever two networks are compared.\<close>

definition Network_eq :: "network \<times> net_supplier \<Rightarrow> network \<times> net_supplier \<Rightarrow> bool" where
  "Network_eq a b \<longleftrightarrow> NetSupplier_eq (snd a) (snd b) \<and> nw_netId (fst a) = nw_netId (fst b)"

section \<open>Connection\<close>

text \<open>\<open>NetworkConnect\<close> calls \<open>SupplierDisconnection\<close>, as the source does.\<close>

definition Network_NetworkConnect ::
    "conn_env \<Rightarrow> NetCapabilities \<Rightarrow> network \<Rightarrow> net_supplier \<Rightarrow> world \<Rightarrow> bool \<times> network \<times> net_supplier \<times> world" where
  "Network_NetworkConnect E cap nw spl w =
     (if nw_isConnected nw then (True, nw, spl, w)
      else let (ret, spl', w') = NetSupplier_SupplierDisconnection E cap spl w
           in if \<not> ret then (ret, nw, spl', w')
              else (ret, nw\<lparr>nw_isConnecting := True, nw_isConnected := True\<rparr>, spl', w'))"

definition Network_NetworkDisconnect ::
    "conn_env \<Rightarrow> NetCapabilities \<Rightarrow> network \<Rightarrow> net_supplier \<Rightarrow> world \<Rightarrow> bool \<times> network \<times> net_supplier \<times> world" where
  "Network_NetworkDisconnect E cap nw spl w =
     (if \<not> nw_isConnecting nw \<and> \<not> nw_isConnected nw then (False, nw, spl, w)
      else let (ret, spl', w') = NetSupplier_SupplierDisconnection E cap spl w
           in (ret, nw, spl', w'))"

section \<open>Link information\<close>

definition Network_UpdateInterfaces :: "conn_env \<Rightarrow> NetLinkInfo \<Rightarrow> network \<Rightarrow> world \<Rightarrow> world" where
  "Network_UpdateInterfaces E info nw w =
     (let old = li_ifaceName (nw_netLinkInfo nw); new = li_ifaceName info; N = env_netd E
      in if new = old then w
         else
           let w1 = (if new \<noteq> [] then with_netd (NetdController_NetworkAddInterface N (nw_id32 nw) new) w
                     else w)
           in if old \<noteq> [] then with_netd (NetdController_NetworkRemoveInterface N (nw_id32 nw) old) w1
              else w1)"

text \<open>What the daemon is told of a route: interface, destination address, gateway address.\<close>

type_synonym route_key = "string \<times> string \<times> string"

definition key_of :: "Route \<Rightarrow> route_key" where
  "key_of r = (rt_iface r, ia_address (rt_destination r), ia_address (rt_gateway r))"

definition netd_add_route :: "netd_env \<Rightarrow> int32 \<Rightarrow> route_key \<Rightarrow> world \<Rightarrow> world" where
  "netd_add_route N netId k = with_netd (NetdController_NetworkAddRoute N netId (fst k) (fst (snd k)) (snd (snd k)))"

definition netd_remove_route :: "netd_env \<Rightarrow> int32 \<Rightarrow> route_key \<Rightarrow> world \<Rightarrow> world" where
  "netd_remove_route N netId k =
     with_netd (NetdController_NetworkRemoveRoute N netId (fst k) (fst (snd k)) (snd (snd k)))"

text \<open>The two loops: \<open>std::find\<close> in the other list decides whether a call is made.\<close>

definition Network_UpdateRoutes :: "conn_env \<Rightarrow> NetLinkInfo \<Rightarrow> network \<Rightarrow> world \<Rightarrow> world" where
  "Network_UpdateRoutes E info nw w =
     (let old = li_routeList (nw_netLinkInfo nw); new = li_routeList info; N = env_netd E;
          w1 = fold (\<lambda>r w. if find (\<lambda>x. Route_eq x r) old = None
                      then netd_add_route N (nw_id32 nw) (key_of r) w else w) new w
      in fold (\<lambda>r w. if find (\<lambda>x. Route_eq x r) new = None
                      then netd_remove_route N (nw_id32 nw) (key_of r) w else w) old w1)"

definition Network_UpdateDnses :: "conn_env \<Rightarrow> NetLinkInfo \<Rightarrow> network \<Rightarrow> world \<Rightarrow> world" where
  "Network_UpdateDnses E info nw w =
     (let servers = map ia_address (li_dnsList info); domains = map ia_hostName (li_dnsList info)
      in with_netd (NetdController_SetResolverConfig (env_netd E) (nw_id16 nw) 0 1 servers domains) w)"

definition Network_updateMtu :: "conn_env \<Rightarrow> NetLinkInfo \<Rightarrow> network \<Rightarrow> world \<Rightarrow> world" where
  "Network_updateMtu E info nw w =
     (if li_mtu info = li_mtu (nw_netLinkInfo nw) then w
      else with_netd (NetdController_InterfaceSetMtu (env_netd E) (li_ifaceName info) (ucast (li_mtu info))) w)"

definition Network_UpdateNetLinkInfo ::
    "conn_env \<Rightarrow> NetLinkInfo \<Rightarrow> network \<Rightarrow> world \<Rightarrow> bool \<times> network \<times> world" where
  "Network_UpdateNetLinkInfo E info nw w =
     (let w1 = Network_UpdateInterfaces E info nw w;
          w2 = Network_UpdateRoutes E info nw w1;
          w3 = Network_UpdateDnses E info nw w2;
          w4 = Network_updateMtu E info nw w3
      in (True, nw\<lparr>nw_netLinkInfo := info\<rparr>, w4))"

definition Network_UpdateNetSupplierInfo ::
    "conn_env \<Rightarrow> NetSupplierInfo \<Rightarrow> network \<Rightarrow> net_supplier \<Rightarrow> world \<Rightarrow> bool \<times> network \<times> net_supplier \<times> world" where
  "Network_UpdateNetSupplierInfo E info nw spl w =
     (let spl' = NetSupplier_UpdateNetSupplierInfo info spl
      in if \<not> nw_isPhyNetCreated nw
         then (True, nw\<lparr>nw_isPhyNetCreated := True\<rparr>, spl',
               with_netd (NetdController_NetworkCreatePhysical (env_netd E) (nw_id32 nw) 0) w)
         else (True, nw, spl', w))"

text \<open>Plain setters.\<close>

definition Network_SetIpAdress :: "INetAddr \<Rightarrow> network \<Rightarrow> network" where
  "Network_SetIpAdress a nw = nw\<lparr>nw_ipAddr := a\<rparr>"
definition Network_SetDns :: "INetAddr \<Rightarrow> network \<Rightarrow> network" where
  "Network_SetDns a nw = nw\<lparr>nw_dns := a\<rparr>"
definition Network_SetRoute :: "Route \<Rightarrow> network \<Rightarrow> network" where
  "Network_SetRoute r nw = nw\<lparr>nw_route := r\<rparr>"
definition Network_SetConnected :: "bool \<Rightarrow> network \<Rightarrow> network" where
  "Network_SetConnected c nw = nw\<lparr>nw_isConnected := c\<rparr>"
definition Network_SetConnecting :: "bool \<Rightarrow> network \<Rightarrow> network" where
  "Network_SetConnecting c nw = nw\<lparr>nw_isConnecting := c\<rparr>"

section \<open>Tables kept in step with a list\<close>

text \<open>
  A client that holds a list of entries and tells a provider which keys to add and which to
  remove. The provider promises that its table changes by exactly that key.
\<close>

locale mirrored_table =
  fixes add :: "'k \<Rightarrow> 's \<Rightarrow> 's"
    and del :: "'k \<Rightarrow> 's \<Rightarrow> 's"
    and view :: "'s \<Rightarrow> 'k set"
    and ok :: "'s \<Rightarrow> bool"
  assumes add_view: "ok s \<Longrightarrow> view (add k s) = insert k (view s)"
    and del_view: "ok s \<Longrightarrow> view (del k s) = view s - {k}"
    and add_ok: "ok s \<Longrightarrow> ok (add k s)"
    and del_ok: "ok s \<Longrightarrow> ok (del k s)"
begin

lemma fold_add:
  "ok s \<Longrightarrow> ok (fold (\<lambda>r s. if P r then add (key r) s else s) rs s) \<and>
    view (fold (\<lambda>r s. if P r then add (key r) s else s) rs s) = view s \<union> key ` {r \<in> set rs. P r}"
  by (induction rs arbitrary: s) (auto simp: add_view add_ok)

lemma fold_del:
  "ok s \<Longrightarrow> ok (fold (\<lambda>r s. if P r then del (key r) s else s) rs s) \<and>
    view (fold (\<lambda>r s. if P r then del (key r) s else s) rs s) = view s - key ` {r \<in> set rs. P r}"
  by (induction rs arbitrary: s) (auto simp: del_view del_ok)

lemma sync_view:
  assumes "ok s"
  shows "view (fold (\<lambda>r s. if r \<notin> set new then del (key r) s else s) old
      (fold (\<lambda>r s. if r \<notin> set old then add (key r) s else s) new s)) =
    view s \<union> key ` (set new - set old) - key ` (set old - set new)"
  using fold_add [OF assms, of "\<lambda>r. r \<notin> set old" key new]
    fold_del [of "fold (\<lambda>r s. if r \<notin> set old then add (key r) s else s) new s"
      "\<lambda>r. r \<notin> set new" key old]
  by (simp add: set_diff_eq)

lemma sync_mirrors:
  assumes "ok s" and "inj_on key (set old \<union> set new)" and "view s = key ` set old"
  shows "view (fold (\<lambda>r s. if r \<notin> set new then del (key r) s else s) old
      (fold (\<lambda>r s. if r \<notin> set old then add (key r) s else s) new s)) = key ` set new"
proof -
  have "key ` (set old \<union> set new) - key ` (set old - set new) =
      key ` ((set old \<union> set new) - (set old - set new))"
    using inj_on_image_set_diff [OF assms(2), of "set old \<union> set new" "set old - set new"] by blast
  also have "(set old \<union> set new) - (set old - set new) = set new" by blast
  finally show ?thesis
    unfolding sync_view [OF assms(1)] assms(3) by (simp add: image_Un [symmetric])
qed

end

section \<open>What the daemon has for a network\<close>

fun netd_routes_step :: "int32 \<Rightarrow> netd_call \<Rightarrow> route_key set \<Rightarrow> route_key set" where
  "netd_routes_step netId (N_networkAddRoute i a b c) R = (if i = netId then insert (a, b, c) R else R)"
| "netd_routes_step netId (N_networkRemoveRoute i a b c) R = (if i = netId then R - {(a, b, c)} else R)"
| "netd_routes_step netId _ R = R"

definition netd_routes :: "int32 \<Rightarrow> netd_call list \<Rightarrow> route_key set" where
  "netd_routes netId cs = fold (netd_routes_step netId) cs {}"

fun netd_ifaces_step :: "int32 \<Rightarrow> netd_call \<Rightarrow> string set \<Rightarrow> string set" where
  "netd_ifaces_step netId (N_networkAddInterface i a) R = (if i = netId then insert a R else R)"
| "netd_ifaces_step netId (N_networkRemoveInterface i a) R = (if i = netId then R - {a} else R)"
| "netd_ifaces_step netId _ R = R"

definition netd_ifaces :: "int32 \<Rightarrow> netd_call list \<Rightarrow> string set" where
  "netd_ifaces netId cs = fold (netd_ifaces_step netId) cs {}"

definition world_log :: "world \<Rightarrow> netd_call list" where
  "world_log w = nd_log (wd_netd w)"

definition netd_up :: "netd_env \<Rightarrow> world \<Rightarrow> bool" where
  "netd_up N w \<longleftrightarrow> native N \<and> nd_netdService (wd_netd w) \<and> nd_dnsResolvService (wd_netd w)"

lemma netd_routes_append [simp]:
  "netd_routes n (cs @ ds) = fold (netd_routes_step n) ds (netd_routes n cs)" "netd_routes n [] = {}"
  by (simp_all add: netd_routes_def)

lemma netd_ifaces_append [simp]:
  "netd_ifaces n (cs @ ds) = fold (netd_ifaces_step n) ds (netd_ifaces n cs)" "netd_ifaces n [] = {}"
  by (simp_all add: netd_ifaces_def)

lemma with_netd_forward:
  assumes "native N" and "svc"
  shows "with_netd (netd_forward N svc c) w = w\<lparr>wd_netd := netd_logs [c] (wd_netd w)\<rparr>"
  using assms by (simp add: with_netd_def netd_forward_def)

text \<open>With the daemon up, an operation appends its call to the log.\<close>

lemma netd_up_call:
  assumes "netd_up N w" and "f (wd_netd w) = netd_forward N True c (wd_netd w)"
  shows "world_log (with_netd f w) = world_log w @ [c]" "netd_up N (with_netd f w)"
    "wd_events (with_netd f w) = wd_events w"
  using assms by (simp_all add: with_netd_def netd_forward_def world_log_def netd_up_def)

lemma netd_up_ops:
  assumes "netd_up N w"
  shows "world_log (netd_add_route N i k w) = world_log w @ [N_networkAddRoute i (fst k) (fst (snd k)) (snd (snd k))]"
    "netd_up N (netd_add_route N i k w)"
    "world_log (netd_remove_route N i k w) =
      world_log w @ [N_networkRemoveRoute i (fst k) (fst (snd k)) (snd (snd k))]"
    "netd_up N (netd_remove_route N i k w)"
    "world_log (with_netd (NetdController_NetworkAddInterface N i a) w) = world_log w @ [N_networkAddInterface i a]"
    "netd_up N (with_netd (NetdController_NetworkAddInterface N i a) w)"
    "world_log (with_netd (NetdController_NetworkRemoveInterface N i a) w) = world_log w @ [N_networkRemoveInterface i a]"
    "netd_up N (with_netd (NetdController_NetworkRemoveInterface N i a) w)"
    "world_log (with_netd (NetdController_SetResolverConfig N j t u sv dm) w) =
      world_log w @ [N_setResolverConfig j t u sv dm]"
    "netd_up N (with_netd (NetdController_SetResolverConfig N j t u sv dm) w)"
    "world_log (with_netd (NetdController_InterfaceSetMtu N a m) w) = world_log w @ [N_interfaceSetMtu a m]"
    "netd_up N (with_netd (NetdController_InterfaceSetMtu N a m) w)"
  using assms unfolding netd_add_route_def netd_remove_route_def
  by (auto simp: netd_up_def netd_ops_defs NetdController_NetworkAddRoute_def netd_forward_def
      with_netd_def world_log_def)

interpretation daemon_routes: mirrored_table "netd_add_route N netId" "netd_remove_route N netId"
  "\<lambda>w. netd_routes netId (world_log w)" "netd_up N" for N netId
  by unfold_locales (simp_all add: netd_up_ops)

interpretation daemon_ifaces: mirrored_table
  "\<lambda>a. with_netd (NetdController_NetworkAddInterface N netId a)"
  "\<lambda>a. with_netd (NetdController_NetworkRemoveInterface N netId a)"
  "\<lambda>w. netd_ifaces netId (world_log w)" "netd_up N" for N netId
  by unfold_locales (simp_all add: netd_up_ops)

section \<open>Updating the link information\<close>

lemma find_Route_None [simp]: "find (\<lambda>x. Route_eq x r) rs = None \<longleftrightarrow> r \<notin> set rs"
  by (auto simp: find_None_iff)

lemma find_eq_None [simp]: "find (\<lambda>x. x = r) rs = None \<longleftrightarrow> r \<notin> set rs"
  by (auto simp: find_None_iff)

lemma UpdateRoutes_routes:
  assumes "netd_up (env_netd E) w"
  shows "netd_routes (nw_id32 nw) (world_log (Network_UpdateRoutes E info nw w)) =
    netd_routes (nw_id32 nw) (world_log w) \<union>
      key_of ` (set (li_routeList info) - set (li_routeList (nw_netLinkInfo nw))) -
      key_of ` (set (li_routeList (nw_netLinkInfo nw)) - set (li_routeList info))"
  using daemon_routes.sync_view [OF assms, where key = key_of and netId = "nw_id32 nw"
      and new = "li_routeList info" and old = "li_routeList (nw_netLinkInfo nw)"]
  by (simp add: Network_UpdateRoutes_def Let_def)

lemma UpdateRoutes_up_ifaces:
  assumes "netd_up (env_netd E) w"
  shows "netd_up (env_netd E) (Network_UpdateRoutes E info nw w) \<and>
    netd_ifaces i (world_log (Network_UpdateRoutes E info nw w)) = netd_ifaces i (world_log w)"
  unfolding Network_UpdateRoutes_def Let_def
  by (rule fold_invariant [where Q = "\<lambda>_. True"], simp,
      rule fold_invariant [where Q = "\<lambda>_. True"]) (use assms in \<open>auto simp: netd_up_ops\<close>)

lemma UpdateInterfaces_up_routes:
  assumes "netd_up (env_netd E) w"
  shows "netd_up (env_netd E) (Network_UpdateInterfaces E info nw w) \<and>
    netd_routes i (world_log (Network_UpdateInterfaces E info nw w)) = netd_routes i (world_log w)"
  using assms by (simp add: Network_UpdateInterfaces_def Let_def netd_up_ops)

lemma UpdateDnses_updateMtu_up:
  assumes "netd_up (env_netd E) w"
  shows "netd_up (env_netd E) (Network_updateMtu E info nw (Network_UpdateDnses E info nw w)) \<and>
    netd_routes i (world_log (Network_updateMtu E info nw (Network_UpdateDnses E info nw w))) =
      netd_routes i (world_log w) \<and>
    netd_ifaces i (world_log (Network_updateMtu E info nw (Network_UpdateDnses E info nw w))) =
      netd_ifaces i (world_log w)"
  using assms by (simp add: Network_updateMtu_def Network_UpdateDnses_def Let_def netd_up_ops)

text \<open>The daemon has exactly the interface and the routes of \<open>netLinkInfo_\<close>.\<close>

definition iface_set :: "string \<Rightarrow> string set" where
  "iface_set a = (if a = [] then {} else {a})"

definition netd_mirrors :: "network \<Rightarrow> world \<Rightarrow> bool" where
  "netd_mirrors nw w \<longleftrightarrow>
     netd_ifaces (nw_id32 nw) (world_log w) = iface_set (li_ifaceName (nw_netLinkInfo nw)) \<and>
     netd_routes (nw_id32 nw) (world_log w) = key_of ` set (li_routeList (nw_netLinkInfo nw))"

lemma UpdateInterfaces_mirrors:
  assumes "netd_up (env_netd E) w"
    and "netd_ifaces (nw_id32 nw) (world_log w) = iface_set (li_ifaceName (nw_netLinkInfo nw))"
  shows "netd_ifaces (nw_id32 nw) (world_log (Network_UpdateInterfaces E info nw w)) =
    iface_set (li_ifaceName info)"
  using assms
  by (auto simp: Network_UpdateInterfaces_def Let_def netd_up_ops iface_set_def)

lemma nw_id32_simps [simp]:
  "nw_id32 (nw\<lparr>nw_netLinkInfo := info\<rparr>) = nw_id32 nw" "nw_id16 (nw\<lparr>nw_netLinkInfo := info\<rparr>) = nw_id16 nw"
  by (simp_all add: nw_id32_def nw_id16_def)

section \<open>Properties\<close>


definition sample_netd_env :: netd_env where
  "sample_netd_env = \<lparr>native = True, native_result = (\<lambda>_ _. 0),
    native_getConfig = (\<lambda>_ i. \<lparr>if_ifName = i, if_hwAddr = [], if_ipv4Addr = [], if_prefixLength = 0,
      if_flags = [''up'']\<rparr>), native_resolverInfo = (\<lambda>_ _ sv dm. (sv, dm, 0, 0)),
    native_addrinfo = (\<lambda>_ _ _ _. []), sys_socket = (\<lambda>_. 3), sys_inet_aton = (\<lambda>_. None),
    sys_ioctl = (\<lambda>_ _ _. 0)\<rparr>"

definition sample_env :: conn_env where
  "sample_env = \<lparr>env_netd = sample_netd_env, env_requestNet = (\<lambda>_ _ _. 1),
     env_releaseNet = (\<lambda>_ _ _. 1), env_publish = (\<lambda>_ _ _. True)\<rparr>"

definition sample_world :: world where
  "sample_world = \<lparr>wd_netd = NetdController_new sample_netd_env, wd_events = []\<rparr>"

definition sample_network :: network where
  "sample_network = fst (Network_new sample_env 0 NetIdManager_init sample_world)"

definition sample_route :: "string \<Rightarrow> string \<Rightarrow> Route" where
  "sample_route dst host = \<lparr>rt_iface = ''rmnet0'', rt_destination = INetAddr_new\<lparr>ia_address := dst, ia_hostName := host\<rparr>,
     rt_gateway = INetAddr_new\<lparr>ia_address := ''10.0.0.1''\<rparr>\<rparr>"

lemma sample_up: "netd_up (env_netd sample_env) sample_world" "env_netd sample_env = sample_netd_env"
  "world_log sample_world = [N_init]"
  by (simp_all add: netd_up_def sample_env_def sample_netd_env_def sample_world_def NetdController_new_def
      NetdController_Init_def world_log_def)

lemma sample_network_info: "nw_netLinkInfo sample_network = NetLinkInfo_new"
  by (simp add: sample_network_def Network_new_def split_def Let_def)

lemma sample_mirrors: "netd_mirrors sample_network sample_world"
  by (simp add: netd_mirrors_def sample_up(3) netd_routes_def netd_ifaces_def sample_network_info
      NetLinkInfo_new_def iface_set_def)


text \<open>
  The proviso of the refinement is needed: when a route is replaced by one that differs only
  in what the daemon is not told (here the mask, the prefix length or the host name), the new route
  is added first and the old one removed afterwards, so the daemon ends without the route although
  \<open>netLinkInfo_\<close> lists it.
\<close>

theorem UpdateRoutes_same_key_lost:
  assumes "netd_up (env_netd E) w" and "li_routeList (nw_netLinkInfo nw) = [r]"
    and "li_routeList info = [r']" and "r \<noteq> r'" and "key_of r = key_of r'"
  shows "key_of r' \<notin> netd_routes (nw_id32 nw) (world_log (Network_UpdateRoutes E info nw w))"
  using UpdateRoutes_routes [OF assms(1), of nw info] assms(2-) by auto

theorem UpdateRoutes_same_key_lost_witness:
  "let nw = sample_network\<lparr>nw_netLinkInfo := NetLinkInfo_new\<lparr>li_routeList := [sample_route ''1.2.3.4'' []]\<rparr>\<rparr>;
       info = NetLinkInfo_new\<lparr>li_routeList := [sample_route ''1.2.3.4'' ''host'']\<rparr>
   in key_of (sample_route ''1.2.3.4'' ''host'') \<notin>
     netd_routes (nw_id32 nw) (world_log (Network_UpdateRoutes sample_env info nw sample_world))"
proof -
  let ?nw = "sample_network\<lparr>nw_netLinkInfo := NetLinkInfo_new\<lparr>li_routeList := [sample_route ''1.2.3.4'' []]\<rparr>\<rparr>"
  let ?i = "NetLinkInfo_new\<lparr>li_routeList := [sample_route ''1.2.3.4'' ''host'']\<rparr>"
  have "li_routeList (nw_netLinkInfo ?nw) = [sample_route ''1.2.3.4'' []]"
    and "li_routeList ?i = [sample_route ''1.2.3.4'' ''host'']" by simp_all
  moreover have "sample_route ''1.2.3.4'' [] \<noteq> sample_route ''1.2.3.4'' ''host''"
    and "key_of (sample_route ''1.2.3.4'' []) = key_of (sample_route ''1.2.3.4'' ''host'')"
    by (simp_all add: sample_route_def INetAddr_new_def key_of_def)
  ultimately show ?thesis
    using UpdateRoutes_same_key_lost [OF sample_up(1), of ?nw _ ?i] by simp
qed

end
