(* ===== verification/Net_Service.thy ===== *)
theory Net_Service
  imports Network_Model
begin

text \<open>
  \<open>NetService\<close> (\<open>net_service.h\<close>, \<open>net_service.cpp\<close>): one capability of a network,
  with a connection state and the callbacks that are told of its changes. Its operations work on a
  context: the service, its network, the network's supplier and the world. Every change of state
  is announced by one broadcast and one notification of each registered callback, in order.
\<close>

section \<open>State\<close>

record net_service =
  sv_ident :: string
  sv_networkType :: NetworkType
  sv_state :: ServiceState
  sv_netCapability :: NetCapabilities
  sv_network :: nat
  sv_netConnCallback :: "callback list"

record service_ctx =
  cx_service :: net_service
  cx_network :: network
  cx_supplier :: net_supplier
  cx_world :: world

definition NetService_new :: "string \<Rightarrow> NetworkType \<Rightarrow> NetCapabilities \<Rightarrow> nat \<Rightarrow> net_service" where
  "NetService_new ident ty cap nw =
     \<lparr>sv_ident = ident, sv_networkType = ty, sv_state = SERVICE_STATE_IDLE, sv_netCapability = cap,
      sv_network = nw, sv_netConnCallback = []\<rparr>"

definition NetService_SetIdent :: "string \<Rightarrow> net_service \<Rightarrow> net_service" where
  "NetService_SetIdent ident sv = sv\<lparr>sv_ident := ident\<rparr>"
definition NetService_SetNetworkType :: "NetworkType \<Rightarrow> net_service \<Rightarrow> net_service" where
  "NetService_SetNetworkType ty sv = sv\<lparr>sv_networkType := ty\<rparr>"
definition NetService_SetNetCapability :: "NetCapabilities \<Rightarrow> net_service \<Rightarrow> net_service" where
  "NetService_SetNetCapability cap sv = sv\<lparr>sv_netCapability := cap\<rparr>"
definition NetService_SetServiceState :: "ServiceState \<Rightarrow> net_service \<Rightarrow> net_service" where
  "NetService_SetServiceState st sv = sv\<lparr>sv_state := st\<rparr>"

section \<open>Callbacks\<close>

definition NetService_RegisterNetConnCallback :: "callback option \<Rightarrow> net_service \<Rightarrow> net_service" where
  "NetService_RegisterNetConnCallback cb sv =
     (case cb of None \<Rightarrow> sv
      | Some c \<Rightarrow> if find (\<lambda>x. x = c) (sv_netConnCallback sv) \<noteq> None then sv
                  else sv\<lparr>sv_netConnCallback := sv_netConnCallback sv @ [c]\<rparr>)"

definition NetService_UnregisterNetConnCallback ::
    "callback option \<Rightarrow> net_service \<Rightarrow> ResultCode \<times> net_service" where
  "NetService_UnregisterNetConnCallback cb sv =
     (case cb of None \<Rightarrow> (ERR_SERVICE_NULL_PTR, sv)
      | Some c \<Rightarrow> if find (\<lambda>x. x = c) (sv_netConnCallback sv) \<noteq> None
                  then (ERR_NONE, sv\<lparr>sv_netConnCallback := erase_first (\<lambda>x. x = c) (sv_netConnCallback sv)\<rparr>)
                  else (ERR_NO_REGISTERED, sv))"

definition NetService_NotifyNetConnStateChanged ::
    "NetConnCallbackInfo \<Rightarrow> net_service \<Rightarrow> world \<Rightarrow> ResultCode \<times> world" where
  "NetService_NotifyNetConnStateChanged info sv w =
     (ERR_NONE, fold (\<lambda>cb. world_logs [EvCallback cb info]) (sv_netConnCallback sv) w)"

section \<open>State changes\<close>

definition connection_broadcast :: "ServiceState \<Rightarrow> BroadcastInfo" where
  "connection_broadcast st =
     \<lparr>bi_action = ''usual.event.netmanager.NETMANAGER_CONNECTION_STATE_CHANGED'',
      bi_data = ''Net Manager Connection State Changed'', bi_code = ServiceState_val st,
      bi_ordered = True\<rparr>"

definition NetService_UpdateServiceState :: "conn_env \<Rightarrow> ServiceState \<Rightarrow> service_ctx \<Rightarrow> service_ctx" where
  "NetService_UpdateServiceState E st cx =
     (let st' = (if st = SERVICE_STATE_UNKNOWN then SERVICE_STATE_FAILURE else st);
          sv = (cx_service cx)\<lparr>sv_state := st'\<rparr>;
          param = [(''NetType'', to_string_i32 (NetworkType_val (sv_networkType sv)))];
          w1 = snd (BroadcastManager_SendBroadcast E (connection_broadcast st) param (cx_world cx));
          info = \<lparr>ci_netState = ServiceState_val st, ci_netType = NetworkType_val (sv_networkType sv)\<rparr>;
          w2 = snd (NetService_NotifyNetConnStateChanged info sv w1)
      in cx\<lparr>cx_service := sv, cx_world := w2\<rparr>)"

fun NetService_IsConnecting :: "net_service \<Rightarrow> network \<Rightarrow> bool" where
  "NetService_IsConnecting sv nw =
     (case sv_state sv of
        SERVICE_STATE_UNKNOWN \<Rightarrow> nw_isConnecting nw
      | SERVICE_STATE_FAILURE \<Rightarrow> nw_isConnecting nw
      | SERVICE_STATE_IDLE \<Rightarrow> nw_isConnecting nw
      | SERVICE_STATE_CONNECTING \<Rightarrow> True
      | _ \<Rightarrow> False)"

fun NetService_IsConnected :: "net_service \<Rightarrow> bool" where
  "NetService_IsConnected sv =
     (case sv_state sv of SERVICE_STATE_READY \<Rightarrow> True | SERVICE_STATE_CONNECTED \<Rightarrow> True | _ \<Rightarrow> False)"

declare NetService_IsConnecting.simps [simp del] NetService_IsConnected.simps [simp del]

section \<open>Connect and disconnect\<close>

definition NetService_NetworkConnect :: "conn_env \<Rightarrow> service_ctx \<Rightarrow> int32 \<times> service_ctx" where
  "NetService_NetworkConnect E cx =
     (let cx1 = NetService_UpdateServiceState E SERVICE_STATE_CONNECTING cx;
          (ok, nw, spl, w) = Network_NetworkConnect E (sv_netCapability (cx_service cx1))
             (cx_network cx1) (cx_supplier cx1) (cx_world cx1)
      in (if ok then 0 else - 1, cx1\<lparr>cx_network := nw, cx_supplier := spl, cx_world := w\<rparr>))"

definition NetService_NetworkDisConnect :: "conn_env \<Rightarrow> service_ctx \<Rightarrow> int32 \<times> service_ctx" where
  "NetService_NetworkDisConnect E cx =
     (let (ok, nw, spl, w) = Network_NetworkDisconnect E (sv_netCapability (cx_service cx))
             (cx_network cx) (cx_supplier cx) (cx_world cx)
      in (if ok then 0 else - 1, cx\<lparr>cx_network := nw, cx_supplier := spl, cx_world := w\<rparr>))"

definition NetService_ServiceConnect :: "conn_env \<Rightarrow> service_ctx \<Rightarrow> ResultCode \<times> service_ctx" where
  "NetService_ServiceConnect E cx =
     (if NetService_IsConnecting (cx_service cx) (cx_network cx) then (ERR_SERVICE_CONNECTING, cx)
      else if NetService_IsConnected (cx_service cx) then (ERR_SERVICE_CONNECTED, cx)
      else if sv_networkType (cx_service cx) \<noteq> NET_TYPE_CELLULAR then (ERR_INVALID_NETORK_TYPE, cx)
      else
        let (ret, cx1) = NetService_NetworkConnect E (NetService_UpdateServiceState E SERVICE_STATE_IDLE cx)
        in if sint ret < 0
           then let cx2 = NetService_UpdateServiceState E SERVICE_STATE_FAILURE cx1;
                    cx3 = snd (NetService_NetworkDisConnect E cx2);
                    cx4 = NetService_UpdateServiceState E SERVICE_STATE_DISCONNECTED cx3
                in (ERR_SERVICE_REQUEST_CONNECT_FAIL, NetService_UpdateServiceState E SERVICE_STATE_IDLE cx4)
           else (ERR_SERVICE_REQUEST_SUCCESS, NetService_UpdateServiceState E SERVICE_STATE_READY cx1))"

definition NetService_ServiceDisConnect :: "conn_env \<Rightarrow> service_ctx \<Rightarrow> ResultCode \<times> service_ctx" where
  "NetService_ServiceDisConnect E cx =
     (if sv_state (cx_service cx) = SERVICE_STATE_DISCONNECTING then (ERR_SERVICE_DISCONNECTING, cx)
      else if sv_state (cx_service cx) = SERVICE_STATE_DISCONNECTED then (ERR_SERVICE_DISCONNECTED_SUCCESS, cx)
      else
        let (ret, cx1) = NetService_NetworkDisConnect E
              (NetService_UpdateServiceState E SERVICE_STATE_DISCONNECTING cx)
        in if sint ret < 0
           then (ERR_SERVICE_DISCONNECTED_FAIL, NetService_UpdateServiceState E SERVICE_STATE_FAILURE cx1)
           else (ERR_SERVICE_DISCONNECTED_SUCCESS,
                 NetService_UpdateServiceState E SERVICE_STATE_IDLE
                   (NetService_UpdateServiceState E SERVICE_STATE_DISCONNECTED cx1)))"

definition NetService_ServiceAutoConnect :: "conn_env \<Rightarrow> service_ctx \<Rightarrow> ResultCode \<times> service_ctx" where
  "NetService_ServiceAutoConnect E cx = NetService_ServiceConnect E cx"

section \<open>What a state change sends\<close>

definition state_events :: "net_service \<Rightarrow> ServiceState \<Rightarrow> conn_event list" where
  "state_events sv st =
     EvBroadcast (connection_broadcast st) [(''NetType'', to_string_i32 (NetworkType_val (sv_networkType sv)))]
     # map (\<lambda>cb. EvCallback cb \<lparr>ci_netState = ServiceState_val st,
         ci_netType = NetworkType_val (sv_networkType sv)\<rparr>) (sv_netConnCallback sv)"

lemma fold_world_logs: "fold (\<lambda>x. world_logs [f x]) xs w = world_logs (map f xs) w"
  by (induction xs arbitrary: w) auto

lemma UpdateServiceState_eq:
  "NetService_UpdateServiceState E st cx =
     cx\<lparr>cx_service := (cx_service cx)\<lparr>sv_state := if st = SERVICE_STATE_UNKNOWN then SERVICE_STATE_FAILURE else st\<rparr>,
        cx_world := world_logs (state_events (cx_service cx) st) (cx_world cx)\<rparr>"
  by (simp add: NetService_UpdateServiceState_def Let_def BroadcastManager_SendBroadcast_def
      BroadcastManager_SendBroadcastEx_def NetService_NotifyNetConnStateChanged_def
      connection_broadcast_def state_events_def fold_world_logs)

lemma state_events_state [simp]: "state_events (sv\<lparr>sv_state := st\<rparr>) st' = state_events sv st'"
  by (simp add: state_events_def)

section \<open>What the operations leave unchanged\<close>

fun is_request :: "conn_event \<Rightarrow> bool" where
  "is_request (EvRequestNet _ _) = True"
| "is_request _ = False"

definition sv_core :: "net_service \<Rightarrow> net_service" where
  "sv_core sv = sv\<lparr>sv_state := SERVICE_STATE_UNKNOWN\<rparr>"
definition nw_core :: "network \<Rightarrow> network" where
  "nw_core nw = nw\<lparr>nw_isConnecting := False, nw_isConnected := False\<rparr>"
definition ns_core :: "net_supplier \<Rightarrow> net_supplier" where
  "ns_core spl = spl\<lparr>ns_connected := False\<rparr>"

text \<open>
  A service operation changes the state of the service, the two flags of the network, the flag of
  the supplier and the event log, and nothing else; it never sets the supplier's flag, keeps the
  two flags of the network equal, and never requests a network.
\<close>

definition cx_keeps :: "service_ctx \<Rightarrow> service_ctx \<Rightarrow> bool" where
  "cx_keeps cx cx' \<longleftrightarrow>
     sv_core (cx_service cx') = sv_core (cx_service cx) \<and>
     nw_core (cx_network cx') = nw_core (cx_network cx) \<and>
     ns_core (cx_supplier cx') = ns_core (cx_supplier cx) \<and>
     (nw_isConnecting (cx_network cx) = nw_isConnected (cx_network cx) \<longrightarrow>
        nw_isConnecting (cx_network cx') = nw_isConnected (cx_network cx')) \<and>
     (\<not> ns_connected (cx_supplier cx) \<longrightarrow> \<not> ns_connected (cx_supplier cx')) \<and>
     (\<exists>es. list_all (\<lambda>e. \<not> is_request e) es \<and> cx_world cx' = world_logs es (cx_world cx))"

lemma cx_keeps_refl [intro!]: "cx_keeps cx cx"
  unfolding cx_keeps_def by (auto intro!: exI [of _ "[]"])

lemma cx_keeps_trans:
  assumes "cx_keeps a b" and "cx_keeps b c"
  shows "cx_keeps a c"
proof -
  obtain es where "list_all (\<lambda>e. \<not> is_request e) es" "cx_world b = world_logs es (cx_world a)"
    using assms(1) unfolding cx_keeps_def by blast
  moreover obtain es' where "list_all (\<lambda>e. \<not> is_request e) es'" "cx_world c = world_logs es' (cx_world b)"
    using assms(2) unfolding cx_keeps_def by blast
  ultimately have "list_all (\<lambda>e. \<not> is_request e) (es @ es') \<and> cx_world c = world_logs (es @ es') (cx_world a)"
    by simp
  with assms show ?thesis unfolding cx_keeps_def by metis
qed

lemma UpdateServiceState_keeps [nm_inv]: "cx_keeps cx (NetService_UpdateServiceState E st cx)"
proof -
  have "list_all (\<lambda>e. \<not> is_request e) (state_events (cx_service cx) st)"
    by (simp add: state_events_def list_all_iff)
  then show ?thesis unfolding cx_keeps_def UpdateServiceState_eq
    by (auto simp: sv_core_def)
qed

text \<open>The release request of the two network operations, on a context.\<close>

lemma SupplierDisconnection_cases:
  obtains (none) "NetSupplier_SupplierDisconnection E cap spl w = (False, spl, w)"
  | (fail) c where "NetSupplier_SupplierDisconnection E cap spl w =
      (False, spl, world_logs [EvReleaseNet (ns_netSupplierIdent spl) c] w)"
  | (succ) c where "NetSupplier_SupplierDisconnection E cap spl w =
      (True, spl\<lparr>ns_connected := False\<rparr>, world_logs [EvReleaseNet (ns_netSupplierIdent spl) c] w)"
proof (cases "ns_netController spl")
  case None
  then show thesis using that(1) SupplierDisconnection_None by blast
next
  case (Some ctl)
  then have "ns_netController spl = Some TelephonyController" by (cases ctl) simp
  from SupplierDisconnection_Some [OF this, of E cap w] that(2,3) show thesis
    by (cases "release_ok E (wd_events w) (ns_netSupplierIdent spl) cap") auto
qed

lemma cx_keeps_released:
  "cx_keeps cx (cx\<lparr>cx_world := world_logs [EvReleaseNet i c] (cx_world cx)\<rparr>)"
  "cx_keeps cx (cx\<lparr>cx_supplier := (cx_supplier cx)\<lparr>ns_connected := False\<rparr>,
     cx_world := world_logs [EvReleaseNet i c] (cx_world cx)\<rparr>)"
  "cx_keeps cx (cx\<lparr>cx_network := (cx_network cx)\<lparr>nw_isConnecting := True, nw_isConnected := True\<rparr>,
     cx_supplier := (cx_supplier cx)\<lparr>ns_connected := False\<rparr>,
     cx_world := world_logs [EvReleaseNet i c] (cx_world cx)\<rparr>)"
  unfolding cx_keeps_def
  by (auto simp: nw_core_def ns_core_def intro!: exI [of _ "[EvReleaseNet i c]"])

lemma NetworkDisConnect_keeps [nm_inv]: "cx_keeps cx (snd (NetService_NetworkDisConnect E cx))"
  by (rule SupplierDisconnection_cases [of E "sv_netCapability (cx_service cx)" "cx_supplier cx" "cx_world cx"])
    (auto simp: NetService_NetworkDisConnect_def Network_NetworkDisconnect_def cx_keeps_released)

lemma NetworkConnect_keeps [nm_inv]: "cx_keeps cx (snd (NetService_NetworkConnect E cx))"
proof -
  let ?c = "NetService_UpdateServiceState E SERVICE_STATE_CONNECTING cx"
  have "cx_keeps ?c (snd (NetService_NetworkConnect E cx))"
    by (rule SupplierDisconnection_cases [of E "sv_netCapability (cx_service ?c)" "cx_supplier ?c" "cx_world ?c"])
      (auto simp: NetService_NetworkConnect_def Network_NetworkConnect_def Let_def cx_keeps_released)
  then show ?thesis using UpdateServiceState_keeps cx_keeps_trans by blast
qed

lemmas keeps_after = cx_keeps_trans [OF _ UpdateServiceState_keeps]
  cx_keeps_trans [OF _ NetworkDisConnect_keeps] cx_keeps_trans [OF _ NetworkConnect_keeps]

lemma ServiceConnect_keeps [nm_inv]: "cx_keeps cx (snd (NetService_ServiceConnect E cx))"
  unfolding NetService_ServiceConnect_def Let_def split_def
  by (auto intro!: keeps_after)

lemma ServiceDisConnect_keeps [nm_inv]: "cx_keeps cx (snd (NetService_ServiceDisConnect E cx))"
  unfolding NetService_ServiceDisConnect_def Let_def split_def
  by (auto intro!: keeps_after)

section \<open>The callbacks as a set of subscribers\<close>

locale subscription =
  fixes sub :: "'c \<Rightarrow> 's \<Rightarrow> 's"
    and unsub :: "'c \<Rightarrow> 's \<Rightarrow> bool \<times> 's"
    and members :: "'s \<Rightarrow> 'c set"
    and inv :: "'s \<Rightarrow> bool"
  assumes sub_members: "members (sub c s) = insert c (members s)"
    and sub_again: "c \<in> members s \<Longrightarrow> sub c s = s"
    and sub_inv: "inv s \<Longrightarrow> inv (sub c s)"
    and unsub_members: "inv s \<Longrightarrow> members (snd (unsub c s)) = members s - {c}"
    and unsub_found: "fst (unsub c s) \<longleftrightarrow> c \<in> members s"
    and unsub_inv: "inv s \<Longrightarrow> inv (snd (unsub c s))"
begin

lemma sub_idem: "sub c (sub c s) = sub c s"
  by (rule sub_again) (simp add: sub_members)

lemma unsub_twice: "inv s \<Longrightarrow> \<not> fst (unsub c (snd (unsub c s)))"
  by (simp add: unsub_found unsub_members)

lemma sub_unsub: "inv s \<Longrightarrow> c \<notin> members s \<Longrightarrow> fst (unsub c (sub c s)) \<and> members (snd (unsub c (sub c s))) = members s"
  by (simp add: unsub_found unsub_members sub_members sub_inv)

end

lemma find_neq_None [simp]: "(\<exists>y. find (\<lambda>x. x = r) rs = Some y) \<longleftrightarrow> r \<in> set rs"
  using find_eq_None [of r rs] by (cases "find (\<lambda>x. x = r) rs") auto

interpretation service_callbacks: subscription
  "\<lambda>c. NetService_RegisterNetConnCallback (Some c)"
  "\<lambda>c sv. map_prod (\<lambda>r. r = ERR_NONE) id (NetService_UnregisterNetConnCallback (Some c) sv)"
  "\<lambda>sv. set (sv_netConnCallback sv)" "\<lambda>sv. distinct (sv_netConnCallback sv)"
proof unfold_locales
  fix c sv
  show "set (sv_netConnCallback (NetService_RegisterNetConnCallback (Some c) sv)) =
      insert c (set (sv_netConnCallback sv))"
    by (auto simp: NetService_RegisterNetConnCallback_def)
  show "c \<in> set (sv_netConnCallback sv) \<Longrightarrow> NetService_RegisterNetConnCallback (Some c) sv = sv"
    by (simp add: NetService_RegisterNetConnCallback_def)
  show "distinct (sv_netConnCallback sv) \<Longrightarrow>
      distinct (sv_netConnCallback (NetService_RegisterNetConnCallback (Some c) sv))"
    by (simp add: NetService_RegisterNetConnCallback_def)
  show "distinct (sv_netConnCallback sv) \<Longrightarrow>
      set (sv_netConnCallback (snd (map_prod (\<lambda>r. r = ERR_NONE) id
        (NetService_UnregisterNetConnCallback (Some c) sv)))) = set (sv_netConnCallback sv) - {c}"
    using erase_first_unique [of id "sv_netConnCallback sv" c]
    by (auto simp: NetService_UnregisterNetConnCallback_def)
  show "fst (map_prod (\<lambda>r. r = ERR_NONE) id (NetService_UnregisterNetConnCallback (Some c) sv)) =
      (c \<in> set (sv_netConnCallback sv))"
    by (simp add: NetService_UnregisterNetConnCallback_def)
  show "distinct (sv_netConnCallback sv) \<Longrightarrow>
      distinct (sv_netConnCallback (snd (map_prod (\<lambda>r. r = ERR_NONE) id
        (NetService_UnregisterNetConnCallback (Some c) sv))))"
    by (simp add: NetService_UnregisterNetConnCallback_def distinct_erase_first)
qed

section \<open>Properties\<close>

lemma sint_one [simp]: "\<not> sint (1 :: int32) < 0" "\<not> sint (0 :: int32) < 0"
  by simp_all

lemma IsConnecting_flag: "NetService_IsConnecting sv nw \<Longrightarrow> sv_state sv \<noteq> SERVICE_STATE_CONNECTING \<Longrightarrow> nw_isConnecting nw"
  by (auto simp: NetService_IsConnecting.simps split: ServiceState.splits)

lemma NetworkConnect_ret:
  "fst (NetService_NetworkConnect E cx) =
    (if nw_isConnected (cx_network (snd (NetService_NetworkConnect E cx))) then 0 else - 1)"
proof -
  let ?c = "NetService_UpdateServiceState E SERVICE_STATE_CONNECTING cx"
  show ?thesis
    by (rule SupplierDisconnection_cases [of E "sv_netCapability (cx_service ?c)" "cx_supplier ?c" "cx_world ?c"])
      (simp_all add: NetService_NetworkConnect_def Network_NetworkConnect_def Let_def split_def)
qed

lemma NetworkDisConnect_network: "cx_network (snd (NetService_NetworkDisConnect E cx)) = cx_network cx"
  by (simp add: NetService_NetworkDisConnect_def Network_NetworkDisconnect_def Let_def split_def)

text \<open>
  C5. A connection attempt of a cellular service whose network is not connected yet. The states
  idle and connecting are announced, then the supplier is asked. If it accepts, the service ends in
  state ready with its network marked connecting and connected; if it refuses, failure,
  disconnected and idle are announced, no second request is made, and the service ends idle with
  its network untouched. The announcements are exactly those listed, in that order, and each one is
  a broadcast followed by one notification of every registered callback.
\<close>

theorem ServiceConnect_outcomes:
  assumes "\<not> NetService_IsConnecting (cx_service cx) (cx_network cx)"
    and "\<not> NetService_IsConnected (cx_service cx)"
    and "sv_networkType (cx_service cx) = NET_TYPE_CELLULAR"
    and "ns_netController (cx_supplier cx) = Some TelephonyController"
    and "\<not> nw_isConnecting (cx_network cx)" and "\<not> nw_isConnected (cx_network cx)"
  shows "NetService_ServiceConnect E cx =
    (let sv = cx_service cx; ident = ns_netSupplierIdent (cx_supplier cx); cap = sv_netCapability sv;
         before = state_events sv SERVICE_STATE_IDLE @ state_events sv SERVICE_STATE_CONNECTING;
         asked = before @ [EvReleaseNet ident (ucast (NetCapabilities_val cap))]
     in if release_ok E (wd_events (cx_world cx) @ before) ident cap
        then (ERR_SERVICE_REQUEST_SUCCESS,
          cx\<lparr>cx_service := sv\<lparr>sv_state := SERVICE_STATE_READY\<rparr>,
             cx_network := (cx_network cx)\<lparr>nw_isConnecting := True, nw_isConnected := True\<rparr>,
             cx_supplier := (cx_supplier cx)\<lparr>ns_connected := False\<rparr>,
             cx_world := world_logs (asked @ state_events sv SERVICE_STATE_READY) (cx_world cx)\<rparr>)
        else (ERR_SERVICE_REQUEST_CONNECT_FAIL,
          cx\<lparr>cx_service := sv\<lparr>sv_state := SERVICE_STATE_IDLE\<rparr>,
             cx_world := world_logs (asked @ state_events sv SERVICE_STATE_FAILURE @
               state_events sv SERVICE_STATE_DISCONNECTED @ state_events sv SERVICE_STATE_IDLE) (cx_world cx)\<rparr>))"
  using assms
  by (simp add: NetService_ServiceConnect_def NetService_NetworkConnect_def Network_NetworkConnect_def
      NetService_NetworkDisConnect_def Network_NetworkDisconnect_def UpdateServiceState_eq Let_def
      SupplierDisconnection_Some)

definition sample_ctx :: service_ctx where
  "sample_ctx = \<lparr>cx_service = NetService_new ''simId1'' NET_TYPE_CELLULAR NET_CAPABILITIES_INTERNET 0,
     cx_network = sample_network,
     cx_supplier = fst (NetSupplier_new NET_TYPE_CELLULAR ''simId1'' (Map.empty, g_nextNetSupplierId_init)),
     cx_world = sample_world\<rparr>"

lemma sample_ctx_facts:
  "cx_service sample_ctx = NetService_new ''simId1'' NET_TYPE_CELLULAR NET_CAPABILITIES_INTERNET 0"
  "\<not> NetService_IsConnecting (cx_service sample_ctx) (cx_network sample_ctx)"
  "\<not> NetService_IsConnected (cx_service sample_ctx)"
  "sv_networkType (cx_service sample_ctx) = NET_TYPE_CELLULAR"
  "ns_netController (cx_supplier sample_ctx) = Some TelephonyController"
  "\<not> nw_isConnecting (cx_network sample_ctx)" "\<not> nw_isConnected (cx_network sample_ctx)"
  "release_ok sample_env es i c"
  by (simp_all add: sample_ctx_def NetService_new_def NetService_IsConnecting.simps
      NetService_IsConnected.simps sample_network_def Network_new_def split_def Let_def
      NetSupplier_new_def NetControllerFactory_MakeNetController_def
      NetControllerFactory_GetNetControllerFromMap_def release_ok_def sample_env_def REG_OK_def)

lemma ServiceConnect_granted:
  assumes "\<not> NetService_IsConnecting (cx_service cx) (cx_network cx)"
    and "\<not> NetService_IsConnected (cx_service cx)"
    and "sv_networkType (cx_service cx) = NET_TYPE_CELLULAR"
    and "ns_netController (cx_supplier cx) = Some TelephonyController"
    and "\<not> nw_isConnected (cx_network cx)" and "\<And>es i c. release_ok E es i c"
  shows "fst (NetService_ServiceConnect E cx) = ERR_SERVICE_REQUEST_SUCCESS"
    "sv_state (cx_service (snd (NetService_ServiceConnect E cx))) = SERVICE_STATE_READY"
    "nw_isConnecting (cx_network (snd (NetService_ServiceConnect E cx)))"
  using assms
  by (simp_all add: NetService_ServiceConnect_def NetService_NetworkConnect_def Network_NetworkConnect_def
      UpdateServiceState_eq SupplierDisconnection_Some)

lemma ServiceDisConnect_ready:
  assumes "sv_state (cx_service cx) = SERVICE_STATE_READY"
  shows "sv_state (cx_service (snd (NetService_ServiceDisConnect E cx))) \<in> {SERVICE_STATE_IDLE, SERVICE_STATE_FAILURE}"
    "cx_network (snd (NetService_ServiceDisConnect E cx)) = cx_network cx"
  using assms by (simp_all add: NetService_ServiceDisConnect_def split_def Let_def UpdateServiceState_eq
      NetworkDisConnect_network)

theorem ServiceConnect_outcomes_witness:
  "fst (NetService_ServiceConnect sample_env sample_ctx) = ERR_SERVICE_REQUEST_SUCCESS \<and>
   sv_state (cx_service (snd (NetService_ServiceConnect sample_env sample_ctx))) = SERVICE_STATE_READY"
  using ServiceConnect_outcomes [OF sample_ctx_facts(2-7), of sample_env]
  by (simp add: Let_def sample_ctx_facts(8))

text \<open>
  After a service whose network was connected has been disconnected successfully it is idle,
  yet it cannot be connected again: \<open>NetworkDisconnect\<close> does not reset the flags of the
  network, so the next \<open>ServiceConnect\<close> returns \<open>ERR_SERVICE_CONNECTING\<close> and does
  nothing.
\<close>

theorem ServiceConnect_refused_after_disconnect:
  assumes "sv_state (cx_service cx) \<noteq> SERVICE_STATE_DISCONNECTED"
    and "nw_isConnecting (cx_network cx) = nw_isConnected (cx_network cx)"
    and "NetService_ServiceDisConnect E cx = (ERR_SERVICE_DISCONNECTED_SUCCESS, cx')"
  shows "sv_state (cx_service cx') = SERVICE_STATE_IDLE \<and>
    NetService_ServiceConnect E cx' = (ERR_SERVICE_CONNECTING, cx')"
proof -
  have "nw_isConnecting (cx_network cx)" and "cx_network cx' = cx_network cx"
    and "sv_state (cx_service cx') = SERVICE_STATE_IDLE"
    using assms
    by (auto simp: NetService_ServiceDisConnect_def NetService_NetworkDisConnect_def
        Network_NetworkDisconnect_def UpdateServiceState_eq Let_def split: if_splits prod.splits)
  then show ?thesis
    by (simp add: NetService_ServiceConnect_def NetService_IsConnecting.simps)
qed

theorem ServiceConnect_refused_after_disconnect_witness:
  "let cx = sample_ctx\<lparr>cx_service := (cx_service sample_ctx)\<lparr>sv_state := SERVICE_STATE_READY\<rparr>,
         cx_network := (cx_network sample_ctx)\<lparr>nw_isConnecting := True, nw_isConnected := True\<rparr>\<rparr>
   in fst (NetService_ServiceConnect sample_env (snd (NetService_ServiceDisConnect sample_env cx))) =
     ERR_SERVICE_CONNECTING"
proof -
  let ?c = "sample_ctx\<lparr>cx_service := (cx_service sample_ctx)\<lparr>sv_state := SERVICE_STATE_READY\<rparr>,
         cx_network := (cx_network sample_ctx)\<lparr>nw_isConnecting := True, nw_isConnected := True\<rparr>\<rparr>"
  have "fst (NetService_ServiceDisConnect sample_env ?c) = ERR_SERVICE_DISCONNECTED_SUCCESS"
    using sample_ctx_facts(5,8)
    by (simp add: NetService_ServiceDisConnect_def NetService_NetworkDisConnect_def
        Network_NetworkDisconnect_def UpdateServiceState_eq SupplierDisconnection_Some)
  then have "NetService_ServiceDisConnect sample_env ?c =
      (ERR_SERVICE_DISCONNECTED_SUCCESS, snd (NetService_ServiceDisConnect sample_env ?c))"
    by (metis prod.collapse)
  from ServiceConnect_refused_after_disconnect [OF _ _ this] show ?thesis by simp
qed

text \<open>
  Every call of \<open>ServiceConnect\<close>, whatever the service and the suppliers' answers:
  success means the service is ready and its network connected; the failure of the request means
  it is idle and the network not connected; with any other code (connecting, connected, invalid
  type) nothing has changed and nothing was sent.
\<close>

theorem ServiceConnect_results:
  "case NetService_ServiceConnect E cx of (code, cx') \<Rightarrow>
    (code = ERR_SERVICE_REQUEST_SUCCESS \<and> sv_state (cx_service cx') = SERVICE_STATE_READY \<and>
       nw_isConnected (cx_network cx')) \<or>
    (code = ERR_SERVICE_REQUEST_CONNECT_FAIL \<and> sv_state (cx_service cx') = SERVICE_STATE_IDLE \<and>
       nw_isConnected (cx_network cx') = False) \<or>
    (code \<in> {ERR_SERVICE_CONNECTING, ERR_SERVICE_CONNECTED, ERR_INVALID_NETORK_TYPE} \<and> cx' = cx)"
proof -
  have ret: "sint (fst (NetService_NetworkConnect E c)) < 0 \<longleftrightarrow>
      \<not> nw_isConnected (cx_network (snd (NetService_NetworkConnect E c)))" for c
    unfolding NetworkConnect_ret by simp
  show ?thesis
  proof (cases "NetService_IsConnecting (cx_service cx) (cx_network cx) \<or>
      NetService_IsConnected (cx_service cx) \<or> sv_networkType (cx_service cx) \<noteq> NET_TYPE_CELLULAR")
    case True
    then show ?thesis by (auto simp: NetService_ServiceConnect_def)
  next
    case False
    then show ?thesis
      by (simp add: NetService_ServiceConnect_def split_def Let_def ret UpdateServiceState_eq
          NetworkDisConnect_network)
  qed
qed

end
