(* ===== verification/Net_Conn_Service.thy ===== *)
theory Net_Conn_Service
  imports Net_Service
begin

text \<open>
  \<open>NetConnService\<close> (\<open>net_conn_service.h\<close>, \<open>net_conn_service.cpp\<close>): the connection
  service. Its objects are shared through reference-counted pointers, so the state holds a store for
  each class, keyed by addresses that are never used twice, and the lists of the class as lists of
  addresses. Two services of one network share it, and the default service is a second pointer to a
  listed service, or the last one to a service that is no longer listed. The destructor of a network
  has an effect on the daemon; it runs when the last pointer to it goes, which is decided by
  \<open>release_network\<close> at the two places where that can happen. Objects of the other two classes
  have no destructor with an effect and simply stay in the store.
\<close>

section \<open>State\<close>

record conn_state =
  cs_suppliers :: "nat \<rightharpoonup> net_supplier"
  cs_networks :: "nat \<rightharpoonup> network"
  cs_services :: "nat \<rightharpoonup> net_service"
  cs_next :: nat
  cs_netSupplier :: "nat list"
  cs_networkList :: "nat list"
  cs_netServices :: "nat list"
  cs_defaultNetService :: "nat option"
  cs_nextNetSupplierId :: uint32
  cs_netIdManager :: net_id_manager
  cs_netControllers :: net_controllers
  cs_world :: world
  cs_reConnectTimers :: nat
  cs_registerToService :: bool
  cs_state :: ServiceRunningState

definition NetConnService_new :: "conn_env \<Rightarrow> conn_state" where
  "NetConnService_new E =
     \<lparr>cs_suppliers = Map.empty, cs_networks = Map.empty, cs_services = Map.empty, cs_next = 0,
      cs_netSupplier = [], cs_networkList = [], cs_netServices = [], cs_defaultNetService = None,
      cs_nextNetSupplierId = g_nextNetSupplierId_init, cs_netIdManager = NetIdManager_init,
      cs_netControllers = Map.empty,
      cs_world = \<lparr>wd_netd = NetdController_new (env_netd E), wd_events = []\<rparr>,
      cs_reConnectTimers = 0, cs_registerToService = False, cs_state = STATE_STOPPED\<rparr>"

text \<open>Following a pointer.\<close>

definition sup_at :: "conn_state \<Rightarrow> nat \<Rightarrow> net_supplier" where
  "sup_at s r = the (cs_suppliers s r)"
definition net_at :: "conn_state \<Rightarrow> nat \<Rightarrow> network" where
  "net_at s r = the (cs_networks s r)"
definition svc_at :: "conn_state \<Rightarrow> nat \<Rightarrow> net_service" where
  "svc_at s r = the (cs_services s r)"
definition net_sup :: "conn_state \<Rightarrow> nat \<Rightarrow> net_supplier" where
  "net_sup s r = sup_at s (nw_supplier (net_at s r))"

section \<open>Starting and stopping\<close>

text \<open>
  \<open>local\<close> is \<open>REGISTER_LOCAL_RESULT\<close>, \<open>publish\<close> what \<open>Publish\<close> returns; both
  come from the system ability manager.
\<close>

definition NetConnService_Init :: "bool \<Rightarrow> bool \<Rightarrow> conn_state \<Rightarrow> bool \<times> conn_state" where
  "NetConnService_Init local publish s =
     (if \<not> local then (False, s\<lparr>cs_registerToService := False\<rparr>)
      else if \<not> cs_registerToService s
      then (if \<not> publish then (False, s) else (True, s\<lparr>cs_registerToService := True\<rparr>))
      else (True, s))"

definition NetConnService_OnStart :: "bool \<Rightarrow> bool \<Rightarrow> conn_state \<Rightarrow> conn_state" where
  "NetConnService_OnStart local publish s =
     (if cs_state s = STATE_RUNNING then s
      else let (ok, s1) = NetConnService_Init local publish s
           in if \<not> ok then s1 else s1\<lparr>cs_state := STATE_RUNNING\<rparr>)"

definition NetConnService_OnStop :: "conn_state \<Rightarrow> conn_state" where
  "NetConnService_OnStop s = s\<lparr>cs_state := STATE_STOPPED, cs_registerToService := False\<rparr>"

definition NetConnService_SystemReady :: "conn_state \<Rightarrow> int32 \<times> conn_state" where
  "NetConnService_SystemReady s = (0, s)"

section \<open>Searching the lists\<close>

definition NetConnService_GetNetSupplierFromList :: "uint32 \<Rightarrow> string \<Rightarrow> conn_state \<Rightarrow> nat option" where
  "NetConnService_GetNetSupplierFromList netType ident s =
     find (\<lambda>r. netType = NetworkType_val (ns_netSupplierType (sup_at s r)) \<and>
               ident = ns_netSupplierIdent (sup_at s r)) (cs_netSupplier s)"

definition NetConnService_GetNetSupplierFromListById :: "uint32 \<Rightarrow> conn_state \<Rightarrow> nat option" where
  "NetConnService_GetNetSupplierFromListById supplierId s =
     find (\<lambda>r. ns_supplierId (sup_at s r) = supplierId) (cs_netSupplier s)"

definition NetConnService_GetNetworkFromListBySupplierId :: "uint32 \<Rightarrow> conn_state \<Rightarrow> nat option" where
  "NetConnService_GetNetworkFromListBySupplierId supplierId s =
     find (\<lambda>r. ns_supplierId (net_sup s r) = supplierId) (cs_networkList s)"

definition NetConnService_DeleteSupplierFromListById :: "uint32 \<Rightarrow> conn_state \<Rightarrow> conn_state" where
  "NetConnService_DeleteSupplierFromListById supplierId s =
     s\<lparr>cs_netSupplier := erase_first (\<lambda>r. ns_supplierId (sup_at s r) = supplierId) (cs_netSupplier s)\<rparr>"

definition NetConnService_DeleteNetworkFromListBySupplierId :: "uint32 \<Rightarrow> conn_state \<Rightarrow> conn_state" where
  "NetConnService_DeleteNetworkFromListBySupplierId supplierId s =
     s\<lparr>cs_networkList := erase_first (\<lambda>r. ns_supplierId (net_sup s r) = supplierId) (cs_networkList s)\<rparr>"

definition NetConnService_DeleteServiceFromListByNet :: "nat \<Rightarrow> conn_state \<Rightarrow> conn_state" where
  "NetConnService_DeleteServiceFromListByNet nr s =
     s\<lparr>cs_netServices := filter (\<lambda>r. \<not> Network_eq (net_at s (sv_network (svc_at s r)), net_sup s (sv_network (svc_at s r)))
          (net_at s nr, net_sup s nr)) (cs_netServices s)\<rparr>"

definition serves :: "conn_state \<Rightarrow> int \<Rightarrow> NetCapabilities \<Rightarrow> nat \<Rightarrow> bool" where
  "serves s netId cap r \<longleftrightarrow>
     nw_netId (net_at s (sv_network (svc_at s r))) = netId \<and> sv_netCapability (svc_at s r) = cap"

definition NetConnService_DeleteServiceFromListByCap ::
    "int \<Rightarrow> NetCapabilities \<Rightarrow> conn_state \<Rightarrow> bool \<times> conn_state" where
  "NetConnService_DeleteServiceFromListByCap netId cap s =
     (list_ex (serves s netId cap) (cs_netServices s),
      s\<lparr>cs_netServices := erase_first (serves s netId cap) (cs_netServices s)\<rparr>)"

definition NetConnService_IsServiceInList :: "int \<Rightarrow> NetCapabilities \<Rightarrow> conn_state \<Rightarrow> bool" where
  "NetConnService_IsServiceInList netId cap s = list_ex (serves s netId cap) (cs_netServices s)"

section \<open>Running a service and releasing a network\<close>

definition service_context :: "nat \<Rightarrow> conn_state \<Rightarrow> service_ctx" where
  "service_context r s = \<lparr>cx_service = svc_at s r, cx_network = net_at s (sv_network (svc_at s r)),
     cx_supplier = net_sup s (sv_network (svc_at s r)), cx_world = cs_world s\<rparr>"

text \<open>Call a member of the service at \<open>r\<close>: the objects it reaches are read and written back.\<close>

definition run_service :: "nat \<Rightarrow> (service_ctx \<Rightarrow> 'a \<times> service_ctx) \<Rightarrow> conn_state \<Rightarrow> 'a \<times> conn_state" where
  "run_service r f s =
     (let nr = sv_network (svc_at s r); (res, cx) = f (service_context r s)
      in (res, s\<lparr>cs_services := (cs_services s)(r \<mapsto> cx_service cx),
                 cs_networks := (cs_networks s)(nr \<mapsto> cx_network cx),
                 cs_suppliers := (cs_suppliers s)(nw_supplier (net_at s nr) \<mapsto> cx_supplier cx),
                 cs_world := cx_world cx\<rparr>))"

text \<open>The services that can still be reached: the listed ones and the default one.\<close>

definition live_services :: "conn_state \<Rightarrow> nat list" where
  "live_services s = cs_netServices s @ (case cs_defaultNetService s of None \<Rightarrow> [] | Some r \<Rightarrow> [r])"

definition network_held :: "conn_state \<Rightarrow> nat \<Rightarrow> bool" where
  "network_held s nr \<longleftrightarrow> nr \<in> set (cs_networkList s) \<or>
     list_ex (\<lambda>r. sv_network (svc_at s r) = nr) (live_services s)"

definition release_network :: "conn_env \<Rightarrow> nat \<Rightarrow> conn_state \<Rightarrow> conn_state" where
  "release_network E nr s =
     (if network_held s nr then s
      else s\<lparr>cs_networks := (cs_networks s)(nr := None),
             cs_world := Network_delete E (net_at s nr) (cs_world s)\<rparr>)"

section \<open>Registering and unregistering suppliers\<close>

definition cap_set :: "uint64 \<Rightarrow> NetCapabilities \<Rightarrow> bool" where
  "cap_set caps cap \<longleftrightarrow> caps AND NetCapabilities_val cap \<noteq> 0"

definition new_supplier :: "uint32 \<Rightarrow> string \<Rightarrow> conn_state \<Rightarrow> nat \<times> conn_state" where
  "new_supplier netType ident s =
     (let (spl, cs, n) = NetSupplier_new (NetworkType_cast netType) ident (cs_netControllers s, cs_nextNetSupplierId s)
      in (cs_next s, s\<lparr>cs_suppliers := (cs_suppliers s)(cs_next s \<mapsto> spl), cs_next := Suc (cs_next s),
            cs_netControllers := cs, cs_nextNetSupplierId := n\<rparr>))"

definition new_network :: "conn_env \<Rightarrow> nat \<Rightarrow> conn_state \<Rightarrow> nat \<times> conn_state" where
  "new_network E sr s =
     (let (nw, idm, w) = Network_new E sr (cs_netIdManager s) (cs_world s)
      in (cs_next s, s\<lparr>cs_networks := (cs_networks s)(cs_next s \<mapsto> nw), cs_next := Suc (cs_next s),
            cs_netIdManager := idm, cs_world := w\<rparr>))"

text \<open>Create a service and append it to the list.\<close>

definition push_service :: "string \<Rightarrow> NetworkType \<Rightarrow> NetCapabilities \<Rightarrow> nat \<Rightarrow> conn_state \<Rightarrow> conn_state" where
  "push_service ident ty cap nr s =
     s\<lparr>cs_services := (cs_services s)(cs_next s \<mapsto> NetService_new ident ty cap nr),
       cs_netServices := cs_netServices s @ [cs_next s], cs_next := Suc (cs_next s)\<rparr>"

text \<open>Assign the default service; the service it pointed to before may have been the last holder of its network.\<close>

definition set_default :: "conn_env \<Rightarrow> nat \<Rightarrow> conn_state \<Rightarrow> conn_state" where
  "set_default E r s =
     (let s1 = s\<lparr>cs_defaultNetService := Some r\<rparr>
      in case cs_defaultNetService s of None \<Rightarrow> s1
         | Some old \<Rightarrow> release_network E (sv_network (svc_at s old)) s1)"

text \<open>The services of a new network, by the bits of the capabilities.\<close>

definition create_services ::
    "conn_env \<Rightarrow> string \<Rightarrow> NetworkType \<Rightarrow> uint64 \<Rightarrow> nat \<Rightarrow> conn_state \<Rightarrow> conn_state" where
  "create_services E ident ty caps nr s =
     (let s1 = (if cap_set caps NET_CAPABILITIES_INTERNET
                then set_default E (cs_next s) (push_service ident ty NET_CAPABILITIES_INTERNET nr s)
                else s)
      in if cap_set caps NET_CAPABILITIES_MMS
         then push_service ident ty NET_CAPABILITIES_MMS nr s1 else s1)"

text \<open>The middle part of \<open>RegisterNetSupplier\<close>: supplier, network and services, and their lists.\<close>

definition create_objects ::
    "conn_env \<Rightarrow> uint32 \<Rightarrow> string \<Rightarrow> uint64 \<Rightarrow> conn_state \<Rightarrow> nat \<times> conn_state" where
  "create_objects E netType ident caps s =
     (let (sr, s1) = new_supplier netType ident s;
          (nr, s2) = new_network E sr s1;
          s3 = create_services E ident (NetworkType_cast netType) caps nr s2
      in (sr, s3\<lparr>cs_netSupplier := cs_netSupplier s3 @ [sr], cs_networkList := cs_networkList s3 @ [nr]\<rparr>))"

text \<open>Its last part: connect the default service, and start the timer when that fails.\<close>

definition connect_default :: "conn_env \<Rightarrow> conn_state \<Rightarrow> conn_state" where
  "connect_default E s =
     (case cs_defaultNetService s of None \<Rightarrow> s
      | Some d \<Rightarrow>
          let (result, t) = run_service d (NetService_ServiceConnect E) s
          in if result \<noteq> ERR_SERVICE_REQUEST_SUCCESS
             then t\<lparr>cs_reConnectTimers := Suc (cs_reConnectTimers t)\<rparr> else t)"

definition NetConnService_RegisterNetSupplier ::
    "conn_env \<Rightarrow> uint32 \<Rightarrow> string \<Rightarrow> uint64 \<Rightarrow> conn_state \<Rightarrow> int32 \<times> conn_state" where
  "NetConnService_RegisterNetSupplier E netType ident caps s =
     (if netType \<ge> NetworkType_val NET_TYPE_MAX \<or> netType \<le> NetworkType_val NET_TYPE_UNKNOWN
      then (ResultCode_val ERR_INVALID_NETORK_TYPE, s)
      else case NetConnService_GetNetSupplierFromList netType ident s of
        Some r \<Rightarrow> (ns_supplierId (sup_at s r), s)
      | None \<Rightarrow>
          let (sr, s5) = create_objects E netType ident caps s;
              s6 = connect_default E s5
          in (ns_supplierId (sup_at s6 sr), s6))"

definition NetConnService_ReConnectService :: "conn_env \<Rightarrow> conn_state \<Rightarrow> ResultCode \<times> conn_state" where
  "NetConnService_ReConnectService E s =
     (case cs_defaultNetService s of None \<Rightarrow> (ERR_SERVICE_NULL_PTR, s)
      | Some d \<Rightarrow>
          let s1 = (if NetService_IsConnected (svc_at s d) \<or>
                       NetService_IsConnecting (svc_at s d) (net_at s (sv_network (svc_at s d)))
                    then snd (run_service d (NetService_ServiceDisConnect E) s) else s)
          in run_service d (NetService_ServiceConnect E) s1)"

text \<open>The task of the timer only logs the result; running it uses up one started timer.\<close>

definition NetConnService_ReConnectServiceTask :: "conn_env \<Rightarrow> conn_state \<Rightarrow> conn_state" where
  "NetConnService_ReConnectServiceTask E s = snd (NetConnService_ReConnectService E s)"

definition fire_timer :: "conn_env \<Rightarrow> conn_state \<Rightarrow> conn_state" where
  "fire_timer E s =
     NetConnService_ReConnectServiceTask E (s\<lparr>cs_reConnectTimers := cs_reConnectTimers s - 1\<rparr>)"

definition NetConnService_UnregisterNetSupplier ::
    "conn_env \<Rightarrow> uint32 \<Rightarrow> conn_state \<Rightarrow> int32 \<times> conn_state" where
  "NetConnService_UnregisterNetSupplier E supplierId s =
     (case NetConnService_GetNetSupplierFromListById supplierId s of
        None \<Rightarrow> (ResultCode_val ERR_NO_SUPPLIER, s)
      | Some sr \<Rightarrow>
          (case NetConnService_GetNetworkFromListBySupplierId supplierId s of
             None \<Rightarrow> (ResultCode_val ERR_NO_NETWORK, NetConnService_DeleteSupplierFromListById supplierId s)
           | Some nr \<Rightarrow>
               let s1 = NetConnService_DeleteServiceFromListByNet nr s;
                   s2 = NetConnService_DeleteNetworkFromListBySupplierId supplierId s1;
                   s3 = NetConnService_DeleteSupplierFromListById supplierId s2
               in (ResultCode_val ERR_NONE, release_network E nr s3)))"

section \<open>Callbacks\<close>

definition update_service :: "(net_service \<Rightarrow> net_service) \<Rightarrow> nat \<Rightarrow> conn_state \<Rightarrow> conn_state" where
  "update_service f r s = s\<lparr>cs_services := (cs_services s)(r \<mapsto> f (svc_at s r))\<rparr>"

definition NetConnService_RegisterNetConnCallback_all ::
    "callback option \<Rightarrow> conn_state \<Rightarrow> int32 \<times> conn_state" where
  "NetConnService_RegisterNetConnCallback_all cb s =
     (if cb = None then (ResultCode_val ERR_SERVICE_NULL_PTR, s)
      else if cs_netServices s = [] then (ResultCode_val ERR_NO_ANY_NET_TYPE, s)
      else (ResultCode_val ERR_NONE,
            fold (update_service (NetService_RegisterNetConnCallback cb)) (cs_netServices s) s))"

definition matches_specifier :: "conn_state \<Rightarrow> NetSpecifier \<Rightarrow> nat \<Rightarrow> bool" where
  "matches_specifier s spec r \<longleftrightarrow>
     (let cap = NetCapabilities_val (sv_netCapability (svc_at s r))
      in NetworkType_val (sv_networkType (svc_at s r)) = sp_netType spec \<and>
         cap AND sp_netCapabilities spec = cap)"

definition NetConnService_RegisterNetConnCallback ::
    "NetSpecifier option \<Rightarrow> callback option \<Rightarrow> conn_state \<Rightarrow> int32 \<times> conn_state" where
  "NetConnService_RegisterNetConnCallback spec cb s =
     (if spec = None \<or> cb = None then (ResultCode_val ERR_SERVICE_NULL_PTR, s)
      else if cs_netServices s = [] then (ResultCode_val ERR_NO_ANY_NET_TYPE, s)
      else case find (matches_specifier s (the spec)) (cs_netServices s) of
             None \<Rightarrow> (ResultCode_val ERR_NET_TYPE_NOT_FOUND, s)
           | Some r \<Rightarrow> (ResultCode_val ERR_NONE, update_service (NetService_RegisterNetConnCallback cb) r s))"

definition NetConnService_UnregisterNetConnCallback_all ::
    "callback option \<Rightarrow> conn_state \<Rightarrow> int32 \<times> conn_state" where
  "NetConnService_UnregisterNetConnCallback_all cb s =
     (if cb = None then (ResultCode_val ERR_SERVICE_NULL_PTR, s)
      else if cs_netServices s = [] then (ResultCode_val ERR_NO_ANY_NET_TYPE, s)
      else (ResultCode_val ERR_NONE,
            fold (update_service (\<lambda>sv. snd (NetService_UnregisterNetConnCallback cb sv))) (cs_netServices s) s))"

definition NetConnService_UnregisterNetConnCallback ::
    "NetSpecifier option \<Rightarrow> callback option \<Rightarrow> conn_state \<Rightarrow> int32 \<times> conn_state" where
  "NetConnService_UnregisterNetConnCallback spec cb s =
     (if spec = None \<or> cb = None then (ResultCode_val ERR_SERVICE_NULL_PTR, s)
      else if cs_netServices s = [] then (ResultCode_val ERR_NO_ANY_NET_TYPE, s)
      else case find (matches_specifier s (the spec)) (cs_netServices s) of
             None \<Rightarrow> (ResultCode_val ERR_NET_TYPE_NOT_FOUND, s)
           | Some r \<Rightarrow> (ResultCode_val (fst (NetService_UnregisterNetConnCallback cb (svc_at s r))),
               update_service (\<lambda>sv. snd (NetService_UnregisterNetConnCallback cb sv)) r s))"

section \<open>Updates of a supplier\<close>

definition NetConnService_UpdateNetSupplierInfo ::
    "conn_env \<Rightarrow> uint32 \<Rightarrow> NetSupplierInfo option \<Rightarrow> conn_state \<Rightarrow> int32 \<times> conn_state" where
  "NetConnService_UpdateNetSupplierInfo E supplierId info s =
     (case info of None \<Rightarrow> (ResultCode_val ERR_INVALID_PARAMS, s)
      | Some i \<Rightarrow>
          (case NetConnService_GetNetSupplierFromListById supplierId s of
             None \<Rightarrow> (ResultCode_val ERR_NO_SUPPLIER, s)
           | Some sr \<Rightarrow>
               (case NetConnService_GetNetworkFromListBySupplierId (ns_supplierId (sup_at s sr)) s of
                  None \<Rightarrow> (ResultCode_val ERR_NO_NETWORK, s)
                | Some nr \<Rightarrow>
                    let (_, nw, spl, w) = Network_UpdateNetSupplierInfo E i (net_at s nr) (net_sup s nr) (cs_world s)
                    in (ResultCode_val ERR_NONE,
                        s\<lparr>cs_networks := (cs_networks s)(nr \<mapsto> nw),
                          cs_suppliers := (cs_suppliers s)(nw_supplier (net_at s nr) \<mapsto> spl),
                          cs_world := w\<rparr>))))"

text \<open>One of the two blocks of \<open>UpdateNetCapabilities\<close>, for one capability.\<close>

definition update_capability ::
    "uint64 \<Rightarrow> NetCapabilities \<Rightarrow> string \<Rightarrow> NetworkType \<Rightarrow> nat \<Rightarrow> conn_state \<Rightarrow> conn_state" where
  "update_capability caps cap ident ty nr s =
     (let netId = nw_netId (net_at s nr)
      in if cap_set caps cap
         then (if \<not> NetConnService_IsServiceInList netId cap s then push_service ident ty cap nr s else s)
         else (if NetConnService_IsServiceInList netId cap s
               then snd (NetConnService_DeleteServiceFromListByCap netId cap s) else s))"

definition NetConnService_UpdateNetCapabilities :: "uint32 \<Rightarrow> uint64 \<Rightarrow> conn_state \<Rightarrow> int32 \<times> conn_state" where
  "NetConnService_UpdateNetCapabilities supplierId caps s =
     (case NetConnService_GetNetSupplierFromListById supplierId s of
        None \<Rightarrow> (ResultCode_val ERR_NO_SUPPLIER, s)
      | Some sr \<Rightarrow>
          (case NetConnService_GetNetworkFromListBySupplierId (ns_supplierId (sup_at s sr)) s of
             None \<Rightarrow> (ResultCode_val ERR_NO_NETWORK, s)
           | Some nr \<Rightarrow>
               let ty = ns_netSupplierType (sup_at s sr); ident = ns_netSupplierIdent (sup_at s sr);
                   s1 = update_capability caps NET_CAPABILITIES_INTERNET ident ty nr s;
                   s2 = update_capability caps NET_CAPABILITIES_MMS ident ty nr s1
               in (ResultCode_val ERR_NONE, s2)))"

definition NetConnService_UpdateNetLinkInfo ::
    "conn_env \<Rightarrow> uint32 \<Rightarrow> NetLinkInfo option \<Rightarrow> conn_state \<Rightarrow> int32 \<times> conn_state" where
  "NetConnService_UpdateNetLinkInfo E supplierId info s =
     (case info of None \<Rightarrow> (ResultCode_val ERR_INVALID_PARAMS, s)
      | Some i \<Rightarrow>
          (case NetConnService_GetNetSupplierFromListById supplierId s of
             None \<Rightarrow> (ResultCode_val ERR_NO_SUPPLIER, s)
           | Some sr \<Rightarrow>
               (case NetConnService_GetNetworkFromListBySupplierId (ns_supplierId (sup_at s sr)) s of
                  None \<Rightarrow> (ResultCode_val ERR_NO_NETWORK, s)
                | Some nr \<Rightarrow>
                    let (_, nw, w) = Network_UpdateNetLinkInfo E i (net_at s nr) (cs_world s)
                    in (ResultCode_val ERR_NONE,
                        s\<lparr>cs_networks := (cs_networks s)(nr \<mapsto> nw), cs_world := w\<rparr>))))"

end
