(* ===== verification/Conn_Invariant.thy ===== *)
theory Conn_Invariant
  imports Net_Conn_Service
begin

text \<open>
  The invariant of the connection service and its preservation by every operation. The invariant
  has six parts: addresses not yet given out are unused (\<open>fresh_inv\<close>), no pointer dangles
  (\<open>ptr_inv\<close>), the lists of suppliers and networks run in step and have no duplicates
  (\<open>list_inv\<close>), services agree with the supplier they belong to (\<open>obj_inv\<close>), the
  status flags (\<open>flag_inv\<close>) and the shared managers (\<open>world_inv\<close>). Operations that
  change only the status of objects keep their shape, and the first four parts depend on the shape
  alone.
\<close>

section \<open>The invariant\<close>

definition fresh_inv :: "conn_state \<Rightarrow> bool" where
  "fresh_inv s \<longleftrightarrow> dom (cs_suppliers s) \<union> dom (cs_networks s) \<union> dom (cs_services s) \<subseteq> {..<cs_next s}"

text \<open>\<open>X\<close> holds a network under construction, not listed yet.\<close>

definition ptr_inv :: "nat set \<Rightarrow> conn_state \<Rightarrow> bool" where
  "ptr_inv X s \<longleftrightarrow>
     set (cs_netSupplier s) \<subseteq> dom (cs_suppliers s) \<and>
     set (cs_networkList s) \<subseteq> dom (cs_networks s) \<and> X \<subseteq> dom (cs_networks s) \<and>
     set (live_services s) \<subseteq> dom (cs_services s) \<and>
     (\<forall>r \<in> set (live_services s). sv_network (svc_at s r) \<in> dom (cs_networks s)) \<and>
     (\<forall>nr \<in> dom (cs_networks s). nw_supplier (net_at s nr) \<in> dom (cs_suppliers s)) \<and>
     (\<forall>r \<in> set (cs_netServices s). sv_network (svc_at s r) \<in> set (cs_networkList s) \<union> X)"

definition sup_key :: "conn_state \<Rightarrow> nat \<Rightarrow> NetworkType \<times> string" where
  "sup_key s r = (ns_netSupplierType (sup_at s r), ns_netSupplierIdent (sup_at s r))"

definition svc_key :: "conn_state \<Rightarrow> nat \<Rightarrow> nat \<times> NetCapabilities" where
  "svc_key s r = (sv_network (svc_at s r), sv_netCapability (svc_at s r))"

definition list_inv :: "conn_state \<Rightarrow> bool" where
  "list_inv s \<longleftrightarrow>
     map (\<lambda>nr. nw_supplier (net_at s nr)) (cs_networkList s) = cs_netSupplier s \<and>
     distinct (cs_netSupplier s) \<and> distinct (map (sup_key s) (cs_netSupplier s)) \<and>
     distinct (cs_netServices s) \<and> distinct (map (svc_key s) (cs_netServices s))"

definition sup_ok :: "net_supplier \<Rightarrow> bool" where
  "sup_ok spl \<longleftrightarrow> ns_netSupplierType spl \<in> {NET_TYPE_CELLULAR, NET_TYPE_ETHERNET} \<and>
     ns_netController spl = (if ns_netSupplierType spl = NET_TYPE_CELLULAR then Some TelephonyController else None)"

definition svc_ok :: "conn_state \<Rightarrow> nat \<Rightarrow> bool" where
  "svc_ok s r \<longleftrightarrow>
     sv_networkType (svc_at s r) = ns_netSupplierType (net_sup s (sv_network (svc_at s r))) \<and>
     sv_ident (svc_at s r) = ns_netSupplierIdent (net_sup s (sv_network (svc_at s r))) \<and>
     sv_netCapability (svc_at s r) \<in> {NET_CAPABILITIES_INTERNET, NET_CAPABILITIES_MMS}"

definition obj_inv :: "conn_state \<Rightarrow> bool" where
  "obj_inv s \<longleftrightarrow> (\<forall>r \<in> dom (cs_suppliers s). sup_ok (sup_at s r)) \<and> (\<forall>r \<in> set (live_services s). svc_ok s r)"

definition flag_inv :: "conn_state \<Rightarrow> bool" where
  "flag_inv s \<longleftrightarrow>
     (\<forall>spl \<in> ran (cs_suppliers s). \<not> ns_connected spl) \<and>
     (\<forall>nw \<in> ran (cs_networks s). nw_isConnecting nw = nw_isConnected nw) \<and>
     (\<forall>sv \<in> ran (cs_services s). distinct (sv_netConnCallback sv))"

definition world_inv :: "conn_env \<Rightarrow> conn_state \<Rightarrow> bool" where
  "world_inv E s \<longleftrightarrow> net_id_inv (cs_netIdManager s) \<and> controllers_inv (cs_netControllers s) \<and>
     netd_ready (env_netd E) (wd_netd (cs_world s)) \<and>
     list_all (\<lambda>e. \<not> is_request e) (wd_events (cs_world s))"

definition conn_inv :: "conn_env \<Rightarrow> conn_state \<Rightarrow> bool" where
  "conn_inv E s \<longleftrightarrow> fresh_inv s \<and> ptr_inv {} s \<and> list_inv s \<and> obj_inv s \<and> flag_inv s \<and> world_inv E s"

lemmas conn_inv_parts = fresh_inv_def ptr_inv_def list_inv_def obj_inv_def flag_inv_def world_inv_def

section \<open>Shape\<close>

definition ns_shape :: "net_supplier \<Rightarrow> INetController option \<times> NetworkType \<times> string \<times> uint32" where
  "ns_shape spl = (ns_netController spl, ns_netSupplierType spl, ns_netSupplierIdent spl, ns_supplierId spl)"
definition nw_shape :: "network \<Rightarrow> nat \<times> int" where
  "nw_shape nw = (nw_supplier nw, nw_netId nw)"
definition sv_shape :: "net_service \<Rightarrow> string \<times> NetworkType \<times> NetCapabilities \<times> nat" where
  "sv_shape sv = (sv_ident sv, sv_networkType sv, sv_netCapability sv, sv_network sv)"

definition same_shape :: "conn_state \<Rightarrow> conn_state \<Rightarrow> bool" where
  "same_shape s t \<longleftrightarrow>
     (\<forall>r. map_option ns_shape (cs_suppliers t r) = map_option ns_shape (cs_suppliers s r)) \<and>
     (\<forall>r. map_option nw_shape (cs_networks t r) = map_option nw_shape (cs_networks s r)) \<and>
     (\<forall>r. map_option sv_shape (cs_services t r) = map_option sv_shape (cs_services s r)) \<and>
     cs_next t = cs_next s \<and> cs_netSupplier t = cs_netSupplier s \<and>
     cs_networkList t = cs_networkList s \<and> cs_netServices t = cs_netServices s \<and>
     cs_defaultNetService t = cs_defaultNetService s"

lemma map_option_the: "map_option f a = map_option f b \<Longrightarrow> f (the a) = f (the b)"
  by (cases a; cases b) auto

lemma map_option_dom: "(\<And>r. map_option f (m r) = map_option f (m' r)) \<Longrightarrow> dom m = dom m'"
  by (auto simp: dom_def) (metis map_option_is_None option.exhaust)+

lemma same_shape_refl [simp]: "same_shape s s"
  by (simp add: same_shape_def)

lemma same_shape_trans: "same_shape s t \<Longrightarrow> same_shape t u \<Longrightarrow> same_shape s u"
  by (simp add: same_shape_def)

lemma shape_doms:
  assumes "same_shape s t"
  shows "dom (cs_suppliers t) = dom (cs_suppliers s)" "dom (cs_networks t) = dom (cs_networks s)"
    "dom (cs_services t) = dom (cs_services s)"
proof -
  show "dom (cs_suppliers t) = dom (cs_suppliers s)"
    using assms by (intro map_option_dom [of ns_shape]) (simp add: same_shape_def)
  show "dom (cs_networks t) = dom (cs_networks s)"
    using assms by (intro map_option_dom [of nw_shape]) (simp add: same_shape_def)
  show "dom (cs_services t) = dom (cs_services s)"
    using assms by (intro map_option_dom [of sv_shape]) (simp add: same_shape_def)
qed

lemma shape_objects:
  assumes "same_shape s t"
  shows "ns_shape (sup_at t r) = ns_shape (sup_at s r)" "nw_shape (net_at t r) = nw_shape (net_at s r)"
    "sv_shape (svc_at t r) = sv_shape (svc_at s r)"
  using assms map_option_the unfolding same_shape_def sup_at_def net_at_def svc_at_def by blast+

lemma shape_fields:
  assumes "same_shape s t"
  shows "ns_netController (sup_at t r) = ns_netController (sup_at s r)"
    "ns_netSupplierType (sup_at t r) = ns_netSupplierType (sup_at s r)"
    "ns_netSupplierIdent (sup_at t r) = ns_netSupplierIdent (sup_at s r)"
    "ns_supplierId (sup_at t r) = ns_supplierId (sup_at s r)"
    "nw_supplier (net_at t r) = nw_supplier (net_at s r)" "nw_netId (net_at t r) = nw_netId (net_at s r)"
    "sv_ident (svc_at t r) = sv_ident (svc_at s r)" "sv_networkType (svc_at t r) = sv_networkType (svc_at s r)"
    "sv_netCapability (svc_at t r) = sv_netCapability (svc_at s r)" "sv_network (svc_at t r) = sv_network (svc_at s r)"
  using shape_objects [OF assms, of r] by (simp_all add: ns_shape_def nw_shape_def sv_shape_def)

lemma shape_lists:
  assumes "same_shape s t"
  shows "cs_next t = cs_next s" "cs_netSupplier t = cs_netSupplier s" "cs_networkList t = cs_networkList s"
    "cs_netServices t = cs_netServices s" "cs_defaultNetService t = cs_defaultNetService s"
    "live_services t = live_services s"
  using assms by (simp_all add: same_shape_def live_services_def)

lemmas shape_eqs = shape_doms shape_fields shape_lists

lemma shape_keys:
  assumes "same_shape s t"
  shows "sup_key t = sup_key s" "svc_key t = svc_key s" "svc_ok t = svc_ok s"
    "sup_ok (sup_at t r) = sup_ok (sup_at s r)"
  using assms
  by (auto simp: sup_key_def svc_key_def svc_ok_def sup_ok_def net_sup_def shape_fields fun_eq_iff)

lemma shape_inv:
  assumes "same_shape s t"
  shows "fresh_inv t = fresh_inv s" "ptr_inv X t = ptr_inv X s" "list_inv t = list_inv s" "obj_inv t = obj_inv s"
  unfolding fresh_inv_def ptr_inv_def list_inv_def obj_inv_def
  by (simp_all only: shape_eqs [OF assms] shape_keys [OF assms])

lemma conn_inv_shape:
  assumes "conn_inv E s" and "same_shape s t" and "flag_inv t" and "world_inv E t"
  shows "conn_inv E t"
  using assms by (simp add: conn_inv_def shape_inv)

section \<open>Objects under updates of the store\<close>

lemma at_simps [simp]:
  "sup_at (s\<lparr>cs_suppliers := m\<rparr>) r = the (m r)" "net_at (s\<lparr>cs_suppliers := m\<rparr>) r = net_at s r"
  "svc_at (s\<lparr>cs_suppliers := m\<rparr>) r = svc_at s r" "sup_at (s\<lparr>cs_networks := n\<rparr>) r = sup_at s r"
  "net_at (s\<lparr>cs_networks := n\<rparr>) r = the (n r)" "svc_at (s\<lparr>cs_networks := n\<rparr>) r = svc_at s r"
  "sup_at (s\<lparr>cs_services := v\<rparr>) r = sup_at s r" "net_at (s\<lparr>cs_services := v\<rparr>) r = net_at s r"
  "svc_at (s\<lparr>cs_services := v\<rparr>) r = the (v r)" "sup_at (s\<lparr>cs_world := w\<rparr>) r = sup_at s r"
  "net_at (s\<lparr>cs_world := w\<rparr>) r = net_at s r" "svc_at (s\<lparr>cs_world := w\<rparr>) r = svc_at s r"
  "sup_at (s\<lparr>cs_next := n'\<rparr>) r = sup_at s r" "net_at (s\<lparr>cs_next := n'\<rparr>) r = net_at s r"
  "svc_at (s\<lparr>cs_next := n'\<rparr>) r = svc_at s r"
  "sup_at (s\<lparr>cs_netSupplier := l\<rparr>) r = sup_at s r" "net_at (s\<lparr>cs_netSupplier := l\<rparr>) r = net_at s r"
  "svc_at (s\<lparr>cs_netSupplier := l\<rparr>) r = svc_at s r" "sup_at (s\<lparr>cs_networkList := l\<rparr>) r = sup_at s r"
  "net_at (s\<lparr>cs_networkList := l\<rparr>) r = net_at s r" "svc_at (s\<lparr>cs_networkList := l\<rparr>) r = svc_at s r"
  "sup_at (s\<lparr>cs_netServices := l\<rparr>) r = sup_at s r" "net_at (s\<lparr>cs_netServices := l\<rparr>) r = net_at s r"
  "svc_at (s\<lparr>cs_netServices := l\<rparr>) r = svc_at s r"
  "sup_at (s\<lparr>cs_defaultNetService := d\<rparr>) r = sup_at s r" "net_at (s\<lparr>cs_defaultNetService := d\<rparr>) r = net_at s r"
  "svc_at (s\<lparr>cs_defaultNetService := d\<rparr>) r = svc_at s r"
  "sup_at (s\<lparr>cs_netControllers := c\<rparr>) r = sup_at s r" "net_at (s\<lparr>cs_netControllers := c\<rparr>) r = net_at s r"
  "svc_at (s\<lparr>cs_netControllers := c\<rparr>) r = svc_at s r"
  "sup_at (s\<lparr>cs_netIdManager := im\<rparr>) r = sup_at s r" "net_at (s\<lparr>cs_netIdManager := im\<rparr>) r = net_at s r"
  "svc_at (s\<lparr>cs_netIdManager := im\<rparr>) r = svc_at s r"
  "sup_at (s\<lparr>cs_nextNetSupplierId := si\<rparr>) r = sup_at s r" "net_at (s\<lparr>cs_nextNetSupplierId := si\<rparr>) r = net_at s r"
  "svc_at (s\<lparr>cs_nextNetSupplierId := si\<rparr>) r = svc_at s r"
  by (simp_all add: sup_at_def net_at_def svc_at_def)

lemma the_if [simp]: "the (if c then Some b else x) = (if c then b else the x)"
  by simp

lemmas at_fold [simp] = sup_at_def [symmetric] net_at_def [symmetric] svc_at_def [symmetric]

lemma live_simps [simp]:
  "live_services (s\<lparr>cs_suppliers := m\<rparr>) = live_services s" "live_services (s\<lparr>cs_networks := n\<rparr>) = live_services s"
  "live_services (s\<lparr>cs_services := v\<rparr>) = live_services s" "live_services (s\<lparr>cs_world := w\<rparr>) = live_services s"
  "live_services (s\<lparr>cs_next := n'\<rparr>) = live_services s" "live_services (s\<lparr>cs_netSupplier := l\<rparr>) = live_services s"
  "live_services (s\<lparr>cs_networkList := l\<rparr>) = live_services s"
  "live_services (s\<lparr>cs_netControllers := c\<rparr>) = live_services s"
  "live_services (s\<lparr>cs_netIdManager := im\<rparr>) = live_services s"
  "live_services (s\<lparr>cs_nextNetSupplierId := si\<rparr>) = live_services s"
  by (simp_all add: live_services_def)

lemma in_live: "r \<in> set (live_services s) \<longleftrightarrow> r \<in> set (cs_netServices s) \<or> cs_defaultNetService s = Some r"
  by (auto simp: live_services_def split: option.splits)

section \<open>Running a service\<close>

lemma core_shape:
  "sv_core a = sv_core b \<Longrightarrow> sv_shape a = sv_shape b \<and> sv_netConnCallback a = sv_netConnCallback b"
  "nw_core c = nw_core d \<Longrightarrow> nw_shape c = nw_shape d"
  "ns_core e = ns_core f \<Longrightarrow> ns_shape e = ns_shape f"
proof -
  show "sv_core a = sv_core b \<Longrightarrow> sv_shape a = sv_shape b \<and> sv_netConnCallback a = sv_netConnCallback b"
    by (cases a; cases b) (simp add: sv_core_def sv_shape_def)
  show "nw_core c = nw_core d \<Longrightarrow> nw_shape c = nw_shape d"
    by (cases c; cases d) (simp add: nw_core_def nw_shape_def)
  show "ns_core e = ns_core f \<Longrightarrow> ns_shape e = ns_shape f"
    by (cases e; cases f) (simp add: ns_core_def ns_shape_def)
qed

lemma ball_ran_update: "\<forall>x \<in> ran m. P x \<Longrightarrow> P b \<Longrightarrow> \<forall>x \<in> ran (m(a \<mapsto> b)). P x"
  by (auto simp: ran_def split: if_splits)

lemma ball_ran_drop: "\<forall>x \<in> ran m. P x \<Longrightarrow> \<forall>x \<in> ran (m(a := None)). P x"
  by (auto simp: ran_def split: if_splits)

lemma the_in_ran: "a \<in> dom m \<Longrightarrow> the (m a) \<in> ran m"
  by (auto simp: ran_def)

lemma live_pointers:
  assumes "ptr_inv X s" and "r \<in> set (live_services s)"
  shows "r \<in> dom (cs_services s)" "sv_network (svc_at s r) \<in> dom (cs_networks s)"
    "nw_supplier (net_at s (sv_network (svc_at s r))) \<in> dom (cs_suppliers s)"
  using assms by (auto simp: ptr_inv_def)

lemma at_in_ran:
  "r \<in> dom (cs_services s) \<Longrightarrow> svc_at s r \<in> ran (cs_services s)"
  "r \<in> dom (cs_networks s) \<Longrightarrow> net_at s r \<in> ran (cs_networks s)"
  "r \<in> dom (cs_suppliers s) \<Longrightarrow> sup_at s r \<in> ran (cs_suppliers s)"
  unfolding svc_at_def net_at_def sup_at_def by (erule the_in_ran)+

lemma cx_keepsD:
  assumes "cx_keeps cx cx'"
  shows "\<not> ns_connected (cx_supplier cx) \<Longrightarrow> \<not> ns_connected (cx_supplier cx')"
    "nw_isConnecting (cx_network cx) = nw_isConnected (cx_network cx) \<Longrightarrow>
      nw_isConnecting (cx_network cx') = nw_isConnected (cx_network cx')"
  using assms unfolding cx_keeps_def by blast+

lemma map_option_update:
  "a \<in> dom m \<Longrightarrow> f b = f (the (m a)) \<Longrightarrow> map_option f ((m(a \<mapsto> b)) q) = map_option f (m q)"
  by auto

lemma run_service_fields:
  "cs_services (snd (run_service r f s)) = (cs_services s)(r \<mapsto> cx_service (snd (f (service_context r s))))"
  "cs_networks (snd (run_service r f s)) =
    (cs_networks s)(sv_network (svc_at s r) \<mapsto> cx_network (snd (f (service_context r s))))"
  "cs_suppliers (snd (run_service r f s)) =
    (cs_suppliers s)(nw_supplier (net_at s (sv_network (svc_at s r))) \<mapsto> cx_supplier (snd (f (service_context r s))))"
  "cs_world (snd (run_service r f s)) = cx_world (snd (f (service_context r s)))"
  "cs_next (snd (run_service r f s)) = cs_next s" "cs_netSupplier (snd (run_service r f s)) = cs_netSupplier s"
  "cs_networkList (snd (run_service r f s)) = cs_networkList s"
  "cs_netServices (snd (run_service r f s)) = cs_netServices s"
  "cs_defaultNetService (snd (run_service r f s)) = cs_defaultNetService s"
  "cs_netIdManager (snd (run_service r f s)) = cs_netIdManager s"
  "cs_netControllers (snd (run_service r f s)) = cs_netControllers s"
  "cs_nextNetSupplierId (snd (run_service r f s)) = cs_nextNetSupplierId s"
  "cs_reConnectTimers (snd (run_service r f s)) = cs_reConnectTimers s"
  by (simp_all add: run_service_def Let_def split_def)

lemma keeps_context:
  assumes "cx_keeps (service_context r s) cx"
  shows "sv_shape (cx_service cx) = sv_shape (svc_at s r)"
    "sv_netConnCallback (cx_service cx) = sv_netConnCallback (svc_at s r)"
    "nw_shape (cx_network cx) = nw_shape (net_at s (sv_network (svc_at s r)))"
    "ns_shape (cx_supplier cx) = ns_shape (sup_at s (nw_supplier (net_at s (sv_network (svc_at s r)))))"
proof -
  have "sv_core (cx_service cx) = sv_core (svc_at s r)"
    "nw_core (cx_network cx) = nw_core (net_at s (sv_network (svc_at s r)))"
    "ns_core (cx_supplier cx) = ns_core (sup_at s (nw_supplier (net_at s (sv_network (svc_at s r)))))"
    using assms by (simp_all add: cx_keeps_def service_context_def net_sup_def)
  then show "sv_shape (cx_service cx) = sv_shape (svc_at s r)"
    "sv_netConnCallback (cx_service cx) = sv_netConnCallback (svc_at s r)"
    "nw_shape (cx_network cx) = nw_shape (net_at s (sv_network (svc_at s r)))"
    "ns_shape (cx_supplier cx) = ns_shape (sup_at s (nw_supplier (net_at s (sv_network (svc_at s r)))))"
    using core_shape by blast+
qed

lemma run_service_shape:
  assumes "ptr_inv X s" and "r \<in> set (live_services s)" and "\<And>cx. cx_keeps cx (snd (f cx))"
  shows "same_shape s (snd (run_service r f s))"
proof -
  let ?cx = "snd (f (service_context r s))"
  note ptrs = live_pointers [OF assms(1,2)] and shapes = keeps_context [OF assms(3)]
  have "\<forall>q. map_option sv_shape (((cs_services s)(r \<mapsto> cx_service ?cx)) q) = map_option sv_shape (cs_services s q)"
    using ptrs(1) shapes(1) unfolding svc_at_def by (intro allI map_option_update)
  moreover have "\<forall>q. map_option nw_shape (((cs_networks s)(sv_network (svc_at s r) \<mapsto> cx_network ?cx)) q) =
      map_option nw_shape (cs_networks s q)"
    using ptrs(2) shapes(3) unfolding net_at_def by (intro allI map_option_update)
  moreover have "\<forall>q. map_option ns_shape (((cs_suppliers s)
        (nw_supplier (net_at s (sv_network (svc_at s r))) \<mapsto> cx_supplier ?cx)) q) =
      map_option ns_shape (cs_suppliers s q)"
    using ptrs(3) shapes(4) unfolding sup_at_def by (intro allI map_option_update)
  ultimately show ?thesis
    unfolding same_shape_def run_service_fields by blast
qed

lemma run_service_flags:
  assumes "ptr_inv X s" and "r \<in> set (live_services s)" and "\<And>cx. cx_keeps cx (snd (f cx))" and "flag_inv s"
  shows "flag_inv (snd (run_service r f s))"
proof -
  let ?c = "service_context r s" and ?nr = "sv_network (svc_at s r)"
  note ptrs = live_pointers [OF assms(1,2)]
  have "svc_at s r \<in> ran (cs_services s)" "net_at s ?nr \<in> ran (cs_networks s)"
    "sup_at s (nw_supplier (net_at s ?nr)) \<in> ran (cs_suppliers s)"
    using ptrs by (simp_all only: at_in_ran)
  with assms(4) have "\<not> ns_connected (cx_supplier ?c)"
    "nw_isConnecting (cx_network ?c) = nw_isConnected (cx_network ?c)" "distinct (sv_netConnCallback (cx_service ?c))"
    by (simp_all add: flag_inv_def service_context_def net_sup_def)
  then have "\<not> ns_connected (cx_supplier (snd (f ?c)))"
    "nw_isConnecting (cx_network (snd (f ?c))) = nw_isConnected (cx_network (snd (f ?c)))"
    "distinct (sv_netConnCallback (cx_service (snd (f ?c))))"
    using cx_keepsD [OF assms(3), of ?c] keeps_context(2) [OF assms(3), of r s]
    by (simp_all add: service_context_def)
  moreover have "\<forall>spl \<in> ran (cs_suppliers s). \<not> ns_connected spl"
    "\<forall>nw \<in> ran (cs_networks s). nw_isConnecting nw = nw_isConnected nw"
    "\<forall>sv \<in> ran (cs_services s). distinct (sv_netConnCallback sv)"
    using assms(4) by (simp_all add: flag_inv_def)
  ultimately show ?thesis
    unfolding flag_inv_def run_service_fields by (intro conjI ball_ran_update)
qed

lemma run_service_world:
  assumes "\<And>cx. cx_keeps cx (snd (f cx))" and "world_inv E s"
  shows "world_inv E (snd (run_service r f s))"
proof -
  obtain cx where cx: "cx = snd (f (service_context r s))" by simp
  have "cx_keeps (service_context r s) cx" using assms(1) cx by simp
  then obtain es where "list_all (\<lambda>e. \<not> is_request e) es" "cx_world cx = world_logs es (cs_world s)"
    unfolding cx_keeps_def by (auto simp: service_context_def)
  with assms(2) show ?thesis
    by (simp add: world_inv_def run_service_fields cx [symmetric])
qed

lemma run_service_inv [nm_inv]:
  assumes "conn_inv E s" and "r \<in> set (live_services s)" and "\<And>cx. cx_keeps cx (snd (f cx))"
  shows "conn_inv E (snd (run_service r f s))"
proof -
  have "ptr_inv {} s" "flag_inv s" "world_inv E s" using assms(1) by (simp_all add: conn_inv_def)
  then show ?thesis
    using assms run_service_shape run_service_flags run_service_world by (blast intro: conn_inv_shape)
qed

section \<open>Creating objects\<close>

text \<open>The parts of the invariant that do not speak of the managers.\<close>

definition parts_inv :: "nat set \<Rightarrow> conn_state \<Rightarrow> bool" where
  "parts_inv X s \<longleftrightarrow> fresh_inv s \<and> ptr_inv X s \<and> list_inv s \<and> obj_inv s \<and> flag_inv s"

lemma conn_inv_parts_world: "conn_inv E s \<longleftrightarrow> parts_inv {} s \<and> world_inv E s"
  by (auto simp: conn_inv_def parts_inv_def)

lemma fresh_notin:
  assumes "fresh_inv s"
  shows "cs_next s \<notin> dom (cs_suppliers s)" "cs_next s \<notin> dom (cs_networks s)" "cs_next s \<notin> dom (cs_services s)"
  using assms by (auto simp: fresh_inv_def)

lemma parts_fresh:
  assumes "parts_inv X s"
  shows "cs_next s \<notin> set (cs_netSupplier s)" "cs_next s \<notin> set (cs_networkList s)"
    "cs_next s \<notin> set (live_services s)" "cs_next s \<notin> set (cs_netServices s)"
    "\<And>r. r \<in> set (live_services s) \<Longrightarrow> sv_network (svc_at s r) \<noteq> cs_next s"
    "\<And>nr. nr \<in> dom (cs_networks s) \<Longrightarrow> nw_supplier (net_at s nr) \<noteq> cs_next s"
proof -
  have f: "cs_next s \<notin> dom (cs_suppliers s)" "cs_next s \<notin> dom (cs_networks s)" "cs_next s \<notin> dom (cs_services s)"
    and p: "ptr_inv X s"
    using assms fresh_notin by (auto simp: parts_inv_def)
  show "cs_next s \<notin> set (cs_netSupplier s)" "cs_next s \<notin> set (cs_networkList s)"
    "cs_next s \<notin> set (live_services s)" "cs_next s \<notin> set (cs_netServices s)"
    "\<And>r. r \<in> set (live_services s) \<Longrightarrow> sv_network (svc_at s r) \<noteq> cs_next s"
    "\<And>nr. nr \<in> dom (cs_networks s) \<Longrightarrow> nw_supplier (net_at s nr) \<noteq> cs_next s"
    using f p in_live [of "cs_next s" s] unfolding ptr_inv_def by (blast, blast, blast, blast, metis, metis)
qed

text \<open>Allocating an object at a new address leaves what the live pointers see unchanged.\<close>

definition alloc_supplier :: "net_supplier \<Rightarrow> conn_state \<Rightarrow> conn_state" where
  "alloc_supplier spl s = s\<lparr>cs_suppliers := (cs_suppliers s)(cs_next s \<mapsto> spl), cs_next := Suc (cs_next s)\<rparr>"

definition alloc_network :: "network \<Rightarrow> conn_state \<Rightarrow> conn_state" where
  "alloc_network nw s = s\<lparr>cs_networks := (cs_networks s)(cs_next s \<mapsto> nw), cs_next := Suc (cs_next s)\<rparr>"

definition alloc_service :: "net_service \<Rightarrow> conn_state \<Rightarrow> conn_state" where
  "alloc_service sv s = s\<lparr>cs_services := (cs_services s)(cs_next s \<mapsto> sv), cs_next := Suc (cs_next s)\<rparr>"

lemma fresh_inv_alloc:
  assumes "fresh_inv s"
  shows "fresh_inv (alloc_supplier spl s)" "fresh_inv (alloc_network nw s)" "fresh_inv (alloc_service sv s)"
  using assms unfolding fresh_inv_def alloc_supplier_def alloc_network_def alloc_service_def
  by (auto simp: less_Suc_eq)

lemma flag_inv_alloc:
  assumes "flag_inv s"
  shows "\<not> ns_connected spl \<Longrightarrow> flag_inv (alloc_supplier spl s)"
    "nw_isConnecting nw = nw_isConnected nw \<Longrightarrow> flag_inv (alloc_network nw s)"
    "distinct (sv_netConnCallback sv) \<Longrightarrow> flag_inv (alloc_service sv s)"
  using assms unfolding flag_inv_def alloc_supplier_def alloc_network_def alloc_service_def
  by (auto simp del: fun_upd_apply dest: ball_ran_update)

lemma alloc_at [simp]:
  "sup_at (alloc_supplier spl s) r = (if r = cs_next s then spl else sup_at s r)"
  "net_at (alloc_supplier spl s) r = net_at s r" "svc_at (alloc_supplier spl s) r = svc_at s r"
  "sup_at (alloc_network nw s) r = sup_at s r"
  "net_at (alloc_network nw s) r = (if r = cs_next s then nw else net_at s r)" "svc_at (alloc_network nw s) r = svc_at s r"
  "sup_at (alloc_service sv s) r = sup_at s r" "net_at (alloc_service sv s) r = net_at s r"
  "svc_at (alloc_service sv s) r = (if r = cs_next s then sv else svc_at s r)"
  by (simp_all add: alloc_supplier_def alloc_network_def alloc_service_def)

lemma alloc_fields [simp]:
  "live_services (alloc_supplier spl s) = live_services s" "live_services (alloc_network nw s) = live_services s"
  "live_services (alloc_service sv s) = live_services s"
  "cs_netSupplier (alloc_supplier spl s) = cs_netSupplier s" "cs_netSupplier (alloc_network nw s) = cs_netSupplier s"
  "cs_netSupplier (alloc_service sv s) = cs_netSupplier s"
  "cs_networkList (alloc_supplier spl s) = cs_networkList s" "cs_networkList (alloc_network nw s) = cs_networkList s"
  "cs_networkList (alloc_service sv s) = cs_networkList s"
  "cs_netServices (alloc_supplier spl s) = cs_netServices s" "cs_netServices (alloc_network nw s) = cs_netServices s"
  "cs_netServices (alloc_service sv s) = cs_netServices s"
  "dom (cs_suppliers (alloc_supplier spl s)) = insert (cs_next s) (dom (cs_suppliers s))"
  "dom (cs_suppliers (alloc_network nw s)) = dom (cs_suppliers s)"
  "dom (cs_suppliers (alloc_service sv s)) = dom (cs_suppliers s)"
  "dom (cs_networks (alloc_network nw s)) = insert (cs_next s) (dom (cs_networks s))"
  "dom (cs_networks (alloc_supplier spl s)) = dom (cs_networks s)"
  "dom (cs_networks (alloc_service sv s)) = dom (cs_networks s)"
  "dom (cs_services (alloc_service sv s)) = insert (cs_next s) (dom (cs_services s))"
  "dom (cs_services (alloc_supplier spl s)) = dom (cs_services s)"
  "dom (cs_services (alloc_network nw s)) = dom (cs_services s)"
  by (simp_all add: alloc_supplier_def alloc_network_def alloc_service_def)

lemma alloc_supplier_parts:
  assumes "parts_inv X s" and "sup_ok spl" and "\<not> ns_connected spl"
  shows "parts_inv X (alloc_supplier spl s)"
proof -
  let ?t = "alloc_supplier spl s"
  have inv: "fresh_inv s" "ptr_inv X s" "list_inv s" "obj_inv s" "flag_inv s"
    using assms(1) by (simp_all add: parts_inv_def)
  note fr = parts_fresh [OF assms(1)]
  have "ptr_inv X ?t" using inv(2) unfolding ptr_inv_def by auto
  moreover have keys: "map (sup_key ?t) (cs_netSupplier s) = map (sup_key s) (cs_netSupplier s)"
    using fr(1) by (auto simp: sup_key_def)
  have "distinct (map (sup_key ?t) (cs_netSupplier s))" using inv(3) by (simp only: list_inv_def keys)
  then have "list_inv ?t" using inv(3) unfolding list_inv_def by (simp add: svc_key_def [abs_def])
  moreover have "svc_ok ?t r" if "r \<in> set (live_services s)" for r
  proof -
    have "nw_supplier (net_at s (sv_network (svc_at s r))) \<noteq> cs_next s"
      using fr(6) live_pointers(2) [OF inv(2) that] by blast
    with that inv(4) show ?thesis by (simp add: svc_ok_def net_sup_def obj_inv_def)
  qed
  then have "obj_inv ?t" using inv(4) assms(2) by (simp add: obj_inv_def)
  ultimately show ?thesis
    using fresh_inv_alloc(1) [OF inv(1)] flag_inv_alloc(1) [OF inv(5) assms(3)] by (simp add: parts_inv_def)
qed

lemma alloc_network_parts:
  assumes "parts_inv X s" and "nw_supplier nw \<in> dom (cs_suppliers s)" and "nw_isConnecting nw = nw_isConnected nw"
  shows "parts_inv (insert (cs_next s) X) (alloc_network nw s)"
proof -
  let ?t = "alloc_network nw s"
  have inv: "fresh_inv s" "ptr_inv X s" "list_inv s" "obj_inv s" "flag_inv s"
    using assms(1) by (simp_all add: parts_inv_def)
  note fr = parts_fresh [OF assms(1)]
  have "ptr_inv (insert (cs_next s) X) ?t" using inv(2) assms(2) unfolding ptr_inv_def by auto
  moreover have "map (\<lambda>nr. nw_supplier (net_at ?t nr)) (cs_networkList s) =
      map (\<lambda>nr. nw_supplier (net_at s nr)) (cs_networkList s)"
    using fr(2) by auto
  then have "list_inv ?t" using inv(3) unfolding list_inv_def
    by (simp add: svc_key_def [abs_def] sup_key_def [abs_def])
  moreover have "svc_ok ?t r" if "r \<in> set (live_services s)" for r
    using fr(5) [OF that] that inv(4) by (simp add: svc_ok_def net_sup_def obj_inv_def)
  then have "obj_inv ?t" using inv(4) by (simp add: obj_inv_def)
  ultimately show ?thesis
    using fresh_inv_alloc(2) [OF inv(1)] flag_inv_alloc(2) [OF inv(5) assms(3)] by (simp add: parts_inv_def)
qed

lemma alloc_service_parts:
  assumes "parts_inv X s" and "sv_netConnCallback sv = []"
  shows "parts_inv X (alloc_service sv s)"
proof -
  let ?t = "alloc_service sv s"
  have inv: "fresh_inv s" "ptr_inv X s" "list_inv s" "obj_inv s" "flag_inv s"
    using assms(1) by (simp_all add: parts_inv_def)
  note fr = parts_fresh [OF assms(1)]
  have same: "svc_at ?t r = svc_at s r" if "r \<in> set (live_services s)" for r using fr(3) that by auto
  have "ptr_inv X ?t" using inv(2) same in_live [of _ s] unfolding ptr_inv_def by auto
  moreover have keys: "map (svc_key ?t) (cs_netServices s) = map (svc_key s) (cs_netServices s)"
    using fr(4) by (auto simp: svc_key_def)
  have "distinct (map (svc_key ?t) (cs_netServices s))" using inv(3) by (simp only: list_inv_def keys)
  then have "list_inv ?t" using inv(3) unfolding list_inv_def by (simp add: sup_key_def [abs_def])
  moreover have "obj_inv ?t" using inv(4) same by (auto simp: obj_inv_def svc_ok_def net_sup_def)
  ultimately show ?thesis
    using fresh_inv_alloc(3) [OF inv(1)] flag_inv_alloc(3) [OF inv(5)] assms(2) by (simp add: parts_inv_def)
qed

section \<open>Listing a service, the default service, releasing a network\<close>

definition list_service :: "nat \<Rightarrow> conn_state \<Rightarrow> conn_state" where
  "list_service r s = s\<lparr>cs_netServices := cs_netServices s @ [r]\<rparr>"

lemma push_service_alloc:
  "push_service ident ty cap nr s = list_service (cs_next s) (alloc_service (NetService_new ident ty cap nr) s)"
  by (simp add: push_service_def list_service_def alloc_service_def)

lemma at_list_service [simp]:
  "sup_at (list_service r s) = sup_at s" "net_at (list_service r s) = net_at s" "svc_at (list_service r s) = svc_at s"
  "net_sup (list_service r s) = net_sup s"
  by (simp_all add: list_service_def fun_eq_iff net_sup_def)

lemma list_service_parts:
  assumes "parts_inv X s" and "r \<in> dom (cs_services s)" and "r \<notin> set (cs_netServices s)"
    and "sv_network (svc_at s r) \<in> set (cs_networkList s) \<union> X" and "svc_ok s r"
    and "svc_key s r \<notin> set (map (svc_key s) (cs_netServices s))"
  shows "parts_inv X (list_service r s)"
proof -
  let ?t = "list_service r s"
  have inv: "fresh_inv s" "ptr_inv X s" "list_inv s" "obj_inv s" "flag_inv s"
    using assms(1) by (simp_all add: parts_inv_def)
  have live: "set (live_services ?t) = insert r (set (live_services s))"
    by (auto simp: in_live list_service_def)
  have fields: "cs_netServices ?t = cs_netServices s @ [r]" "cs_netSupplier ?t = cs_netSupplier s"
    "cs_networkList ?t = cs_networkList s" "cs_suppliers ?t = cs_suppliers s" "cs_networks ?t = cs_networks s"
    "cs_services ?t = cs_services s" "cs_next ?t = cs_next s"
    by (simp_all add: list_service_def)
  have keys: "svc_key ?t = svc_key s" "sup_key ?t = sup_key s" "svc_ok ?t = svc_ok s"
    by (simp_all add: svc_key_def sup_key_def svc_ok_def fun_eq_iff)
  have net: "sv_network (svc_at s r) \<in> dom (cs_networks s)" using inv(2) assms(4) by (auto simp: ptr_inv_def)
  have "fresh_inv ?t" "flag_inv ?t" using inv(1,5) by (simp_all add: fresh_inv_def flag_inv_def fields)
  moreover have "ptr_inv X ?t" using inv(2) assms(2,4) net unfolding ptr_inv_def fields live by simp
  moreover have "list_inv ?t" using inv(3) assms(3,6) unfolding list_inv_def fields keys by simp
  moreover have "obj_inv ?t" using inv(4) assms(5) unfolding obj_inv_def fields live keys by simp
  ultimately show ?thesis by (simp add: parts_inv_def)
qed

lemma push_service_parts:
  assumes "parts_inv X s" and "nr \<in> set (cs_networkList s) \<union> X"
    and "ty = ns_netSupplierType (net_sup s nr)" and "ident = ns_netSupplierIdent (net_sup s nr)"
    and "cap \<in> {NET_CAPABILITIES_INTERNET, NET_CAPABILITIES_MMS}"
    and "(nr, cap) \<notin> set (map (svc_key s) (cs_netServices s))"
  shows "parts_inv X (push_service ident ty cap nr s)"
proof -
  let ?t = "alloc_service (NetService_new ident ty cap nr) s"
  note fr = parts_fresh [OF assms(1)]
  have "parts_inv X ?t" using assms(1) by (rule alloc_service_parts) (simp add: NetService_new_def)
  moreover have "svc_key ?t r = svc_key s r" if "r \<in> set (cs_netServices s)" for r
    using that fr(4) by (auto simp: svc_key_def)
  then have "svc_key ?t (cs_next s) \<notin> set (map (svc_key ?t) (cs_netServices ?t))"
    using assms(6) by (auto simp: svc_key_def NetService_new_def image_iff)
  moreover have "svc_ok ?t (cs_next s)"
    using assms(3-5) by (simp add: svc_ok_def NetService_new_def net_sup_def)
  ultimately show ?thesis
    unfolding push_service_alloc using fr(4) assms(2)
    by (intro list_service_parts) (simp_all add: NetService_new_def)
qed

lemma set_default_field_parts:
  assumes "parts_inv X s" and "r \<in> set (cs_netServices s)"
  shows "parts_inv X (s\<lparr>cs_defaultNetService := Some r\<rparr>)"
proof -
  let ?t = "s\<lparr>cs_defaultNetService := Some r\<rparr>"
  have live: "set (live_services ?t) \<subseteq> set (live_services s)" using assms(2) by (auto simp: in_live)
  have keys: "svc_key ?t = svc_key s" "sup_key ?t = sup_key s" "svc_ok ?t = svc_ok s"
    by (simp_all add: svc_key_def sup_key_def svc_ok_def net_sup_def fun_eq_iff)
  show ?thesis using assms live
    unfolding parts_inv_def fresh_inv_def ptr_inv_def list_inv_def obj_inv_def flag_inv_def keys
    by (simp add: subset_iff)
qed

lemma release_network_cases:
  obtains (held) "network_held s nr" "release_network E nr s = s"
  | (freed) "\<not> network_held s nr" "release_network E nr s = s\<lparr>cs_networks := (cs_networks s)(nr := None),
      cs_world := Network_delete E (net_at s nr) (cs_world s)\<rparr>"
  by (cases "network_held s nr") (auto simp: release_network_def)

lemma not_held:
  assumes "\<not> network_held s nr"
  shows "nr \<notin> set (cs_networkList s)" "\<And>r. r \<in> set (live_services s) \<Longrightarrow> sv_network (svc_at s r) \<noteq> nr"
  using assms by (auto simp: network_held_def list_ex_iff)

lemma release_network_parts:
  assumes "parts_inv X s" and "nr \<notin> X"
  shows "parts_inv X (release_network E nr s)"
proof (rule release_network_cases [of s nr E])
  assume free: "\<not> network_held s nr" and eq: "release_network E nr s = s\<lparr>cs_networks := (cs_networks s)(nr := None),
      cs_world := Network_delete E (net_at s nr) (cs_world s)\<rparr>"
  let ?t = "release_network E nr s"
  have inv: "fresh_inv s" "ptr_inv X s" "list_inv s" "obj_inv s" "flag_inv s"
    using assms(1) by (simp_all add: parts_inv_def)
  note nh = not_held [OF free]
  have fields: "cs_netServices ?t = cs_netServices s" "cs_netSupplier ?t = cs_netSupplier s"
    "cs_networkList ?t = cs_networkList s" "cs_suppliers ?t = cs_suppliers s"
    "dom (cs_networks ?t) = dom (cs_networks s) - {nr}" "cs_services ?t = cs_services s" "cs_next ?t = cs_next s"
    "live_services ?t = live_services s" "sup_at ?t = sup_at s" "svc_at ?t = svc_at s"
    unfolding eq by (simp_all add: fun_eq_iff)
  have net: "net_at ?t r = net_at s r" if "r \<noteq> nr" for r unfolding eq using that by simp
  have "fresh_inv ?t" using inv(1) unfolding fresh_inv_def fields by blast
  moreover have "flag_inv ?t" using inv(5) unfolding flag_inv_def eq
    by (auto simp del: fun_upd_apply dest: ball_ran_drop)
  moreover have "ptr_inv X ?t" using inv(2) nh assms(2) net in_live [of _ s] unfolding ptr_inv_def fields by auto
  moreover have lock: "map (\<lambda>q. nw_supplier (net_at ?t q)) (cs_networkList s) =
      map (\<lambda>q. nw_supplier (net_at s q)) (cs_networkList s)"
    using nh(1) by (intro map_cong refl) (metis net)
  have "svc_key ?t = svc_key s" "sup_key ?t = sup_key s"
    by (simp_all add: svc_key_def sup_key_def fields fun_eq_iff)
  then have "list_inv ?t" using inv(3) by (simp only: list_inv_def fields lock)
  moreover have "svc_ok ?t r" if "r \<in> set (live_services s)" for r
    using that inv(4) net [OF nh(2) [OF that]] by (simp add: svc_ok_def net_sup_def obj_inv_def fields)
  then have "obj_inv ?t" using inv(4) unfolding obj_inv_def fields by blast
  ultimately show ?thesis by (simp add: parts_inv_def)
qed (use assms in simp)

section \<open>Registering a supplier\<close>

lemma parts_inv_managers [simp]:
  "parts_inv X (s\<lparr>cs_netControllers := c\<rparr>) = parts_inv X s" "parts_inv X (s\<lparr>cs_nextNetSupplierId := i\<rparr>) = parts_inv X s"
  "parts_inv X (s\<lparr>cs_netIdManager := m\<rparr>) = parts_inv X s" "parts_inv X (s\<lparr>cs_world := w\<rparr>) = parts_inv X s"
  "parts_inv X (s\<lparr>cs_reConnectTimers := t\<rparr>) = parts_inv X s"
  "parts_inv X (s\<lparr>cs_registerToService := b\<rparr>) = parts_inv X s" "parts_inv X (s\<lparr>cs_state := v\<rparr>) = parts_inv X s"
proof -
  have shapes: "same_shape s (s\<lparr>cs_netControllers := c\<rparr>)" "same_shape s (s\<lparr>cs_nextNetSupplierId := i\<rparr>)"
    "same_shape s (s\<lparr>cs_netIdManager := m\<rparr>)" "same_shape s (s\<lparr>cs_world := w\<rparr>)"
    "same_shape s (s\<lparr>cs_reConnectTimers := t\<rparr>)" "same_shape s (s\<lparr>cs_registerToService := b\<rparr>)"
    "same_shape s (s\<lparr>cs_state := v\<rparr>)"
    by (simp_all add: same_shape_def)
  show "parts_inv X (s\<lparr>cs_netControllers := c\<rparr>) = parts_inv X s" "parts_inv X (s\<lparr>cs_nextNetSupplierId := i\<rparr>) = parts_inv X s"
  "parts_inv X (s\<lparr>cs_netIdManager := m\<rparr>) = parts_inv X s" "parts_inv X (s\<lparr>cs_world := w\<rparr>) = parts_inv X s"
  "parts_inv X (s\<lparr>cs_reConnectTimers := t\<rparr>) = parts_inv X s"
  "parts_inv X (s\<lparr>cs_registerToService := b\<rparr>) = parts_inv X s" "parts_inv X (s\<lparr>cs_state := v\<rparr>) = parts_inv X s"
    by (simp_all add: parts_inv_def shapes [THEN shape_inv(1)] shapes [THEN shape_inv(2)] shapes [THEN shape_inv(3)]
        shapes [THEN shape_inv(4)] flag_inv_def)
qed

lemma list_supplier_parts:
  assumes "parts_inv {nr} s" and "nw_supplier (net_at s nr) = sr" and "sr \<notin> set (cs_netSupplier s)"
    and "sup_key s sr \<notin> set (map (sup_key s) (cs_netSupplier s))"
  shows "parts_inv {} (s\<lparr>cs_netSupplier := cs_netSupplier s @ [sr], cs_networkList := cs_networkList s @ [nr]\<rparr>)"
proof -
  let ?t = "s\<lparr>cs_netSupplier := cs_netSupplier s @ [sr], cs_networkList := cs_networkList s @ [nr]\<rparr>"
  have inv: "fresh_inv s" "ptr_inv {nr} s" "list_inv s" "obj_inv s" "flag_inv s"
    using assms(1) by (simp_all add: parts_inv_def)
  have keys: "svc_key ?t = svc_key s" "sup_key ?t = sup_key s" "svc_ok ?t = svc_ok s"
    by (simp_all add: svc_key_def sup_key_def svc_ok_def net_sup_def fun_eq_iff)
  have "sr \<in> dom (cs_suppliers s)" "nr \<in> dom (cs_networks s)" using inv(2) assms(2) by (auto simp: ptr_inv_def)
  then have "ptr_inv {} ?t" using inv(2) unfolding ptr_inv_def by simp
  moreover have "list_inv ?t" using inv(3) assms(2-) unfolding list_inv_def keys by simp
  moreover have "fresh_inv ?t" "obj_inv ?t" "flag_inv ?t"
    using inv(1,4,5) unfolding fresh_inv_def obj_inv_def flag_inv_def keys by simp_all
  ultimately show ?thesis by (simp add: parts_inv_def)
qed

lemma netd_ready_forward [simp]: "netd_ready N (snd (netd_forward N v c d)) = netd_ready N d"
  by (simp add: netd_forward_log)

lemma world_inv_simps [simp]:
  "world_inv E (s\<lparr>cs_suppliers := a\<rparr>) = world_inv E s" "world_inv E (s\<lparr>cs_networks := b\<rparr>) = world_inv E s"
  "world_inv E (s\<lparr>cs_services := c\<rparr>) = world_inv E s" "world_inv E (s\<lparr>cs_next := n\<rparr>) = world_inv E s"
  "world_inv E (s\<lparr>cs_netSupplier := l\<rparr>) = world_inv E s" "world_inv E (s\<lparr>cs_networkList := l\<rparr>) = world_inv E s"
  "world_inv E (s\<lparr>cs_netServices := l\<rparr>) = world_inv E s" "world_inv E (s\<lparr>cs_defaultNetService := d\<rparr>) = world_inv E s"
  "world_inv E (s\<lparr>cs_nextNetSupplierId := i\<rparr>) = world_inv E s"
  "world_inv E (s\<lparr>cs_reConnectTimers := t\<rparr>) = world_inv E s"
  "world_inv E (s\<lparr>cs_registerToService := b'\<rparr>) = world_inv E s" "world_inv E (s\<lparr>cs_state := v\<rparr>) = world_inv E s"
  by (simp_all add: world_inv_def)

lemma push_service_world [simp]: "world_inv E (push_service i t c n s) = world_inv E s"
  by (simp add: push_service_def)

lemma release_network_world: "world_inv E s \<Longrightarrow> world_inv E (release_network E nr s)"
  by (rule release_network_cases [of s nr E])
    (simp_all add: world_inv_def Network_delete_def NetdController_DestoryNetworkCache_def)

lemma set_default_world: "world_inv E s \<Longrightarrow> world_inv E (set_default E r s)"
  by (auto simp: set_default_def Let_def release_network_world split: option.splits)

lemma set_default_parts:
  assumes "parts_inv X s" and "r \<in> set (cs_netServices s)"
    and "\<And>d. cs_defaultNetService s = Some d \<Longrightarrow> sv_network (svc_at s d) \<notin> X"
  shows "parts_inv X (set_default E r s)"
  using assms set_default_field_parts [OF assms(1,2)]
  by (auto simp: set_default_def Let_def split: option.splits intro: release_network_parts)

lemma release_network_frame [nm_frame]:
  "cs_netSupplier (release_network E nr s) = cs_netSupplier s" "cs_networkList (release_network E nr s) = cs_networkList s"
  "cs_netServices (release_network E nr s) = cs_netServices s"
  "cs_defaultNetService (release_network E nr s) = cs_defaultNetService s"
  "cs_suppliers (release_network E nr s) = cs_suppliers s" "cs_services (release_network E nr s) = cs_services s"
  "cs_next (release_network E nr s) = cs_next s" "cs_nextNetSupplierId (release_network E nr s) = cs_nextNetSupplierId s"
  "sup_at (release_network E nr s) r = sup_at s r" "svc_at (release_network E nr s) r = svc_at s r"
  "r \<noteq> nr \<Longrightarrow> net_at (release_network E nr s) r = net_at s r"
  "wd_events (cs_world (release_network E nr s)) = wd_events (cs_world s)"
  "cs_reConnectTimers (release_network E nr s) = cs_reConnectTimers s"
  by (simp_all add: release_network_def Network_delete_def)

lemma set_default_frame [nm_frame]:
  "cs_netSupplier (set_default E r s) = cs_netSupplier s" "cs_networkList (set_default E r s) = cs_networkList s"
  "cs_netServices (set_default E r s) = cs_netServices s" "cs_defaultNetService (set_default E r s) = Some r"
  "cs_suppliers (set_default E r s) = cs_suppliers s" "cs_services (set_default E r s) = cs_services s"
  "cs_next (set_default E r s) = cs_next s" "cs_nextNetSupplierId (set_default E r s) = cs_nextNetSupplierId s"
  "sup_at (set_default E r s) q = sup_at s q" "svc_at (set_default E r s) q = svc_at s q"
  "(\<And>d. cs_defaultNetService s = Some d \<Longrightarrow> sv_network (svc_at s d) \<noteq> q) \<Longrightarrow>
    net_at (set_default E r s) q = net_at s q"
  "cs_reConnectTimers (set_default E r s) = cs_reConnectTimers s"
  by (auto simp: set_default_def Let_def nm_frame split: option.splits)

lemma push_service_frame [nm_frame]:
  "cs_netSupplier (push_service i t c n s) = cs_netSupplier s" "cs_networkList (push_service i t c n s) = cs_networkList s"
  "cs_netServices (push_service i t c n s) = cs_netServices s @ [cs_next s]"
  "cs_defaultNetService (push_service i t c n s) = cs_defaultNetService s"
  "cs_next (push_service i t c n s) = Suc (cs_next s)" "sup_at (push_service i t c n s) q = sup_at s q"
  "net_at (push_service i t c n s) q = net_at s q"
  "svc_at (push_service i t c n s) q = (if q = cs_next s then NetService_new i t c n else svc_at s q)"
  "cs_suppliers (push_service i t c n s) = cs_suppliers s" "cs_networks (push_service i t c n s) = cs_networks s"
  "cs_nextNetSupplierId (push_service i t c n s) = cs_nextNetSupplierId s"
  "cs_reConnectTimers (push_service i t c n s) = cs_reConnectTimers s"
  by (simp_all add: push_service_def)

lemma new_supplier_spec:
  assumes "conn_inv E s" and "ty \<in> {NET_TYPE_CELLULAR, NET_TYPE_ETHERNET}"
    and "new_supplier (NetworkType_val ty) ident s = (sr, t)"
  shows "sr = cs_next s" "parts_inv {} t" "world_inv E t" "cs_next t = Suc sr" "sr \<in> dom (cs_suppliers t)"
    "sup_key t sr = (ty, ident)" "ns_supplierId (sup_at t sr) = cs_nextNetSupplierId s"
    "cs_nextNetSupplierId t = cs_nextNetSupplierId s + 1"
    "\<And>r. r \<noteq> sr \<Longrightarrow> sup_at t r = sup_at s r" "\<And>r. net_at t r = net_at s r" "\<And>r. svc_at t r = svc_at s r"
    "cs_netSupplier t = cs_netSupplier s" "cs_networkList t = cs_networkList s" "cs_netServices t = cs_netServices s"
    "cs_defaultNetService t = cs_defaultNetService s" "live_services t = live_services s"
    "dom (cs_networks t) = dom (cs_networks s)" "cs_netIdManager t = cs_netIdManager s"
    "cs_reConnectTimers t = cs_reConnectTimers s"
proof -
  obtain spl cs n where new: "NetSupplier_new ty ident (cs_netControllers s, cs_nextNetSupplierId s) = (spl, cs, n)"
    by (cases "NetSupplier_new ty ident (cs_netControllers s, cs_nextNetSupplierId s)") auto
  have ctl: "controllers_inv (fst (cs_netControllers s, cs_nextNetSupplierId s))"
    using assms(1) by (simp add: conn_inv_def world_inv_def)
  note spl = NetSupplier_new_fields [OF ctl new]
  have res: "sr = cs_next s" "t = (alloc_supplier spl s)\<lparr>cs_netControllers := cs, cs_nextNetSupplierId := n\<rparr>"
    using assms(3) new by (auto simp: new_supplier_def alloc_supplier_def)
  show "sr = cs_next s" by (rule res)
  show "parts_inv {} t" unfolding res(2)
    using assms(1,2) spl by (simp add: conn_inv_parts_world alloc_supplier_parts sup_ok_def)
  show "world_inv E t" using assms(1) spl(6) unfolding res(2)
    by (simp add: conn_inv_def world_inv_def alloc_supplier_def)
  show "cs_next t = Suc sr" "sr \<in> dom (cs_suppliers t)" "sup_key t sr = (ty, ident)"
    "ns_supplierId (sup_at t sr) = cs_nextNetSupplierId s" "cs_nextNetSupplierId t = cs_nextNetSupplierId s + 1"
    "\<And>r. r \<noteq> sr \<Longrightarrow> sup_at t r = sup_at s r" "\<And>r. net_at t r = net_at s r" "\<And>r. svc_at t r = svc_at s r"
    "cs_netSupplier t = cs_netSupplier s" "cs_networkList t = cs_networkList s" "cs_netServices t = cs_netServices s"
    "cs_defaultNetService t = cs_defaultNetService s" "live_services t = live_services s"
    "dom (cs_networks t) = dom (cs_networks s)" "cs_netIdManager t = cs_netIdManager s"
    "cs_reConnectTimers t = cs_reConnectTimers s"
    using spl unfolding res by (simp_all add: alloc_supplier_def sup_key_def)
qed

lemma new_network_spec:
  assumes "parts_inv {} s" and "world_inv E s" and "sr \<in> dom (cs_suppliers s)"
    and "new_network E sr s = (nr, t)"
  shows "nr = cs_next s" "parts_inv {nr} t" "world_inv E t" "cs_next t = Suc nr" "nr \<in> dom (cs_networks t)"
    "nw_supplier (net_at t nr) = sr" "nw_netLinkInfo (net_at t nr) = NetLinkInfo_new"
    "nw_netId (net_at t nr) = fst (NetIdManager_ReserveNetId (cs_netIdManager s))"
    "cs_netIdManager t = snd (NetIdManager_ReserveNetId (cs_netIdManager s))"
    "\<not> nw_isConnected (net_at t nr)" "\<not> nw_isConnecting (net_at t nr)"
    "\<And>r. sup_at t r = sup_at s r" "\<And>r. r \<noteq> nr \<Longrightarrow> net_at t r = net_at s r" "\<And>r. svc_at t r = svc_at s r"
    "cs_netSupplier t = cs_netSupplier s" "cs_networkList t = cs_networkList s" "cs_netServices t = cs_netServices s"
    "cs_defaultNetService t = cs_defaultNetService s" "live_services t = live_services s"
    "\<And>r. r \<in> set (live_services t) \<Longrightarrow> sv_network (svc_at t r) \<noteq> nr"
    "cs_nextNetSupplierId t = cs_nextNetSupplierId s" "cs_reConnectTimers t = cs_reConnectTimers s"
proof -
  obtain nw idm w where new: "Network_new E sr (cs_netIdManager s) (cs_world s) = (nw, idm, w)"
    by (cases "Network_new E sr (cs_netIdManager s) (cs_world s)") auto
  have nw: "nw_supplier nw = sr" "nw_isConnecting nw = False" "nw_isConnected nw = False"
    "nw_netLinkInfo nw = NetLinkInfo_new" "nw_netId nw = fst (NetIdManager_ReserveNetId (cs_netIdManager s))"
    "idm = snd (NetIdManager_ReserveNetId (cs_netIdManager s))"
    "w = with_netd (NetdController_CreateNetworkCache (env_netd E) (nw_id16 nw)) (cs_world s)"
    using new by (auto simp: Network_new_def Let_def split_def)
  have res: "nr = cs_next s" "t = (alloc_network nw s)\<lparr>cs_netIdManager := idm, cs_world := w\<rparr>"
    using assms(4) new by (auto simp: new_network_def alloc_network_def)
  show "nr = cs_next s" by (rule res)
  show "parts_inv {nr} t" unfolding res
    using alloc_network_parts [OF assms(1), of nw] assms(3) nw by simp
  show "world_inv E t" using assms(2) ReserveNetId_inv unfolding res(2)
    by (simp add: world_inv_def alloc_network_def nw NetdController_CreateNetworkCache_def)
  show "cs_next t = Suc nr" "nr \<in> dom (cs_networks t)"
    "nw_supplier (net_at t nr) = sr" "nw_netLinkInfo (net_at t nr) = NetLinkInfo_new"
    "nw_netId (net_at t nr) = fst (NetIdManager_ReserveNetId (cs_netIdManager s))"
    "cs_netIdManager t = snd (NetIdManager_ReserveNetId (cs_netIdManager s))"
    "\<not> nw_isConnected (net_at t nr)" "\<not> nw_isConnecting (net_at t nr)"
    "\<And>r. sup_at t r = sup_at s r" "\<And>r. r \<noteq> nr \<Longrightarrow> net_at t r = net_at s r" "\<And>r. svc_at t r = svc_at s r"
    "cs_netSupplier t = cs_netSupplier s" "cs_networkList t = cs_networkList s" "cs_netServices t = cs_netServices s"
    "cs_defaultNetService t = cs_defaultNetService s" "live_services t = live_services s"
    "cs_nextNetSupplierId t = cs_nextNetSupplierId s" "cs_reConnectTimers t = cs_reConnectTimers s"
    using nw unfolding res by (simp_all add: alloc_network_def)
  then show "\<And>r. r \<in> set (live_services t) \<Longrightarrow> sv_network (svc_at t r) \<noteq> nr"
    using parts_fresh(5) [OF assms(1)] res(1) by simp
qed

text \<open>The services of a new network: one for each capability bit that is set.\<close>

definition caps_of :: "uint64 \<Rightarrow> NetCapabilities list" where
  "caps_of caps = (if cap_set caps NET_CAPABILITIES_INTERNET then [NET_CAPABILITIES_INTERNET] else []) @
     (if cap_set caps NET_CAPABILITIES_MMS then [NET_CAPABILITIES_MMS] else [])"

lemma GetNetSupplierFromList_None:
  assumes "NetConnService_GetNetSupplierFromList (NetworkType_val ty) ident s = None"
  shows "(ty, ident) \<notin> set (map (sup_key s) (cs_netSupplier s))"
  using assms by (auto simp: NetConnService_GetNetSupplierFromList_def find_None_iff sup_key_def image_iff)

lemma services_step:
  assumes "parts_inv {nr} s" and "world_inv E s" and "nw_supplier (net_at s nr) = sr"
    and "sup_key s sr = (ty, ident)" and "\<And>r. r \<in> set (live_services s) \<Longrightarrow> sv_network (svc_at s r) \<noteq> nr"
  defines "t \<equiv> set_default E (cs_next s) (push_service ident ty NET_CAPABILITIES_INTERNET nr s)"
  shows "parts_inv {nr} t" "world_inv E t" "nw_supplier (net_at t nr) = sr" "sup_key t sr = (ty, ident)"
    "net_at t nr = net_at s nr"
proof -
  let ?p = "push_service ident ty NET_CAPABILITIES_INTERNET nr s"
  have "(nr, NET_CAPABILITIES_INTERNET) \<notin> set (map (svc_key s) (cs_netServices s))"
    using assms(5) by (auto simp: svc_key_def in_live)
  then have p: "parts_inv {nr} ?p"
    using assms(1,3,4) by (intro push_service_parts) (simp_all add: net_sup_def sup_key_def)
  have d: "sv_network (svc_at ?p d) \<noteq> nr" if "cs_defaultNetService ?p = Some d" for d
  proof -
    have "d \<in> set (live_services s)" using that by (simp add: in_live nm_frame)
    moreover then have "d \<noteq> cs_next s" using parts_fresh(3) [OF assms(1)] by blast
    ultimately show ?thesis using assms(5) by (simp add: nm_frame)
  qed
  show "parts_inv {nr} t" unfolding t_def
    using p d by (intro set_default_parts) (simp_all add: nm_frame)
  show "world_inv E t" unfolding t_def using assms(2) by (simp add: set_default_world)
  show "net_at t nr = net_at s nr" unfolding t_def using d by (subst set_default_frame) (simp_all add: nm_frame)
  then show "nw_supplier (net_at t nr) = sr" using assms(3) by simp
  show "sup_key t sr = (ty, ident)" unfolding t_def using assms(4) by (simp add: sup_key_def nm_frame)
qed

lemma create_services_spec:
  fixes caps
  assumes "parts_inv {nr} s" and "world_inv E s" and "nw_supplier (net_at s nr) = sr"
    and "sup_key s sr = (ty, ident)" and "\<And>r. r \<in> set (live_services s) \<Longrightarrow> sv_network (svc_at s r) \<noteq> nr"
  defines "t \<equiv> create_services E ident ty caps nr s"
  shows "parts_inv {nr} t" "world_inv E t" "net_at t nr = net_at s nr" "\<And>r. sup_at t r = sup_at s r"
    "cs_netSupplier t = cs_netSupplier s" "cs_networkList t = cs_networkList s"
    "cs_netServices t = cs_netServices s @ [cs_next s..<cs_next s + length (caps_of caps)]"
    "map (svc_at t) [cs_next s..<cs_next s + length (caps_of caps)] =
      map (\<lambda>cap. NetService_new ident ty cap nr) (caps_of caps)"
    "cs_defaultNetService t =
      (if cap_set caps NET_CAPABILITIES_INTERNET then Some (cs_next s) else cs_defaultNetService s)"
    "\<And>q. q < cs_next s \<Longrightarrow> svc_at t q = svc_at s q"
    "\<And>q. \<not> cap_set caps NET_CAPABILITIES_INTERNET \<Longrightarrow> net_at t q = net_at s q"
    "cs_reConnectTimers t = cs_reConnectTimers s"
proof -
  let ?I = "cap_set caps NET_CAPABILITIES_INTERNET" and ?M = "cap_set caps NET_CAPABILITIES_MMS"
  define s1 where "s1 = (if ?I then set_default E (cs_next s) (push_service ident ty NET_CAPABILITIES_INTERNET nr s) else s)"
  have t: "t = (if ?M then push_service ident ty NET_CAPABILITIES_MMS nr s1 else s1)"
    by (simp add: t_def create_services_def s1_def)
  have p: "parts_inv {nr} s1" "world_inv E s1" "nw_supplier (net_at s1 nr) = sr" "sup_key s1 sr = (ty, ident)"
    "net_at s1 nr = net_at s nr"
    using services_step [OF assms(1-5)] assms(1-4) by (simp_all add: s1_def)
  have svc: "cs_netServices s1 = cs_netServices s @ (if ?I then [cs_next s] else [])"
    "cs_next s1 = (if ?I then Suc (cs_next s) else cs_next s)"
    "svc_at s1 q = (if ?I \<and> q = cs_next s then NetService_new ident ty NET_CAPABILITIES_INTERNET nr else svc_at s q)"
    "cs_defaultNetService s1 = (if ?I then Some (cs_next s) else cs_defaultNetService s)"
    "cs_netSupplier s1 = cs_netSupplier s" "cs_networkList s1 = cs_networkList s" "sup_at s1 q = sup_at s q" for q
    by (simp_all add: s1_def nm_frame)
  have "\<forall>r \<in> set (cs_netServices s). sv_network (svc_at s r) \<noteq> nr"
    using assms(5) by (simp add: in_live)
  then have "(nr, NET_CAPABILITIES_MMS) \<notin> set (map (svc_key s1) (cs_netServices s1))"
    by (auto simp: svc_key_def svc NetService_new_def split: if_splits)
  then show "parts_inv {nr} t" using p unfolding t
    by (auto simp: net_sup_def sup_key_def intro!: push_service_parts)
  show "world_inv E t" "net_at t nr = net_at s nr" "\<And>r. sup_at t r = sup_at s r"
    "cs_netSupplier t = cs_netSupplier s" "cs_networkList t = cs_networkList s"
    "cs_defaultNetService t = (if ?I then Some (cs_next s) else cs_defaultNetService s)"
    using p svc by (simp_all add: t nm_frame)
  show "cs_netServices t = cs_netServices s @ [cs_next s..<cs_next s + length (caps_of caps)]"
    "map (svc_at t) [cs_next s..<cs_next s + length (caps_of caps)] =
      map (\<lambda>cap. NetService_new ident ty cap nr) (caps_of caps)"
    by (auto simp: t svc caps_of_def upt_rec nm_frame)
  show "\<And>q. q < cs_next s \<Longrightarrow> svc_at t q = svc_at s q" "\<And>q. \<not> ?I \<Longrightarrow> net_at t q = net_at s q"
    "cs_reConnectTimers t = cs_reConnectTimers s"
    by (simp_all add: t s1_def nm_frame)
qed

lemma create_objects_inv:
  assumes "conn_inv E s" and "ty \<in> {NET_TYPE_CELLULAR, NET_TYPE_ETHERNET}"
    and "NetConnService_GetNetSupplierFromList (NetworkType_val ty) ident s = None"
    and "create_objects E (NetworkType_val ty) ident caps s = (sr, t)"
  shows "conn_inv E t" "sr = cs_next s" "cs_netSupplier t = cs_netSupplier s @ [sr]"
    "cs_networkList t = cs_networkList s @ [Suc sr]"
    "cs_netServices t = cs_netServices s @ [Suc (Suc sr)..<Suc (Suc sr) + length (caps_of caps)]"
    "map (svc_at t) [Suc (Suc sr)..<Suc (Suc sr) + length (caps_of caps)] =
      map (\<lambda>cap. NetService_new ident ty cap (Suc sr)) (caps_of caps)"
    "cs_defaultNetService t =
      (if cap_set caps NET_CAPABILITIES_INTERNET then Some (Suc (Suc sr)) else cs_defaultNetService s)"
    "sup_key t sr = (ty, ident)" "ns_supplierId (sup_at t sr) = cs_nextNetSupplierId s"
    "nw_supplier (net_at t (Suc sr)) = sr" "nw_netLinkInfo (net_at t (Suc sr)) = NetLinkInfo_new"
    "\<not> nw_isConnecting (net_at t (Suc sr))"
    "nw_netId (net_at t (Suc sr)) = fst (NetIdManager_ReserveNetId (cs_netIdManager s))"
    "\<And>r. r \<in> set (cs_netSupplier s) \<Longrightarrow> sup_at t r = sup_at s r"
    "\<And>r. r < cs_next s \<Longrightarrow> svc_at t r = svc_at s r"
    "\<And>nr. \<not> cap_set caps NET_CAPABILITIES_INTERNET \<Longrightarrow> nr < cs_next s \<Longrightarrow> net_at t nr = net_at s nr"
    "cs_reConnectTimers t = cs_reConnectTimers s" "ns_netController (sup_at t sr) = (if ty = NET_TYPE_CELLULAR then Some TelephonyController else None)"
    "\<not> nw_isConnected (net_at t (Suc sr))"
proof -
  obtain sr1 s1 where n1: "new_supplier (NetworkType_val ty) ident s = (sr1, s1)" by (rule prod.exhaust)
  obtain nr s2 where n2: "new_network E sr1 s1 = (nr, s2)" by (rule prod.exhaust)
  note a = new_supplier_spec [OF assms(1,2) n1]
  note b = new_network_spec [OF a(2,3,5) n2]
  have key2: "sup_key s2 sr1 = (ty, ident)" using a(6) b(12) by (simp add: sup_key_def)
  define s3 where "s3 = create_services E ident ty caps nr s2"
  note c = create_services_spec [OF b(2,3,6) key2 b(20), where caps = caps, folded s3_def]
  have res: "sr = sr1" "t = s3\<lparr>cs_netSupplier := cs_netSupplier s3 @ [sr1], cs_networkList := cs_networkList s3 @ [nr]\<rparr>"
    using assms(4) by (auto simp: create_objects_def n1 n2 Let_def s3_def)
  have nr: "nr = Suc sr" "sr = cs_next s" "cs_next s2 = Suc (Suc sr)" using a(1,4) b(1,4) res(1) by simp_all
  have notin: "sr \<notin> set (cs_netSupplier s)"
    using parts_fresh(1) [of "{}" s] assms(1) nr(2) by (simp add: conn_inv_parts_world)
  show old: "sup_at t r = sup_at s r" if "r \<in> set (cs_netSupplier s)" for r
    using that notin a(9) [of r] b(12) c(4) res by auto
  have key3: "sup_key s3 sr = (ty, ident)" using key2 c(4) res(1) by (simp add: sup_key_def)
  have "sup_key s3 r = sup_key s r" if "r \<in> set (cs_netSupplier s)" for r
    using old [OF that] unfolding res(2) by (simp add: sup_key_def)
  then have "sup_key s3 sr \<notin> set (map (sup_key s3) (cs_netSupplier s3))"
    using GetNetSupplierFromList_None [OF assms(3)] key3 c(5) b(15) a(12) by (auto simp: image_iff)
  then have "parts_inv {} t" unfolding res(2) using c(1,3,5) b(6,15) a(12) notin res(1)
    by (intro list_supplier_parts) simp_all
  then show "conn_inv E t" using c(2) unfolding res(2) by (simp add: conn_inv_parts_world)
  show "sr = cs_next s" by (rule nr)
  show "cs_netSupplier t = cs_netSupplier s @ [sr]" "cs_networkList t = cs_networkList s @ [Suc sr]"
    "cs_defaultNetService t = (if cap_set caps NET_CAPABILITIES_INTERNET then Some (Suc (Suc sr)) else cs_defaultNetService s)"
    using c a b(15,16,18) nr res by simp_all
  show "cs_netServices t = cs_netServices s @ [Suc (Suc sr)..<Suc (Suc sr) + length (caps_of caps)]"
    using c(7) a(14) b(17) nr unfolding res(2) by simp
  show "map (svc_at t) [Suc (Suc sr)..<Suc (Suc sr) + length (caps_of caps)] =
      map (\<lambda>cap. NetService_new ident ty cap (Suc sr)) (caps_of caps)"
    using c(8) nr unfolding res(2) by (simp add: svc_at_def [abs_def] del: at_fold)
  show "sup_key t sr = (ty, ident)" "nw_supplier (net_at t (Suc sr)) = sr"
    "nw_netLinkInfo (net_at t (Suc sr)) = NetLinkInfo_new" "\<not> nw_isConnecting (net_at t (Suc sr))"
    "ns_supplierId (sup_at t sr) = cs_nextNetSupplierId s"
    "nw_netId (net_at t (Suc sr)) = fst (NetIdManager_ReserveNetId (cs_netIdManager s))"
    using key3 c nr b(6,7,8,11,12) a(7,18) res(1) unfolding res(2) by (simp_all add: sup_key_def)
  show "\<And>r. r < cs_next s \<Longrightarrow> svc_at t r = svc_at s r"
    "\<And>nr. \<not> cap_set caps NET_CAPABILITIES_INTERNET \<Longrightarrow> nr < cs_next s \<Longrightarrow> net_at t nr = net_at s nr"
    "cs_reConnectTimers t = cs_reConnectTimers s" "\<not> nw_isConnected (net_at t (Suc sr))"
    using c(3,10-12) b(10,13,14,22) a(10,11,19) nr unfolding res(2) by simp_all
  have "sr \<in> dom (cs_suppliers t)" "obj_inv t"
    using \<open>parts_inv {} t\<close> res by (auto simp: parts_inv_def ptr_inv_def)
  then show "ns_netController (sup_at t sr) = (if ty = NET_TYPE_CELLULAR then Some TelephonyController else None)"
    using key3 unfolding res(2) by (simp add: obj_inv_def sup_ok_def sup_key_def)
qed

lemma connect_default_inv [nm_inv]: "conn_inv E s \<Longrightarrow> conn_inv E (connect_default E s)"
proof -
  assume inv: "conn_inv E s"
  have "conn_inv E (snd (run_service d (NetService_ServiceConnect E) s))" if "cs_defaultNetService s = Some d" for d
    using inv that by (intro run_service_inv ServiceConnect_keeps) (simp_all add: in_live)
  then show ?thesis using inv
    by (auto simp: connect_default_def Let_def split_def conn_inv_parts_world split: option.splits)
qed

lemma connect_default_shape: "conn_inv E s \<Longrightarrow> same_shape s (connect_default E s)"
proof -
  assume inv: "conn_inv E s"
  have "same_shape s (snd (run_service d (NetService_ServiceConnect E) s))" if "cs_defaultNetService s = Some d" for d
    using inv that by (intro run_service_shape [where X = "{}"] ServiceConnect_keeps) (simp_all add: in_live conn_inv_def)
  then show ?thesis
    by (auto simp: connect_default_def Let_def split_def same_shape_def split: option.splits)
qed

lemma netType_valid:
  fixes netType :: uint32
  assumes "\<not> (netType \<ge> NetworkType_val NET_TYPE_MAX \<or> netType \<le> NetworkType_val NET_TYPE_UNKNOWN)"
  obtains ty where "ty \<in> {NET_TYPE_CELLULAR, NET_TYPE_ETHERNET}" "netType = NetworkType_val ty"
proof -
  have "0 < unat netType" "unat netType < 3" using assms by (auto simp: word_le_nat_alt unat_gt_0)
  then have "unat netType = 1 \<or> unat netType = 2" by linarith
  then have "netType = 1 \<or> netType = 2" by (auto simp: word_unat_eq_iff)
  then show thesis using that [of NET_TYPE_CELLULAR] that [of NET_TYPE_ETHERNET] by auto
qed

lemma RegisterNetSupplier_inv [nm_inv]:
  assumes "conn_inv E s"
  shows "conn_inv E (snd (NetConnService_RegisterNetSupplier E netType ident caps s))"
proof (cases "netType \<ge> NetworkType_val NET_TYPE_MAX \<or> netType \<le> NetworkType_val NET_TYPE_UNKNOWN")
  case False
  then obtain ty where ty: "ty \<in> {NET_TYPE_CELLULAR, NET_TYPE_ETHERNET}" "netType = NetworkType_val ty"
    by (rule netType_valid)
  obtain sr t where "create_objects E netType ident caps s = (sr, t)" by (rule prod.exhaust)
  then show ?thesis
    using False create_objects_inv(1) [OF assms ty(1)] connect_default_inv assms unfolding ty(2)
    by (auto simp: NetConnService_RegisterNetSupplier_def Let_def split: option.splits)
qed (use assms in \<open>simp add: NetConnService_RegisterNetSupplier_def\<close>)

section \<open>Reconnecting\<close>

lemma ReConnectService_inv [nm_inv]:
  assumes "conn_inv E s"
  shows "conn_inv E (snd (NetConnService_ReConnectService E s))"
proof (cases "cs_defaultNetService s")
  case (Some d)
  let ?t = "snd (run_service d (NetService_ServiceDisConnect E) s)"
  have "conn_inv E ?t" using assms Some
    by (intro run_service_inv ServiceDisConnect_keeps) (simp_all add: in_live)
  then have "conn_inv E (snd (run_service d (NetService_ServiceConnect E) ?t))"
    "conn_inv E (snd (run_service d (NetService_ServiceConnect E) s))"
    using assms Some by (auto intro!: run_service_inv ServiceConnect_keeps simp: in_live run_service_fields)
  then show ?thesis using Some by (simp add: NetConnService_ReConnectService_def Let_def)
qed (use assms in \<open>simp add: NetConnService_ReConnectService_def\<close>)

lemma fire_timer_inv [nm_inv]: "conn_inv E s \<Longrightarrow> conn_inv E (fire_timer E s)"
  unfolding fire_timer_def NetConnService_ReConnectServiceTask_def
  by (rule ReConnectService_inv) (simp add: conn_inv_parts_world)

section \<open>Unregistering a supplier\<close>

lemma shrink_services_parts:
  assumes "parts_inv X s" and "set l \<subseteq> set (cs_netServices s)" and "distinct l" and "distinct (map (svc_key s) l)"
  shows "parts_inv X (s\<lparr>cs_netServices := l\<rparr>)"
proof -
  let ?t = "s\<lparr>cs_netServices := l\<rparr>"
  have inv: "fresh_inv s" "ptr_inv X s" "list_inv s" "obj_inv s" "flag_inv s"
    using assms(1) by (simp_all add: parts_inv_def)
  have live: "set (live_services ?t) \<subseteq> set (live_services s)" using assms(2) by (auto simp: in_live)
  have keys: "svc_key ?t = svc_key s" "sup_key ?t = sup_key s" "svc_ok ?t = svc_ok s"
    by (simp_all add: svc_key_def sup_key_def svc_ok_def net_sup_def fun_eq_iff)
  have "ptr_inv X ?t" using inv(2) live assms(2) unfolding ptr_inv_def by (simp add: subset_iff)
  moreover have "list_inv ?t" using inv(3) assms(3,4) unfolding list_inv_def keys by simp
  moreover have "fresh_inv ?t" "obj_inv ?t" "flag_inv ?t"
    using inv(1,4,5) live unfolding fresh_inv_def obj_inv_def flag_inv_def keys by (simp_all add: subset_iff)
  ultimately show ?thesis by (simp add: parts_inv_def)
qed

lemma services_distinct:
  assumes "parts_inv X s"
  shows "distinct (cs_netServices s)" "distinct (map (svc_key s) (cs_netServices s))"
    "distinct (cs_networkList s)" "distinct (cs_netSupplier s)"
    "map (\<lambda>nr. nw_supplier (net_at s nr)) (cs_networkList s) = cs_netSupplier s"
proof -
  show l: "distinct (cs_netServices s)" "distinct (map (svc_key s) (cs_netServices s))" "distinct (cs_netSupplier s)"
    "map (\<lambda>nr. nw_supplier (net_at s nr)) (cs_networkList s) = cs_netSupplier s"
    using assms by (simp_all add: parts_inv_def list_inv_def)
  then show "distinct (cs_networkList s)" by (metis distinct_map)
qed

text \<open>The supplier found by its identifier is the supplier of the network found by it.\<close>

lemma find_by_id:
  assumes "parts_inv X s" and "NetConnService_GetNetSupplierFromListById i s = Some sr"
  obtains nr where "NetConnService_GetNetworkFromListBySupplierId i s = Some nr"
    "nw_supplier (net_at s nr) = sr" "nr \<in> set (cs_networkList s)" "sr \<in> set (cs_netSupplier s)"
    "ns_supplierId (sup_at s sr) = i" "net_sup s nr = sup_at s sr"
proof -
  have "find (\<lambda>r. ns_supplierId (sup_at s r) = i) (map (\<lambda>nr. nw_supplier (net_at s nr)) (cs_networkList s)) = Some sr"
    using assms(2) services_distinct(5) [OF assms(1)]
    by (simp add: NetConnService_GetNetSupplierFromListById_def)
  then obtain nr where "NetConnService_GetNetworkFromListBySupplierId i s = Some nr" "nw_supplier (net_at s nr) = sr"
    by (auto simp: find_map NetConnService_GetNetworkFromListBySupplierId_def net_sup_def)
  then show thesis
    using that [of nr] assms(2) by (auto simp: NetConnService_GetNetworkFromListBySupplierId_def
      NetConnService_GetNetSupplierFromListById_def net_sup_def dest!: find_Some_D)
qed

end
