(* ===== verification/Conn_Preservation.thy ===== *)
theory Conn_Preservation
  imports Conn_Invariant
begin

text \<open>
  The remaining operations of the connection service keep the invariant, the step relation of the
  service (requests of clients, timers that fire, start and stop) and its reachable states.
\<close>

section \<open>Unregistering a supplier\<close>

lemma DeleteServiceFromListByNet_parts:
  "parts_inv X s \<Longrightarrow> parts_inv X (NetConnService_DeleteServiceFromListByNet nr s)"
  unfolding NetConnService_DeleteServiceFromListByNet_def
  using services_distinct(1,2) by (intro shrink_services_parts) (auto simp: distinct_map_filter)

text \<open>The two erasures of \<open>UnregisterNetSupplier\<close> keep the lists in step.\<close>

lemma delete_by_id_parts:
  assumes "parts_inv X s" and "NetConnService_GetNetworkFromListBySupplierId i s = Some nr"
    and "\<forall>r \<in> set (cs_netServices s). sv_network (svc_at s r) \<noteq> nr"
  shows "parts_inv X (NetConnService_DeleteSupplierFromListById i (NetConnService_DeleteNetworkFromListBySupplierId i s))"
proof -
  let ?f = "\<lambda>nr. nw_supplier (net_at s nr)" and ?P = "\<lambda>r. ns_supplierId (sup_at s r) = i"
  let ?nl = "erase_first (\<lambda>nr. ?P (?f nr)) (cs_networkList s)" and ?sl = "erase_first ?P (cs_netSupplier s)"
  let ?t = "s\<lparr>cs_networkList := ?nl, cs_netSupplier := ?sl\<rparr>"
  have t: "NetConnService_DeleteSupplierFromListById i (NetConnService_DeleteNetworkFromListBySupplierId i s) = ?t"
    by (simp add: NetConnService_DeleteSupplierFromListById_def NetConnService_DeleteNetworkFromListBySupplierId_def
        net_sup_def)
  have inv: "fresh_inv s" "ptr_inv X s" "list_inv s" "obj_inv s" "flag_inv s"
    using assms(1) by (simp_all add: parts_inv_def)
  note d = services_distinct [OF assms(1)]
  have keys: "svc_key ?t = svc_key s" "sup_key ?t = sup_key s" "svc_ok ?t = svc_ok s"
    by (simp_all add: svc_key_def sup_key_def svc_ok_def net_sup_def fun_eq_iff)
  have nl: "set ?nl = set (cs_networkList s) - {nr}"
    using assms(2) d(3) by (intro set_erase_first_find)
      (simp_all add: NetConnService_GetNetworkFromListBySupplierId_def net_sup_def)
  have sl: "set ?sl \<subseteq> set (cs_netSupplier s)" by (rule set_erase_first_subset)
  have "ptr_inv X ?t" using inv(2) assms(3) sl nl unfolding ptr_inv_def by auto
  moreover have "map ?f ?nl = ?sl" using d(5) erase_first_map [of ?P ?f] by metis
  then have "list_inv ?t" using inv(3) distinct_erase_first distinct_map_erase_first
    unfolding list_inv_def keys by auto
  moreover have "fresh_inv ?t" "obj_inv ?t" "flag_inv ?t"
    using inv(1,4,5) unfolding fresh_inv_def obj_inv_def flag_inv_def keys by simp_all
  ultimately show ?thesis unfolding t by (simp add: parts_inv_def)
qed

lemma DeleteServiceFromListByNet_frame [nm_frame]:
  "NetConnService_GetNetworkFromListBySupplierId i (NetConnService_DeleteServiceFromListByNet nr s) =
    NetConnService_GetNetworkFromListBySupplierId i s"
  "svc_at (NetConnService_DeleteServiceFromListByNet nr s) r = svc_at s r"
  "net_at (NetConnService_DeleteServiceFromListByNet nr s) r = net_at s r"
  "sup_at (NetConnService_DeleteServiceFromListByNet nr s) r = sup_at s r"
  by (simp_all add: NetConnService_DeleteServiceFromListByNet_def
      NetConnService_GetNetworkFromListBySupplierId_def net_sup_def)

lemma DeleteServiceFromListByNet_gone:
  "r \<in> set (cs_netServices (NetConnService_DeleteServiceFromListByNet nr s)) \<Longrightarrow> sv_network (svc_at s r) \<noteq> nr"
  by (auto simp: NetConnService_DeleteServiceFromListByNet_def Network_eq_def)

lemma delete_world [simp]:
  "world_inv E (NetConnService_DeleteServiceFromListByNet nr s) = world_inv E s"
  "world_inv E (NetConnService_DeleteSupplierFromListById i s) = world_inv E s"
  "world_inv E (NetConnService_DeleteNetworkFromListBySupplierId i s) = world_inv E s"
  by (simp_all add: NetConnService_DeleteServiceFromListByNet_def NetConnService_DeleteSupplierFromListById_def
      NetConnService_DeleteNetworkFromListBySupplierId_def)

lemma UnregisterNetSupplier_inv [nm_inv]:
  assumes "conn_inv E s"
  shows "conn_inv E (snd (NetConnService_UnregisterNetSupplier E i s))"
proof (cases "NetConnService_GetNetSupplierFromListById i s")
  case (Some sr)
  have p: "parts_inv {} s" "world_inv E s" using assms by (simp_all add: conn_inv_parts_world)
  obtain nr where nr: "NetConnService_GetNetworkFromListBySupplierId i s = Some nr" using find_by_id [OF p(1) Some] .
  let ?s1 = "NetConnService_DeleteServiceFromListByNet nr s"
  have "parts_inv {} (NetConnService_DeleteSupplierFromListById i (NetConnService_DeleteNetworkFromListBySupplierId i ?s1))"
    using DeleteServiceFromListByNet_parts [OF p(1)] nr DeleteServiceFromListByNet_gone [of _ nr s]
    by (intro delete_by_id_parts [where nr = nr]) (simp_all add: nm_frame)
  then show ?thesis using Some nr p(2)
    by (simp add: NetConnService_UnregisterNetSupplier_def Let_def conn_inv_parts_world release_network_parts
        release_network_world)
qed (use assms in \<open>simp add: NetConnService_UnregisterNetSupplier_def\<close>)

section \<open>Updating the capabilities\<close>

lemma update_capability_parts:
  assumes "parts_inv X s" and "nr \<in> set (cs_networkList s)"
    and "ty = ns_netSupplierType (net_sup s nr)" and "ident = ns_netSupplierIdent (net_sup s nr)"
    and "cap \<in> {NET_CAPABILITIES_INTERNET, NET_CAPABILITIES_MMS}"
  shows "parts_inv X (update_capability caps cap ident ty nr s)"
proof -
  have "(nr, cap) \<notin> set (map (svc_key s) (cs_netServices s))"
    if "\<not> NetConnService_IsServiceInList (nw_netId (net_at s nr)) cap s"
    using that by (auto simp: NetConnService_IsServiceInList_def list_ex_iff serves_def svc_key_def)
  moreover have "parts_inv X (snd (NetConnService_DeleteServiceFromListByCap netId cap s))" for netId
    unfolding NetConnService_DeleteServiceFromListByCap_def snd_conv
    using assms(1) services_distinct(1,2) [OF assms(1)]
    by (intro shrink_services_parts)
      (simp_all add: set_erase_first_subset distinct_erase_first distinct_map_erase_first)
  ultimately show ?thesis using assms
    by (auto simp: update_capability_def Let_def intro!: push_service_parts)
qed

lemma update_capability_frame [nm_frame]:
  "cs_networkList (update_capability caps cap ident ty nr s) = cs_networkList s"
  "cs_netSupplier (update_capability caps cap ident ty nr s) = cs_netSupplier s"
  "cs_defaultNetService (update_capability caps cap ident ty nr s) = cs_defaultNetService s"
  "net_at (update_capability caps cap ident ty nr s) r = net_at s r"
  "sup_at (update_capability caps cap ident ty nr s) r = sup_at s r"
  "net_sup (update_capability caps cap ident ty nr s) r = net_sup s r"
  "world_inv E (update_capability caps cap ident ty nr s) = world_inv E s"
  "cs_world (update_capability caps cap ident ty nr s) = cs_world s"
  by (simp_all add: update_capability_def Let_def NetConnService_DeleteServiceFromListByCap_def push_service_def
      net_sup_def)

lemma UpdateNetCapabilities_inv [nm_inv]:
  assumes "conn_inv E s"
  shows "conn_inv E (snd (NetConnService_UpdateNetCapabilities i caps s))"
proof (cases "NetConnService_GetNetSupplierFromListById i s")
  case (Some sr)
  have p: "parts_inv {} s" "world_inv E s" using assms by (simp_all add: conn_inv_parts_world)
  obtain nr where nr: "NetConnService_GetNetworkFromListBySupplierId i s = Some nr"
    "nr \<in> set (cs_networkList s)" "net_sup s nr = sup_at s sr" "ns_supplierId (sup_at s sr) = i"
    using find_by_id [OF p(1) Some] .
  then show ?thesis using Some p
    by (auto simp: NetConnService_UpdateNetCapabilities_def Let_def conn_inv_parts_world nm_frame
        intro!: update_capability_parts)
qed (use assms in \<open>simp add: NetConnService_UpdateNetCapabilities_def\<close>)

section \<open>Callbacks\<close>

lemma update_service_parts:
  assumes "parts_inv X s" and "r \<in> dom (cs_services s)" and "\<And>sv. sv_shape (f sv) = sv_shape sv"
    and "\<And>sv. distinct (sv_netConnCallback sv) \<Longrightarrow> distinct (sv_netConnCallback (f sv))"
  shows "parts_inv X (update_service f r s) \<and> same_shape s (update_service f r s)"
proof -
  let ?t = "update_service f r s"
  have "\<forall>q. map_option sv_shape (((cs_services s)(r \<mapsto> f (svc_at s r))) q) = map_option sv_shape (cs_services s q)"
    using assms(2,3) unfolding svc_at_def by (intro allI map_option_update)
  then have sh: "same_shape s ?t" by (simp add: same_shape_def update_service_def del: fun_upd_apply)
  have "flag_inv s" using assms(1) by (simp add: parts_inv_def)
  moreover have "distinct (sv_netConnCallback (f (svc_at s r)))"
    using at_in_ran(1) [OF assms(2)] \<open>flag_inv s\<close> assms(4) by (simp add: flag_inv_def)
  ultimately have "flag_inv ?t"
    by (auto simp: flag_inv_def update_service_def simp del: fun_upd_apply dest: ball_ran_update)
  then show ?thesis using assms(1) sh by (simp add: parts_inv_def shape_inv)
qed

lemma fold_update_service_parts:
  assumes "parts_inv X s" and "set rs \<subseteq> dom (cs_services s)" and "\<And>sv. sv_shape (f sv) = sv_shape sv"
    and "\<And>sv. distinct (sv_netConnCallback sv) \<Longrightarrow> distinct (sv_netConnCallback (f sv))"
  shows "parts_inv X (fold (update_service f) rs s)"
  using assms(1,2)
proof (induction rs arbitrary: s)
  case (Cons r rs)
  have step: "parts_inv X (update_service f r s) \<and> same_shape s (update_service f r s)"
    using Cons.prems assms(3,4) by (intro update_service_parts) auto
  then have "set rs \<subseteq> dom (cs_services (update_service f r s))"
    using Cons.prems(2) shape_doms(3) [OF conjunct2 [OF step]] by simp
  with step show ?case using Cons.IH by simp
qed simp

lemma callback_ops:
  "sv_shape (NetService_RegisterNetConnCallback cb sv) = sv_shape sv"
  "sv_shape (snd (NetService_UnregisterNetConnCallback cb sv)) = sv_shape sv"
  "distinct (sv_netConnCallback sv) \<Longrightarrow> distinct (sv_netConnCallback (NetService_RegisterNetConnCallback cb sv))"
  "distinct (sv_netConnCallback sv) \<Longrightarrow> distinct (sv_netConnCallback (snd (NetService_UnregisterNetConnCallback cb sv)))"
proof -
  show "distinct (sv_netConnCallback sv) \<Longrightarrow> distinct (sv_netConnCallback (NetService_RegisterNetConnCallback cb sv))"
    using service_callbacks.sub_inv by (cases cb) (simp_all add: NetService_RegisterNetConnCallback_def)
  show "distinct (sv_netConnCallback sv) \<Longrightarrow> distinct (sv_netConnCallback (snd (NetService_UnregisterNetConnCallback cb sv)))"
    using service_callbacks.unsub_inv by (cases cb) (simp_all add: NetService_UnregisterNetConnCallback_def distinct_erase_first)
  show "sv_shape (NetService_RegisterNetConnCallback cb sv) = sv_shape sv"
    "sv_shape (snd (NetService_UnregisterNetConnCallback cb sv)) = sv_shape sv"
    by (simp_all add: sv_shape_def NetService_RegisterNetConnCallback_def NetService_UnregisterNetConnCallback_def
        split: option.splits)
qed

lemma world_inv_update_service [simp]: "world_inv E (update_service f r s) = world_inv E s"
  by (simp add: update_service_def)

lemma world_inv_fold_update [simp]: "world_inv E (fold (update_service f) rs s) = world_inv E s"
  by (induction rs arbitrary: s) simp_all

lemma listed_in_dom: "parts_inv X s \<Longrightarrow> set (cs_netServices s) \<subseteq> dom (cs_services s)"
  by (auto simp: parts_inv_def ptr_inv_def in_live)

lemma find_matches_dom:
  "parts_inv X s \<Longrightarrow> find P (cs_netServices s) = Some r \<Longrightarrow> r \<in> dom (cs_services s)"
  using listed_in_dom find_Some_D by fastforce

lemma callbacks_inv [nm_inv]:
  assumes "conn_inv E s"
  shows "conn_inv E (snd (NetConnService_RegisterNetConnCallback_all cb s))"
    "conn_inv E (snd (NetConnService_RegisterNetConnCallback spec cb s))"
    "conn_inv E (snd (NetConnService_UnregisterNetConnCallback_all cb s))"
    "conn_inv E (snd (NetConnService_UnregisterNetConnCallback spec cb s))"
proof -
  have p: "parts_inv {} s" "world_inv E s" using assms by (simp_all add: conn_inv_parts_world)
  note all = fold_update_service_parts [OF p(1) listed_in_dom [OF p(1)]]
  note one = conjunct1 [OF update_service_parts [OF p(1) find_matches_dom [OF p(1)]]]
  show "conn_inv E (snd (NetConnService_RegisterNetConnCallback_all cb s))"
    using p all callback_ops by (simp add: NetConnService_RegisterNetConnCallback_all_def conn_inv_parts_world)
  show "conn_inv E (snd (NetConnService_UnregisterNetConnCallback_all cb s))"
    using p all callback_ops by (simp add: NetConnService_UnregisterNetConnCallback_all_def conn_inv_parts_world)
  show "conn_inv E (snd (NetConnService_RegisterNetConnCallback spec cb s))"
    using p one callback_ops
    by (auto simp: NetConnService_RegisterNetConnCallback_def conn_inv_parts_world split: option.splits)
  show "conn_inv E (snd (NetConnService_UnregisterNetConnCallback spec cb s))"
    using p one callback_ops
    by (auto simp: NetConnService_UnregisterNetConnCallback_def conn_inv_parts_world split: option.splits)
qed

section \<open>Updates of supplier and link information\<close>

lemma update_objects_shape:
  assumes "nr \<in> dom (cs_networks s)" and "sr \<in> dom (cs_suppliers s)"
    and "nw_shape nw = nw_shape (net_at s nr)" and "ns_shape spl = ns_shape (sup_at s sr)"
  shows "same_shape s (s\<lparr>cs_networks := (cs_networks s)(nr \<mapsto> nw),
    cs_suppliers := (cs_suppliers s)(sr \<mapsto> spl), cs_world := w\<rparr>)"
proof -
  have "\<forall>q. map_option nw_shape (((cs_networks s)(nr \<mapsto> nw)) q) = map_option nw_shape (cs_networks s q)"
    using assms(1,3) unfolding net_at_def by (intro allI map_option_update)
  moreover have "\<forall>q. map_option ns_shape (((cs_suppliers s)(sr \<mapsto> spl)) q) = map_option ns_shape (cs_suppliers s q)"
    using assms(2,4) unfolding sup_at_def by (intro allI map_option_update)
  ultimately show ?thesis by (simp add: same_shape_def del: fun_upd_apply)
qed

lemma update_objects_inv:
  assumes "conn_inv E s" and "nr \<in> dom (cs_networks s)" and "sr \<in> dom (cs_suppliers s)"
    and "nw_shape nw = nw_shape (net_at s nr)" and "ns_shape spl = ns_shape (sup_at s sr)"
    and "nw_isConnecting nw = nw_isConnected nw" and "\<not> ns_connected spl"
    and "netd_ready (env_netd E) (wd_netd w)" and "wd_events w = wd_events (cs_world s)"
  shows "conn_inv E (s\<lparr>cs_networks := (cs_networks s)(nr \<mapsto> nw),
    cs_suppliers := (cs_suppliers s)(sr \<mapsto> spl), cs_world := w\<rparr>)" (is "conn_inv E ?t")
proof -
  have fl: "flag_inv s" "world_inv E s" using assms(1) by (simp_all add: conn_inv_def)
  have "flag_inv ?t" using fl(1) assms(6,7)
    by (auto simp: flag_inv_def simp del: fun_upd_apply dest: ball_ran_update)
  moreover have "world_inv E ?t" using fl(2) assms(8,9) by (simp add: world_inv_def)
  ultimately show ?thesis
    using assms(1) update_objects_shape [OF assms(2-5)] by (blast intro: conn_inv_shape)
qed

lemma with_netd_ready:
  "(\<And>d. netd_ready N (snd (f d)) = netd_ready N d) \<Longrightarrow> netd_ready N (wd_netd (with_netd f w)) = netd_ready N (wd_netd w)"
  by simp

lemma UpdateRoutes_ready:
  "netd_ready (env_netd E) (wd_netd (Network_UpdateRoutes E info nw w)) = netd_ready (env_netd E) (wd_netd w) \<and>
   wd_events (Network_UpdateRoutes E info nw w) = wd_events w"
  unfolding Network_UpdateRoutes_def Let_def
  by (rule fold_invariant [where Q = "\<lambda>_. True"], simp, rule fold_invariant [where Q = "\<lambda>_. True"])
    (auto simp: netd_add_route_def netd_remove_route_def NetdController_NetworkRemoveRoute_def)

lemma link_steps_ready:
  "netd_ready (env_netd E) (wd_netd (Network_UpdateInterfaces E info nw w)) = netd_ready (env_netd E) (wd_netd w)"
  "wd_events (Network_UpdateInterfaces E info nw w) = wd_events w"
  "netd_ready (env_netd E) (wd_netd (Network_UpdateDnses E info nw w)) = netd_ready (env_netd E) (wd_netd w)"
  "wd_events (Network_UpdateDnses E info nw w) = wd_events w"
  "netd_ready (env_netd E) (wd_netd (Network_updateMtu E info nw w)) = netd_ready (env_netd E) (wd_netd w)"
  "wd_events (Network_updateMtu E info nw w) = wd_events w"
  by (simp_all add: Network_UpdateInterfaces_def Network_UpdateDnses_def Network_updateMtu_def Let_def
      netd_ops_defs)

lemma UpdateNetLinkInfo_world:
  assumes "Network_UpdateNetLinkInfo E info nw w = (r, nw', w')"
  shows "netd_ready (env_netd E) (wd_netd w') = netd_ready (env_netd E) (wd_netd w)" "wd_events w' = wd_events w"
    "nw' = nw\<lparr>nw_netLinkInfo := info\<rparr>"
  using assms by (auto simp: Network_UpdateNetLinkInfo_def Let_def link_steps_ready UpdateRoutes_ready)

lemma network_pointers:
  assumes "conn_inv E s" and "nr \<in> set (cs_networkList s)"
  shows "nr \<in> dom (cs_networks s)" "nw_supplier (net_at s nr) \<in> dom (cs_suppliers s)"
    "nw_isConnecting (net_at s nr) = nw_isConnected (net_at s nr)" "\<not> ns_connected (net_sup s nr)"
    "netd_ready (env_netd E) (wd_netd (cs_world s))"
proof -
  have inv: "ptr_inv {} s" "flag_inv s" "world_inv E s" using assms(1) by (simp_all add: conn_inv_def)
  show "nr \<in> dom (cs_networks s)" using inv(1) assms(2) by (auto simp: ptr_inv_def)
  moreover then show "nw_supplier (net_at s nr) \<in> dom (cs_suppliers s)" using inv(1) by (simp add: ptr_inv_def)
  ultimately show "nw_isConnecting (net_at s nr) = nw_isConnected (net_at s nr)" "\<not> ns_connected (net_sup s nr)"
    using inv(2) at_in_ran(2,3) by (simp_all add: flag_inv_def net_sup_def)
  show "netd_ready (env_netd E) (wd_netd (cs_world s))" using inv(3) by (simp add: world_inv_def)
qed

lemma UpdateNetLinkInfo_inv [nm_inv]:
  assumes "conn_inv E s"
  shows "conn_inv E (snd (NetConnService_UpdateNetLinkInfo E i info s))"
proof (cases "NetConnService_GetNetSupplierFromListById i s")
  case (Some sr)
  have p: "parts_inv {} s" using assms by (simp add: conn_inv_parts_world)
  obtain nr where nr: "NetConnService_GetNetworkFromListBySupplierId i s = Some nr"
    "nr \<in> set (cs_networkList s)" "ns_supplierId (sup_at s sr) = i"
    using find_by_id [OF p Some] .
  note ptrs = network_pointers [OF assms nr(2)]
  have "conn_inv E (s\<lparr>cs_networks := (cs_networks s)(nr \<mapsto> nw), cs_world := w\<rparr>)"
    if run: "Network_UpdateNetLinkInfo E v (net_at s nr) (cs_world s) = (r, nw, w)" for v r nw w
  proof -
    have "(cs_suppliers s)(nw_supplier (net_at s nr) \<mapsto> sup_at s (nw_supplier (net_at s nr))) = cs_suppliers s"
      using ptrs(2) by (auto simp: sup_at_def fun_eq_iff simp del: at_fold)
    then show ?thesis
      using update_objects_inv [OF assms ptrs(1,2), of nw "net_sup s nr" w] UpdateNetLinkInfo_world [OF run] ptrs
      by (simp add: nw_shape_def net_sup_def)
  qed
  then show ?thesis using Some nr assms
    by (auto simp: NetConnService_UpdateNetLinkInfo_def Let_def split: option.splits prod.splits)
qed (use assms in \<open>auto simp: NetConnService_UpdateNetLinkInfo_def split: option.splits\<close>)

lemma UpdateNetSupplierInfo_inv [nm_inv]:
  assumes "conn_inv E s"
  shows "conn_inv E (snd (NetConnService_UpdateNetSupplierInfo E i info s))"
proof (cases "NetConnService_GetNetSupplierFromListById i s")
  case (Some sr)
  have p: "parts_inv {} s" using assms by (simp add: conn_inv_parts_world)
  obtain nr where nr: "NetConnService_GetNetworkFromListBySupplierId i s = Some nr"
    "nr \<in> set (cs_networkList s)" "ns_supplierId (sup_at s sr) = i"
    using find_by_id [OF p Some] .
  note ptrs = network_pointers [OF assms nr(2)]
  have "conn_inv E (s\<lparr>cs_networks := (cs_networks s)(nr \<mapsto> nw),
      cs_suppliers := (cs_suppliers s)(nw_supplier (net_at s nr) \<mapsto> spl), cs_world := w\<rparr>)"
    if run: "Network_UpdateNetSupplierInfo E v (net_at s nr) (net_sup s nr) (cs_world s) = (r, nw, spl, w)" for v r nw spl w
  proof (rule update_objects_inv [OF assms ptrs(1,2)])
    show "nw_shape nw = nw_shape (net_at s nr)" "nw_isConnecting nw = nw_isConnected nw" "\<not> ns_connected spl"
      "ns_shape spl = ns_shape (sup_at s (nw_supplier (net_at s nr)))" "wd_events w = wd_events (cs_world s)"
      "netd_ready (env_netd E) (wd_netd w)"
      using run ptrs by (auto simp: Network_UpdateNetSupplierInfo_def Let_def nw_shape_def ns_shape_def net_sup_def
          NetSupplier_UpdateNetSupplierInfo_def NetdController_NetworkCreatePhysical_def split: if_splits)
  qed
  then show ?thesis using Some nr assms
    by (auto simp: NetConnService_UpdateNetSupplierInfo_def Let_def split: option.splits prod.splits)
qed (use assms in \<open>auto simp: NetConnService_UpdateNetSupplierInfo_def split: option.splits\<close>)

section \<open>The service as a transition system\<close>

inductive conn_step :: "conn_env \<Rightarrow> conn_state \<Rightarrow> conn_state \<Rightarrow> bool" for E where
  step_start: "conn_step E s (NetConnService_OnStart local publish s)"
| step_stop: "conn_step E s (NetConnService_OnStop s)"
| step_register: "conn_step E s (snd (NetConnService_RegisterNetSupplier E netType ident caps s))"
| step_unregister: "conn_step E s (snd (NetConnService_UnregisterNetSupplier E supplierId s))"
| step_register_callback_all: "conn_step E s (snd (NetConnService_RegisterNetConnCallback_all cb s))"
| step_register_callback: "conn_step E s (snd (NetConnService_RegisterNetConnCallback spec cb s))"
| step_unregister_callback_all: "conn_step E s (snd (NetConnService_UnregisterNetConnCallback_all cb s))"
| step_unregister_callback: "conn_step E s (snd (NetConnService_UnregisterNetConnCallback spec cb s))"
| step_supplier_info: "conn_step E s (snd (NetConnService_UpdateNetSupplierInfo E supplierId sinfo s))"
| step_capabilities: "conn_step E s (snd (NetConnService_UpdateNetCapabilities supplierId caps s))"
| step_link_info: "conn_step E s (snd (NetConnService_UpdateNetLinkInfo E supplierId linfo s))"
| step_timer: "0 < cs_reConnectTimers s \<Longrightarrow> conn_step E s (fire_timer E s)"

inductive_cases conn_stepE: "conn_step E s t"

abbreviation conn_reachable :: "conn_env \<Rightarrow> conn_state \<Rightarrow> bool" where
  "conn_reachable E \<equiv> reach (\<lambda>s. s = NetConnService_new E) (conn_step E)"

lemma conn_inv_new [nm_inv]: "conn_inv E (NetConnService_new E)"
  by (simp add: conn_inv_def conn_inv_parts NetConnService_new_def live_services_def net_id_inv_init
      controllers_inv_def)

lemma OnStart_OnStop_inv [nm_inv]:
  "conn_inv E s \<Longrightarrow> conn_inv E (NetConnService_OnStart local publish s)"
  "conn_inv E s \<Longrightarrow> conn_inv E (NetConnService_OnStop s)"
  by (auto simp: NetConnService_OnStart_def NetConnService_Init_def NetConnService_OnStop_def conn_inv_parts_world)

interpretation conn_system: transition_system "\<lambda>s. s = NetConnService_new E" "conn_step E" "conn_inv E" for E
proof unfold_locales
  show "conn_inv E s" if "s = NetConnService_new E" for s using that by (simp add: conn_inv_new)
  show "conn_inv E t" if "conn_inv E s" "conn_step E s t" for s t
    using that(2) by (rule conn_stepE) (simp_all add: that(1) nm_inv)
qed

end
