(* ===== verification/Conn_Properties.thy ===== *)
theory Conn_Properties
  imports Conn_Preservation
begin

text \<open>
  The properties of the connection service: what registering, unregistering and updating a supplier
  do to the lists and to the other suppliers, what is true of every reachable state, and where the
  code does not do what it means to.
\<close>

section \<open>Reachable states\<close>

text \<open>
  C1. In every state the connection service can reach, by any sequence of client requests, timers
  and answers of the other programs, its invariant holds: no pointer dangles, the lists of suppliers
  and networks correspond element by element, no type and identifier is registered twice, every
  listed service belongs to a listed network and carries its type and identifier, a network has at
  most one service per capability, and no service has a callback twice.
\<close>

theorem conn_reachable_inv:
  assumes "conn_reachable E s"
  shows "conn_inv E s"
  using assms by (rule conn_system.reach_inv)

definition sample_registered :: conn_state where
  "sample_registered = snd (NetConnService_RegisterNetSupplier sample_env 1 ''simId1'' 1 (NetConnService_new sample_env))"

lemma sample_registered_reachable: "conn_reachable sample_env sample_registered"
  unfolding sample_registered_def by (rule reach_step, rule reach_init, rule refl, rule step_register)

theorem conn_reachable_inv_witness: "conn_inv sample_env sample_registered"
  using sample_registered_reachable by (rule conn_reachable_inv)

text \<open>
  C7. The connection service never asks for a network. \<open>Network::NetworkConnect\<close> calls
  \<open>SupplierDisconnection\<close> instead of \<open>SupplierConnection\<close>, so in no reachable state
  has the cellular data service been sent a request, and no supplier is ever marked connected.
\<close>

theorem network_never_requested:
  assumes "conn_reachable E s"
  shows "EvRequestNet ident cap \<notin> set (wd_events (cs_world s)) \<and>
    (\<forall>r spl. cs_suppliers s r = Some spl \<longrightarrow> \<not> ns_connected spl)"
proof -
  have "world_inv E s" "flag_inv s"
    using conn_system.reach_inv [OF assms] by (simp_all add: conn_inv_def)
  then show ?thesis by (auto simp: world_inv_def flag_inv_def list_all_iff ran_def dest: bspec)
qed

theorem network_never_requested_witness:
  "EvRequestNet ''simId1'' 1 \<notin> set (wd_events (cs_world sample_registered))"
  using network_never_requested [OF sample_registered_reachable] by blast

section \<open>Registering\<close>

lemma valid_type:
  "ty \<in> {NET_TYPE_CELLULAR, NET_TYPE_ETHERNET} \<Longrightarrow>
    \<not> (NetworkType_val ty \<ge> NetworkType_val NET_TYPE_MAX \<or> NetworkType_val ty \<le> NetworkType_val NET_TYPE_UNKNOWN)"
  by (auto simp: word_le_nat_alt)

lemma RegisterNetSupplier_new:
  assumes "ty \<in> {NET_TYPE_CELLULAR, NET_TYPE_ETHERNET}"
    and "NetConnService_GetNetSupplierFromList (NetworkType_val ty) ident s = None"
    and "create_objects E (NetworkType_val ty) ident caps s = (sr, t)"
  shows "NetConnService_RegisterNetSupplier E (NetworkType_val ty) ident caps s =
    (ns_supplierId (sup_at (connect_default E t) sr), connect_default E t)"
  unfolding NetConnService_RegisterNetSupplier_def if_not_P [OF valid_type [OF assms(1)]]
  using assms(2,3) by (simp add: Let_def)

lemma RegisterNetSupplier_known:
  assumes "ty \<in> {NET_TYPE_CELLULAR, NET_TYPE_ETHERNET}"
    and "NetConnService_GetNetSupplierFromList (NetworkType_val ty) ident s = Some r"
  shows "NetConnService_RegisterNetSupplier E (NetworkType_val ty) ident caps s = (ns_supplierId (sup_at s r), s)"
  unfolding NetConnService_RegisterNetSupplier_def if_not_P [OF valid_type [OF assms(1)]]
  using assms(2) by simp

text \<open>
  C2. Registering a supplier that is not known yet. The result is the next supplier identifier;
  one supplier of the given type and identifier and one network are appended to the lists, and one
  service for each of the two capabilities whose bit is set, in the order internet, MMS; the
  suppliers registered before keep their place and their identity. The internet service becomes the
  default service.
\<close>

theorem RegisterNetSupplier_creates:
  assumes "conn_inv E s" and "ty \<in> {NET_TYPE_CELLULAR, NET_TYPE_ETHERNET}"
    and "NetConnService_GetNetSupplierFromList (NetworkType_val ty) ident s = None"
    and "NetConnService_RegisterNetSupplier E (NetworkType_val ty) ident caps s = (res, t)"
  shows "res = cs_nextNetSupplierId s \<and>
    (\<exists>sr nr srvs. cs_netSupplier t = cs_netSupplier s @ [sr] \<and> cs_networkList t = cs_networkList s @ [nr] \<and>
      cs_netServices t = cs_netServices s @ srvs \<and> sup_key t sr = (ty, ident) \<and> ns_supplierId (sup_at t sr) = res \<and>
      nw_supplier (net_at t nr) = sr \<and> map (svc_key t) srvs = map (\<lambda>cap. (nr, cap)) (caps_of caps) \<and>
      cs_defaultNetService t = (if cap_set caps NET_CAPABILITIES_INTERNET then Some (hd srvs) else cs_defaultNetService s)) \<and>
    (\<forall>r \<in> set (cs_netSupplier s). ns_shape (sup_at t r) = ns_shape (sup_at s r))"
proof -
  obtain sr u where co: "create_objects E (NetworkType_val ty) ident caps s = (sr, u)" by (rule prod.exhaust)
  note c = create_objects_inv [OF assms(1-3) co]
  have sh: "same_shape u t" and t: "t = connect_default E u" "res = ns_supplierId (sup_at t sr)"
    using connect_default_shape [OF c(1)] RegisterNetSupplier_new [OF assms(2,3) co] assms(4) by auto
  let ?srvs = "[Suc (Suc sr)..<Suc (Suc sr) + length (caps_of caps)]"
  have "map (svc_key t) ?srvs = map (\<lambda>sv. (sv_network sv, sv_netCapability sv)) (map (svc_at u) ?srvs)"
    by (simp add: shape_keys(2) [OF sh] svc_key_def)
  then have "map (svc_key t) ?srvs = map (\<lambda>cap. (Suc sr, cap)) (caps_of caps)"
    unfolding c(6) by (simp add: NetService_new_def o_def)
  moreover have "cap_set caps NET_CAPABILITIES_INTERNET \<Longrightarrow> hd ?srvs = Suc (Suc sr)"
    by (auto simp: caps_of_def upt_rec)
  moreover have "res = cs_nextNetSupplierId s" using t(2) c(9) shape_fields(4) [OF sh] by simp
  ultimately show ?thesis
    using c(3-5,7,8,10,14) shape_lists [OF sh] shape_keys(1) [OF sh] shape_fields(5) [OF sh] t(2)
      shape_objects(1) [OF sh]
    by (intro conjI exI [of _ sr] exI [of _ "Suc sr"] exI [of _ ?srvs]) (auto split: if_splits)
qed

text \<open>A state with one cellular supplier that offers the internet capability.\<close>

lemma sample_lookup_None:
  "NetConnService_GetNetSupplierFromList (NetworkType_val NET_TYPE_CELLULAR) ''simId1'' (NetConnService_new sample_env) = None"
  by (simp add: NetConnService_GetNetSupplierFromList_def NetConnService_new_def)

theorem RegisterNetSupplier_creates_witness:
  "fst (NetConnService_RegisterNetSupplier sample_env (NetworkType_val NET_TYPE_CELLULAR) ''simId1'' 1
      (NetConnService_new sample_env)) = 0x03EB \<and>
   length (cs_netServices (snd (NetConnService_RegisterNetSupplier sample_env (NetworkType_val NET_TYPE_CELLULAR)
      ''simId1'' 1 (NetConnService_new sample_env)))) = 1"
proof -
  obtain res t where run: "NetConnService_RegisterNetSupplier sample_env (NetworkType_val NET_TYPE_CELLULAR) ''simId1'' 1
      (NetConnService_new sample_env) = (res, t)" by (rule prod.exhaust)
  have "length (map (svc_key t) srvs) = length (caps_of 1) \<Longrightarrow> length srvs = 1" for srvs
    by (simp add: caps_of_def cap_set_def)
  then show ?thesis
    using RegisterNetSupplier_creates [OF conn_inv_new _ sample_lookup_None run] unfolding run
    by (auto simp: NetConnService_new_def g_nextNetSupplierId_init_def) (metis length_map)
qed

text \<open>
  Registering is idempotent: registering the same type and identifier a second time, with any
  capabilities, returns the same identifier and changes nothing. A type outside the known range
  is refused with \<open>ERR_INVALID_NETORK_TYPE\<close> and changes nothing either.
\<close>

theorem RegisterNetSupplier_idempotent:
  assumes "conn_inv E s" and "NetConnService_RegisterNetSupplier E netType ident caps s = (res, t)"
  shows "NetConnService_RegisterNetSupplier E netType ident caps' t = (res, t)"
proof (cases "netType \<ge> NetworkType_val NET_TYPE_MAX \<or> netType \<le> NetworkType_val NET_TYPE_UNKNOWN")
  case True
  with assms(2) show ?thesis by (simp add: NetConnService_RegisterNetSupplier_def)
next
  case False
  then obtain ty where ty: "ty \<in> {NET_TYPE_CELLULAR, NET_TYPE_ETHERNET}" "netType = NetworkType_val ty"
    by (rule netType_valid)
  show ?thesis
  proof (cases "NetConnService_GetNetSupplierFromList (NetworkType_val ty) ident s")
    case (Some r)
    with assms(2) show ?thesis unfolding ty(2) by (auto simp: RegisterNetSupplier_known [OF ty(1)])
  next
    case None
    obtain sr u where co: "create_objects E (NetworkType_val ty) ident caps s = (sr, u)" by (rule prod.exhaust)
    note c = create_objects_inv [OF assms(1) ty(1) None co]
    have t: "t = connect_default E u" "res = ns_supplierId (sup_at t sr)"
      using RegisterNetSupplier_new [OF ty(1) None co] assms(2) unfolding ty(2) by auto
    have sh: "same_shape u t" unfolding t(1) using c(1) by (rule connect_default_shape)
    have mem: "sr \<in> set (cs_netSupplier t)" "distinct (map (sup_key t) (cs_netSupplier t))" "sup_key t sr = (ty, ident)"
      using c(1,3,8) shape_lists(2) [OF sh] shape_keys(1) [OF sh] by (simp_all add: conn_inv_def list_inv_def)
    have "NetConnService_GetNetSupplierFromList (NetworkType_val ty) ident t =
        find (\<lambda>r. sup_key t r = sup_key t sr) (cs_netSupplier t)"
      unfolding NetConnService_GetNetSupplierFromList_def mem(3)
      by (rule find_cong_pred) (auto simp: sup_key_def)
    also have "\<dots> = Some sr" using mem(2,1) by (rule find_unique)
    finally show ?thesis unfolding ty(2) t(2) by (rule RegisterNetSupplier_known [OF ty(1)])
  qed
qed

theorem RegisterNetSupplier_idempotent_witness:
  "NetConnService_RegisterNetSupplier sample_env 1 ''simId1'' 3 sample_registered =
    (fst (NetConnService_RegisterNetSupplier sample_env 1 ''simId1'' 1 (NetConnService_new sample_env)), sample_registered)"
  using RegisterNetSupplier_idempotent [OF conn_inv_new [of sample_env], of 1 "''simId1''" 1 _ _ 3]
  unfolding sample_registered_def by (metis prod.collapse)

section \<open>Unregistering\<close>

lemma UnregisterNetSupplier_found:
  assumes "conn_inv E s" and "NetConnService_GetNetSupplierFromListById i s = Some sr"
    and "NetConnService_UnregisterNetSupplier E i s = (res, t)"
  obtains nr where "NetConnService_GetNetworkFromListBySupplierId i s = Some nr" "nw_supplier (net_at s nr) = sr"
    "nr \<in> set (cs_networkList s)" "sr \<in> set (cs_netSupplier s)" "res = ResultCode_val ERR_NONE"
    "t = release_network E nr (NetConnService_DeleteSupplierFromListById i
      (NetConnService_DeleteNetworkFromListBySupplierId i (NetConnService_DeleteServiceFromListByNet nr s)))"
proof -
  have p: "parts_inv {} s" using assms(1) by (simp add: conn_inv_parts_world)
  obtain nr where nr: "NetConnService_GetNetworkFromListBySupplierId i s = Some nr" "nw_supplier (net_at s nr) = sr"
    "nr \<in> set (cs_networkList s)" "sr \<in> set (cs_netSupplier s)" using find_by_id [OF p assms(2)] .
  then show thesis using that [of nr] assms(2,3) by (simp add: NetConnService_UnregisterNetSupplier_def Let_def)
qed

text \<open>Two listed networks with equal suppliers in the sense of \<open>operator==\<close> are the same network.\<close>

lemma Network_eq_listed:
  assumes "conn_inv E s" and "nr \<in> set (cs_networkList s)" and "nq \<in> set (cs_networkList s)"
  shows "Network_eq (net_at s nq, net_sup s nq) (net_at s nr, net_sup s nr) \<longleftrightarrow>
    nw_supplier (net_at s nq) = nw_supplier (net_at s nr)"
proof
  have l: "map (\<lambda>nr. nw_supplier (net_at s nr)) (cs_networkList s) = cs_netSupplier s"
    "distinct (cs_netSupplier s)" "distinct (map (sup_key s) (cs_netSupplier s))"
    using assms(1) by (simp_all add: conn_inv_def list_inv_def)
  {
    assume eq: "Network_eq (net_at s nq, net_sup s nq) (net_at s nr, net_sup s nr)"
    have "nw_supplier (net_at s nr) \<in> set (cs_netSupplier s)" "nw_supplier (net_at s nq) \<in> set (cs_netSupplier s)"
      using assms(2,3) unfolding l(1) [symmetric] by auto
    moreover have "sup_key s (nw_supplier (net_at s nq)) = sup_key s (nw_supplier (net_at s nr))"
      using eq by (simp add: Network_eq_def NetSupplier_eq_def sup_key_def net_sup_def)
    ultimately show "nw_supplier (net_at s nq) = nw_supplier (net_at s nr)"
      using l(3) by (auto simp: distinct_map inj_on_def)
  next
    assume "nw_supplier (net_at s nq) = nw_supplier (net_at s nr)"
    moreover have "inj_on (\<lambda>nr. nw_supplier (net_at s nr)) (set (cs_networkList s))"
      using l(1,2) by (metis distinct_map)
    ultimately have "nq = nr" using assms(2,3) by (auto simp: inj_on_def)
    then show "Network_eq (net_at s nq, net_sup s nq) (net_at s nr, net_sup s nr)" by (simp add: Network_eq_def)
  }
qed

lemma GetNetSupplierFromList_None_iff:
  "NetConnService_GetNetSupplierFromList (NetworkType_val ty) ident s = None \<longleftrightarrow>
    (ty, ident) \<notin> set (map (sup_key s) (cs_netSupplier s))"
  by (auto simp: NetConnService_GetNetSupplierFromList_def find_None_iff sup_key_def image_iff)

text \<open>
  C3. Unregistering a registered supplier returns \<open>ERR_NONE\<close> and removes exactly it, its
  network and the services of that network: the other suppliers, networks and services stay listed
  in their order. Afterwards its type and identifier are free again.
\<close>

theorem UnregisterNetSupplier_removes:
  assumes "conn_inv E s" and "NetConnService_GetNetSupplierFromListById i s = Some sr"
    and "NetConnService_UnregisterNetSupplier E i s = (res, t)"
  shows "res = ResultCode_val ERR_NONE \<and> cs_netSupplier t = filter (\<lambda>r. r \<noteq> sr) (cs_netSupplier s) \<and>
    cs_networkList t = filter (\<lambda>nr. nw_supplier (net_at s nr) \<noteq> sr) (cs_networkList s) \<and>
    cs_netServices t = filter (\<lambda>r. nw_supplier (net_at s (sv_network (svc_at s r))) \<noteq> sr) (cs_netServices s) \<and>
    NetConnService_GetNetSupplierFromList (NetworkType_val (fst (sup_key s sr))) (snd (sup_key s sr)) t = None"
proof -
  obtain nr where nr: "NetConnService_GetNetworkFromListBySupplierId i s = Some nr" "nw_supplier (net_at s nr) = sr"
    "nr \<in> set (cs_networkList s)" "sr \<in> set (cs_netSupplier s)" "res = ResultCode_val ERR_NONE"
    "t = release_network E nr (NetConnService_DeleteSupplierFromListById i
      (NetConnService_DeleteNetworkFromListBySupplierId i (NetConnService_DeleteServiceFromListByNet nr s)))"
    using UnregisterNetSupplier_found [OF assms] .
  have p: "parts_inv {} s" using assms(1) by (simp add: conn_inv_parts_world)
  note d = services_distinct [OF p]
  have inj: "inj_on (\<lambda>nr. nw_supplier (net_at s nr)) (set (cs_networkList s))" using d(4,5) by (metis distinct_map)
  have fields: "cs_netSupplier t = erase_first (\<lambda>r. ns_supplierId (sup_at s r) = i) (cs_netSupplier s)"
    "cs_networkList t = erase_first (\<lambda>r. ns_supplierId (net_sup s r) = i) (cs_networkList s)"
    "cs_netServices t = filter (\<lambda>r. \<not> Network_eq (net_at s (sv_network (svc_at s r)), net_sup s (sv_network (svc_at s r)))
          (net_at s nr, net_sup s nr)) (cs_netServices s)"
    "sup_key t = sup_key s"
    unfolding nr(6) by (simp_all add: nm_frame NetConnService_DeleteSupplierFromListById_def
        NetConnService_DeleteNetworkFromListBySupplierId_def NetConnService_DeleteServiceFromListByNet_def
        net_sup_def sup_key_def fun_eq_iff)
  have sup: "cs_netSupplier t = filter (\<lambda>r. r \<noteq> sr) (cs_netSupplier s)"
    unfolding fields(1) using assms(2) d(4) by (intro erase_first_find_filter)
      (simp_all add: NetConnService_GetNetSupplierFromListById_def)
  have "cs_networkList t = filter (\<lambda>q. q \<noteq> nr) (cs_networkList s)"
    unfolding fields(2) using nr(1) d(3) by (intro erase_first_find_filter)
      (simp_all add: NetConnService_GetNetworkFromListBySupplierId_def)
  also have "\<dots> = filter (\<lambda>q. nw_supplier (net_at s q) \<noteq> sr) (cs_networkList s)"
    using inj nr(2,3) by (intro filter_cong) (auto simp: inj_on_def)
  finally have net: "cs_networkList t = \<dots>" .
  have "sv_network (svc_at s r) \<in> set (cs_networkList s)" if "r \<in> set (cs_netServices s)" for r
    using that p by (simp add: parts_inv_def ptr_inv_def)
  then have svc: "cs_netServices t = filter (\<lambda>r. nw_supplier (net_at s (sv_network (svc_at s r))) \<noteq> sr) (cs_netServices s)"
    unfolding fields(3) using Network_eq_listed [OF assms(1) nr(3)] nr(2) by (intro filter_cong) simp_all
  have "sup_key s sr \<notin> set (map (sup_key s) (cs_netSupplier t))"
    using nr(4) p unfolding sup by (auto simp: parts_inv_def list_inv_def distinct_map inj_on_def)
  then have "NetConnService_GetNetSupplierFromList (NetworkType_val (fst (sup_key s sr))) (snd (sup_key s sr)) t = None"
    by (simp add: GetNetSupplierFromList_None_iff fields(4))
  with nr(5) sup net svc show ?thesis by blast
qed

text \<open>The state after registering one cellular supplier with the internet capability.\<close>

lemma sample_registered_eq:
  obtains u where "create_objects sample_env (NetworkType_val NET_TYPE_CELLULAR) ''simId1'' 1 (NetConnService_new sample_env) = (0, u)"
    "sample_registered = connect_default sample_env u" "conn_inv sample_env u" "cs_netSupplier u = [0]"
    "cs_networkList u = [1]" "cs_netServices u = [2]" "cs_defaultNetService u = Some 2"
    "svc_at u 2 = NetService_new ''simId1'' NET_TYPE_CELLULAR NET_CAPABILITIES_INTERNET 1"
    "ns_supplierId (sup_at u 0) = 0x03EB" "nw_supplier (net_at u 1) = 0" "\<not> nw_isConnecting (net_at u 1)"
proof -
  let ?s = "NetConnService_new sample_env"
  obtain sr u where co: "create_objects sample_env (NetworkType_val NET_TYPE_CELLULAR) ''simId1'' 1 ?s = (sr, u)"
    by (rule prod.exhaust)
  note c = create_objects_inv [OF conn_inv_new _ sample_lookup_None co]
  have "caps_of 1 = [NET_CAPABILITIES_INTERNET]" "cap_set 1 NET_CAPABILITIES_INTERNET"
    by (simp_all add: caps_of_def cap_set_def)
  moreover have "cs_next ?s = 0" "cs_netSupplier ?s = []" "cs_networkList ?s = []" "cs_netServices ?s = []"
    "cs_nextNetSupplierId ?s = 0x03EB"
    by (simp_all add: NetConnService_new_def g_nextNetSupplierId_init_def)
  moreover have "sample_registered = connect_default sample_env u"
    using RegisterNetSupplier_new [OF _ sample_lookup_None co] by (simp add: sample_registered_def)
  ultimately show thesis using that [of u] c co
    by (simp add: upt_rec numeral_2_eq_2)
qed

lemma sample_registered_facts:
  "conn_inv sample_env sample_registered"
  "NetConnService_GetNetSupplierFromListById 0x03EB sample_registered = Some 0"
  "cs_netSupplier sample_registered = [0]" "cs_networkList sample_registered = [1]" "cs_netServices sample_registered = [2]"
  "cs_defaultNetService sample_registered = Some 2" "sv_network (svc_at sample_registered 2) = 1"
  "nw_supplier (net_at sample_registered 1) = 0"
proof -
  obtain u where u: "sample_registered = connect_default sample_env u" "conn_inv sample_env u" "cs_netSupplier u = [0]"
    "cs_networkList u = [1]" "cs_netServices u = [2]" "cs_defaultNetService u = Some 2"
    "svc_at u 2 = NetService_new ''simId1'' NET_TYPE_CELLULAR NET_CAPABILITIES_INTERNET 1"
    "ns_supplierId (sup_at u 0) = 0x03EB" "nw_supplier (net_at u 1) = 0"
    using sample_registered_eq by metis
  have sh: "same_shape u sample_registered" unfolding u(1) using u(2) by (rule connect_default_shape)
  show "conn_inv sample_env sample_registered" unfolding u(1) using u(2) by (rule connect_default_inv)
  show "NetConnService_GetNetSupplierFromListById 0x03EB sample_registered = Some 0"
    "cs_netSupplier sample_registered = [0]" "cs_networkList sample_registered = [1]" "cs_netServices sample_registered = [2]"
    "cs_defaultNetService sample_registered = Some 2" "sv_network (svc_at sample_registered 2) = 1"
    "nw_supplier (net_at sample_registered 1) = 0"
    using u(3-) by (simp_all add: shape_lists [OF sh] shape_fields [OF sh] NetService_new_def
        NetConnService_GetNetSupplierFromListById_def)
qed

theorem UnregisterNetSupplier_removes_witness:
  "fst (NetConnService_UnregisterNetSupplier sample_env 0x03EB sample_registered) = ResultCode_val ERR_NONE \<and>
   cs_netSupplier (snd (NetConnService_UnregisterNetSupplier sample_env 0x03EB sample_registered)) = []"
  using UnregisterNetSupplier_removes [OF sample_registered_facts(1,2) prod.collapse [symmetric]]
    sample_registered_facts(3) by simp

section \<open>The default service\<close>

text \<open>A service operation that changes nothing leaves every object as it was.\<close>

lemma run_service_same:
  assumes "f (service_context r s) = (res, service_context r s)"
  shows "fst (run_service r f s) = res" "svc_at (snd (run_service r f s)) q = svc_at s q"
    "net_at (snd (run_service r f s)) q = net_at s q"
proof -
  show "fst (run_service r f s) = res" using assms by (simp add: run_service_def Let_def)
  have "cx_service (service_context r s) = svc_at s r" "cx_network (service_context r s) = net_at s (sv_network (svc_at s r))"
    by (simp_all add: service_context_def)
  then show "svc_at (snd (run_service r f s)) q = svc_at s q" "net_at (snd (run_service r f s)) q = net_at s q"
    using assms by (simp_all add: run_service_def Let_def)
qed

lemma run_service_at:
  "svc_at (snd (run_service r f s)) r = cx_service (snd (f (service_context r s)))"
  "net_at (snd (run_service r f s)) (sv_network (svc_at s r)) = cx_network (snd (f (service_context r s)))"
  by (simp_all add: run_service_def Let_def split_def)

lemma context_simps [simp]:
  "cx_service (service_context r s) = svc_at s r"
  "cx_network (service_context r s) = net_at s (sv_network (svc_at s r))"
  "cx_world (service_context r s) = cs_world s"
  "cx_supplier (service_context r s) = net_sup s (sv_network (svc_at s r))"
  by (simp_all add: service_context_def)

lemma connected_not_connecting: "NetService_IsConnected sv \<Longrightarrow> \<not> NetService_IsConnecting sv nw"
  by (auto simp: NetService_IsConnected.simps NetService_IsConnecting.simps split: ServiceState.splits)

lemma ServiceConnect_refused:
  "NetService_IsConnected (cx_service cx) \<Longrightarrow> NetService_ServiceConnect E cx = (ERR_SERVICE_CONNECTED, cx)"
  "NetService_IsConnecting (cx_service cx) (cx_network cx) \<Longrightarrow> NetService_ServiceConnect E cx = (ERR_SERVICE_CONNECTING, cx)"
  by (auto simp: NetService_ServiceConnect_def dest: connected_not_connecting)

lemma at_timers [simp]:
  "svc_at (s\<lparr>cs_reConnectTimers := k\<rparr>) r = svc_at s r" "net_at (s\<lparr>cs_reConnectTimers := k\<rparr>) r = net_at s r"
  "sup_at (s\<lparr>cs_reConnectTimers := k\<rparr>) r = sup_at s r"
  by (simp_all add: svc_at_def net_at_def sup_at_def del: at_fold)

text \<open>When the timer fires and the default service is ready, it is disconnected and not connected again.\<close>

lemma fire_timer_drops:
  assumes "cs_defaultNetService s = Some d" and "sv_state (svc_at s d) = SERVICE_STATE_READY"
    and "nw_isConnecting (net_at s (sv_network (svc_at s d)))"
  shows "sv_state (svc_at (fire_timer E s) d) \<in> {SERVICE_STATE_IDLE, SERVICE_STATE_FAILURE}"
proof -
  let ?s0 = "s\<lparr>cs_reConnectTimers := cs_reConnectTimers s - 1\<rparr>"
  let ?s1 = "snd (run_service d (NetService_ServiceDisConnect E) ?s0)"
  have dis: "sv_state (svc_at ?s1 d) \<in> {SERVICE_STATE_IDLE, SERVICE_STATE_FAILURE}"
    "net_at ?s1 (sv_network (svc_at s d)) = net_at s (sv_network (svc_at s d))"
    using ServiceDisConnect_ready [of "service_context d ?s0" E] assms(2) run_service_at [of d "NetService_ServiceDisConnect E" ?s0]
    by simp_all
  have "sv_core (svc_at ?s1 d) = sv_core (svc_at s d)"
    using ServiceDisConnect_keeps [of "service_context d ?s0" E] run_service_at(1) [of d "NetService_ServiceDisConnect E" ?s0]
    by (simp add: cx_keeps_def)
  then have "sv_network (svc_at ?s1 d) = sv_network (svc_at s d)" by (auto dest!: core_shape(1) simp: sv_shape_def)
  then have "NetService_IsConnecting (svc_at ?s1 d) (net_at ?s1 (sv_network (svc_at ?s1 d)))"
    using dis assms(3) by (auto simp: NetService_IsConnecting.simps)
  then have "NetService_ServiceConnect E (service_context d ?s1) = (ERR_SERVICE_CONNECTING, service_context d ?s1)"
    by (simp add: ServiceConnect_refused)
  note same = run_service_same(2) [of "NetService_ServiceConnect E", OF this, of d]
  have "NetService_IsConnected (svc_at ?s0 d)" using assms(2) by (simp add: NetService_IsConnected.simps)
  then have "fire_timer E s = snd (run_service d (NetService_ServiceConnect E) ?s1)"
    using assms(1) by (simp add: fire_timer_def NetConnService_ReConnectServiceTask_def NetConnService_ReConnectService_def Let_def)
  then show ?thesis using same dis(1) by simp
qed


text \<open>The registered sample: its default service is ready.\<close>

lemma sample_registered_ready:
  "sv_state (svc_at sample_registered 2) = SERVICE_STATE_READY" "nw_isConnecting (net_at sample_registered 1)"
proof -
  obtain u where co: "create_objects sample_env (NetworkType_val NET_TYPE_CELLULAR) ''simId1'' 1 (NetConnService_new sample_env) = (0, u)"
    and u: "sample_registered = connect_default sample_env u" "cs_defaultNetService u = Some 2"
    "svc_at u 2 = NetService_new ''simId1'' NET_TYPE_CELLULAR NET_CAPABILITIES_INTERNET 1"
    "nw_supplier (net_at u 1) = 0" "\<not> nw_isConnecting (net_at u 1)"
    using sample_registered_eq by metis
  note c = create_objects_inv [OF conn_inv_new _ sample_lookup_None co]
  let ?c = "service_context 2 u"
  have "\<not> NetService_IsConnecting (cx_service ?c) (cx_network ?c)" "\<not> NetService_IsConnected (cx_service ?c)"
    "sv_networkType (cx_service ?c) = NET_TYPE_CELLULAR" "ns_netController (cx_supplier ?c) = Some TelephonyController"
    "\<not> nw_isConnected (cx_network ?c)"
    using c(18,19) u(3-5) by (simp_all add: NetService_new_def NetService_IsConnecting.simps NetService_IsConnected.simps
        net_sup_def)
  note g = ServiceConnect_granted [OF this sample_ctx_facts(8)]
  have "sample_registered = snd (run_service 2 (NetService_ServiceConnect sample_env) u)"
    unfolding u(1) using u(2) g(1) by (auto simp: connect_default_def Let_def run_service_def split_def)
  then show "sv_state (svc_at sample_registered 2) = SERVICE_STATE_READY" "nw_isConnecting (net_at sample_registered 1)"
    using g(2,3) run_service_at [of 2 "NetService_ServiceConnect sample_env" u] u(3) by (simp_all add: NetService_new_def)
qed


text \<open>
  C20. The default service outlives its supplier. \<open>UnregisterNetSupplier\<close> takes the services
  of the network off the list but leaves \<open>defaultNetService_\<close> as it was: when it pointed to one
  of them it still does, the network is not destroyed, and a later timer or registration works on
  the service of a supplier that is gone.
\<close>

theorem default_outlives_supplier:
  assumes "conn_inv E s" and "NetConnService_GetNetSupplierFromListById i s = Some sr"
    and "cs_defaultNetService s = Some d" and "nw_supplier (net_at s (sv_network (svc_at s d))) = sr"
    and "d \<in> set (cs_netServices s)"
    and "NetConnService_UnregisterNetSupplier E i s = (res, t)"
  shows "cs_defaultNetService t = Some d \<and> d \<notin> set (cs_netServices t) \<and>
    sv_network (svc_at t d) \<notin> set (cs_networkList t) \<and> cs_networks t (sv_network (svc_at t d)) \<noteq> None \<and>
    cs_world t = cs_world s"
proof -
  obtain nr where nr: "nw_supplier (net_at s nr) = sr" "nr \<in> set (cs_networkList s)"
    "NetConnService_GetNetworkFromListBySupplierId i s = Some nr"
    "t = release_network E nr (NetConnService_DeleteSupplierFromListById i
      (NetConnService_DeleteNetworkFromListBySupplierId i (NetConnService_DeleteServiceFromListByNet nr s)))"
    using UnregisterNetSupplier_found [OF assms(1,2,6)] by metis
  have p: "parts_inv {} s" using assms(1) by (simp add: conn_inv_parts_world)
  have "sv_network (svc_at s d) \<in> set (cs_networkList s)"
    using p assms(5) by (simp add: parts_inv_def ptr_inv_def)
  then have dn: "sv_network (svc_at s d) = nr"
    using Network_eq_listed [OF assms(1) nr(2)] services_distinct(3-5) [OF p] nr(1,2) assms(4)
    by (metis distinct_map inj_on_def)
  let ?u = "NetConnService_DeleteSupplierFromListById i
      (NetConnService_DeleteNetworkFromListBySupplierId i (NetConnService_DeleteServiceFromListByNet nr s))"
  have u: "cs_defaultNetService ?u = Some d" "svc_at ?u = svc_at s" "cs_networks ?u = cs_networks s" "cs_world ?u = cs_world s"
    "cs_networkList ?u = erase_first (\<lambda>r. ns_supplierId (net_sup s r) = i) (cs_networkList s)"
    "cs_netServices ?u = cs_netServices (NetConnService_DeleteServiceFromListByNet nr s)"
    using assms(3) by (simp_all add: NetConnService_DeleteSupplierFromListById_def net_sup_def fun_eq_iff
        NetConnService_DeleteNetworkFromListBySupplierId_def NetConnService_DeleteServiceFromListByNet_def)
  then have "network_held ?u nr" by (simp add: network_held_def live_services_def dn)
  then have t: "t = ?u" using nr(4) by (simp add: release_network_def)
  have "cs_networkList ?u = filter (\<lambda>q. q \<noteq> nr) (cs_networkList s)"
    unfolding u(5) using nr(3) services_distinct(3) [OF p]
    by (intro erase_first_find_filter) (simp_all add: NetConnService_GetNetworkFromListBySupplierId_def)
  moreover have "d \<notin> set (cs_netServices ?u)" unfolding u(6) using DeleteServiceFromListByNet_gone [of d nr s] dn by blast
  moreover have "nr \<in> dom (cs_networks s)" using nr(2) p by (auto simp: parts_inv_def ptr_inv_def)
  ultimately show ?thesis unfolding t using u dn by auto
qed

theorem default_outlives_supplier_witness:
  "cs_defaultNetService (snd (NetConnService_UnregisterNetSupplier sample_env 0x03EB sample_registered)) = Some 2"
  using default_outlives_supplier [OF sample_registered_facts(1,2,6) _ _ prod.collapse [symmetric]]
    sample_registered_facts(5,7,8) by simp

section \<open>Capabilities\<close>

definition distinct_net_ids :: "conn_state \<Rightarrow> bool" where
  "distinct_net_ids s \<longleftrightarrow> distinct (map (\<lambda>nr. nw_netId (net_at s nr)) (cs_networkList s))"

lemma serves_key:
  assumes "parts_inv X s" and "distinct_net_ids s" and "X = {}" and "nr \<in> set (cs_networkList s)"
    and "r \<in> set (cs_netServices s)"
  shows "serves s (nw_netId (net_at s nr)) cap r \<longleftrightarrow> svc_key s r = (nr, cap)"
proof -
  have "sv_network (svc_at s r) \<in> set (cs_networkList s)" using assms(1,3,5) by (simp add: parts_inv_def ptr_inv_def)
  then show ?thesis using assms(2,4)
    by (auto simp: serves_def svc_key_def distinct_net_ids_def distinct_map inj_on_def)
qed

text \<open>One block of \<open>UpdateNetCapabilities\<close> sets one capability of one network and nothing else.\<close>

lemma update_capability_effect:
  assumes "parts_inv {} s" and "distinct_net_ids s" and "nr \<in> set (cs_networkList s)"
    and "t = update_capability caps cap ident ty nr s"
  shows "(nr, c) \<in> set (map (svc_key t) (cs_netServices t)) \<longleftrightarrow>
      (if c = cap then cap_set caps cap else (nr, c) \<in> set (map (svc_key s) (cs_netServices s)))"
    "filter (\<lambda>r. sv_network (svc_at t r) \<noteq> nr) (cs_netServices t) =
      filter (\<lambda>r. sv_network (svc_at s r) \<noteq> nr) (cs_netServices s)"
proof -
  let ?id = "nw_netId (net_at s nr)" and ?l = "cs_netServices s"
  have in_list: "NetConnService_IsServiceInList ?id cap s \<longleftrightarrow> (nr, cap) \<in> set (map (svc_key s) ?l)"
    using serves_key [OF assms(1,2) refl assms(3)] by (auto simp: NetConnService_IsServiceInList_def list_ex_iff image_iff) metis
  have "erase_first (serves s ?id cap) ?l = erase_first (\<lambda>r. svc_key s r = (nr, cap)) ?l"
    using serves_key [OF assms(1,2) refl assms(3)] by (intro erase_first_cong)
  also have "\<dots> = filter (\<lambda>r. svc_key s r \<noteq> (nr, cap)) ?l"
    using services_distinct(2) [OF assms(1)] by (rule erase_first_unique)
  finally have del: "cs_netServices (snd (NetConnService_DeleteServiceFromListByCap ?id cap s)) = \<dots>"
    "svc_at (snd (NetConnService_DeleteServiceFromListByCap ?id cap s)) q = svc_at s q" for q
    by (simp_all add: NetConnService_DeleteServiceFromListByCap_def)
  have fresh: "cs_next s \<notin> set ?l" using parts_fresh(4) [OF assms(1)] .
  then have pushed: "map (svc_key (push_service ident ty cap nr s)) ?l = map (svc_key s) ?l"
    "svc_key (push_service ident ty cap nr s) (cs_next s) = (nr, cap)"
    by (auto simp: svc_key_def nm_frame NetService_new_def)
  consider "cap_set caps cap" "(nr, cap) \<notin> set (map (svc_key s) ?l)"
    | "cap_set caps cap" "(nr, cap) \<in> set (map (svc_key s) ?l)"
    | "\<not> cap_set caps cap" "(nr, cap) \<in> set (map (svc_key s) ?l)"
    | "\<not> cap_set caps cap" "(nr, cap) \<notin> set (map (svc_key s) ?l)" by blast
  then have "((nr, c) \<in> set (map (svc_key t) (cs_netServices t)) \<longleftrightarrow>
      (if c = cap then cap_set caps cap else (nr, c) \<in> set (map (svc_key s) ?l))) \<and>
    filter (\<lambda>r. sv_network (svc_at t r) \<noteq> nr) (cs_netServices t) = filter (\<lambda>r. sv_network (svc_at s r) \<noteq> nr) ?l"
  proof cases
    case 1
    then have "t = push_service ident ty cap nr s" using in_list assms(4) by (simp add: update_capability_def Let_def)
    moreover have "filter (\<lambda>r. sv_network (svc_at (push_service ident ty cap nr s) r) \<noteq> nr) ?l =
        filter (\<lambda>r. sv_network (svc_at s r) \<noteq> nr) ?l"
      using fresh by (intro filter_cong) (auto simp: nm_frame)
    ultimately show ?thesis using 1 pushed
      by (simp only: push_service_frame(3) map_append filter_append set_append) (auto simp: nm_frame NetService_new_def)
  next
    case 3
    then have "t = snd (NetConnService_DeleteServiceFromListByCap ?id cap s)"
      using in_list assms(4) by (simp add: update_capability_def Let_def)
    then show ?thesis using 3 del by (auto simp: svc_key_def image_iff intro!: filter_cong)
  qed (use in_list assms(4) in \<open>auto simp: update_capability_def Let_def\<close>)
  then show "(nr, c) \<in> set (map (svc_key t) (cs_netServices t)) \<longleftrightarrow>
      (if c = cap then cap_set caps cap else (nr, c) \<in> set (map (svc_key s) ?l))"
    "filter (\<lambda>r. sv_network (svc_at t r) \<noteq> nr) (cs_netServices t) = filter (\<lambda>r. sv_network (svc_at s r) \<noteq> nr) ?l"
    by blast+
qed



section \<open>Callbacks\<close>

definition callbacks_at :: "conn_state \<Rightarrow> nat \<Rightarrow> callback set" where
  "callbacks_at s r = set (sv_netConnCallback (svc_at s r))"

lemma update_service_at: "svc_at (update_service f r s) q = (if q = r then f (svc_at s r) else svc_at s q)"
  by (simp add: update_service_def)

lemma fold_update_service_at:
  "distinct rs \<Longrightarrow> svc_at (fold (update_service f) rs s) q = (if q \<in> set rs then f (svc_at s q) else svc_at s q)"
  by (induction rs arbitrary: s) (auto simp: update_service_at)

text \<open>
  C22. Callbacks over all services: registering a callback adds it to every listed service and to
  no other, registering it again changes nothing, and unregistering it removes it from every listed
  service, so that it is told of no further change. A null callback and an empty list of services
  are refused with their codes and change nothing.
\<close>

theorem callbacks_all:
  assumes "conn_inv E s"
  shows "NetConnService_RegisterNetConnCallback_all None s = (ResultCode_val ERR_SERVICE_NULL_PTR, s) \<and>
    (cs_netServices s = [] \<longrightarrow> NetConnService_RegisterNetConnCallback_all (Some c) s = (ResultCode_val ERR_NO_ANY_NET_TYPE, s)) \<and>
    (\<forall>r. callbacks_at (snd (NetConnService_RegisterNetConnCallback_all (Some c) s)) r =
      (if r \<in> set (cs_netServices s) then insert c (callbacks_at s r) else callbacks_at s r)) \<and>
    (\<forall>r. callbacks_at (snd (NetConnService_UnregisterNetConnCallback_all (Some c) s)) r =
      (if r \<in> set (cs_netServices s) then callbacks_at s r - {c} else callbacks_at s r))"
proof -
  have p: "parts_inv {} s" and fl: "flag_inv s" using assms by (simp_all add: conn_inv_parts_world parts_inv_def)
  have cb: "distinct (sv_netConnCallback (svc_at s r))" if "r \<in> set (cs_netServices s)" for r
    using listed_in_dom [OF p] that fl at_in_ran(1) unfolding flag_inv_def by blast
  note at = fold_update_service_at [OF services_distinct(1) [OF p]]
  have "set (sv_netConnCallback (snd (NetService_UnregisterNetConnCallback (Some c) (svc_at s r)))) = callbacks_at s r - {c}"
    if "r \<in> set (cs_netServices s)" for r
    using service_callbacks.unsub_members [OF cb [OF that]] by (simp add: callbacks_at_def)
  moreover have "set (sv_netConnCallback (NetService_RegisterNetConnCallback (Some c) (svc_at s r))) = insert c (callbacks_at s r)" for r
    using service_callbacks.sub_members by (simp add: callbacks_at_def)
  ultimately show ?thesis
    by (simp add: NetConnService_RegisterNetConnCallback_all_def NetConnService_UnregisterNetConnCallback_all_def
        callbacks_at_def at)
qed

theorem callbacks_all_witness:
  "callbacks_at (snd (NetConnService_RegisterNetConnCallback_all (Some 7) sample_registered)) 2 =
     insert 7 (callbacks_at sample_registered 2)"
  using callbacks_all [OF sample_registered_facts(1), of 7] sample_registered_facts(5) by simp

text \<open>
  A callback for a network specifier reaches one service: the first listed one whose network
  type is the type of the specifier and whose capability is among the capabilities of the specifier.
  It is added there and nowhere else; without such a service the result is
  \<open>ERR_NET_TYPE_NOT_FOUND\<close> and nothing changes.
\<close>

theorem callback_specifier:
  assumes "cs_netServices s \<noteq> []"
  shows "case NetConnService_RegisterNetConnCallback (Some spec) (Some c) s of (res, t) \<Rightarrow>
    (res = ResultCode_val ERR_NONE \<and>
      (\<exists>us r vs. cs_netServices s = us @ r # vs \<and> matches_specifier s spec r \<and> (\<forall>u \<in> set us. \<not> matches_specifier s spec u) \<and>
        (\<forall>q. callbacks_at t q = (if q = r then insert c (callbacks_at s q) else callbacks_at s q)))) \<or>
    (res = ResultCode_val ERR_NET_TYPE_NOT_FOUND \<and> t = s \<and> (\<forall>u \<in> set (cs_netServices s). \<not> matches_specifier s spec u))"
proof (cases "find (matches_specifier s spec) (cs_netServices s)")
  case None
  then have "\<forall>u \<in> set (cs_netServices s). \<not> matches_specifier s spec u" by (simp add: find_None_iff)
  with None assms show ?thesis unfolding NetConnService_RegisterNetConnCallback_def by simp
next
  case (Some r)
  then obtain j where "j < length (cs_netServices s)" "cs_netServices s ! j = r" "matches_specifier s spec r"
    "\<forall>k < j. \<not> matches_specifier s spec (cs_netServices s ! k)"
    by (auto simp: find_Some_iff)
  then have "cs_netServices s = take j (cs_netServices s) @ r # drop (Suc j) (cs_netServices s)"
    "\<forall>u \<in> set (take j (cs_netServices s)). \<not> matches_specifier s spec u" "matches_specifier s spec r"
    by (auto simp: id_take_nth_drop in_set_conv_nth)
  moreover have "callbacks_at (update_service (NetService_RegisterNetConnCallback (Some c)) r s) q =
      (if q = r then insert c (callbacks_at s q) else callbacks_at s q)" for q
    using service_callbacks.sub_members by (simp add: callbacks_at_def update_service_at)
  ultimately show ?thesis using Some assms
    by (simp add: NetConnService_RegisterNetConnCallback_def) metis
qed

theorem callback_specifier_witness:
  "fst (NetConnService_RegisterNetConnCallback (Some \<lparr>sp_ident = [], sp_netType = 2, sp_netCapabilities = 1\<rparr>) (Some 7)
     sample_registered) \<in> {ResultCode_val ERR_NONE, ResultCode_val ERR_NET_TYPE_NOT_FOUND}"
  using callback_specifier [of sample_registered "\<lparr>sp_ident = [], sp_netType = 2, sp_netCapabilities = 1\<rparr>" 7]
    sample_registered_facts(5) by (auto split: prod.splits)

end
