(* ===== verification/Net_Conn_Ipc.thy ===== *)
theory Net_Conn_Ipc
  imports Ipc Conn_Properties
begin

text \<open>
  \<open>NetConnServiceProxy\<close>, \<open>NetConnServiceStub\<close>, the callback proxy and stub and \<open>NetConnClient\<close>: the
  methods of the connection service over parcels, the translation of the internal codes, and that a
  call through proxy and stub is the translated call of the service.
\<close>

section \<open>The stub\<close>

definition conn_descriptor :: string where "conn_descriptor = ''OHOS.NetManagerStandard.INetConnService''"
definition CMD_NM_SYSTEM_READY :: uint32 where "CMD_NM_SYSTEM_READY = 2"
definition CMD_NM_REGISTER_NET_CONN_CALLBACK :: uint32 where "CMD_NM_REGISTER_NET_CONN_CALLBACK = 3"
definition CMD_NM_REGISTER_NET_CONN_CALLBACK_BY_SPECIFIER :: uint32 where "CMD_NM_REGISTER_NET_CONN_CALLBACK_BY_SPECIFIER = 4"
definition CMD_NM_UNREGISTER_NET_CONN_CALLBACK :: uint32 where "CMD_NM_UNREGISTER_NET_CONN_CALLBACK = 5"
definition CMD_NM_UNREGISTER_NET_CONN_CALLBACK_BY_SPECIFIER :: uint32 where "CMD_NM_UNREGISTER_NET_CONN_CALLBACK_BY_SPECIFIER = 6"
definition CMD_NM_REG_NET_SUPPLIER :: uint32 where "CMD_NM_REG_NET_SUPPLIER = 7"
definition CMD_NM_UNREG_NETWORK :: uint32 where "CMD_NM_UNREG_NETWORK = 8"
definition CMD_NM_SET_NET_SUPPLIER_INFO :: uint32 where "CMD_NM_SET_NET_SUPPLIER_INFO = 9"
definition CMD_NM_SET_NET_CAPABILTITES :: uint32 where "CMD_NM_SET_NET_CAPABILTITES = 10"
definition CMD_NM_SET_NET_LINK_INFO :: uint32 where "CMD_NM_SET_NET_LINK_INFO = 11"

lemmas conn_codes = CMD_NM_SYSTEM_READY_def CMD_NM_REGISTER_NET_CONN_CALLBACK_def
  CMD_NM_REGISTER_NET_CONN_CALLBACK_BY_SPECIFIER_def CMD_NM_UNREGISTER_NET_CONN_CALLBACK_def
  CMD_NM_UNREGISTER_NET_CONN_CALLBACK_BY_SPECIFIER_def CMD_NM_REG_NET_SUPPLIER_def CMD_NM_UNREG_NETWORK_def
  CMD_NM_SET_NET_SUPPLIER_INFO_def CMD_NM_SET_NET_CAPABILTITES_def CMD_NM_SET_NET_LINK_INFO_def

text \<open>
  The environment of the process. A callback travels as its remote object; \<open>iface_cast\<close> makes a callback
  of a remote object again.
\<close>

record 'p conn_ipc =
  cn_parcel :: "'p parcel_ops"
  cn_codes :: ipc_codes
  cn_default :: "uint32 \<Rightarrow> 'p \<Rightarrow> 'p \<Rightarrow> conn_state \<Rightarrow> int32 \<times> 'p \<times> conn_state"
  cn_env :: conn_env
  cn_iface_cast :: "nat \<Rightarrow> callback option"
  cn_AsObject :: "callback \<Rightarrow> nat"

type_synonym 'p conn_handler = "'p \<Rightarrow> 'p \<Rightarrow> conn_state \<Rightarrow> int32 \<times> 'p \<times> conn_state"

definition conn_refused :: "'p conn_ipc \<Rightarrow> 'p \<Rightarrow> conn_state \<Rightarrow> int32 \<times> 'p \<times> conn_state" where
  "conn_refused I reply s = (ERR_FLATTEN_OBJECT (cn_codes I), reply, s)"

definition NetConnServiceStub_ConvertCode :: "int32 \<Rightarrow> int32" where
  "NetConnServiceStub_ConvertCode internalCode =
     (if internalCode = ResultCode_val ERR_NONE then NetConnResultCode_val NET_CONN_SUCCESS
      else if internalCode = ResultCode_val ERR_SERVICE_NULL_PTR then NetConnResultCode_val NET_CONN_ERR_INPUT_NULL_PTR
      else if internalCode = ResultCode_val ERR_NET_TYPE_NOT_FOUND then NetConnResultCode_val NET_CONN_ERR_NET_TYPE_NOT_FOUND
      else if internalCode = ResultCode_val ERR_NO_ANY_NET_TYPE then NetConnResultCode_val NET_CONN_ERR_NO_ANY_NET_TYPE
      else if internalCode = ResultCode_val ERR_NO_REGISTERED then NetConnResultCode_val NET_CONN_ERR_NO_REGISTERED
      else NetConnResultCode_val NET_CONN_ERR_INTERNAL_ERROR)"

definition NetConnServiceStub_OnSystemReady :: "'p conn_ipc \<Rightarrow> 'p conn_handler" where
  "NetConnServiceStub_OnSystemReady I data reply s = (0, reply, snd (NetConnService_SystemReady s))"

definition read_register :: "'p parcel_ops \<Rightarrow> ('p, uint32 \<times> string \<times> uint64) reader" where
  "read_register P = read_then (ReadUint32 P) (\<lambda>netType. read_then (ReadString P) (\<lambda>ident.
     read_then (ReadUint64 P) (\<lambda>netCapabilities. read_done (netType, ident, netCapabilities))))"

definition NetConnServiceStub_OnRegisterNetSupplier :: "'p conn_ipc \<Rightarrow> 'p conn_handler" where
  "NetConnServiceStub_OnRegisterNetSupplier I data reply s =
     (case fst (read_register (cn_parcel I) data) of None \<Rightarrow> conn_refused I reply s
      | Some (netType, ident, netCapabilities) \<Rightarrow>
          (case NetConnService_RegisterNetSupplier (cn_env I) netType ident netCapabilities s of (ret, t) \<Rightarrow>
             let ret' = (if ret = ResultCode_val ERR_NO_NETWORK \<or> ret = ResultCode_val ERR_NO_SUPPLIER
                         then NetConnResultCode_val NET_CONN_ERR_INVALID_SUPPLIER_ID else ret)
             in reply_with (cn_codes I) (WriteInt32 (cn_parcel I) ret') reply t))"

definition NetConnServiceStub_OnUnregisterNetSupplier :: "'p conn_ipc \<Rightarrow> 'p conn_handler" where
  "NetConnServiceStub_OnUnregisterNetSupplier I data reply s =
     (case fst (ReadUint32 (cn_parcel I) data) of None \<Rightarrow> conn_refused I reply s
      | Some supplierId \<Rightarrow>
          (case NetConnService_UnregisterNetSupplier (cn_env I) supplierId s of (ret, t) \<Rightarrow>
             reply_with (cn_codes I) (WriteInt32 (cn_parcel I) ret) reply t))"

text \<open>The handlers that take a callback write their result to the reply, whatever comes of it, and return it.\<close>

definition reply_result :: "'p conn_ipc \<Rightarrow> int32 \<Rightarrow> 'p \<Rightarrow> conn_state \<Rightarrow> int32 \<times> 'p \<times> conn_state" where
  "reply_result I result reply s = (result, snd (WriteInt32 (cn_parcel I) result reply), s)"

definition with_callback ::
    "'p conn_ipc \<Rightarrow> int32 \<Rightarrow> (callback \<Rightarrow> conn_state \<Rightarrow> int32 \<times> conn_state) \<Rightarrow> 'p conn_handler" where
  "with_callback I noRemote op data reply s =
     (case fst (ReadRemoteObject (cn_parcel I) data) of None \<Rightarrow> reply_result I noRemote reply s
      | Some remote \<Rightarrow>
          (case cn_iface_cast I remote of
             None \<Rightarrow> reply_result I (NetConnResultCode_val NET_CONN_ERR_INPUT_NULL_PTR) reply s
           | Some cb \<Rightarrow> (case op cb s of (ret, t) \<Rightarrow> reply_result I (NetConnServiceStub_ConvertCode ret) reply t)))"

definition NetConnServiceStub_OnRegisterNetConnCallback :: "'p conn_ipc \<Rightarrow> 'p conn_handler" where
  "NetConnServiceStub_OnRegisterNetConnCallback I =
     with_callback I (NetConnResultCode_val NET_CONN_ERR_GET_REMOTE_OBJECT_FAILED)
       (\<lambda>cb. NetConnService_RegisterNetConnCallback_all (Some cb))"

definition NetConnServiceStub_OnRegisterNetConnCallbackBySpecifier :: "'p conn_ipc \<Rightarrow> 'p conn_handler" where
  "NetConnServiceStub_OnRegisterNetConnCallbackBySpecifier I data reply s =
     (case NetSpecifier_Unmarshalling (cn_parcel I) data of (netSpecifier, data') \<Rightarrow>
        with_callback I (ERR_FLATTEN_OBJECT (cn_codes I))
          (\<lambda>cb. NetConnService_RegisterNetConnCallback netSpecifier (Some cb)) data' reply s)"

definition NetConnServiceStub_OnUnregisterNetConnCallback :: "'p conn_ipc \<Rightarrow> 'p conn_handler" where
  "NetConnServiceStub_OnUnregisterNetConnCallback I =
     with_callback I (ERR_FLATTEN_OBJECT (cn_codes I)) (\<lambda>cb. NetConnService_UnregisterNetConnCallback_all (Some cb))"

definition NetConnServiceStub_OnUnregisterNetConnCallbackBySpecifier :: "'p conn_ipc \<Rightarrow> 'p conn_handler" where
  "NetConnServiceStub_OnUnregisterNetConnCallbackBySpecifier I data reply s =
     (case NetSpecifier_Unmarshalling (cn_parcel I) data of (netSpecifier, data') \<Rightarrow>
        with_callback I (ERR_FLATTEN_OBJECT (cn_codes I))
          (\<lambda>cb. NetConnService_UnregisterNetConnCallback netSpecifier (Some cb)) data' reply s)"

text \<open>An object that cannot be read is null; the service checks for that.\<close>

definition NetConnServiceStub_OnUpdateNetSupplierInfo :: "'p conn_ipc \<Rightarrow> 'p conn_handler" where
  "NetConnServiceStub_OnUpdateNetSupplierInfo I data reply s =
     (case ReadUint32 (cn_parcel I) data of (None, _) \<Rightarrow> conn_refused I reply s
      | (Some supplierId, data') \<Rightarrow>
          (case NetConnService_UpdateNetSupplierInfo (cn_env I) supplierId
                  (fst (NetSupplierInfo_Unmarshalling (cn_parcel I) data')) s of (ret, t) \<Rightarrow>
             reply_with (cn_codes I) (WriteInt32 (cn_parcel I) ret) reply t))"

definition read_capabilities :: "'p parcel_ops \<Rightarrow> ('p, uint32 \<times> uint64) reader" where
  "read_capabilities P = read_then (ReadUint32 P) (\<lambda>supplierId. read_then (ReadUint64 P) (\<lambda>caps. read_done (supplierId, caps)))"

definition NetConnServiceStub_OnUpdateNetCapabilities :: "'p conn_ipc \<Rightarrow> 'p conn_handler" where
  "NetConnServiceStub_OnUpdateNetCapabilities I data reply s =
     (case fst (read_capabilities (cn_parcel I) data) of None \<Rightarrow> conn_refused I reply s
      | Some (supplierId, netCapabilities) \<Rightarrow>
          (case NetConnService_UpdateNetCapabilities supplierId netCapabilities s of (ret, t) \<Rightarrow>
             reply_with (cn_codes I) (WriteInt32 (cn_parcel I) ret) reply t))"

definition NetConnServiceStub_OnUpdateNetLinkInfo :: "'p conn_ipc \<Rightarrow> 'p conn_handler" where
  "NetConnServiceStub_OnUpdateNetLinkInfo I data reply s =
     (case ReadUint32 (cn_parcel I) data of (None, _) \<Rightarrow> conn_refused I reply s
      | (Some supplierId, data') \<Rightarrow>
          (case NetConnService_UpdateNetLinkInfo (cn_env I) supplierId
                  (fst (NetLinkInfo_Unmarshalling (cn_parcel I) data')) s of (ret, t) \<Rightarrow>
             reply_with (cn_codes I) (WriteInt32 (cn_parcel I) ret) reply t))"

definition NetConnServiceStub_table :: "'p conn_ipc \<Rightarrow> uint32 \<Rightarrow> 'p conn_handler option" where
  "NetConnServiceStub_table I =
     [CMD_NM_SYSTEM_READY \<mapsto> NetConnServiceStub_OnSystemReady I,
      CMD_NM_REGISTER_NET_CONN_CALLBACK \<mapsto> NetConnServiceStub_OnRegisterNetConnCallback I,
      CMD_NM_REGISTER_NET_CONN_CALLBACK_BY_SPECIFIER \<mapsto> NetConnServiceStub_OnRegisterNetConnCallbackBySpecifier I,
      CMD_NM_UNREGISTER_NET_CONN_CALLBACK \<mapsto> NetConnServiceStub_OnUnregisterNetConnCallback I,
      CMD_NM_UNREGISTER_NET_CONN_CALLBACK_BY_SPECIFIER \<mapsto> NetConnServiceStub_OnUnregisterNetConnCallbackBySpecifier I,
      CMD_NM_REG_NET_SUPPLIER \<mapsto> NetConnServiceStub_OnRegisterNetSupplier I,
      CMD_NM_UNREG_NETWORK \<mapsto> NetConnServiceStub_OnUnregisterNetSupplier I,
      CMD_NM_SET_NET_SUPPLIER_INFO \<mapsto> NetConnServiceStub_OnUpdateNetSupplierInfo I,
      CMD_NM_SET_NET_CAPABILTITES \<mapsto> NetConnServiceStub_OnUpdateNetCapabilities I,
      CMD_NM_SET_NET_LINK_INFO \<mapsto> NetConnServiceStub_OnUpdateNetLinkInfo I]"

definition NetConnServiceStub_OnRemoteRequest :: "'p conn_ipc \<Rightarrow> uint32 \<Rightarrow> 'p conn_handler" where
  "NetConnServiceStub_OnRemoteRequest I =
     stub_dispatch (cn_parcel I) conn_descriptor (conn_refused I) (NetConnServiceStub_table I) (cn_default I)"

section \<open>The proxy\<close>

text \<open>
  The proxies of \<open>UpdateNetSupplierInfo\<close> and \<open>UpdateNetLinkInfo\<close> dereference their argument without a check,
  so it is an object here; the callbacks and specifiers are checked and may be null.
\<close>

type_synonym 'p conn_remote = "('p, conn_state) send_request option"
type_synonym conn_call = "conn_state \<Rightarrow> int32 \<times> conn_state"

definition NetConnServiceProxy_SystemReady :: "'p conn_ipc \<Rightarrow> 'p conn_remote \<Rightarrow> conn_call" where
  "NetConnServiceProxy_SystemReady I remote =
     proxy_call (cn_parcel I) remote CMD_NM_SYSTEM_READY
       [(WriteToken (cn_parcel I) conn_descriptor, ERR_FLATTEN_OBJECT (cn_codes I))]
       (ERR_NULL_OBJECT (cn_codes I)) (\<lambda>error. error) (\<lambda>_. 0)"

definition NetConnServiceProxy_RegisterNetSupplier ::
    "'p conn_ipc \<Rightarrow> 'p conn_remote \<Rightarrow> uint32 \<Rightarrow> string \<Rightarrow> uint64 \<Rightarrow> conn_call" where
  "NetConnServiceProxy_RegisterNetSupplier I remote netType ident netCapabilities =
     (let P = cn_parcel I; e = NetConnResultCode_val NET_CONN_ERR_INVALID_SUPPLIER_ID
      in proxy_call P remote CMD_NM_REG_NET_SUPPLIER
           [(WriteToken P conn_descriptor, e), (WriteUint32 P netType, e), (WriteString P ident, e),
            (WriteUint64 P netCapabilities, e)] e (\<lambda>_. e) (ReadInt32_value P))"

definition NetConnServiceProxy_UnregisterNetSupplier :: "'p conn_ipc \<Rightarrow> 'p conn_remote \<Rightarrow> uint32 \<Rightarrow> conn_call" where
  "NetConnServiceProxy_UnregisterNetSupplier I remote supplierId =
     (let P = cn_parcel I; e = ERR_FLATTEN_OBJECT (cn_codes I)
      in proxy_call P remote CMD_NM_UNREG_NETWORK [(WriteToken P conn_descriptor, e), (WriteUint32 P supplierId, e)]
           (ERR_NULL_OBJECT (cn_codes I)) (\<lambda>error. error) (ReadInt32_value P))"

text \<open>The two kinds of callback request: the writes after the token are not checked.\<close>

definition callback_request :: "'p conn_ipc \<Rightarrow> 'p conn_remote \<Rightarrow> uint32 \<Rightarrow> 'p writer list \<Rightarrow> conn_call" where
  "callback_request I remote code writes =
     proxy_call (cn_parcel I) remote code
       ((WriteToken (cn_parcel I) conn_descriptor, NetConnResultCode_val NET_CONN_ERR_INVALID_PARAMETER) #
        map (\<lambda>w. (ignoring_failure w, 0)) writes)
       (NetConnResultCode_val NET_CONN_ERR_GET_REMOTE_OBJECT_FAILED) (\<lambda>retCode. retCode) (ReadInt32_value (cn_parcel I))"

definition NetConnServiceProxy_RegisterNetConnCallback_all ::
    "'p conn_ipc \<Rightarrow> 'p conn_remote \<Rightarrow> callback option \<Rightarrow> conn_call" where
  "NetConnServiceProxy_RegisterNetConnCallback_all I remote cb s =
     (case cb of None \<Rightarrow> (NetConnResultCode_val NET_CONN_ERR_INPUT_NULL_PTR, s)
      | Some c \<Rightarrow> callback_request I remote CMD_NM_REGISTER_NET_CONN_CALLBACK
          [WriteRemoteObject (cn_parcel I) (cn_AsObject I c)] s)"

definition NetConnServiceProxy_UnregisterNetConnCallback_all ::
    "'p conn_ipc \<Rightarrow> 'p conn_remote \<Rightarrow> callback option \<Rightarrow> conn_call" where
  "NetConnServiceProxy_UnregisterNetConnCallback_all I remote cb s =
     (case cb of None \<Rightarrow> (NetConnResultCode_val NET_CONN_ERR_INPUT_NULL_PTR, s)
      | Some c \<Rightarrow> callback_request I remote CMD_NM_UNREGISTER_NET_CONN_CALLBACK
          [WriteRemoteObject (cn_parcel I) (cn_AsObject I c)] s)"

definition NetConnServiceProxy_RegisterNetConnCallback ::
    "'p conn_ipc \<Rightarrow> 'p conn_remote \<Rightarrow> NetSpecifier option \<Rightarrow> callback option \<Rightarrow> conn_call" where
  "NetConnServiceProxy_RegisterNetConnCallback I remote spec cb s =
     (if spec = None \<or> cb = None then (NetConnResultCode_val NET_CONN_ERR_INPUT_NULL_PTR, s)
      else callback_request I remote CMD_NM_REGISTER_NET_CONN_CALLBACK_BY_SPECIFIER
             [NetSpecifier_Marshalling (cn_parcel I) (the spec), WriteRemoteObject (cn_parcel I) (cn_AsObject I (the cb))] s)"

definition NetConnServiceProxy_UnregisterNetConnCallback ::
    "'p conn_ipc \<Rightarrow> 'p conn_remote \<Rightarrow> NetSpecifier option \<Rightarrow> callback option \<Rightarrow> conn_call" where
  "NetConnServiceProxy_UnregisterNetConnCallback I remote spec cb s =
     (if spec = None \<or> cb = None then (NetConnResultCode_val NET_CONN_ERR_INPUT_NULL_PTR, s)
      else callback_request I remote CMD_NM_UNREGISTER_NET_CONN_CALLBACK_BY_SPECIFIER
             [NetSpecifier_Marshalling (cn_parcel I) (the spec), WriteRemoteObject (cn_parcel I) (cn_AsObject I (the cb))] s)"

definition NetConnServiceProxy_UpdateNetSupplierInfo ::
    "'p conn_ipc \<Rightarrow> 'p conn_remote \<Rightarrow> uint32 \<Rightarrow> NetSupplierInfo \<Rightarrow> conn_call" where
  "NetConnServiceProxy_UpdateNetSupplierInfo I remote supplierId info =
     (let P = cn_parcel I; e = ERR_FLATTEN_OBJECT (cn_codes I)
      in proxy_call P remote CMD_NM_SET_NET_SUPPLIER_INFO
           [(WriteToken P conn_descriptor, e), (WriteUint32 P supplierId, e), (NetSupplierInfo_Marshalling P info, e)]
           (ERR_NULL_OBJECT (cn_codes I)) (\<lambda>error. error) (ReadInt32_value P))"

definition NetConnServiceProxy_UpdateNetCapabilities ::
    "'p conn_ipc \<Rightarrow> 'p conn_remote \<Rightarrow> uint32 \<Rightarrow> uint64 \<Rightarrow> conn_call" where
  "NetConnServiceProxy_UpdateNetCapabilities I remote supplierId netCapabilities =
     (let P = cn_parcel I; e = ERR_FLATTEN_OBJECT (cn_codes I)
      in proxy_call P remote CMD_NM_SET_NET_CAPABILTITES
           [(WriteToken P conn_descriptor, IPC_PROXY_ERR (cn_codes I)), (WriteUint32 P supplierId, e), (WriteUint64 P netCapabilities, e)]
           (ERR_NULL_OBJECT (cn_codes I)) (\<lambda>error. error) (ReadInt32_value P))"

definition NetConnServiceProxy_UpdateNetLinkInfo ::
    "'p conn_ipc \<Rightarrow> 'p conn_remote \<Rightarrow> uint32 \<Rightarrow> NetLinkInfo \<Rightarrow> conn_call" where
  "NetConnServiceProxy_UpdateNetLinkInfo I remote supplierId info =
     (let P = cn_parcel I; e = IPC_PROXY_ERR (cn_codes I)
      in proxy_call P remote CMD_NM_SET_NET_LINK_INFO
           [(WriteToken P conn_descriptor, e), (WriteUint32 P supplierId, e), (NetLinkInfo_Marshalling P info, e)]
           (ERR_NULL_OBJECT (cn_codes I)) (\<lambda>error. error) (ReadInt32_value P))"

section \<open>The client\<close>

definition conn_client ::
    "'p conn_ipc \<Rightarrow> client_env \<Rightarrow> (nat \<Rightarrow> conn_call) \<Rightarrow> client_state \<Rightarrow> conn_state \<Rightarrow> int32 \<times> client_state \<times> conn_state" where
  "conn_client I E call = client_call E call (IPC_PROXY_ERR (cn_codes I))"

definition NetConnClient_SystemReady where
  "NetConnClient_SystemReady I E remotes = conn_client I E (\<lambda>p. NetConnServiceProxy_SystemReady I (remotes p))"
definition NetConnClient_RegisterNetSupplier where
  "NetConnClient_RegisterNetSupplier I E remotes netType ident netCapabilities = conn_client I E (\<lambda>p. NetConnServiceProxy_RegisterNetSupplier I (remotes p) netType ident netCapabilities)"
definition NetConnClient_UnregisterNetSupplier where
  "NetConnClient_UnregisterNetSupplier I E remotes supplierId = conn_client I E (\<lambda>p. NetConnServiceProxy_UnregisterNetSupplier I (remotes p) supplierId)"
definition NetConnClient_RegisterNetConnCallback_all where
  "NetConnClient_RegisterNetConnCallback_all I E remotes cb = conn_client I E (\<lambda>p. NetConnServiceProxy_RegisterNetConnCallback_all I (remotes p) cb)"
definition NetConnClient_RegisterNetConnCallback where
  "NetConnClient_RegisterNetConnCallback I E remotes spec cb = conn_client I E (\<lambda>p. NetConnServiceProxy_RegisterNetConnCallback I (remotes p) spec cb)"
definition NetConnClient_UnregisterNetConnCallback_all where
  "NetConnClient_UnregisterNetConnCallback_all I E remotes cb = conn_client I E (\<lambda>p. NetConnServiceProxy_UnregisterNetConnCallback_all I (remotes p) cb)"
definition NetConnClient_UnregisterNetConnCallback where
  "NetConnClient_UnregisterNetConnCallback I E remotes spec cb = conn_client I E (\<lambda>p. NetConnServiceProxy_UnregisterNetConnCallback I (remotes p) spec cb)"
definition NetConnClient_UpdateNetSupplierInfo where
  "NetConnClient_UpdateNetSupplierInfo I E remotes supplierId info = conn_client I E (\<lambda>p. NetConnServiceProxy_UpdateNetSupplierInfo I (remotes p) supplierId info)"
definition NetConnClient_UpdateNetCapabilities where
  "NetConnClient_UpdateNetCapabilities I E remotes supplierId netCapabilities = conn_client I E (\<lambda>p. NetConnServiceProxy_UpdateNetCapabilities I (remotes p) supplierId netCapabilities)"
definition NetConnClient_UpdateNetLinkInfo where
  "NetConnClient_UpdateNetLinkInfo I E remotes supplierId info = conn_client I E (\<lambda>p. NetConnServiceProxy_UpdateNetLinkInfo I (remotes p) supplierId info)"

section \<open>Callbacks\<close>

text \<open>
  The other direction: the service holds a proxy of the client's callback. What the client does with
  a change (\<open>changed\<close>, on a state of its own) is a parameter.
\<close>

definition callback_descriptor :: string where "callback_descriptor = ''OHOS.NetManagerStandard.INetConnCallback''"
definition NET_CONN_STATE_CHANGED :: uint32 where "NET_CONN_STATE_CHANGED = 0"

definition NetConnCallbackProxy_NetConnStateChanged ::
    "'p parcel_ops \<Rightarrow> ipc_codes \<Rightarrow> ('p, 's) send_request option \<Rightarrow> NetConnCallbackInfo \<Rightarrow> 's \<Rightarrow> int32 \<times> 's" where
  "NetConnCallbackProxy_NetConnStateChanged P C remote info =
     proxy_call P remote NET_CONN_STATE_CHANGED
       [(WriteToken P callback_descriptor, ERR_FLATTEN_OBJECT C), (NetConnCallbackInfo_Marshalling P info, ERR_FLATTEN_OBJECT C)]
       (ERR_NULL_OBJECT C) (\<lambda>ret. ret) (\<lambda>_. 0)"

definition NetConnCallbackStub_OnNetConnStateChanged ::
    "'p parcel_ops \<Rightarrow> (NetConnCallbackInfo option \<Rightarrow> 's \<Rightarrow> int32 \<times> 's) \<Rightarrow> 'p \<Rightarrow> 'p \<Rightarrow> 's \<Rightarrow> int32 \<times> 'p \<times> 's" where
  "NetConnCallbackStub_OnNetConnStateChanged P changed data reply s =
     (case changed (fst (NetConnCallbackInfo_Unmarshalling P data)) s of (result, t) \<Rightarrow>
        let r = WriteInt32 P result reply in (if fst r then 0 else result, snd r, t))"

definition NetConnCallbackStub_OnRemoteRequest where
  "NetConnCallbackStub_OnRemoteRequest P C changed fallback =
     stub_dispatch P callback_descriptor (\<lambda>reply s. (ERR_FLATTEN_OBJECT C, reply, s))
       [NET_CONN_STATE_CHANGED \<mapsto> NetConnCallbackStub_OnNetConnStateChanged P changed] fallback"


section \<open>A call through proxy and stub\<close>

interpretation register_args: codec P "\<lambda>(t, i, c). write_seq [WriteUint32 P t, WriteString P i, WriteUint64 P c]" "read_register P"
  "\<lambda>(t, i, c). [I_Uint32 t, I_String i, I_Uint64 c]" "\<lambda>_. True" for P :: "'p parcel_ops"
  by unfold_locales (auto simp: read_register_def always_writes_typed simp del: write_seq.simps write_seq_single
      intro!: parcel_rules always_writes_seq)

interpretation capability_args: codec P "\<lambda>(i, c). write_seq [WriteUint32 P i, WriteUint64 P c]" "read_capabilities P"
  "\<lambda>(i, c). [I_Uint32 i, I_Uint64 c]" "\<lambda>_. True" for P :: "'p parcel_ops"
  by unfold_locales (auto simp: read_capabilities_def always_writes_typed simp del: write_seq.simps write_seq_single
      intro!: parcel_rules always_writes_seq)

interpretation conn_one_u32: codec P "WriteUint32 P" "ReadUint32 P" "\<lambda>v. [I_Uint32 v]" "\<lambda>_. True" for P :: "'p parcel_ops"
  by unfold_locales (simp_all add: encodes_typed always_writes_typed decodes_typed)

interpretation remote_arg: codec P "WriteRemoteObject P" "ReadRemoteObject P" "\<lambda>v. [I_Remote v]" "\<lambda>_. True" for P :: "'p parcel_ops"
  by unfold_locales (simp_all add: encodes_typed always_writes_typed decodes_typed)

text \<open>An identifier or a specifier before another object.\<close>

lemma read_pair_parts:
  "read_pair r q p = (Some (x, y), rest) \<Longrightarrow> \<exists>p'. r p = (Some x, p') \<and> fst (q p') = Some y"
  by (auto simp: read_pair_def read_then_def read_done_def Let_def split: option.splits) (metis prod.collapse)

interpretation supplier_info_args: codec P "\<lambda>(i, x). write_seq [WriteUint32 P i, NetSupplierInfo_Marshalling P x]"
  "read_pair (ReadUint32 P) (NetSupplierInfo_Unmarshalling P)" "\<lambda>(i, x). [I_Uint32 i] @ NetSupplierInfo_items x" "\<lambda>_. True"
  for P :: "'p parcel_ops"
proof (unfold_locales, goal_cases)
  case (1 x)
  then show ?case using encodes_Cons_item [OF encodes_typed(4) encodes_Cons [OF net_supplier_info.marshal_encodes encodes_Nil]]
    by (cases x) (simp del: write_seq.simps write_seq_single)
next
  case (2 x)
  then show ?case by (cases x) (auto simp: always_writes_typed net_supplier_info.marshal_writes simp del: write_seq.simps write_seq_single
        intro!: always_writes_seq)
next
  case (3 x)
  then show ?case using decodes_pair [OF decodes_typed(4) net_supplier_info.unmarshal_decodes] by (cases x) auto
qed

interpretation link_info_args: codec P "\<lambda>(i, x). write_seq [WriteUint32 P i, NetLinkInfo_Marshalling P x]"
  "read_pair (ReadUint32 P) (NetLinkInfo_Unmarshalling P)" "\<lambda>(i, x). [I_Uint32 i] @ NetLinkInfo_items x" "\<lambda>(i, x). NetLinkInfo_short x"
  for P :: "'p parcel_ops"
proof (unfold_locales, goal_cases)
  case (1 x)
  then show ?case using encodes_Cons_item [OF encodes_typed(4) encodes_Cons [OF net_link_info.marshal_encodes encodes_Nil]]
    by (cases x) (simp del: write_seq.simps write_seq_single)
next
  case (2 x)
  then show ?case by (cases x) (auto simp: always_writes_typed net_link_info.marshal_writes simp del: write_seq.simps write_seq_single
        intro!: always_writes_seq)
next
  case (3 x)
  then show ?case using decodes_pair [OF decodes_typed(4) net_link_info.unmarshal_decodes] by (cases x) auto
qed

interpretation specifier_args: codec P "\<lambda>(x, r). write_seq [NetSpecifier_Marshalling P x, WriteRemoteObject P r]"
  "read_pair (NetSpecifier_Unmarshalling P) (ReadRemoteObject P)" "\<lambda>(x, r). NetSpecifier_items x @ [I_Remote r]" "\<lambda>_. True"
  for P :: "'p parcel_ops"
proof (unfold_locales, goal_cases)
  case (1 x)
  then show ?case using encodes_Cons [OF net_specifier.marshal_encodes encodes_Cons [OF encodes_typed(9) encodes_Nil]]
    by (cases x) (simp del: write_seq.simps write_seq_single)
next
  case (2 x)
  then show ?case by (cases x) (auto simp: always_writes_typed net_specifier.marshal_writes simp del: write_seq.simps write_seq_single
        intro!: always_writes_seq)
next
  case (3 x)
  then show ?case using decodes_pair [OF net_specifier.unmarshal_decodes decodes_typed(8)] by (cases x) auto
qed

context codec
begin

lemma conn_call:
  assumes "parcel_laws P" and "parcel_never_fails P" and "valid x"
    and "map fst ws = WriteToken P conn_descriptor # us" and "marshal x = write_seq us"
    and "cn_parcel I = P" and "NetConnServiceStub_table I code = Some h"
    and "\<And>data' rest. unmarshal data' = (Some x, rest) \<Longrightarrow> h data' (new_parcel P) s = (err, reply, t)"
    and "(if err \<noteq> 0 then failed err else result reply) = v"
  shows "proxy_call P (Some (NetConnServiceStub_OnRemoteRequest I)) code ws null failed result s = (v, t)"
  unfolding assms(9) [symmetric]
  by (rule call_through [where table = "NetConnServiceStub_table I" and mismatch = "conn_refused I" and fallback = "cn_default I",
        OF assms(1-5,7,8)]) (use assms(6) in \<open>simp_all add: NetConnServiceStub_OnRemoteRequest_def\<close>)

end

lemma NetConnServiceStub_table_entries:
  "NetConnServiceStub_table I CMD_NM_SYSTEM_READY = Some (NetConnServiceStub_OnSystemReady I)"
  "NetConnServiceStub_table I CMD_NM_REGISTER_NET_CONN_CALLBACK = Some (NetConnServiceStub_OnRegisterNetConnCallback I)"
  "NetConnServiceStub_table I CMD_NM_REGISTER_NET_CONN_CALLBACK_BY_SPECIFIER = Some (NetConnServiceStub_OnRegisterNetConnCallbackBySpecifier I)"
  "NetConnServiceStub_table I CMD_NM_UNREGISTER_NET_CONN_CALLBACK = Some (NetConnServiceStub_OnUnregisterNetConnCallback I)"
  "NetConnServiceStub_table I CMD_NM_UNREGISTER_NET_CONN_CALLBACK_BY_SPECIFIER = Some (NetConnServiceStub_OnUnregisterNetConnCallbackBySpecifier I)"
  "NetConnServiceStub_table I CMD_NM_REG_NET_SUPPLIER = Some (NetConnServiceStub_OnRegisterNetSupplier I)"
  "NetConnServiceStub_table I CMD_NM_UNREG_NETWORK = Some (NetConnServiceStub_OnUnregisterNetSupplier I)"
  "NetConnServiceStub_table I CMD_NM_SET_NET_SUPPLIER_INFO = Some (NetConnServiceStub_OnUpdateNetSupplierInfo I)"
  "NetConnServiceStub_table I CMD_NM_SET_NET_CAPABILTITES = Some (NetConnServiceStub_OnUpdateNetCapabilities I)"
  "NetConnServiceStub_table I CMD_NM_SET_NET_LINK_INFO = Some (NetConnServiceStub_OnUpdateNetLinkInfo I)"
  by (simp_all add: NetConnServiceStub_table_def conn_codes)


text \<open>A reply that carries the result, and one that carries it also as the code of the transaction.\<close>

lemma reply_result_value:
  assumes "parcel_laws (cn_parcel I)" and "parcel_never_fails (cn_parcel I)"
  shows "\<exists>reply. reply_result I r (new_parcel (cn_parcel I)) t = (r, reply, t) \<and> ReadInt32_value (cn_parcel I) reply = r"
proof -
  obtain reply where "reply_with (cn_codes I) (WriteInt32 (cn_parcel I) r) (new_parcel (cn_parcel I)) t = (0, reply, t)"
    "ReadInt32_value (cn_parcel I) reply = r"
    using reply_int32 [OF assms, where C = "cn_codes I" and s = t] by blast
  then show ?thesis by (auto simp: reply_with_def reply_result_def Let_def split: if_splits)
qed

lemma RegisterNetSupplier_through:
  assumes "parcel_laws (cn_parcel I)" and "parcel_never_fails (cn_parcel I)"
    and "NetConnService_RegisterNetSupplier (cn_env I) netType ident caps s = (ret, t)"
  shows "NetConnServiceProxy_RegisterNetSupplier I (Some (NetConnServiceStub_OnRemoteRequest I)) netType ident caps s =
    (if ret = ResultCode_val ERR_NO_NETWORK \<or> ret = ResultCode_val ERR_NO_SUPPLIER
     then NetConnResultCode_val NET_CONN_ERR_INVALID_SUPPLIER_ID else ret, t)" (is "_ = (?v, t)")
proof -
  obtain reply where r: "reply_with (cn_codes I) (WriteInt32 (cn_parcel I) ?v) (new_parcel (cn_parcel I)) t = (0, reply, t)"
    "ReadInt32_value (cn_parcel I) reply = ?v"
    using reply_int32 [OF assms(1,2), where C = "cn_codes I" and s = t] by blast
  show ?thesis unfolding NetConnServiceProxy_RegisterNetSupplier_def Let_def
    by (rule register_args.conn_call [where x = "(netType, ident, caps)" and I = I and err = 0 and reply = reply
          and us = "[WriteUint32 (cn_parcel I) netType, WriteString (cn_parcel I) ident, WriteUint64 (cn_parcel I) caps]"
          and h = "NetConnServiceStub_OnRegisterNetSupplier I"])
      (use assms r in \<open>simp_all add: NetConnServiceStub_table_entries NetConnServiceStub_OnRegisterNetSupplier_def Let_def del: ResultCode_val.simps\<close>)
qed

lemma UnregisterNetSupplier_through:
  assumes "parcel_laws (cn_parcel I)" and "parcel_never_fails (cn_parcel I)"
  shows "NetConnServiceProxy_UnregisterNetSupplier I (Some (NetConnServiceStub_OnRemoteRequest I)) supplierId s =
    NetConnService_UnregisterNetSupplier (cn_env I) supplierId s"
proof -
  obtain ret t where rt: "NetConnService_UnregisterNetSupplier (cn_env I) supplierId s = (ret, t)" by (metis prod.collapse)
  obtain reply where r: "reply_with (cn_codes I) (WriteInt32 (cn_parcel I) ret) (new_parcel (cn_parcel I)) t = (0, reply, t)"
    "ReadInt32_value (cn_parcel I) reply = ret"
    using reply_int32 [OF assms(1,2), where C = "cn_codes I" and s = t] by blast
  show ?thesis unfolding NetConnServiceProxy_UnregisterNetSupplier_def Let_def rt
    by (rule conn_one_u32.conn_call [where x = supplierId and I = I and err = 0 and reply = reply
          and us = "[WriteUint32 (cn_parcel I) supplierId]" and h = "NetConnServiceStub_OnUnregisterNetSupplier I"])
      (use assms r rt in \<open>simp_all add: NetConnServiceStub_table_entries NetConnServiceStub_OnUnregisterNetSupplier_def\<close>)
qed

lemma UpdateNetCapabilities_through:
  assumes "parcel_laws (cn_parcel I)" and "parcel_never_fails (cn_parcel I)"
  shows "NetConnServiceProxy_UpdateNetCapabilities I (Some (NetConnServiceStub_OnRemoteRequest I)) supplierId caps s =
    NetConnService_UpdateNetCapabilities supplierId caps s"
proof -
  obtain ret t where rt: "NetConnService_UpdateNetCapabilities supplierId caps s = (ret, t)" by (metis prod.collapse)
  obtain reply where r: "reply_with (cn_codes I) (WriteInt32 (cn_parcel I) ret) (new_parcel (cn_parcel I)) t = (0, reply, t)"
    "ReadInt32_value (cn_parcel I) reply = ret"
    using reply_int32 [OF assms(1,2), where C = "cn_codes I" and s = t] by blast
  show ?thesis unfolding NetConnServiceProxy_UpdateNetCapabilities_def Let_def rt
    by (rule capability_args.conn_call [where x = "(supplierId, caps)" and I = I and err = 0 and reply = reply
          and us = "[WriteUint32 (cn_parcel I) supplierId, WriteUint64 (cn_parcel I) caps]"
          and h = "NetConnServiceStub_OnUpdateNetCapabilities I"])
      (use assms r rt in \<open>simp_all add: NetConnServiceStub_table_entries NetConnServiceStub_OnUpdateNetCapabilities_def\<close>)
qed

lemma UpdateNetSupplierInfo_through:
  assumes "parcel_laws (cn_parcel I)" and "parcel_never_fails (cn_parcel I)"
  shows "NetConnServiceProxy_UpdateNetSupplierInfo I (Some (NetConnServiceStub_OnRemoteRequest I)) supplierId info s =
    NetConnService_UpdateNetSupplierInfo (cn_env I) supplierId (Some info) s"
proof -
  obtain ret t where rt: "NetConnService_UpdateNetSupplierInfo (cn_env I) supplierId (Some info) s = (ret, t)" by (metis prod.collapse)
  obtain reply where r: "reply_with (cn_codes I) (WriteInt32 (cn_parcel I) ret) (new_parcel (cn_parcel I)) t = (0, reply, t)"
    "ReadInt32_value (cn_parcel I) reply = ret"
    using reply_int32 [OF assms(1,2), where C = "cn_codes I" and s = t] by blast
  show ?thesis unfolding NetConnServiceProxy_UpdateNetSupplierInfo_def Let_def rt
    by (rule supplier_info_args.conn_call [where x = "(supplierId, info)" and I = I and err = 0 and reply = reply
          and us = "[WriteUint32 (cn_parcel I) supplierId, NetSupplierInfo_Marshalling (cn_parcel I) info]"
          and h = "NetConnServiceStub_OnUpdateNetSupplierInfo I"])
      (use assms r rt in \<open>auto simp: NetConnServiceStub_table_entries NetConnServiceStub_OnUpdateNetSupplierInfo_def dest!: read_pair_parts\<close>)
qed

lemma UpdateNetLinkInfo_through:
  assumes "parcel_laws (cn_parcel I)" and "parcel_never_fails (cn_parcel I)" and "NetLinkInfo_short info"
  shows "NetConnServiceProxy_UpdateNetLinkInfo I (Some (NetConnServiceStub_OnRemoteRequest I)) supplierId info s =
    NetConnService_UpdateNetLinkInfo (cn_env I) supplierId (Some info) s"
proof -
  obtain ret t where rt: "NetConnService_UpdateNetLinkInfo (cn_env I) supplierId (Some info) s = (ret, t)" by (metis prod.collapse)
  obtain reply where r: "reply_with (cn_codes I) (WriteInt32 (cn_parcel I) ret) (new_parcel (cn_parcel I)) t = (0, reply, t)"
    "ReadInt32_value (cn_parcel I) reply = ret"
    using reply_int32 [OF assms(1,2), where C = "cn_codes I" and s = t] by blast
  show ?thesis unfolding NetConnServiceProxy_UpdateNetLinkInfo_def Let_def rt
    by (rule link_info_args.conn_call [where x = "(supplierId, info)" and I = I and err = 0 and reply = reply
          and us = "[WriteUint32 (cn_parcel I) supplierId, NetLinkInfo_Marshalling (cn_parcel I) info]"
          and h = "NetConnServiceStub_OnUpdateNetLinkInfo I"])
      (use assms r rt in \<open>auto simp: NetConnServiceStub_table_entries NetConnServiceStub_OnUpdateNetLinkInfo_def dest!: read_pair_parts\<close>)
qed


text \<open>The callback methods. \<open>iface_cast\<close> of the object of a callback is the callback.\<close>

definition casts_back :: "'p conn_ipc \<Rightarrow> bool" where
  "casts_back I \<longleftrightarrow> (\<forall>c. cn_iface_cast I (cn_AsObject I c) = Some c)"

lemma with_callback_read:
  assumes "ReadRemoteObject (cn_parcel I) data = (Some (cn_AsObject I c), rest)" and "casts_back I"
  shows "with_callback I e op data reply s = (case op c s of (ret, t) \<Rightarrow> reply_result I (NetConnServiceStub_ConvertCode ret) reply t)"
  using assms by (simp add: with_callback_def casts_back_def)

lemma callback_all_through:
  assumes "parcel_laws (cn_parcel I)" and "parcel_never_fails (cn_parcel I)" and "casts_back I"
    and "NetConnServiceStub_table I code = Some (with_callback I e op)" and "op c s = (ret, t)"
  shows "callback_request I (Some (NetConnServiceStub_OnRemoteRequest I)) code [WriteRemoteObject (cn_parcel I) (cn_AsObject I c)] s =
    (NetConnServiceStub_ConvertCode ret, t)"
proof -
  obtain reply where r: "reply_result I (NetConnServiceStub_ConvertCode ret) (new_parcel (cn_parcel I)) t = (NetConnServiceStub_ConvertCode ret, reply, t)"
    "ReadInt32_value (cn_parcel I) reply = NetConnServiceStub_ConvertCode ret"
    using reply_result_value [OF assms(1,2), where r = "NetConnServiceStub_ConvertCode ret" and t = t] by blast
  show ?thesis unfolding callback_request_def
    by (rule remote_arg.conn_call [where x = "cn_AsObject I c" and I = I and err = "NetConnServiceStub_ConvertCode ret" and reply = reply
          and us = "[WriteRemoteObject (cn_parcel I) (cn_AsObject I c)]" and h = "with_callback I e op"])
      (use assms r in \<open>simp_all add: ignoring_always always_writes_typed with_callback_read\<close>)
qed

lemma callback_specifier_through:
  assumes "parcel_laws (cn_parcel I)" and "parcel_never_fails (cn_parcel I)" and "casts_back I"
    and "NetConnServiceStub_table I code = Some (\<lambda>data reply s.
      (case NetSpecifier_Unmarshalling (cn_parcel I) data of (spec, data') \<Rightarrow> with_callback I e (op spec) data' reply s))"
    and "op (Some spec) c s = (ret, t)"
  shows "callback_request I (Some (NetConnServiceStub_OnRemoteRequest I)) code
      [NetSpecifier_Marshalling (cn_parcel I) spec, WriteRemoteObject (cn_parcel I) (cn_AsObject I c)] s =
    (NetConnServiceStub_ConvertCode ret, t)"
proof -
  obtain reply where r: "reply_result I (NetConnServiceStub_ConvertCode ret) (new_parcel (cn_parcel I)) t = (NetConnServiceStub_ConvertCode ret, reply, t)"
    "ReadInt32_value (cn_parcel I) reply = NetConnServiceStub_ConvertCode ret"
    using reply_result_value [OF assms(1,2), where r = "NetConnServiceStub_ConvertCode ret" and t = t] by blast
  have h: "(case NetSpecifier_Unmarshalling (cn_parcel I) data of (spec, data') \<Rightarrow>
      with_callback I e (op spec) data' (new_parcel (cn_parcel I)) s) = (NetConnServiceStub_ConvertCode ret, reply, t)"
    if rd: "read_pair (NetSpecifier_Unmarshalling (cn_parcel I)) (ReadRemoteObject (cn_parcel I)) data = (Some (spec, cn_AsObject I c), rest)" for data rest
  proof -
    obtain data' rest' where "NetSpecifier_Unmarshalling (cn_parcel I) data = (Some spec, data')"
      "ReadRemoteObject (cn_parcel I) data' = (Some (cn_AsObject I c), rest')"
      using read_pair_parts [OF rd] by (metis prod.collapse)
    then show ?thesis using assms(5) r(1) by (simp add: with_callback_read [OF _ assms(3)])
  qed
  show ?thesis unfolding callback_request_def
    by (rule specifier_args.conn_call [where x = "(spec, cn_AsObject I c)" and I = I and err = "NetConnServiceStub_ConvertCode ret" and reply = reply
          and us = "[NetSpecifier_Marshalling (cn_parcel I) spec, WriteRemoteObject (cn_parcel I) (cn_AsObject I c)]", OF assms(1,2) TrueI _ _ refl assms(4)])
      (use assms(1,2) r h in \<open>simp_all add: ignoring_always always_writes_typed net_specifier.marshal_writes\<close>)
qed

lemma convert_codes:
  "NetConnServiceStub_ConvertCode (ResultCode_val ERR_SERVICE_NULL_PTR) = NetConnResultCode_val NET_CONN_ERR_INPUT_NULL_PTR"
  by (simp add: NetConnServiceStub_ConvertCode_def)

definition converted :: "int32 \<times> conn_state \<Rightarrow> int32 \<times> conn_state" where
  "converted r = (NetConnServiceStub_ConvertCode (fst r), snd r)"

lemma all_callbacks_through:
  assumes "parcel_laws (cn_parcel I)" and "parcel_never_fails (cn_parcel I)" and "casts_back I"
  shows "NetConnServiceProxy_RegisterNetConnCallback_all I (Some (NetConnServiceStub_OnRemoteRequest I)) cb s =
      converted (NetConnService_RegisterNetConnCallback_all cb s)"
    "NetConnServiceProxy_UnregisterNetConnCallback_all I (Some (NetConnServiceStub_OnRemoteRequest I)) cb s =
      converted (NetConnService_UnregisterNetConnCallback_all cb s)"
proof -
  note t = NetConnServiceStub_table_entries
  show "NetConnServiceProxy_RegisterNetConnCallback_all I (Some (NetConnServiceStub_OnRemoteRequest I)) cb s =
      converted (NetConnService_RegisterNetConnCallback_all cb s)"
  proof (cases cb)
    case None
    then show ?thesis by (simp add: NetConnServiceProxy_RegisterNetConnCallback_all_def NetConnService_RegisterNetConnCallback_all_def
          converted_def convert_codes del: ResultCode_val.simps NetConnResultCode_val.simps)
  next
    case (Some c)
    show ?thesis using callback_all_through [OF assms t(2) [unfolded NetConnServiceStub_OnRegisterNetConnCallback_def] prod.collapse [symmetric]]
      by (simp add: Some NetConnServiceProxy_RegisterNetConnCallback_all_def converted_def)
  qed
  show "NetConnServiceProxy_UnregisterNetConnCallback_all I (Some (NetConnServiceStub_OnRemoteRequest I)) cb s =
      converted (NetConnService_UnregisterNetConnCallback_all cb s)"
  proof (cases cb)
    case None
    then show ?thesis by (simp add: NetConnServiceProxy_UnregisterNetConnCallback_all_def NetConnService_UnregisterNetConnCallback_all_def
          converted_def convert_codes del: ResultCode_val.simps NetConnResultCode_val.simps)
  next
    case (Some c)
    show ?thesis using callback_all_through [OF assms t(4) [unfolded NetConnServiceStub_OnUnregisterNetConnCallback_def] prod.collapse [symmetric]]
      by (simp add: Some NetConnServiceProxy_UnregisterNetConnCallback_all_def converted_def)
  qed
qed

lemma specifier_callbacks_through:
  assumes "parcel_laws (cn_parcel I)" and "parcel_never_fails (cn_parcel I)" and "casts_back I"
  shows "NetConnServiceProxy_RegisterNetConnCallback I (Some (NetConnServiceStub_OnRemoteRequest I)) spec cb s =
      converted (NetConnService_RegisterNetConnCallback spec cb s)"
    "NetConnServiceProxy_UnregisterNetConnCallback I (Some (NetConnServiceStub_OnRemoteRequest I)) spec cb s =
      converted (NetConnService_UnregisterNetConnCallback spec cb s)"
proof -
  note t = NetConnServiceStub_table_entries
  show "NetConnServiceProxy_RegisterNetConnCallback I (Some (NetConnServiceStub_OnRemoteRequest I)) spec cb s =
      converted (NetConnService_RegisterNetConnCallback spec cb s)"
  proof (cases "spec = None \<or> cb = None")
    case True
    then show ?thesis by (auto simp: NetConnServiceProxy_RegisterNetConnCallback_def NetConnService_RegisterNetConnCallback_def
          converted_def convert_codes simp del: ResultCode_val.simps NetConnResultCode_val.simps)
  next
    case False
    then obtain sp c where "spec = Some sp" "cb = Some c" by auto
    then show ?thesis
      using callback_specifier_through [OF assms t(3) [unfolded NetConnServiceStub_OnRegisterNetConnCallbackBySpecifier_def [abs_def]] prod.collapse [symmetric]]
      by (simp add: NetConnServiceProxy_RegisterNetConnCallback_def converted_def)
  qed
  show "NetConnServiceProxy_UnregisterNetConnCallback I (Some (NetConnServiceStub_OnRemoteRequest I)) spec cb s =
      converted (NetConnService_UnregisterNetConnCallback spec cb s)"
  proof (cases "spec = None \<or> cb = None")
    case True
    then show ?thesis by (auto simp: NetConnServiceProxy_UnregisterNetConnCallback_def NetConnService_UnregisterNetConnCallback_def
          converted_def convert_codes simp del: ResultCode_val.simps NetConnResultCode_val.simps)
  next
    case False
    then obtain sp c where "spec = Some sp" "cb = Some c" by auto
    then show ?thesis
      using callback_specifier_through [OF assms t(5) [unfolded NetConnServiceStub_OnUnregisterNetConnCallbackBySpecifier_def [abs_def]] prod.collapse [symmetric]]
      by (simp add: NetConnServiceProxy_UnregisterNetConnCallback_def converted_def)
  qed
qed

lemmas callbacks_through = all_callbacks_through specifier_callbacks_through

text \<open>
  C12. A call through proxy and stub is the call of the connection service: the updates and the
  unregistration return its result, registration returns it with \<open>ERR_NO_NETWORK\<close> and \<open>ERR_NO_SUPPLIER\<close>
  replaced, and the callback methods return it translated by \<open>ConvertCode\<close>; the state is the same.
\<close>

theorem conn_call_through:
  assumes "parcel_laws (cn_parcel I)" and "parcel_never_fails (cn_parcel I)" and "casts_back I"
    and "remote = Some (NetConnServiceStub_OnRemoteRequest I)"
  shows "(\<forall>netType ident caps s ret t. NetConnService_RegisterNetSupplier (cn_env I) netType ident caps s = (ret, t) \<longrightarrow>
      NetConnServiceProxy_RegisterNetSupplier I remote netType ident caps s =
        (if ret = ResultCode_val ERR_NO_NETWORK \<or> ret = ResultCode_val ERR_NO_SUPPLIER
         then NetConnResultCode_val NET_CONN_ERR_INVALID_SUPPLIER_ID else ret, t)) \<and>
    (\<forall>i s. NetConnServiceProxy_UnregisterNetSupplier I remote i s = NetConnService_UnregisterNetSupplier (cn_env I) i s) \<and>
    (\<forall>i info s. NetConnServiceProxy_UpdateNetSupplierInfo I remote i info s = NetConnService_UpdateNetSupplierInfo (cn_env I) i (Some info) s) \<and>
    (\<forall>i caps s. NetConnServiceProxy_UpdateNetCapabilities I remote i caps s = NetConnService_UpdateNetCapabilities i caps s) \<and>
    (\<forall>i info s. NetLinkInfo_short info \<longrightarrow>
      NetConnServiceProxy_UpdateNetLinkInfo I remote i info s = NetConnService_UpdateNetLinkInfo (cn_env I) i (Some info) s) \<and>
    (\<forall>cb s. NetConnServiceProxy_RegisterNetConnCallback_all I remote cb s = converted (NetConnService_RegisterNetConnCallback_all cb s)) \<and>
    (\<forall>cb s. NetConnServiceProxy_UnregisterNetConnCallback_all I remote cb s = converted (NetConnService_UnregisterNetConnCallback_all cb s)) \<and>
    (\<forall>spec cb s. NetConnServiceProxy_RegisterNetConnCallback I remote spec cb s = converted (NetConnService_RegisterNetConnCallback spec cb s)) \<and>
    (\<forall>spec cb s. NetConnServiceProxy_UnregisterNetConnCallback I remote spec cb s = converted (NetConnService_UnregisterNetConnCallback spec cb s))"
  unfolding assms(4)
  by (intro conjI allI impI RegisterNetSupplier_through UnregisterNetSupplier_through UpdateNetSupplierInfo_through
      UpdateNetCapabilities_through UpdateNetLinkInfo_through callbacks_through assms)

definition sample_conn_ipc :: "parcel_item list conn_ipc" where
  "sample_conn_ipc = \<lparr>cn_parcel = list_parcel, cn_codes = \<lparr>ERR_FLATTEN_OBJECT = 5, ERR_NULL_OBJECT = 7, IPC_PROXY_ERR = 9\<rparr>,
     cn_default = (\<lambda>code data reply s. (1, reply, s)), cn_env = sample_env, cn_iface_cast = Some, cn_AsObject = id\<rparr>"

theorem conn_call_through_witness:
  "NetConnServiceProxy_UnregisterNetSupplier sample_conn_ipc (Some (NetConnServiceStub_OnRemoteRequest sample_conn_ipc)) 0x03EB sample_registered =
    NetConnService_UnregisterNetSupplier sample_env 0x03EB sample_registered"
  using conn_call_through [of sample_conn_ipc, OF _ _ _ refl] by (simp add: sample_conn_ipc_def casts_back_def)

end
