(* ===== verification/Net_Policy_File.thy ===== *)
theory Net_Policy_File
  imports Parcel_IO
begin

text \<open>
  The stored network policies: \<open>net_policy_define.h\<close>, \<open>net_policy_constants.h\<close> and
  \<open>net_policy_file.cpp\<close>. \<open>NetPolicyFile\<close> keeps a list of (uid, policy) pairs of decimal
  strings in memory and in a JSON file. The JSON library and the file system are parameters
  (\<open>json_ops\<close>, \<open>file_ops\<close>); what the code relies on is \<open>json_laws\<close>, \<open>json_reads_back\<close> and
  \<open>file_keeps\<close>. A C++ exception is a value of \<open>policy_exn\<close>; the width of \<open>long\<close>, which decides
  when \<open>std::stol\<close> throws, is a parameter too.
\<close>

section \<open>Policies\<close>

text \<open>
  \<open>NetUidPolicy\<close> is an \<open>enum class\<close> over \<open>int\<close>: a cast may give it any value, and the
  code checks for the named ones in \<open>IsPolicyValid\<close>, so it is the 32-bit integer here.
\<close>

type_synonym NetUidPolicy = int32

definition NET_POLICY_NONE :: NetUidPolicy where "NET_POLICY_NONE = 0"
definition NET_POLICY_ALLOW_METERED_BACKGROUND :: NetUidPolicy where "NET_POLICY_ALLOW_METERED_BACKGROUND = 1"
definition NET_POLICY_TEMPORARY_ALLOW_METERED :: NetUidPolicy where "NET_POLICY_TEMPORARY_ALLOW_METERED = 2"
definition NET_POLICY_REJECT_METERED_BACKGROUND :: NetUidPolicy where "NET_POLICY_REJECT_METERED_BACKGROUND = 4"
definition NET_POLICY_ALLOW_ALL :: NetUidPolicy where "NET_POLICY_ALLOW_ALL = 32"
definition NET_POLICY_REJECT_ALL :: NetUidPolicy where "NET_POLICY_REJECT_ALL = 64"

lemmas net_uid_policy_defs = NET_POLICY_NONE_def NET_POLICY_ALLOW_METERED_BACKGROUND_def
  NET_POLICY_TEMPORARY_ALLOW_METERED_def NET_POLICY_REJECT_METERED_BACKGROUND_def
  NET_POLICY_ALLOW_ALL_def NET_POLICY_REJECT_ALL_def

definition NET_POLICY_ALLOW_MASK :: uint32 where "NET_POLICY_ALLOW_MASK = 0x23"

datatype NetPolicyResultCode = POLICY_ERR_NONE | ERR_INTERNAL_ERROR | ERR_INVALID_UID | ERR_INVALID_POLICY

fun NetPolicyResultCode_val :: "NetPolicyResultCode \<Rightarrow> int32" where
  "NetPolicyResultCode_val POLICY_ERR_NONE = 0"
| "NetPolicyResultCode_val ERR_INTERNAL_ERROR = - 1"
| "NetPolicyResultCode_val ERR_INVALID_UID = - 10001"
| "NetPolicyResultCode_val ERR_INVALID_POLICY = - 10002"

record UidPolicy =
  up_uid :: string
  up_policy :: string

record NetPolicy =
  np_uidPolicys :: "UidPolicy list"
  np_hosVersion :: string

datatype NetUidPolicyOpType =
    NET_POLICY_UID_OP_TYPE_ADD | NET_POLICY_UID_OP_TYPE_DELETE | NET_POLICY_UID_OP_TYPE_UPDATE

definition POLICY_FILE_NAME :: string where "POLICY_FILE_NAME = ''/data/system/net_policy.json''"
definition CONFIG_HOS_VERSION :: string where "CONFIG_HOS_VERSION = ''hosVersion''"
definition CONFIG_UID_POLICY :: string where "CONFIG_UID_POLICY = ''uidPolicy''"
definition CONFIG_UID :: string where "CONFIG_UID = ''uid''"
definition CONFIG_POLICY :: string where "CONFIG_POLICY = ''policy''"
definition HOS_VERSION :: string where "HOS_VERSION = ''1.0''"

text \<open>\<open>std::to_string(static_cast<uint32_t>(policy))\<close>; \<open>for (i = 0; i < size; i++)\<close> with a 32-bit size.\<close>

definition policy_string :: "NetUidPolicy \<Rightarrow> string" where
  "policy_string policy = to_string_u32 (ucast policy)"

definition u32_prefix :: "'a list \<Rightarrow> 'a list" where
  "u32_prefix xs = take (length xs mod 2 ^ 32) xs"

section \<open>The JSON library and the file system\<close>

datatype policy_exn = Std std_exn | Json_LogicError

record 'j json_ops =
  json_parse :: "string \<Rightarrow> bool \<times> 'j \<times> string"
  json_write :: "'j \<Rightarrow> string"
  json_null :: 'j
  json_of_string :: "string \<Rightarrow> 'j"
  json_asString :: "'j \<Rightarrow> string option"
  json_member :: "'j \<Rightarrow> string \<Rightarrow> 'j option"
  json_set :: "'j \<Rightarrow> string \<Rightarrow> 'j \<Rightarrow> 'j"
  json_size :: "'j \<Rightarrow> uint32"
  json_at :: "'j \<Rightarrow> uint32 \<Rightarrow> 'j option"
  json_append :: "'j \<Rightarrow> 'j \<Rightarrow> 'j"
  json_isObject :: "'j \<Rightarrow> bool"
  json_isArray :: "'j \<Rightarrow> bool"

record 'f file_ops =
  fo_stat :: "string \<Rightarrow> 'f \<Rightarrow> int32"
  fo_create :: "string \<Rightarrow> 'f \<Rightarrow> int32 \<times> 'f"
  fo_open_in :: "string \<Rightarrow> 'f \<Rightarrow> string option"
  fo_open_out :: "string \<Rightarrow> 'f \<Rightarrow> bool \<times> 'f"
  fo_write_close :: "string \<Rightarrow> string \<Rightarrow> 'f \<Rightarrow> 'f"

text \<open>The elements of an array value, as the loop over \<open>size()\<close> reads them.\<close>

definition json_elems :: "'j json_ops \<Rightarrow> 'j \<Rightarrow> 'j list \<Rightarrow> bool" where
  "json_elems J a xs \<longleftrightarrow> length xs < 2 ^ 32 \<and> json_size J a = of_nat (length xs) \<and>
     (\<forall>i < length xs. json_at J a (of_nat i) = Some (xs ! i))"

text \<open>
  The documented behaviour of \<open>Json::Value\<close>: a string value reads back; \<open>operator[]\<close> of null or of an
  object sets and finds members, and gives null for a missing one; \<open>append\<close> adds a last element.
\<close>

definition json_laws :: "'j json_ops \<Rightarrow> bool" where
  "json_laws J \<longleftrightarrow>
     (\<forall>s. json_asString J (json_of_string J s) = Some s) \<and>
     (\<forall>k. json_member J (json_null J) k = Some (json_null J)) \<and>
     (\<forall>v k w. v = json_null J \<or> json_isObject J v \<longrightarrow> json_isObject J (json_set J v k w) \<and>
        (\<forall>k'. json_member J (json_set J v k w) k' = (if k' = k then Some w else json_member J v k'))) \<and>
     json_elems J (json_null J) [] \<and>
     (\<forall>a x xs. (a = json_null J \<or> json_isArray J a) \<and> json_elems J a xs \<and> Suc (length xs) < 2 ^ 32 \<longrightarrow>
        json_isArray J (json_append J a x) \<and> json_elems J (json_append J a x) (xs @ [x]))"

text \<open>\<open>out.str().c_str()\<close> ends at the first NUL; a document the writer produced parses to itself.\<close>

definition json_reads_back :: "'j json_ops \<Rightarrow> 'j \<Rightarrow> bool" where
  "json_reads_back J v \<longleftrightarrow> json_parse J (c_str (json_write J v)) = (True, v, []) \<and> c_str (json_write J v) \<noteq> []"

text \<open>A file that was opened for writing and written holds what was written.\<close>

definition file_keeps :: "'f file_ops \<Rightarrow> bool" where
  "file_keeps F \<longleftrightarrow> (\<forall>n s f f'. fo_open_out F n f = (True, f') \<longrightarrow>
     fo_stat F n (fo_write_close F n s f') = 0 \<and> fo_open_in F n (fo_write_close F n s f') = Some s)"

record ('f, 'j) policy_env =
  pe_json :: "'j json_ops"
  pe_file :: "'f file_ops"
  pe_long_bits :: nat
  pe_registered :: bool
  pe_publish :: bool

section \<open>NetPolicyFile\<close>

record 'f net_policy_file =
  pf_netPolicy :: NetPolicy
  pf_fs :: 'f

definition NetPolicyFile_FileExists :: "('f, 'j) policy_env \<Rightarrow> string \<Rightarrow> 'f \<Rightarrow> bool" where
  "NetPolicyFile_FileExists E fileName fs \<longleftrightarrow> fo_stat (pe_file E) fileName fs = NetPolicyResultCode_val POLICY_ERR_NONE"

definition NetPolicyFile_CreateFile :: "('f, 'j) policy_env \<Rightarrow> string \<Rightarrow> 'f \<Rightarrow> bool \<times> 'f" where
  "NetPolicyFile_CreateFile E fileName fs =
     (if fileName = [] \<or> NetPolicyFile_FileExists E fileName fs then (False, fs)
      else let r = fo_create (pe_file E) fileName fs in (\<not> fst r <s 0, snd r))"

definition NetPolicyFile_ReadFile :: "('f, 'j) policy_env \<Rightarrow> string \<Rightarrow> 'f \<Rightarrow> string option" where
  "NetPolicyFile_ReadFile E fileName fs =
     (if fileName = [] then None
      else if \<not> NetPolicyFile_FileExists E fileName fs then None
      else fo_open_in (pe_file E) fileName fs)"

text \<open>The members \<open>asString\<close> and \<open>operator[]\<close> throw on a value of another kind.\<close>

definition json_get :: "'a option \<Rightarrow> policy_exn + 'a" where
  "json_get v = (case v of None \<Rightarrow> Inl Json_LogicError | Some x \<Rightarrow> Inr x)"

definition json_string_at :: "'j json_ops \<Rightarrow> 'j \<Rightarrow> string \<Rightarrow> policy_exn + string" where
  "json_string_at J v k = (case json_member J v k of None \<Rightarrow> Inl Json_LogicError | Some w \<Rightarrow> json_get (json_asString J w))"

text \<open>The loop of \<open>Json2Obj\<close> over the array of policies, from the elements at the given positions.\<close>

fun read_uid_policies :: "'j json_ops \<Rightarrow> 'j \<Rightarrow> nat list \<Rightarrow> UidPolicy list \<Rightarrow> policy_exn + UidPolicy list" where
  "read_uid_policies J a [] acc = Inr acc"
| "read_uid_policies J a (i # is) acc =
     (case json_at J a (of_nat i) of None \<Rightarrow> Inl Json_LogicError
      | Some x \<Rightarrow>
          (case json_string_at J x CONFIG_UID of Inl e \<Rightarrow> Inl e
           | Inr uid \<Rightarrow>
               (case json_string_at J x CONFIG_POLICY of Inl e \<Rightarrow> Inl e
                | Inr policy \<Rightarrow> read_uid_policies J a is (acc @ [\<lparr>up_uid = uid, up_policy = policy\<rparr>]))))"

definition NetPolicyFile_Json2Obj ::
    "('f, 'j) policy_env \<Rightarrow> string \<Rightarrow> NetPolicy \<Rightarrow> policy_exn + (bool \<times> NetPolicy)" where
  "NetPolicyFile_Json2Obj E content np =
     (if content = [] then Inr (False, np)
      else case json_parse (pe_json E) content of (isSuccess, root, errs) \<Rightarrow>
        if isSuccess \<and> errs = [] then
          (case json_string_at (pe_json E) root CONFIG_HOS_VERSION of Inl e \<Rightarrow> Inl e
           | Inr v \<Rightarrow>
               (case json_member (pe_json E) root CONFIG_UID_POLICY of None \<Rightarrow> Inl Json_LogicError
                | Some arr \<Rightarrow>
                    (case read_uid_policies (pe_json E) arr [0 ..< unat (json_size (pe_json E) arr)] (np_uidPolicys np) of
                       Inl e \<Rightarrow> Inl e
                     | Inr ps \<Rightarrow> Inr (True, np\<lparr>np_hosVersion := (if v = [] then HOS_VERSION else v), np_uidPolicys := ps\<rparr>))))
        else Inr (True, np))"

text \<open>
  \<open>WriteFile(fileName)\<close>: the document holds the version and the policies in order, the temporary ones left out.
\<close>

fun append_policies :: "'j json_ops \<Rightarrow> UidPolicy list \<Rightarrow> 'j \<Rightarrow> policy_exn + 'j" where
  "append_policies J [] root = Inr root"
| "append_policies J (p # ps) root =
     (let v = json_set J (json_set J (json_null J) CONFIG_UID (json_of_string J (up_uid p)))
                CONFIG_POLICY (json_of_string J (up_policy p))
      in if up_policy p = policy_string NET_POLICY_TEMPORARY_ALLOW_METERED then append_policies J ps root
         else (case json_member J root CONFIG_UID_POLICY of None \<Rightarrow> Inl Json_LogicError
               | Some a \<Rightarrow> append_policies J ps (json_set J root CONFIG_UID_POLICY (json_append J a v))))"

definition policy_document :: "'j json_ops \<Rightarrow> NetPolicy \<Rightarrow> policy_exn + 'j" where
  "policy_document J np = append_policies J (u32_prefix (np_uidPolicys np))
     (json_set J (json_null J) CONFIG_HOS_VERSION (json_of_string J (np_hosVersion np)))"

definition NetPolicyFile_WriteFile ::
    "('f, 'j) policy_env \<Rightarrow> string \<Rightarrow> 'f net_policy_file \<Rightarrow> policy_exn + (bool \<times> 'f net_policy_file)" where
  "NetPolicyFile_WriteFile E fileName s =
     (if fileName = [] then Inr (False, s)
      else let r = fo_open_out (pe_file E) fileName (pf_fs s) in
        if \<not> fst r then Inr (False, s\<lparr>pf_fs := snd r\<rparr>)
        else case policy_document (pe_json E) (pf_netPolicy s) of Inl e \<Rightarrow> Inl e
             | Inr root \<Rightarrow> Inr (True, s\<lparr>pf_fs :=
                 fo_write_close (pe_file E) fileName (c_str (json_write (pe_json E) root)) (snd r)\<rparr>))"

text \<open>The three changes of the list in memory that \<open>WriteFile(op, uid, policy)\<close> makes.\<close>

definition has_uid :: "uint32 \<Rightarrow> UidPolicy \<Rightarrow> bool" where
  "has_uid uid p \<longleftrightarrow> up_uid p = to_string_u32 uid"

fun change_policies :: "NetUidPolicyOpType \<Rightarrow> uint32 \<Rightarrow> NetUidPolicy \<Rightarrow> UidPolicy list \<Rightarrow> UidPolicy list" where
  "change_policies NET_POLICY_UID_OP_TYPE_UPDATE uid policy ps =
     update_first (has_uid uid) (\<lambda>p. p\<lparr>up_policy := policy_string policy\<rparr>) ps"
| "change_policies NET_POLICY_UID_OP_TYPE_DELETE uid policy ps = erase_first (has_uid uid) ps"
| "change_policies NET_POLICY_UID_OP_TYPE_ADD uid policy ps =
     ps @ [\<lparr>up_uid = to_string_u32 uid, up_policy = policy_string policy\<rparr>]"

definition NetPolicyFile_WriteFile_op ::
    "('f, 'j) policy_env \<Rightarrow> NetUidPolicyOpType \<Rightarrow> uint32 \<Rightarrow> NetUidPolicy \<Rightarrow> 'f net_policy_file
       \<Rightarrow> policy_exn + (bool \<times> 'f net_policy_file)" where
  "NetPolicyFile_WriteFile_op E op uid policy s =
     NetPolicyFile_WriteFile E POLICY_FILE_NAME
       (s\<lparr>pf_netPolicy := (pf_netPolicy s)\<lparr>np_uidPolicys := change_policies op uid policy (np_uidPolicys (pf_netPolicy s))\<rparr>\<rparr>)"

text \<open>\<open>std::stol\<close>, and the searches that use it.\<close>

definition stol_exn :: "('f, 'j) policy_env \<Rightarrow> string \<Rightarrow> policy_exn + int" where
  "stol_exn E s = (case stol (pe_long_bits E) s of Inl e \<Rightarrow> Inl (Std e) | Inr v \<Rightarrow> Inr v)"

fun exists_uid :: "('f, 'j) policy_env \<Rightarrow> uint32 \<Rightarrow> UidPolicy list \<Rightarrow> policy_exn + bool" where
  "exists_uid E uid [] = Inr False"
| "exists_uid E uid (p # ps) =
     (case stol_exn E (up_uid p) of Inl e \<Rightarrow> Inl e
      | Inr v \<Rightarrow> if word_of_int v = uid then Inr True else exists_uid E uid ps)"

definition NetPolicyFile_IsUidPolicyExist :: "('f, 'j) policy_env \<Rightarrow> uint32 \<Rightarrow> NetPolicy \<Rightarrow> policy_exn + bool" where
  "NetPolicyFile_IsUidPolicyExist E uid np = exists_uid E uid (u32_prefix (np_uidPolicys np))"

definition NetPolicyFile_GetUidPolicy :: "('f, 'j) policy_env \<Rightarrow> uint32 \<Rightarrow> NetPolicy \<Rightarrow> policy_exn + NetUidPolicy" where
  "NetPolicyFile_GetUidPolicy E uid np =
     (case find (has_uid uid) (np_uidPolicys np) of
        None \<Rightarrow> Inr NET_POLICY_NONE
      | Some p \<Rightarrow> (case stol_exn E (up_policy p) of Inl e \<Rightarrow> Inl e | Inr v \<Rightarrow> Inr (word_of_int v)))"

fun uids_with :: "('f, 'j) policy_env \<Rightarrow> NetUidPolicy \<Rightarrow> UidPolicy list \<Rightarrow> uint32 list \<Rightarrow> policy_exn + uint32 list" where
  "uids_with E policy [] uids = Inr uids"
| "uids_with E policy (p # ps) uids =
     (if up_policy p = policy_string policy
      then (case stol_exn E (up_uid p) of Inl e \<Rightarrow> Inl e
            | Inr v \<Rightarrow> uids_with E policy ps (uids @ [word_of_int v]))
      else uids_with E policy ps uids)"

definition NetPolicyFile_GetUids ::
    "('f, 'j) policy_env \<Rightarrow> NetUidPolicy \<Rightarrow> uint32 list \<Rightarrow> NetPolicy \<Rightarrow> policy_exn + (bool \<times> uint32 list)" where
  "NetPolicyFile_GetUids E policy uids np =
     (case uids_with E policy (np_uidPolicys np) uids of Inl e \<Rightarrow> Inl e | Inr us \<Rightarrow> Inr (True, us))"

definition NetPolicyFile_InitPolicy ::
    "('f, 'j) policy_env \<Rightarrow> 'f net_policy_file \<Rightarrow> policy_exn + (bool \<times> 'f net_policy_file)" where
  "NetPolicyFile_InitPolicy E s =
     (case NetPolicyFile_ReadFile E POLICY_FILE_NAME (pf_fs s) of
        None \<Rightarrow>
          (let r = NetPolicyFile_CreateFile E POLICY_FILE_NAME (pf_fs s)
           in Inr (fst r, s\<lparr>pf_fs := snd r\<rparr>))
      | Some content \<Rightarrow>
          if content = [] then Inr (True, s)
          else (case NetPolicyFile_Json2Obj E content (pf_netPolicy s) of Inl e \<Rightarrow> Inl e
                | Inr (ok, np) \<Rightarrow> Inr (ok, s\<lparr>pf_netPolicy := np\<rparr>)))"

end
