(* ===== verification/Net_Policy_Service.thy ===== *)
theory Net_Policy_Service
  imports Net_Policy_File
begin

text \<open>
  \<open>NetPolicyTraffic\<close> and \<open>NetPolicyService\<close> (\<open>net_policy_traffic.cpp\<close>,
  \<open>net_policy_service.cpp\<close>), the abstract map from identifiers to policies they implement, and
  what the pair keeps across a restart.
\<close>

section \<open>The service\<close>

record 'f policy_state =
  ps_file :: "'f net_policy_file"
  ps_trafficHasFile :: bool
  ps_registerToService :: bool
  ps_state :: ServiceRunningState

definition NetPolicyTraffic_IsPolicyValid :: "NetUidPolicy \<Rightarrow> bool" where
  "NetPolicyTraffic_IsPolicyValid policy \<longleftrightarrow>
     policy = NET_POLICY_NONE \<or> policy = NET_POLICY_ALLOW_METERED_BACKGROUND \<or>
     policy = NET_POLICY_TEMPORARY_ALLOW_METERED \<or> policy = NET_POLICY_REJECT_METERED_BACKGROUND \<or>
     policy = NET_POLICY_ALLOW_ALL \<or> policy = NET_POLICY_REJECT_ALL"

type_synonym 'a policy_result = "policy_exn + 'a"

text \<open>The three operations differ only in the kind of change they ask \<open>WriteFile\<close> for.\<close>

definition write_policy ::
    "('f, 'j) policy_env \<Rightarrow> NetUidPolicyOpType \<Rightarrow> uint32 \<Rightarrow> NetUidPolicy \<Rightarrow> 'f policy_state
       \<Rightarrow> (NetPolicyResultCode \<times> 'f policy_state) policy_result" where
  "write_policy E op uid policy s =
     (if \<not> ps_trafficHasFile s then Inr (ERR_INTERNAL_ERROR, s)
      else if \<not> NetPolicyTraffic_IsPolicyValid policy then Inr (ERR_INVALID_POLICY, s)
      else (case NetPolicyFile_WriteFile_op E op uid policy (ps_file s) of Inl e \<Rightarrow> Inl e
            | Inr (ok, f) \<Rightarrow> Inr (if ok then POLICY_ERR_NONE else ERR_INTERNAL_ERROR, s\<lparr>ps_file := f\<rparr>)))"

definition NetPolicyTraffic_AddUidPolicy where
  "NetPolicyTraffic_AddUidPolicy E uid policy s = write_policy E NET_POLICY_UID_OP_TYPE_ADD uid policy s"
definition NetPolicyTraffic_SetUidPolicy where
  "NetPolicyTraffic_SetUidPolicy E uid policy s = write_policy E NET_POLICY_UID_OP_TYPE_UPDATE uid policy s"
definition NetPolicyTraffic_DeleteUidPolicy where
  "NetPolicyTraffic_DeleteUidPolicy E uid policy s = write_policy E NET_POLICY_UID_OP_TYPE_DELETE uid policy s"

definition NetPolicyService_new :: "'f \<Rightarrow> 'f policy_state" where
  "NetPolicyService_new fs =
     \<lparr>ps_file = \<lparr>pf_netPolicy = \<lparr>np_uidPolicys = [], np_hosVersion = []\<rparr>, pf_fs = fs\<rparr>,
      ps_trafficHasFile = True, ps_registerToService = False, ps_state = STATE_STOPPED\<rparr>"

definition NetPolicyService_Init :: "('f, 'j) policy_env \<Rightarrow> 'f policy_state \<Rightarrow> (bool \<times> 'f policy_state) policy_result" where
  "NetPolicyService_Init E s =
     (if \<not> pe_registered E then Inr (False, s\<lparr>ps_registerToService := False\<rparr>)
      else if \<not> ps_registerToService s \<and> \<not> pe_publish E then Inr (False, s)
      else (case NetPolicyFile_InitPolicy E (ps_file s) of Inl e \<Rightarrow> Inl e
            | Inr (ok, f) \<Rightarrow> Inr (ok, s\<lparr>ps_registerToService := True, ps_file := f\<rparr>)))"

definition NetPolicyService_OnStart :: "('f, 'j) policy_env \<Rightarrow> 'f policy_state \<Rightarrow> ('f policy_state) policy_result" where
  "NetPolicyService_OnStart E s =
     (if ps_state s = STATE_RUNNING then Inr s
      else (case NetPolicyService_Init E s of Inl e \<Rightarrow> Inl e
            | Inr (ok, t) \<Rightarrow> Inr (if ok then t\<lparr>ps_state := STATE_RUNNING\<rparr> else t)))"

definition NetPolicyService_OnStop :: "'f policy_state \<Rightarrow> 'f policy_state" where
  "NetPolicyService_OnStop s = s\<lparr>ps_state := STATE_STOPPED, ps_registerToService := False\<rparr>"

definition NetPolicyService_SetUidPolicy ::
    "('f, 'j) policy_env \<Rightarrow> uint32 \<Rightarrow> NetUidPolicy \<Rightarrow> 'f policy_state
       \<Rightarrow> (NetPolicyResultCode \<times> 'f policy_state) policy_result" where
  "NetPolicyService_SetUidPolicy E uid policy s =
     (if policy = NET_POLICY_NONE then NetPolicyTraffic_DeleteUidPolicy E uid policy s
      else (case NetPolicyFile_IsUidPolicyExist E uid (pf_netPolicy (ps_file s)) of Inl e \<Rightarrow> Inl e
            | Inr b \<Rightarrow> if \<not> b then NetPolicyTraffic_AddUidPolicy E uid policy s
                      else NetPolicyTraffic_SetUidPolicy E uid policy s))"

definition NetPolicyService_GetUidPolicy ::
    "('f, 'j) policy_env \<Rightarrow> uint32 \<Rightarrow> 'f policy_state \<Rightarrow> NetUidPolicy policy_result" where
  "NetPolicyService_GetUidPolicy E uid s = NetPolicyFile_GetUidPolicy E uid (pf_netPolicy (ps_file s))"

definition NetPolicyService_GetUids ::
    "('f, 'j) policy_env \<Rightarrow> NetUidPolicy \<Rightarrow> 'f policy_state \<Rightarrow> (uint32 list) policy_result" where
  "NetPolicyService_GetUids E policy s =
     (case NetPolicyFile_GetUids E policy [] (pf_netPolicy (ps_file s)) of Inl e \<Rightarrow> Inl e | Inr (_, uids) \<Rightarrow> Inr uids)"

definition allowed_by :: "NetUidPolicy \<Rightarrow> bool" where
  "allowed_by uidPolicy \<longleftrightarrow>
     (if uidPolicy = NET_POLICY_NONE then True
      else if (ucast uidPolicy :: uint32) AND NET_POLICY_ALLOW_MASK \<noteq> 0 then True else False)"

definition NetPolicyService_IsUidNetAccess_metered ::
    "('f, 'j) policy_env \<Rightarrow> uint32 \<Rightarrow> bool \<Rightarrow> 'f policy_state \<Rightarrow> bool policy_result" where
  "NetPolicyService_IsUidNetAccess_metered E uid metered s =
     (case NetPolicyFile_GetUidPolicy E uid (pf_netPolicy (ps_file s)) of Inl e \<Rightarrow> Inl e | Inr p \<Rightarrow> Inr (allowed_by p))"

definition NetPolicyService_IsUidNetAccess_iface ::
    "('f, 'j) policy_env \<Rightarrow> uint32 \<Rightarrow> string \<Rightarrow> 'f policy_state \<Rightarrow> bool policy_result" where
  "NetPolicyService_IsUidNetAccess_iface E uid ifaceName s =
     (case NetPolicyFile_GetUidPolicy E uid (pf_netPolicy (ps_file s)) of Inl e \<Rightarrow> Inl e | Inr p \<Rightarrow> Inr (allowed_by p))"

section \<open>The abstract map\<close>

text \<open>
  The contract: a finite map from identifiers to policies. \<open>entry_list\<close> relates the list of decimal
  strings to it: no identifier twice, every entry printed from an identifier and a valid policy.
\<close>

definition entry_of :: "uint32 \<times> NetUidPolicy \<Rightarrow> UidPolicy" where
  "entry_of e = \<lparr>up_uid = to_string_u32 (fst e), up_policy = policy_string (snd e)\<rparr>"

definition stored_policy :: "NetUidPolicy \<Rightarrow> bool" where
  "stored_policy p \<longleftrightarrow> NetPolicyTraffic_IsPolicyValid p \<and> p \<noteq> NET_POLICY_NONE"

definition entry_list :: "(uint32 \<times> NetUidPolicy) list \<Rightarrow> UidPolicy list \<Rightarrow> bool" where
  "entry_list es ps \<longleftrightarrow> ps = map entry_of es \<and> distinct (map fst es) \<and> (\<forall>e \<in> set es. stored_policy (snd e))"

definition represents :: "'f policy_state \<Rightarrow> (uint32 \<Rightarrow> NetUidPolicy option) \<Rightarrow> bool" where
  "represents s m \<longleftrightarrow> ps_trafficHasFile s \<and>
     (\<exists>es. entry_list es (np_uidPolicys (pf_netPolicy (ps_file s))) \<and> m = map_of es)"

definition set_policy :: "uint32 \<Rightarrow> NetUidPolicy \<Rightarrow> (uint32 \<Rightarrow> NetUidPolicy option) \<Rightarrow> (uint32 \<Rightarrow> NetUidPolicy option)" where
  "set_policy uid policy m = m(uid := if policy = NET_POLICY_NONE then None else Some policy)"

end
