(* ===== verification/Net_Policy_Properties.thy ===== *)
theory Net_Policy_Properties
  imports Net_Policy_Service
begin

text \<open>
  The properties of the policy service: it implements a map from identifiers to policies, the map
  survives a restart except for the temporary policies, and where it does not: stopping and starting
  the same object, identifiers written in another form in the file, and a 32-bit \<open>long\<close>.
\<close>

section \<open>Decimal strings\<close>

lemma word32_of_uint [simp]: "word_of_int (uint (w :: uint32)) = w"
  by simp

lemma stol_exn_uid:
  assumes "33 \<le> pe_long_bits E"
  shows "stol_exn E (to_string_u32 w) = Inr (uint w)"
proof -
  have "(2 :: int) ^ 32 \<le> 2 ^ (pe_long_bits E - 1)" using assms by (intro power_increasing) auto
  moreover have "uint w < 2 ^ 32" using unsigned_less [of w] by simp
  ultimately have "\<not> (2 :: int) ^ (pe_long_bits E - 1) \<le> int (unat w)" by simp
  then show ?thesis by (simp only: stol_exn_def to_string_u32_def stol_nat_to_string if_False) simp
qed

lemma policy_string_inject [simp]: "policy_string p = policy_string q \<longleftrightarrow> p = q"
  by (simp add: policy_string_def)

lemma entry_of_simps [simp]:
  "up_uid (entry_of e) = to_string_u32 (fst e)" "up_policy (entry_of e) = policy_string (snd e)"
  "has_uid uid (entry_of e) \<longleftrightarrow> fst e = uid"
  by (simp_all add: entry_of_def has_uid_def)

lemma u32_prefix_short [simp]: "length xs < 2 ^ 32 \<Longrightarrow> u32_prefix xs = xs"
  by (simp add: u32_prefix_def)

section \<open>The list implements the map\<close>

lemma exists_uid_entries:
  assumes "33 \<le> pe_long_bits E"
  shows "exists_uid E uid (map entry_of es) = Inr (uid \<in> fst ` set es)"
  by (induction es) (auto simp: stol_exn_uid [OF assms])

lemma find_entries:
  "find (has_uid uid) (map entry_of es) = map_option (\<lambda>p. entry_of (uid, p)) (map_of es uid)"
  by (induction es) auto

lemma uids_with_entries:
  assumes "33 \<le> pe_long_bits E"
  shows "uids_with E policy (map entry_of es) us = Inr (us @ map fst (filter (\<lambda>e. snd e = policy) es))"
  by (induction es arbitrary: us) (auto simp: stol_exn_uid [OF assms])

lemma entry_list_add:
  assumes "entry_list es ps" and "uid \<notin> fst ` set es" and "stored_policy p"
  shows "entry_list (es @ [(uid, p)]) (change_policies NET_POLICY_UID_OP_TYPE_ADD uid p ps)"
    "map_of (es @ [(uid, p)]) = set_policy uid p (map_of es)"
proof -
  show "entry_list (es @ [(uid, p)]) (change_policies NET_POLICY_UID_OP_TYPE_ADD uid p ps)"
    using assms by (auto simp: entry_list_def entry_of_def)
  have "uid \<notin> dom (map_of es)" using assms(2) by (simp add: dom_map_of_conv_image_fst)
  then show "map_of (es @ [(uid, p)]) = set_policy uid p (map_of es)"
    using assms(3) by (auto simp: set_policy_def stored_policy_def map_add_def fun_eq_iff split: option.splits)
qed

lemma update_first_entries:
  "update_first (has_uid uid) (\<lambda>p. p\<lparr>up_policy := policy_string q\<rparr>) (map entry_of es) =
     map entry_of (update_first (\<lambda>e. fst e = uid) (\<lambda>e. (fst e, q)) es)"
  by (induction es) (auto simp: entry_of_def has_uid_def)

lemma map_of_update_first:
  "map_of (update_first (\<lambda>e. fst e = k) (\<lambda>e. (fst e, q)) es) = (if k \<in> fst ` set es then (map_of es)(k \<mapsto> q) else map_of es)"
  by (induction es) (auto simp: fun_eq_iff)

lemma entry_list_update:
  assumes "entry_list es ps" and "uid \<in> fst ` set es" and "stored_policy p"
  shows "\<exists>es'. entry_list es' (change_policies NET_POLICY_UID_OP_TYPE_UPDATE uid p ps) \<and>
    map_of es' = set_policy uid p (map_of es)"
proof (intro exI conjI)
  let ?es = "update_first (\<lambda>e. fst e = uid) (\<lambda>e. (fst e, p)) es"
  have "distinct (map fst ?es)" using assms(1) by (subst map_update_first_same) (simp_all add: entry_list_def)
  moreover have "\<forall>e \<in> set ?es. stored_policy (snd e)"
    using assms(1,3) set_update_first [of "\<lambda>e. fst e = uid" "\<lambda>e. (fst e, p)" es] by (force simp: entry_list_def)
  ultimately show "entry_list ?es (change_policies NET_POLICY_UID_OP_TYPE_UPDATE uid p ps)"
    using assms(1) by (simp add: entry_list_def update_first_entries)
  show "map_of ?es = set_policy uid p (map_of es)"
    using assms(2,3) by (auto simp: map_of_update_first set_policy_def stored_policy_def)
qed

lemma entry_list_delete:
  assumes "entry_list es ps"
  shows "\<exists>es'. entry_list es' (change_policies NET_POLICY_UID_OP_TYPE_DELETE uid q ps) \<and>
    map_of es' = set_policy uid NET_POLICY_NONE (map_of es)"
proof (intro exI conjI)
  let ?es = "filter (\<lambda>e. fst e \<noteq> uid) es"
  have "erase_first (\<lambda>e. fst e = uid) es = ?es" using assms by (intro erase_first_unique) (simp add: entry_list_def)
  then show "entry_list ?es (change_policies NET_POLICY_UID_OP_TYPE_DELETE uid q ps)"
    using assms by (auto simp: entry_list_def erase_first_map distinct_map_filter)
  show "map_of ?es = set_policy uid NET_POLICY_NONE (map_of es)"
    by (induction es) (auto simp: set_policy_def fun_eq_iff)
qed

lemma stored_policy_cases:
  "NetPolicyTraffic_IsPolicyValid p \<longleftrightarrow> p = NET_POLICY_NONE \<or> stored_policy p"
  by (auto simp: stored_policy_def NetPolicyTraffic_IsPolicyValid_def)

section \<open>The document\<close>

definition entry_json :: "'j json_ops \<Rightarrow> UidPolicy \<Rightarrow> 'j" where
  "entry_json J p = json_set J (json_set J (json_null J) CONFIG_UID (json_of_string J (up_uid p)))
     CONFIG_POLICY (json_of_string J (up_policy p))"

definition persistent :: "UidPolicy \<Rightarrow> bool" where
  "persistent p \<longleftrightarrow> up_policy p \<noteq> policy_string NET_POLICY_TEMPORARY_ALLOW_METERED"

lemma json_facts:
  assumes "json_laws J"
  shows "json_asString J (json_of_string J s) = Some s" "json_member J (json_null J) k = Some (json_null J)"
    "json_elems J (json_null J) []"
  using assms unfolding json_laws_def by blast+

lemma json_set_member:
  assumes "json_laws J" and "v = json_null J \<or> json_isObject J v"
  shows "json_isObject J (json_set J v k w)" "json_member J (json_set J v k w) k' = (if k' = k then Some w else json_member J v k')"
  using assms unfolding json_laws_def by blast+

lemma json_append_elems:
  assumes "json_laws J" and "a = json_null J \<or> json_isArray J a" and "json_elems J a xs" and "Suc (length xs) < 2 ^ 32"
  shows "json_isArray J (json_append J a x)" "json_elems J (json_append J a x) (xs @ [x])"
  using assms unfolding json_laws_def by blast+

lemma entry_json_reads:
  assumes "json_laws J"
  shows "json_string_at J (entry_json J p) CONFIG_UID = Inr (up_uid p)"
    "json_string_at J (entry_json J p) CONFIG_POLICY = Inr (up_policy p)"
  using json_facts [OF assms] json_set_member [OF assms]
  by (simp_all add: json_string_at_def entry_json_def json_get_def CONFIG_UID_def CONFIG_POLICY_def)

lemma read_uid_policies_ok:
  assumes "json_laws J" and "\<forall>i \<in> set is. json_at J a (of_nat i) = Some (entry_json J (f i))"
  shows "read_uid_policies J a is acc = Inr (acc @ map f is)"
  using assms(2)
proof (induction "is" arbitrary: acc)
  case (Cons i "is")
  then show ?case using entry_json_reads [OF assms(1), of "f i"] by simp
qed simp

lemma append_policies_ok:
  assumes "json_laws J" and "json_isObject J root" and "json_member J root CONFIG_UID_POLICY = Some a"
    and "a = json_null J \<or> json_isArray J a" and "json_elems J a xs" and "length xs + length ps < 2 ^ 32"
  shows "\<exists>root' a'. append_policies J ps root = Inr root' \<and> json_member J root' CONFIG_UID_POLICY = Some a' \<and>
    json_elems J a' (xs @ map (entry_json J) (filter persistent ps)) \<and>
    json_member J root' CONFIG_HOS_VERSION = json_member J root CONFIG_HOS_VERSION"
  using assms(2-6)
proof (induction ps arbitrary: root a xs)
  case Nil
  then show ?case by auto
next
  case (Cons p ps)
  show ?case
  proof (cases "persistent p")
    case False
    then show ?thesis using Cons.IH [OF Cons.prems(1-4)] Cons.prems(5) by (simp add: persistent_def Let_def)
  next
    case True
    let ?a = "json_append J a (entry_json J p)"
    let ?root = "json_set J root CONFIG_UID_POLICY ?a"
    have l: "Suc (length xs) < 2 ^ 32" "length (xs @ [entry_json J p]) + length ps < 2 ^ 32" using Cons.prems(5) by simp_all
    have "json_isArray J ?a" "json_elems J ?a (xs @ [entry_json J p])"
      using json_append_elems [OF assms(1) Cons.prems(3,4) l(1)] .
    moreover have "json_isObject J ?root" "json_member J ?root CONFIG_UID_POLICY = Some ?a"
      "json_member J ?root CONFIG_HOS_VERSION = json_member J root CONFIG_HOS_VERSION"
      using json_set_member [OF assms(1), of root] Cons.prems(1) by (simp_all add: CONFIG_UID_POLICY_def CONFIG_HOS_VERSION_def)
    ultimately show ?thesis
      using Cons.IH [of ?root ?a "xs @ [entry_json J p]"] l(2) True Cons.prems(2)
      by (simp add: persistent_def entry_json_def Let_def)
  qed
qed

lemma policy_document_ok:
  assumes "json_laws J" and "length (np_uidPolicys np) < 2 ^ 32"
  shows "\<exists>root a. policy_document J np = Inr root \<and> json_member J root CONFIG_UID_POLICY = Some a \<and>
    json_elems J a (map (entry_json J) (filter persistent (np_uidPolicys np))) \<and>
    json_string_at J root CONFIG_HOS_VERSION = Inr (np_hosVersion np)"
proof -
  let ?root = "json_set J (json_null J) CONFIG_HOS_VERSION (json_of_string J (np_hosVersion np))"
  have "json_isObject J ?root" "json_member J ?root CONFIG_UID_POLICY = Some (json_null J)"
    "json_member J ?root CONFIG_HOS_VERSION = Some (json_of_string J (np_hosVersion np))"
    using json_set_member [OF assms(1), of "json_null J"] json_facts [OF assms(1)]
    by (simp_all add: CONFIG_UID_POLICY_def CONFIG_HOS_VERSION_def)
  then show ?thesis
    using append_policies_ok [OF assms(1), of ?root "json_null J" "[]" "np_uidPolicys np"] assms(2) json_facts [OF assms(1)]
    by (auto simp: policy_document_def json_string_at_def json_get_def)
qed


section \<open>Setting and asking\<close>

definition opens_for_writing :: "('f, 'j) policy_env \<Rightarrow> 'f policy_state \<Rightarrow> bool" where
  "opens_for_writing E s \<longleftrightarrow> fst (fo_open_out (pe_file E) POLICY_FILE_NAME (pf_fs (ps_file s)))"

definition policies_of :: "'f policy_state \<Rightarrow> UidPolicy list" where
  "policies_of s = np_uidPolicys (pf_netPolicy (ps_file s))"

text \<open>The file holds the document of the given policies.\<close>

definition on_disk :: "('f, 'j) policy_env \<Rightarrow> 'f \<Rightarrow> NetPolicy \<Rightarrow> bool" where
  "on_disk E fs np \<longleftrightarrow> (\<exists>root. policy_document (pe_json E) np = Inr root \<and>
     fo_stat (pe_file E) POLICY_FILE_NAME fs = 0 \<and>
     fo_open_in (pe_file E) POLICY_FILE_NAME fs = Some (c_str (json_write (pe_json E) root)))"

lemma POLICY_FILE_NAME_nonempty [simp]: "POLICY_FILE_NAME \<noteq> []"
  by (simp add: POLICY_FILE_NAME_def)

lemma write_policy_effect:
  assumes "ps_trafficHasFile s" and "NetPolicyTraffic_IsPolicyValid policy" and "json_laws (pe_json E)"
    and "length (change_policies op uid policy (policies_of s)) < 2 ^ 32"
  shows "\<exists>t. write_policy E op uid policy s = Inr (if opens_for_writing E s then POLICY_ERR_NONE else ERR_INTERNAL_ERROR, t) \<and>
    policies_of t = change_policies op uid policy (policies_of s) \<and> ps_trafficHasFile t \<and>
    ps_state t = ps_state s \<and> ps_registerToService t = ps_registerToService s \<and>
    np_hosVersion (pf_netPolicy (ps_file t)) = np_hosVersion (pf_netPolicy (ps_file s)) \<and>
    (file_keeps (pe_file E) \<and> opens_for_writing E s \<longrightarrow> on_disk E (pf_fs (ps_file t)) (pf_netPolicy (ps_file t)))"
proof -
  let ?np = "(pf_netPolicy (ps_file s))\<lparr>np_uidPolicys := change_policies op uid policy (policies_of s)\<rparr>"
  obtain root where root: "policy_document (pe_json E) ?np = Inr root"
    using policy_document_ok [OF assms(3), of ?np] assms(4) by auto
  obtain b fs where o: "fo_open_out (pe_file E) POLICY_FILE_NAME (pf_fs (ps_file s)) = (b, fs)" by (cases "fo_open_out (pe_file E) POLICY_FILE_NAME (pf_fs (ps_file s))")
  show ?thesis
  proof (cases b)
    case True
    let ?t = "s\<lparr>ps_file := \<lparr>pf_netPolicy = ?np, pf_fs = fo_write_close (pe_file E) POLICY_FILE_NAME (c_str (json_write (pe_json E) root)) fs\<rparr>\<rparr>"
    have "on_disk E (pf_fs (ps_file ?t)) (pf_netPolicy (ps_file ?t))" if "file_keeps (pe_file E)"
      using that root o True by (simp add: on_disk_def file_keeps_def)
    then show ?thesis using assms(1,2) o root True
      by (intro exI [of _ ?t]) (simp add: write_policy_def NetPolicyFile_WriteFile_op_def NetPolicyFile_WriteFile_def
          opens_for_writing_def policies_of_def Let_def)
  next
    case False
    let ?t = "s\<lparr>ps_file := \<lparr>pf_netPolicy = ?np, pf_fs = fs\<rparr>\<rparr>"
    show ?thesis using assms(1,2) o False
      by (intro exI [of _ ?t]) (simp add: write_policy_def NetPolicyFile_WriteFile_op_def NetPolicyFile_WriteFile_def
          opens_for_writing_def policies_of_def Let_def)
  qed
qed

lemma length_change_policies: "length (change_policies op uid policy ps) \<le> Suc (length ps)"
proof (cases op)
  case NET_POLICY_UID_OP_TYPE_DELETE
  have "length (erase_first P xs) \<le> length xs" for P and xs :: "UidPolicy list" by (induction xs) auto
  then show ?thesis using NET_POLICY_UID_OP_TYPE_DELETE by (simp add: le_SucI)
qed simp_all

lemma represents_entries:
  "represents s m \<longleftrightarrow> ps_trafficHasFile s \<and> (\<exists>es. entry_list es (policies_of s) \<and> m = map_of es)"
  by (simp add: represents_def policies_of_def)

lemma entry_list_length:
  assumes "entry_list es ps"
  shows "length ps = card (dom (map_of es))"
  using assms by (simp add: entry_list_def dom_map_of_conv_image_fst card_image distinct_map distinct_card)

lemma change_represents:
  assumes "entry_list es ps" and "33 \<le> pe_long_bits E" and "length ps < 2 ^ 32" and "NetPolicyTraffic_IsPolicyValid policy"
    and "op = (if policy = NET_POLICY_NONE then NET_POLICY_UID_OP_TYPE_DELETE
      else if uid \<in> fst ` set es then NET_POLICY_UID_OP_TYPE_UPDATE else NET_POLICY_UID_OP_TYPE_ADD)"
  shows "\<exists>es'. entry_list es' (change_policies op uid policy ps) \<and> map_of es' = set_policy uid policy (map_of es)"
  using assms(4) unfolding stored_policy_cases
proof
  assume "policy = NET_POLICY_NONE"
  then show ?thesis using entry_list_delete [OF assms(1), of uid policy] assms(5) by simp
next
  assume p: "stored_policy policy"
  then have "policy \<noteq> NET_POLICY_NONE" by (simp add: stored_policy_def)
  then have op: "op = (if uid \<in> fst ` set es then NET_POLICY_UID_OP_TYPE_UPDATE else NET_POLICY_UID_OP_TYPE_ADD)"
    using assms(5) by simp
  show ?thesis
  proof (cases "uid \<in> fst ` set es")
    case True
    then show ?thesis using entry_list_update [OF assms(1) True p] op by (simp del: change_policies.simps)
  next
    case False
    then have "op = NET_POLICY_UID_OP_TYPE_ADD" using op by simp
    then show ?thesis using entry_list_add [OF assms(1) False p] by blast
  qed
qed

lemma SetUidPolicy_is_write:
  assumes "entry_list es (policies_of s)" and "33 \<le> pe_long_bits E" and "length (policies_of s) < 2 ^ 32"
  shows "NetPolicyService_SetUidPolicy E uid policy s = write_policy E
    (if policy = NET_POLICY_NONE then NET_POLICY_UID_OP_TYPE_DELETE
      else if uid \<in> fst ` set es then NET_POLICY_UID_OP_TYPE_UPDATE else NET_POLICY_UID_OP_TYPE_ADD) uid policy s"
proof -
  have "exists_uid E uid (u32_prefix (policies_of s)) = Inr (uid \<in> fst ` set es)"
    using assms exists_uid_entries [OF assms(2)] by (simp add: entry_list_def)
  then show ?thesis
    by (simp add: NetPolicyService_SetUidPolicy_def NetPolicyFile_IsUidPolicyExist_def NetPolicyTraffic_DeleteUidPolicy_def
        NetPolicyTraffic_AddUidPolicy_def NetPolicyTraffic_SetUidPolicy_def policies_of_def)
qed



text \<open>What a decimal policy reads back as, and what the mask admits.\<close>

lemma word_of_int_policy_string:
  assumes "33 \<le> pe_long_bits E"
  shows "stol_exn E (policy_string p) = Inr (uint p)"
  by (simp add: policy_string_def stol_exn_uid [OF assms])

lemma allowed_by_stored:
  assumes "stored_policy p"
  shows "allowed_by p \<longleftrightarrow> p \<noteq> NET_POLICY_REJECT_METERED_BACKGROUND \<and> p \<noteq> NET_POLICY_REJECT_ALL"
  using assms by (auto simp: stored_policy_def NetPolicyTraffic_IsPolicyValid_def allowed_by_def net_uid_policy_defs
      NET_POLICY_ALLOW_MASK_def)

lemma allowed_by_none: "allowed_by NET_POLICY_NONE"
  by (simp add: allowed_by_def)

lemma GetUidPolicy_entries:
  assumes "entry_list es (policies_of s)" and "33 \<le> pe_long_bits E"
  shows "NetPolicyFile_GetUidPolicy E uid (pf_netPolicy (ps_file s)) =
    Inr (case map_of es uid of None \<Rightarrow> NET_POLICY_NONE | Some p \<Rightarrow> p)"
  using assms(1) word_of_int_policy_string [OF assms(2)]
  by (simp add: NetPolicyFile_GetUidPolicy_def entry_list_def policies_of_def find_entries split: option.splits)

lemma service_queries:
  assumes "represents s m" and "33 \<le> pe_long_bits E"
  shows "NetPolicyService_GetUidPolicy E uid s = Inr (case m uid of None \<Rightarrow> NET_POLICY_NONE | Some p \<Rightarrow> p) \<and>
    (\<exists>us. NetPolicyService_GetUids E policy s = Inr us \<and> distinct us \<and> set us = {u. m u = Some policy}) \<and>
    NetPolicyService_IsUidNetAccess_metered E uid metered s =
      Inr (m uid \<noteq> Some NET_POLICY_REJECT_METERED_BACKGROUND \<and> m uid \<noteq> Some NET_POLICY_REJECT_ALL) \<and>
    NetPolicyService_IsUidNetAccess_iface E uid ifaceName s = NetPolicyService_IsUidNetAccess_metered E uid metered s"
proof -
  obtain es where es: "entry_list es (policies_of s)" "m = map_of es"
    using assms(1) by (auto simp: represents_entries)
  note get = GetUidPolicy_entries [OF es(1) assms(2), of uid]
  let ?us = "map fst (filter (\<lambda>e. snd e = policy) es)"
  have "NetPolicyService_GetUids E policy s = Inr ?us"
    using es(1) uids_with_entries [OF assms(2), of policy es "[]"]
    by (simp add: NetPolicyService_GetUids_def NetPolicyFile_GetUids_def entry_list_def policies_of_def)
  moreover have "distinct ?us" using es(1) by (simp add: entry_list_def distinct_map_filter)
  moreover have "set ?us = {u. m u = Some policy}"
    using es by (force simp: entry_list_def map_of_eq_Some_iff)
  moreover have "stored_policy p" if "map_of es uid = Some p" for p
    using es(1) map_of_SomeD [OF that] by (force simp: entry_list_def)
  then have "allowed_by (case m uid of None \<Rightarrow> NET_POLICY_NONE | Some p \<Rightarrow> p) \<longleftrightarrow>
      m uid \<noteq> Some NET_POLICY_REJECT_METERED_BACKGROUND \<and> m uid \<noteq> Some NET_POLICY_REJECT_ALL"
    unfolding es(2) by (cases "map_of es uid") (simp_all add: allowed_by_stored allowed_by_none)
  ultimately show ?thesis
    using get es(2) by (simp add: NetPolicyService_GetUidPolicy_def NetPolicyService_IsUidNetAccess_metered_def
        NetPolicyService_IsUidNetAccess_iface_def)
qed


section \<open>Restarts\<close>

lemma Json2Obj_document:
  assumes "json_laws (pe_json E)" and "length (np_uidPolicys np) < 2 ^ 32" and "policy_document (pe_json E) np = Inr root"
    and "json_reads_back (pe_json E) root"
  shows "NetPolicyFile_Json2Obj E (c_str (json_write (pe_json E) root)) np0 =
    Inr (True, np0\<lparr>np_hosVersion := (if np_hosVersion np = [] then HOS_VERSION else np_hosVersion np),
      np_uidPolicys := np_uidPolicys np0 @ filter persistent (np_uidPolicys np)\<rparr>)"
proof -
  let ?J = "pe_json E" and ?ps = "filter persistent (np_uidPolicys np)"
  obtain a where a: "json_member ?J root CONFIG_UID_POLICY = Some a" "json_elems ?J a (map (entry_json ?J) ?ps)"
    "json_string_at ?J root CONFIG_HOS_VERSION = Inr (np_hosVersion np)"
    using policy_document_ok [OF assms(1,2)] assms(3) by auto
  have len: "length ?ps < 2 ^ 32" and sz: "json_size ?J a = of_nat (length ?ps)"
    and el: "\<forall>i < length ?ps. json_at ?J a (of_nat i) = Some (entry_json ?J (?ps ! i))"
    using a(2) by (simp_all add: json_elems_def)
  have "unat (json_size ?J a) = length ?ps" using len by (simp add: sz unat_of_nat)
  moreover have "read_uid_policies ?J a [0 ..< length ?ps] (np_uidPolicys np0) =
      Inr (np_uidPolicys np0 @ map (\<lambda>i. ?ps ! i) [0 ..< length ?ps])"
    using el by (intro read_uid_policies_ok [OF assms(1)]) simp
  ultimately show ?thesis
    using a(1,3) assms(4) by (simp add: NetPolicyFile_Json2Obj_def json_reads_back_def map_nth)
qed

definition disk_document_ok :: "('f, 'j) policy_env \<Rightarrow> NetPolicy \<Rightarrow> bool" where
  "disk_document_ok E np \<longleftrightarrow> (\<forall>root. policy_document (pe_json E) np = Inr root \<longrightarrow> json_reads_back (pe_json E) root)"

lemma InitPolicy_reads:
  assumes "json_laws (pe_json E)" and "length (np_uidPolicys np) < 2 ^ 32" and "on_disk E (pf_fs f) np"
    and "disk_document_ok E np"
  shows "NetPolicyFile_InitPolicy E f = Inr (True, f\<lparr>pf_netPolicy := (pf_netPolicy f)
    \<lparr>np_hosVersion := (if np_hosVersion np = [] then HOS_VERSION else np_hosVersion np),
     np_uidPolicys := np_uidPolicys (pf_netPolicy f) @ filter persistent (np_uidPolicys np)\<rparr>\<rparr>)"
proof -
  obtain root where root: "policy_document (pe_json E) np = Inr root" "fo_stat (pe_file E) POLICY_FILE_NAME (pf_fs f) = 0"
    "fo_open_in (pe_file E) POLICY_FILE_NAME (pf_fs f) = Some (c_str (json_write (pe_json E) root))"
    using assms(3) by (auto simp: on_disk_def)
  have rb: "json_reads_back (pe_json E) root" using assms(4) root(1) by (simp add: disk_document_ok_def)
  then show ?thesis
    using root Json2Obj_document [OF assms(1,2) root(1) rb, of "pf_netPolicy f"]
    by (simp add: NetPolicyFile_InitPolicy_def NetPolicyFile_ReadFile_def NetPolicyFile_FileExists_def json_reads_back_def)
qed

lemma OnStart_reads:
  assumes "json_laws (pe_json E)" and "length (np_uidPolicys np) < 2 ^ 32" and "on_disk E (pf_fs (ps_file s)) np"
    and "disk_document_ok E np" and "pe_registered E" and "pe_publish E" and "ps_state s = STATE_STOPPED"
  shows "\<exists>t. NetPolicyService_OnStart E s = Inr t \<and> ps_state t = STATE_RUNNING \<and> ps_trafficHasFile t = ps_trafficHasFile s \<and>
    pf_fs (ps_file t) = pf_fs (ps_file s) \<and> policies_of t = policies_of s @ filter persistent (np_uidPolicys np)"
  using InitPolicy_reads [OF assms(1-4)] assms(5-7)
  by (auto simp: NetPolicyService_OnStart_def NetPolicyService_Init_def policies_of_def)

lemma filter_entries:
  assumes "entry_list es ps"
  shows "entry_list (filter (\<lambda>e. snd e \<noteq> NET_POLICY_TEMPORARY_ALLOW_METERED) es) (filter persistent ps)"
  using assms by (auto simp: entry_list_def filter_map distinct_map_filter o_def persistent_def)

definition forget_temporary :: "(uint32 \<Rightarrow> NetUidPolicy option) \<Rightarrow> (uint32 \<Rightarrow> NetUidPolicy option)" where
  "forget_temporary m = (\<lambda>uid. if m uid = Some NET_POLICY_TEMPORARY_ALLOW_METERED then None else m uid)"

lemma map_of_forget:
  assumes "distinct (map fst es)"
  shows "map_of (filter (\<lambda>e. snd e \<noteq> NET_POLICY_TEMPORARY_ALLOW_METERED) es) = forget_temporary (map_of es)"
proof
  fix k
  show "map_of (filter (\<lambda>e. snd e \<noteq> NET_POLICY_TEMPORARY_ALLOW_METERED) es) k = forget_temporary (map_of es) k"
    using assms
  proof (induction es)
    case (Cons e es)
    have "map_of es k = None" if "fst e = k" using Cons.prems that by (auto simp: map_of_eq_None_iff)
    then show ?case using Cons by (auto simp: forget_temporary_def)
  qed (simp add: forget_temporary_def)
qed

text \<open>
  C9. Policies survive a restart. When the file holds the policies of the service, a new service
  that starts from that file system runs and represents the same map without the temporary policies.
\<close>

theorem policies_survive_restart:
  assumes "represents s m" and "card (dom m) < 2 ^ 32" and "json_laws (pe_json E)"
    and "on_disk E (pf_fs (ps_file s)) (pf_netPolicy (ps_file s))" and "disk_document_ok E (pf_netPolicy (ps_file s))"
    and "pe_registered E" and "pe_publish E"
  shows "\<exists>t. NetPolicyService_OnStart E (NetPolicyService_new (pf_fs (ps_file s))) = Inr t \<and>
    ps_state t = STATE_RUNNING \<and> represents t (forget_temporary m)"
proof -
  obtain es where es: "entry_list es (policies_of s)" "m = map_of es"
    using assms(1) by (auto simp: represents_entries)
  have len: "length (np_uidPolicys (pf_netPolicy (ps_file s))) < 2 ^ 32"
    using entry_list_length [OF es(1)] assms(2) es(2) by (simp add: policies_of_def)
  obtain t where t: "NetPolicyService_OnStart E (NetPolicyService_new (pf_fs (ps_file s))) = Inr t"
    "ps_state t = STATE_RUNNING" "ps_trafficHasFile t" "policies_of t = filter persistent (policies_of s)"
    using OnStart_reads [OF assms(3) len _ assms(5-7), of "NetPolicyService_new (pf_fs (ps_file s))"] assms(4)
    by (auto simp: NetPolicyService_new_def policies_of_def)
  have "entry_list (filter (\<lambda>e. snd e \<noteq> NET_POLICY_TEMPORARY_ALLOW_METERED) es) (policies_of t)"
    using filter_entries [OF es(1)] t(4) by simp
  moreover have "forget_temporary m = map_of (filter (\<lambda>e. snd e \<noteq> NET_POLICY_TEMPORARY_ALLOW_METERED) es)"
    using map_of_forget es by (simp add: entry_list_def)
  ultimately have "represents t (forget_temporary m)" unfolding represents_entries using t(3) by blast
  then show ?thesis using t(1,2) by blast
qed

lemma erase_first_append: "\<exists>x \<in> set xs. P x \<Longrightarrow> erase_first P (xs @ ys) = erase_first P xs @ ys"
  by (induction xs) auto

lemma doubled_delete:
  assumes "entry_list es ps" and "map_of es uid = Some p" and "p \<noteq> NET_POLICY_TEMPORARY_ALLOW_METERED"
  shows "\<exists>es2. change_policies NET_POLICY_UID_OP_TYPE_DELETE uid q (ps @ filter persistent ps) = map entry_of es2 \<and>
    map_of es2 uid = Some p \<and> length es2 \<le> 2 * length ps"
proof (intro exI conjI)
  let ?f = "filter (\<lambda>e. snd e \<noteq> NET_POLICY_TEMPORARY_ALLOW_METERED) es" and ?d = "filter (\<lambda>e. fst e \<noteq> uid) es"
  have ds: "distinct (map fst es)" "ps = map entry_of es" using assms(1) by (simp_all add: entry_list_def)
  have fp: "filter persistent ps = map entry_of ?f" using filter_entries [OF assms(1)] by (simp add: entry_list_def)
  have "uid \<in> fst ` set es" using assms(2) by (metis image_iff fst_conv map_of_SomeD)
  then have "\<exists>x \<in> set ps. has_uid uid x" using ds(2) by auto
  moreover have "erase_first (has_uid uid) ps = map entry_of ?d"
    using erase_first_unique [OF ds(1), of uid] ds(2) by (simp add: erase_first_map)
  ultimately show "change_policies NET_POLICY_UID_OP_TYPE_DELETE uid q (ps @ filter persistent ps) = map entry_of (?d @ ?f)"
    by (simp add: erase_first_append fp)
  have "map_of ?d uid = None" by (auto simp: map_of_eq_None_iff)
  moreover have "map_of ?f uid = Some p" using map_of_forget [OF ds(1)] assms(2,3) by (simp add: forget_temporary_def)
  ultimately show "map_of (?d @ ?f) uid = Some p" by (simp add: map_add_def)
  have "length ?d + length ?f \<le> length es + length es" by (intro add_mono length_filter_le)
  then show "length (?d @ ?f) \<le> 2 * length ps" unfolding ds(2) by simp
qed

text \<open>
  C11. Stopping and starting the same service object reads the file on top of the policies in
  memory, so every persistent policy is there twice: removing one succeeds and leaves it in force.
\<close>

theorem restart_in_place_duplicates:
  assumes "represents s m" and "2 * card (dom m) < 2 ^ 32" and "33 \<le> pe_long_bits E" and "json_laws (pe_json E)"
    and "on_disk E (pf_fs (ps_file s)) (pf_netPolicy (ps_file s))" and "disk_document_ok E (pf_netPolicy (ps_file s))"
    and "pe_registered E" and "pe_publish E"
    and "m uid = Some p" and "p \<noteq> NET_POLICY_TEMPORARY_ALLOW_METERED"
  shows "\<exists>t res u. NetPolicyService_OnStart E (NetPolicyService_OnStop s) = Inr t \<and>
    policies_of t = policies_of s @ filter persistent (policies_of s) \<and>
    NetPolicyService_SetUidPolicy E uid NET_POLICY_NONE t = Inr (res, u) \<and>
    NetPolicyService_GetUidPolicy E uid u = Inr p"
proof -
  obtain es where es: "entry_list es (policies_of s)" "m = map_of es" and tr: "ps_trafficHasFile s"
    using assms(1) by (auto simp: represents_entries)
  have cl: "length (policies_of s) = card (dom m)" using entry_list_length [OF es(1)] es(2) by simp
  have len: "length (np_uidPolicys (pf_netPolicy (ps_file s))) < 2 ^ 32" using cl assms(2) by (simp add: policies_of_def)
  obtain t where t: "NetPolicyService_OnStart E (NetPolicyService_OnStop s) = Inr t" "ps_trafficHasFile t"
    "policies_of t = policies_of s @ filter persistent (policies_of s)"
    using OnStart_reads [OF assms(4) len _ assms(6-8), of "NetPolicyService_OnStop s"] assms(5) tr
    by (auto simp: NetPolicyService_OnStop_def policies_of_def)
  obtain es2 where es2: "change_policies NET_POLICY_UID_OP_TYPE_DELETE uid NET_POLICY_NONE (policies_of t) = map entry_of es2"
    "map_of es2 uid = Some p" "length es2 \<le> 2 * length (policies_of s)"
    using doubled_delete [OF es(1) _ assms(10), of uid NET_POLICY_NONE] assms(9) es(2) t(3) by metis
  have short: "length (change_policies NET_POLICY_UID_OP_TYPE_DELETE uid NET_POLICY_NONE (policies_of t)) < 2 ^ 32"
    unfolding es2(1) using es2(3) cl assms(2) by simp
  have valid: "NetPolicyTraffic_IsPolicyValid NET_POLICY_NONE" by (simp add: NetPolicyTraffic_IsPolicyValid_def)
  obtain res u where u: "write_policy E NET_POLICY_UID_OP_TYPE_DELETE uid NET_POLICY_NONE t = Inr (res, u)"
    "policies_of u = map entry_of es2"
    using write_policy_effect [OF t(2) valid assms(4) short] es2(1) by metis
  have "NetPolicyService_GetUidPolicy E uid u = Inr p"
    using word_of_int_policy_string [OF assms(3), of p] u(2) find_entries [of uid es2] es2(2)
    by (simp add: NetPolicyService_GetUidPolicy_def NetPolicyFile_GetUidPolicy_def policies_of_def)
  moreover have "NetPolicyService_SetUidPolicy E uid NET_POLICY_NONE t = Inr (res, u)"
    using u(1) by (simp add: NetPolicyService_SetUidPolicy_def NetPolicyTraffic_DeleteUidPolicy_def)
  ultimately show ?thesis using t(1,3) by blast
qed


section \<open>Entries the service did not write\<close>

text \<open>
  An identifier that the file writes in another form, with a leading zero say, is found by
  \<open>IsUidPolicyExist\<close>, which compares numbers, and not by \<open>WriteFile\<close> and \<open>GetUidPolicy\<close>, which compare
  strings: \<open>SetUidPolicy\<close> reports success, stores nothing, and the policy asked for is \<open>NET_POLICY_NONE\<close>.
\<close>

theorem other_form_ignored:
  assumes "policies_of s = p # ps" and "stol_exn E (up_uid p) = Inr v" and "word_of_int v = uid"
    and "\<forall>q \<in> set (policies_of s). up_uid q \<noteq> to_string_u32 uid" and "length (policies_of s) < 2 ^ 32"
    and "ps_trafficHasFile s" and "json_laws (pe_json E)" and "opens_for_writing E s"
    and "stored_policy policy"
  shows "\<exists>t. NetPolicyService_SetUidPolicy E uid policy s = Inr (POLICY_ERR_NONE, t) \<and>
    policies_of t = policies_of s \<and> NetPolicyService_GetUidPolicy E uid t = Inr NET_POLICY_NONE"
proof -
  have "exists_uid E uid (u32_prefix (policies_of s)) = Inr True" using assms(1-3,5) by simp
  then have run: "NetPolicyService_SetUidPolicy E uid policy s = write_policy E NET_POLICY_UID_OP_TYPE_UPDATE uid policy s"
    using assms(9) by (simp add: NetPolicyService_SetUidPolicy_def NetPolicyFile_IsUidPolicyExist_def
        NetPolicyTraffic_SetUidPolicy_def policies_of_def stored_policy_def)
  have none: "\<forall>q \<in> set (policies_of s). \<not> has_uid uid q" using assms(4) by (simp add: has_uid_def)
  then have same: "change_policies NET_POLICY_UID_OP_TYPE_UPDATE uid policy (policies_of s) = policies_of s" by simp
  obtain t where t: "write_policy E NET_POLICY_UID_OP_TYPE_UPDATE uid policy s = Inr (POLICY_ERR_NONE, t)"
    "policies_of t = policies_of s"
    using write_policy_effect [OF assms(6) _ assms(7), of policy NET_POLICY_UID_OP_TYPE_UPDATE uid] assms(5,8,9)
    unfolding same by (auto simp: stored_policy_def)
  moreover have "NetPolicyService_GetUidPolicy E uid t = Inr NET_POLICY_NONE"
  proof -
    have "find (has_uid uid) (policies_of t) = None" using none t(2) by (simp add: find_None_iff)
    then show ?thesis by (simp add: NetPolicyService_GetUidPolicy_def NetPolicyFile_GetUidPolicy_def policies_of_def)
  qed
  ultimately show ?thesis using run by auto
qed

text \<open>
  Where \<open>long\<close> has 32 bits an identifier of 2147483648 or more, once stored, makes every
  \<open>SetUidPolicy\<close> that has to search past it throw \<open>std::out_of_range\<close>, which no caller catches.
\<close>

theorem large_uid_throws:
  assumes "pe_long_bits E = 32" and "policies_of s = map entry_of es @ entry_of (big, q) # ps"
    and "2 ^ 31 \<le> uint big" and "\<forall>e \<in> set es. fst e \<noteq> uid \<and> uint (fst e) < 2 ^ 31"
    and "length (policies_of s) < 2 ^ 32" and "policy \<noteq> NET_POLICY_NONE"
  shows "NetPolicyService_SetUidPolicy E uid policy s = Inl (Std out_of_range)"
proof -
  have st: "stol_exn E (to_string_u32 w) = (if 2 ^ 31 \<le> uint w then Inl (Std out_of_range) else Inr (uint w))" for w
    using stol_nat_to_string [of 32 "unat w"] by (simp add: stol_exn_def to_string_u32_def assms(1))
  have "exists_uid E uid (map entry_of es @ entry_of (big, q) # ps) = Inl (Std out_of_range)"
    using assms(4)
  proof (induction es)
    case Nil
    then show ?case using assms(3) by (simp add: st)
  next
    case (Cons e es)
    then show ?case by (simp add: st)
  qed
  then show ?thesis using assms(2,5,6)
    by (simp add: NetPolicyService_SetUidPolicy_def NetPolicyFile_IsUidPolicyExist_def policies_of_def)
qed

text \<open>
  A file that the JSON reader rejects is taken for an empty one: the service starts with no
  policies, and the first policy set overwrites the file.
\<close>

theorem malformed_file_lost:
  assumes "fo_stat (pe_file E) POLICY_FILE_NAME fs = 0" and "fo_open_in (pe_file E) POLICY_FILE_NAME fs = Some content"
    and "json_parse (pe_json E) content = (ok, root, errs)" and "\<not> ok \<or> errs \<noteq> []"
    and "pe_registered E" and "pe_publish E" and "json_laws (pe_json E)" and "file_keeps (pe_file E)"
    and "fst (fo_open_out (pe_file E) POLICY_FILE_NAME fs)" and "stored_policy policy" and "33 \<le> pe_long_bits E"
  shows "\<exists>t u. NetPolicyService_OnStart E (NetPolicyService_new fs) = Inr t \<and> ps_state t = STATE_RUNNING \<and>
    NetPolicyService_SetUidPolicy E uid policy t = Inr (POLICY_ERR_NONE, u) \<and>
    on_disk E (pf_fs (ps_file u)) \<lparr>np_uidPolicys = [entry_of (uid, policy)], np_hosVersion = []\<rparr>"
proof -
  let ?t = "(NetPolicyService_new fs)\<lparr>ps_registerToService := True, ps_state := STATE_RUNNING\<rparr>"
  have start: "NetPolicyService_OnStart E (NetPolicyService_new fs) = Inr ?t"
    using assms(1-6) by (auto simp: NetPolicyService_OnStart_def NetPolicyService_Init_def NetPolicyFile_InitPolicy_def
        NetPolicyFile_ReadFile_def NetPolicyFile_FileExists_def NetPolicyFile_Json2Obj_def NetPolicyService_new_def)
  have t: "policies_of ?t = []" "ps_trafficHasFile ?t" "opens_for_writing E ?t" "np_hosVersion (pf_netPolicy (ps_file ?t)) = []"
    using assms(9) by (simp_all add: policies_of_def NetPolicyService_new_def opens_for_writing_def)
  have valid: "NetPolicyTraffic_IsPolicyValid policy" "policy \<noteq> NET_POLICY_NONE" using assms(10) by (simp_all add: stored_policy_def)
  have add: "change_policies NET_POLICY_UID_OP_TYPE_ADD uid policy (policies_of ?t) = [entry_of (uid, policy)]"
    using t(1) by (simp add: entry_of_def)
  obtain u where u: "write_policy E NET_POLICY_UID_OP_TYPE_ADD uid policy ?t = Inr (POLICY_ERR_NONE, u)"
    "policies_of u = [entry_of (uid, policy)]" "np_hosVersion (pf_netPolicy (ps_file u)) = []"
    "on_disk E (pf_fs (ps_file u)) (pf_netPolicy (ps_file u))"
    using write_policy_effect [OF t(2) valid(1) assms(7), of NET_POLICY_UID_OP_TYPE_ADD uid] add t(3,4) assms(8) by auto
  have "pf_netPolicy (ps_file u) = \<lparr>np_uidPolicys = [entry_of (uid, policy)], np_hosVersion = []\<rparr>"
    using u(2,3) by (simp add: policies_of_def)
  moreover have "NetPolicyService_SetUidPolicy E uid policy ?t = Inr (POLICY_ERR_NONE, u)"
    using SetUidPolicy_is_write [of "[]" ?t E uid policy] assms(11) t(1) valid(2) u(1) by (simp add: entry_list_def)
  ultimately show ?thesis using start u(4) by (intro exI [of _ ?t] exI [of _ u]) simp
qed


section \<open>A concrete environment\<close>

text \<open>
  JSON values as a tree, a file system with one file, and a reader that knows one document; used to
  show that the hypotheses above can hold.
\<close>

datatype sample_json = SNull | SStr string | SArr "sample_json list" | SObj "(string \<times> sample_json) list"

definition sample_json_ops :: "sample_json \<Rightarrow> sample_json json_ops" where
  "sample_json_ops doc =
     \<lparr>json_parse = (\<lambda>s. if s = ''doc'' then (True, doc, []) else (False, SNull, ''error'')),
      json_write = (\<lambda>v. ''doc''), json_null = SNull, json_of_string = SStr,
      json_asString = (\<lambda>v. case v of SStr s \<Rightarrow> Some s | SNull \<Rightarrow> Some [] | _ \<Rightarrow> None),
      json_member = (\<lambda>v k. case v of SNull \<Rightarrow> Some SNull
        | SObj l \<Rightarrow> Some (case map_of l k of None \<Rightarrow> SNull | Some w \<Rightarrow> w) | _ \<Rightarrow> None),
      json_set = (\<lambda>v k w. SObj ((k, w) # (case v of SObj l \<Rightarrow> l | _ \<Rightarrow> []))),
      json_size = (\<lambda>v. case v of SArr xs \<Rightarrow> of_nat (length xs) | SObj l \<Rightarrow> of_nat (length l) | _ \<Rightarrow> 0),
      json_at = (\<lambda>v i. case v of SArr xs \<Rightarrow> Some (if unat i < length xs then xs ! unat i else SNull)
        | SNull \<Rightarrow> Some SNull | _ \<Rightarrow> None),
      json_append = (\<lambda>v x. case v of SArr xs \<Rightarrow> SArr (xs @ [x]) | _ \<Rightarrow> SArr [x]),
      json_isObject = (\<lambda>v. case v of SObj _ \<Rightarrow> True | _ \<Rightarrow> False),
      json_isArray = (\<lambda>v. case v of SArr xs \<Rightarrow> length xs < 2 ^ 32 | _ \<Rightarrow> False)\<rparr>"

definition sample_file_ops :: "string option file_ops" where
  "sample_file_ops =
     \<lparr>fo_stat = (\<lambda>n f. if f = None then - 1 else 0), fo_create = (\<lambda>n f. (3, Some [])),
      fo_open_in = (\<lambda>n f. f), fo_open_out = (\<lambda>n f. (True, Some [])), fo_write_close = (\<lambda>n s f. Some s)\<rparr>"

definition sample_policy_env :: "nat \<Rightarrow> sample_json \<Rightarrow> (string option, sample_json) policy_env" where
  "sample_policy_env bits doc =
     \<lparr>pe_json = sample_json_ops doc, pe_file = sample_file_ops, pe_long_bits = bits, pe_registered = True, pe_publish = True\<rparr>"

lemma sample_json_sel [simp]:
  "json_write (sample_json_ops doc) v = ''doc''" "json_null (sample_json_ops doc) = SNull"
  "json_parse (sample_json_ops doc) s = (if s = ''doc'' then (True, doc, []) else (False, SNull, ''error''))"
  "json_at (sample_json_ops doc) (SArr ys) i = Some (if unat i < length ys then ys ! unat i else SNull)"
  "json_size (sample_json_ops doc) (SArr ys) = of_nat (length ys)" "json_size (sample_json_ops doc) SNull = 0"
  "json_append (sample_json_ops doc) (SArr ys) x = SArr (ys @ [x])" "json_append (sample_json_ops doc) SNull x = SArr [x]"
  "json_isArray (sample_json_ops doc) v \<longleftrightarrow> (\<exists>ys. v = SArr ys \<and> length ys < 2 ^ 32)"
  by (simp_all add: sample_json_ops_def split: sample_json.splits)

lemma sample_elems_list:
  assumes "json_elems (sample_json_ops doc) (SArr ys) xs" and "length ys < 2 ^ 32"
  shows "ys = xs"
proof -
  have l: "length xs < 2 ^ 32" "(of_nat (length ys) :: uint32) = of_nat (length xs)"
    using assms(1) by (simp_all add: json_elems_def)
  have "length ys = unat (of_nat (length ys) :: uint32)" using assms(2) by (simp add: unat_of_nat)
  also have "\<dots> = length xs" using l by (simp add: unat_of_nat)
  finally have len: "length ys = length xs" .
  have "ys ! i = xs ! i" if "i < length xs" for i
  proof -
    have "unat (of_nat i :: uint32) = i" using that l(1) by (simp add: unat_of_nat)
    moreover have "json_at (sample_json_ops doc) (SArr ys) (of_nat i) = Some (xs ! i)"
      using assms(1) that by (simp only: json_elems_def)
    ultimately show ?thesis using that len by simp
  qed
  with len show ?thesis by (simp add: nth_equalityI)
qed

lemma sample_list_elems: "length xs < 2 ^ 32 \<Longrightarrow> json_elems (sample_json_ops doc) (SArr xs) xs"
  by (auto simp: json_elems_def unat_of_nat)

lemma sample_null_elems: "json_elems (sample_json_ops doc) SNull xs \<Longrightarrow> xs = []"
proof -
  assume "json_elems (sample_json_ops doc) SNull xs"
  then have "length xs < 2 ^ 32" "unat (of_nat (length xs) :: uint32) = 0"
    unfolding json_elems_def by (simp_all flip: unat_eq_zero)
  then have "length xs = 0" by (simp add: unat_of_nat)
  then show ?thesis by simp
qed

lemma sample_json_laws [simp]: "json_laws (sample_json_ops doc)"
  unfolding json_laws_def
proof (intro conjI allI impI)
  fix a :: sample_json and x xs
  assume h: "(a = json_null (sample_json_ops doc) \<or> json_isArray (sample_json_ops doc) a) \<and>
    json_elems (sample_json_ops doc) a xs \<and> Suc (length xs) < 2 ^ 32"
  have "json_append (sample_json_ops doc) a x = SArr (xs @ [x])"
    using h sample_elems_list [of doc _ xs] sample_null_elems [of doc xs]
    by auto
  then show "json_isArray (sample_json_ops doc) (json_append (sample_json_ops doc) a x)"
    "json_elems (sample_json_ops doc) (json_append (sample_json_ops doc) a x) (xs @ [x])"
    using h sample_list_elems [of "xs @ [x]"] by simp_all
qed (auto simp: sample_json_ops_def json_elems_def split: sample_json.splits)

lemma sample_file_keeps [simp]: "file_keeps sample_file_ops"
  by (simp add: file_keeps_def sample_file_ops_def)

lemma sample_policy_env_simps [simp]:
  "pe_json (sample_policy_env b doc) = sample_json_ops doc" "pe_file (sample_policy_env b doc) = sample_file_ops"
  "pe_long_bits (sample_policy_env b doc) = b" "pe_registered (sample_policy_env b doc)" "pe_publish (sample_policy_env b doc)"
  by (simp_all add: sample_policy_env_def)

lemma sample_opens [simp]: "opens_for_writing (sample_policy_env b doc) s"
  by (simp add: opens_for_writing_def sample_file_ops_def)

text \<open>A service with two policies, one of them temporary, and its file.\<close>

definition sample_policies :: NetPolicy where
  "sample_policies = \<lparr>np_uidPolicys = [entry_of (10, NET_POLICY_REJECT_ALL), entry_of (11, NET_POLICY_TEMPORARY_ALLOW_METERED)],
     np_hosVersion = ''1.0''\<rparr>"

definition sample_document :: sample_json where
  "sample_document = (case policy_document (sample_json_ops SNull) sample_policies of Inr root \<Rightarrow> root | Inl _ \<Rightarrow> SNull)"

definition sample_policy_state :: "string option policy_state" where
  "sample_policy_state = \<lparr>ps_file = \<lparr>pf_netPolicy = sample_policies, pf_fs = Some ''doc''\<rparr>, ps_trafficHasFile = True,
     ps_registerToService = True, ps_state = STATE_RUNNING\<rparr>"

lemma sample_append_policies:
  "append_policies (sample_json_ops d) ps root = append_policies (sample_json_ops SNull) ps root"
proof (induction ps arbitrary: root)
  case (Cons p ps)
  have sel: "json_set (sample_json_ops d) = json_set (sample_json_ops SNull)" "json_member (sample_json_ops d) = json_member (sample_json_ops SNull)"
    "json_of_string (sample_json_ops d) = json_of_string (sample_json_ops SNull)" "json_append (sample_json_ops d) = json_append (sample_json_ops SNull)"
    by (simp_all add: sample_json_ops_def)
  show ?case unfolding append_policies.simps sel Cons.IH by simp
qed simp

lemma sample_policy_document: "policy_document (sample_json_ops d) sample_policies = Inr sample_document"
proof -
  have eq: "policy_document (sample_json_ops d) sample_policies = policy_document (sample_json_ops SNull) sample_policies"
    unfolding policy_document_def sample_append_policies [of d] by (simp add: sample_json_ops_def)
  obtain root where "policy_document (sample_json_ops SNull) sample_policies = Inr root"
    using policy_document_ok [OF sample_json_laws, of sample_policies SNull] by (auto simp: sample_policies_def)
  then show ?thesis unfolding eq by (simp add: sample_document_def)
qed

abbreviation sample_policy_env64 :: "(string option, sample_json) policy_env" where
  "sample_policy_env64 \<equiv> sample_policy_env 64 sample_document"

lemma sample_policy_facts:
  "entry_list [(10, NET_POLICY_REJECT_ALL), (11, NET_POLICY_TEMPORARY_ALLOW_METERED)] (policies_of sample_policy_state)"
  "represents sample_policy_state [10 \<mapsto> NET_POLICY_REJECT_ALL, 11 \<mapsto> NET_POLICY_TEMPORARY_ALLOW_METERED]"
  "on_disk sample_policy_env64 (pf_fs (ps_file sample_policy_state)) (pf_netPolicy (ps_file sample_policy_state))"
  "disk_document_ok sample_policy_env64 (pf_netPolicy (ps_file sample_policy_state))"
proof -
  show e: "entry_list [(10, NET_POLICY_REJECT_ALL), (11, NET_POLICY_TEMPORARY_ALLOW_METERED)] (policies_of sample_policy_state)"
    by (simp add: entry_list_def policies_of_def sample_policy_state_def sample_policies_def stored_policy_def
        NetPolicyTraffic_IsPolicyValid_def net_uid_policy_defs)
  have "[10 \<mapsto> NET_POLICY_REJECT_ALL, 11 \<mapsto> NET_POLICY_TEMPORARY_ALLOW_METERED] =
      map_of [(10 :: uint32, NET_POLICY_REJECT_ALL), (11, NET_POLICY_TEMPORARY_ALLOW_METERED)]" by auto
  then show "represents sample_policy_state [10 \<mapsto> NET_POLICY_REJECT_ALL, 11 \<mapsto> NET_POLICY_TEMPORARY_ALLOW_METERED]"
    using e unfolding represents_entries by (auto simp: sample_policy_state_def)
  have c: "c_str (json_write (sample_json_ops sample_document) sample_document) = ''doc''" by (simp add: c_str_def sample_json_ops_def)
  show "on_disk sample_policy_env64 (pf_fs (ps_file sample_policy_state)) (pf_netPolicy (ps_file sample_policy_state))"
    using sample_policy_document c by (simp add: on_disk_def sample_policy_state_def sample_file_ops_def)
  show "disk_document_ok sample_policy_env64 (pf_netPolicy (ps_file sample_policy_state))"
    using sample_policy_document c
    by (simp add: disk_document_ok_def sample_policy_state_def json_reads_back_def sample_json_ops_def)
qed


lemma sample_map_card:
  "card (dom [10 :: uint32 \<mapsto> NET_POLICY_REJECT_ALL, 11 \<mapsto> NET_POLICY_TEMPORARY_ALLOW_METERED :: NetUidPolicy]) \<le> 2"
  "dom [10 \<mapsto> NET_POLICY_REJECT_ALL, 11 \<mapsto> NET_POLICY_TEMPORARY_ALLOW_METERED :: NetUidPolicy] = {10 :: uint32, 11}"
  by auto



theorem policies_survive_restart_witness:
  "\<exists>t. NetPolicyService_OnStart sample_policy_env64 (NetPolicyService_new (Some ''doc'')) = Inr t \<and>
     represents t [10 \<mapsto> NET_POLICY_REJECT_ALL]"
proof -
  have "forget_temporary [10 \<mapsto> NET_POLICY_REJECT_ALL, 11 \<mapsto> NET_POLICY_TEMPORARY_ALLOW_METERED] = [10 \<mapsto> NET_POLICY_REJECT_ALL]"
    by (auto simp: forget_temporary_def net_uid_policy_defs fun_eq_iff)
  moreover have "pf_fs (ps_file sample_policy_state) = Some ''doc''" by (simp add: sample_policy_state_def)
  ultimately show ?thesis
    using policies_survive_restart [OF sample_policy_facts(2) _ _ sample_policy_facts(3,4)] sample_map_card(1) by auto
qed

theorem restart_in_place_duplicates_witness:
  "\<exists>t res u. NetPolicyService_OnStart sample_policy_env64 (NetPolicyService_OnStop sample_policy_state) = Inr t \<and>
     NetPolicyService_SetUidPolicy sample_policy_env64 10 NET_POLICY_NONE t = Inr (res, u) \<and>
     NetPolicyService_GetUidPolicy sample_policy_env64 10 u = Inr NET_POLICY_REJECT_ALL"
  using restart_in_place_duplicates [OF sample_policy_facts(2) _ _ _ sample_policy_facts(3,4), of 10 NET_POLICY_REJECT_ALL] sample_map_card(1)
  by (fastforce simp: net_uid_policy_defs)

theorem other_form_ignored_witness:
  "let s = sample_policy_state\<lparr>ps_file := \<lparr>pf_netPolicy = \<lparr>np_uidPolicys = [\<lparr>up_uid = ''007'', up_policy = ''64''\<rparr>],
       np_hosVersion = ''1.0''\<rparr>, pf_fs = Some ''doc''\<rparr>\<rparr>
   in \<exists>t. NetPolicyService_SetUidPolicy sample_policy_env64 7 NET_POLICY_ALLOW_ALL s = Inr (POLICY_ERR_NONE, t) \<and>
     NetPolicyService_GetUidPolicy sample_policy_env64 7 t = Inr NET_POLICY_NONE"
proof -
  let ?s = "sample_policy_state\<lparr>ps_file := \<lparr>pf_netPolicy = \<lparr>np_uidPolicys = [\<lparr>up_uid = ''007'', up_policy = ''64''\<rparr>],
       np_hosVersion = ''1.0''\<rparr>, pf_fs = Some ''doc''\<rparr>\<rparr>"
  have "stol_exn sample_policy_env64 ''007'' = Inr 7"
    by (simp add: stol_exn_def stol_def isspace_def isdigit_def digits_val_def digit_val_def Let_def)
  moreover have "to_string_u32 7 \<noteq> ''007''" by code_simp
  moreover have "stored_policy NET_POLICY_ALLOW_ALL"
    by (simp add: stored_policy_def NetPolicyTraffic_IsPolicyValid_def net_uid_policy_defs)
  moreover have "policies_of ?s = [\<lparr>up_uid = ''007'', up_policy = ''64''\<rparr>]" "ps_trafficHasFile ?s"
    by (simp_all add: policies_of_def sample_policy_state_def)
  ultimately show ?thesis
    using other_form_ignored [of ?s "\<lparr>up_uid = ''007'', up_policy = ''64''\<rparr>" "[]" sample_policy_env64 7 7 NET_POLICY_ALLOW_ALL]
    unfolding Let_def by auto
qed

theorem large_uid_throws_witness:
  "NetPolicyService_SetUidPolicy (sample_policy_env 32 SNull) 5 NET_POLICY_ALLOW_ALL
     (sample_policy_state\<lparr>ps_file := \<lparr>pf_netPolicy = \<lparr>np_uidPolicys = [entry_of (0x80000000, NET_POLICY_REJECT_ALL)],
       np_hosVersion = ''1.0''\<rparr>, pf_fs = Some ''doc''\<rparr>\<rparr>) = Inl (Std out_of_range)"
  by (rule large_uid_throws [where es = "[]" and ps = "[]" and big = "0x80000000" and q = NET_POLICY_REJECT_ALL])
    (simp_all add: policies_of_def net_uid_policy_defs)

theorem malformed_file_lost_witness:
  "\<exists>t u. NetPolicyService_OnStart sample_policy_env64 (NetPolicyService_new (Some ''garbage'')) = Inr t \<and>
     NetPolicyService_SetUidPolicy sample_policy_env64 5 NET_POLICY_ALLOW_ALL t = Inr (POLICY_ERR_NONE, u)"
proof -
  have "stored_policy NET_POLICY_ALLOW_ALL"
    by (simp add: stored_policy_def NetPolicyTraffic_IsPolicyValid_def net_uid_policy_defs)
  moreover have "fo_stat sample_file_ops POLICY_FILE_NAME (Some ''garbage'') = 0"
    "fo_open_in sample_file_ops POLICY_FILE_NAME (Some ''garbage'') = Some ''garbage''"
    "fst (fo_open_out sample_file_ops POLICY_FILE_NAME (Some ''garbage''))" by (simp_all add: sample_file_ops_def)
  ultimately show ?thesis
    using malformed_file_lost [of sample_policy_env64 "Some ''garbage''" "''garbage''" False SNull "''error''" NET_POLICY_ALLOW_ALL 5]
    by auto
qed

end
