(* ===== verification/Net_Policy_Ipc.thy ===== *)
theory Net_Policy_Ipc
  imports Ipc Net_Policy_Properties
begin

text \<open>
  \<open>NetPolicyServiceProxy\<close>, \<open>NetPolicyServiceStub\<close> and \<open>NetPolicyClient\<close>: the five methods of the
  policy service over parcels, and that a call through proxy and stub is the call of the service.
\<close>

section \<open>The stub\<close>

definition policy_descriptor :: string where "policy_descriptor = ''OHOS.NetManagerStandard.INetPolicyService''"
definition CMD_NSM_SET_UID_POLICY :: uint32 where "CMD_NSM_SET_UID_POLICY = 1"
definition CMD_NSM_GET_UID_POLICY :: uint32 where "CMD_NSM_GET_UID_POLICY = 2"
definition CMD_NSM_GET_UIDS :: uint32 where "CMD_NSM_GET_UIDS = 3"
definition CMD_NSM_IS_NET_ACCESS_METERED :: uint32 where "CMD_NSM_IS_NET_ACCESS_METERED = 4"
definition CMD_NSM_IS_NET_ACCESS_IFACENAME :: uint32 where "CMD_NSM_IS_NET_ACCESS_IFACENAME = 5"

lemmas policy_codes = CMD_NSM_SET_UID_POLICY_def CMD_NSM_GET_UID_POLICY_def CMD_NSM_GET_UIDS_def
  CMD_NSM_IS_NET_ACCESS_METERED_def CMD_NSM_IS_NET_ACCESS_IFACENAME_def

text \<open>The environment of the process: the parcels, the IPC codes, the default of \<open>IPCObjectStub\<close>, the service.\<close>

record ('p, 'f, 'j) policy_ipc =
  pi_parcel :: "'p parcel_ops"
  pi_codes :: ipc_codes
  pi_default :: "uint32 \<Rightarrow> 'p \<Rightarrow> 'p \<Rightarrow> 'f policy_state \<Rightarrow> policy_exn + int32 \<times> 'p \<times> 'f policy_state"
  pi_service :: "('f, 'j) policy_env"

type_synonym ('p, 'f) policy_handler = "'p \<Rightarrow> 'p \<Rightarrow> 'f policy_state \<Rightarrow> policy_exn + int32 \<times> 'p \<times> 'f policy_state"

definition policy_refused :: "('p, 'f, 'j) policy_ipc \<Rightarrow> 'p \<Rightarrow> 'f policy_state \<Rightarrow> policy_exn + int32 \<times> 'p \<times> 'f policy_state" where
  "policy_refused I reply s = Inr (ERR_FLATTEN_OBJECT (pi_codes I), reply, s)"

text \<open>The arguments of each method, read with \<open>if (!data.Read(x)) return ERR_FLATTEN_OBJECT;\<close>\<close>

definition read_uid_u32 :: "'p parcel_ops \<Rightarrow> ('p, uint32 \<times> uint32) reader" where
  "read_uid_u32 P = read_then (ReadUint32 P) (\<lambda>uid. read_then (ReadUint32 P) (\<lambda>v. read_done (uid, v)))"
definition read_uid_bool :: "'p parcel_ops \<Rightarrow> ('p, uint32 \<times> bool) reader" where
  "read_uid_bool P = read_then (ReadUint32 P) (\<lambda>uid. read_then (ReadBool P) (\<lambda>v. read_done (uid, v)))"
definition read_uid_string :: "'p parcel_ops \<Rightarrow> ('p, uint32 \<times> string) reader" where
  "read_uid_string P = read_then (ReadUint32 P) (\<lambda>uid. read_then (ReadString P) (\<lambda>v. read_done (uid, v)))"

definition NetPolicyServiceStub_OnSetUidPolicy :: "('p, 'f, 'j) policy_ipc \<Rightarrow> ('p, 'f) policy_handler" where
  "NetPolicyServiceStub_OnSetUidPolicy I data reply s =
     (case fst (read_uid_u32 (pi_parcel I) data) of None \<Rightarrow> policy_refused I reply s
      | Some (uid, netPolicy) \<Rightarrow>
          (case NetPolicyService_SetUidPolicy (pi_service I) uid netPolicy s of Inl e \<Rightarrow> Inl e
           | Inr (res, t) \<Rightarrow> Inr (reply_with (pi_codes I) (WriteInt32 (pi_parcel I) (NetPolicyResultCode_val res)) reply t)))"

definition NetPolicyServiceStub_OnGetUidPolicy :: "('p, 'f, 'j) policy_ipc \<Rightarrow> ('p, 'f) policy_handler" where
  "NetPolicyServiceStub_OnGetUidPolicy I data reply s =
     (case fst (ReadUint32 (pi_parcel I) data) of None \<Rightarrow> policy_refused I reply s
      | Some uid \<Rightarrow>
          (case NetPolicyService_GetUidPolicy (pi_service I) uid s of Inl e \<Rightarrow> Inl e
           | Inr p \<Rightarrow> Inr (reply_with (pi_codes I) (WriteInt32 (pi_parcel I) p) reply s)))"

definition NetPolicyServiceStub_OnGetUids :: "('p, 'f, 'j) policy_ipc \<Rightarrow> ('p, 'f) policy_handler" where
  "NetPolicyServiceStub_OnGetUids I data reply s =
     (case fst (ReadUint32 (pi_parcel I) data) of None \<Rightarrow> policy_refused I reply s
      | Some policy \<Rightarrow>
          (case NetPolicyService_GetUids (pi_service I) policy s of Inl e \<Rightarrow> Inl e
           | Inr uids \<Rightarrow> Inr (reply_with (pi_codes I) (WriteUInt32Vector (pi_parcel I) uids) reply s)))"

definition NetPolicyServiceStub_OnIsUidNetAccessMetered :: "('p, 'f, 'j) policy_ipc \<Rightarrow> ('p, 'f) policy_handler" where
  "NetPolicyServiceStub_OnIsUidNetAccessMetered I data reply s =
     (case fst (read_uid_bool (pi_parcel I) data) of None \<Rightarrow> policy_refused I reply s
      | Some (uid, metered) \<Rightarrow>
          (case NetPolicyService_IsUidNetAccess_metered (pi_service I) uid metered s of Inl e \<Rightarrow> Inl e
           | Inr b \<Rightarrow> Inr (reply_with (pi_codes I) (WriteBool (pi_parcel I) b) reply s)))"

definition NetPolicyServiceStub_OnIsUidNetAccessIfaceName :: "('p, 'f, 'j) policy_ipc \<Rightarrow> ('p, 'f) policy_handler" where
  "NetPolicyServiceStub_OnIsUidNetAccessIfaceName I data reply s =
     (case fst (read_uid_string (pi_parcel I) data) of None \<Rightarrow> policy_refused I reply s
      | Some (uid, ifaceName) \<Rightarrow>
          (case NetPolicyService_IsUidNetAccess_iface (pi_service I) uid ifaceName s of Inl e \<Rightarrow> Inl e
           | Inr b \<Rightarrow> Inr (reply_with (pi_codes I) (WriteBool (pi_parcel I) b) reply s)))"

definition NetPolicyServiceStub_table :: "('p, 'f, 'j) policy_ipc \<Rightarrow> uint32 \<Rightarrow> ('p, 'f) policy_handler option" where
  "NetPolicyServiceStub_table I =
     [CMD_NSM_SET_UID_POLICY \<mapsto> NetPolicyServiceStub_OnSetUidPolicy I,
      CMD_NSM_GET_UID_POLICY \<mapsto> NetPolicyServiceStub_OnGetUidPolicy I,
      CMD_NSM_GET_UIDS \<mapsto> NetPolicyServiceStub_OnGetUids I,
      CMD_NSM_IS_NET_ACCESS_METERED \<mapsto> NetPolicyServiceStub_OnIsUidNetAccessMetered I,
      CMD_NSM_IS_NET_ACCESS_IFACENAME \<mapsto> NetPolicyServiceStub_OnIsUidNetAccessIfaceName I]"

definition NetPolicyServiceStub_OnRemoteRequest ::
    "('p, 'f, 'j) policy_ipc \<Rightarrow> uint32 \<Rightarrow> ('p, 'f) policy_handler" where
  "NetPolicyServiceStub_OnRemoteRequest I =
     stub_dispatch (pi_parcel I) policy_descriptor (policy_refused I) (NetPolicyServiceStub_table I) (pi_default I)"

section \<open>The proxy\<close>

type_synonym ('p, 'f) policy_remote = "('p, 'f policy_state) send_request option"

definition NetPolicyServiceProxy_SetUidPolicy ::
    "'p parcel_ops \<Rightarrow> ('p, 'f) policy_remote \<Rightarrow> uint32 \<Rightarrow> NetUidPolicy \<Rightarrow> 'f policy_state \<Rightarrow> int32 \<times> 'f policy_state" where
  "NetPolicyServiceProxy_SetUidPolicy P remote uid policy =
     (let e = NetPolicyResultCode_val ERR_INTERNAL_ERROR
      in proxy_call P remote CMD_NSM_SET_UID_POLICY
           [(WriteToken P policy_descriptor, e), (WriteUint32 P uid, e), (WriteUint32 P policy, e)] e (\<lambda>_. e) (ReadInt32_value P))"

definition NetPolicyServiceProxy_GetUidPolicy ::
    "'p parcel_ops \<Rightarrow> ('p, 'f) policy_remote \<Rightarrow> uint32 \<Rightarrow> 'f policy_state \<Rightarrow> NetUidPolicy \<times> 'f policy_state" where
  "NetPolicyServiceProxy_GetUidPolicy P remote uid =
     proxy_call P remote CMD_NSM_GET_UID_POLICY
       [(WriteToken P policy_descriptor, NET_POLICY_NONE), (WriteUint32 P uid, NET_POLICY_NONE)]
       NET_POLICY_NONE (\<lambda>_. NET_POLICY_NONE) (ReadInt32_value P)"

definition NetPolicyServiceProxy_GetUids ::
    "'p parcel_ops \<Rightarrow> ('p, 'f) policy_remote \<Rightarrow> NetUidPolicy \<Rightarrow> 'f policy_state \<Rightarrow> uint32 list \<times> 'f policy_state" where
  "NetPolicyServiceProxy_GetUids P remote policy =
     proxy_call P remote CMD_NSM_GET_UIDS [(WriteToken P policy_descriptor, []), (WriteUint32 P policy, [])] [] (\<lambda>_. [])
       (\<lambda>reply. case fst (ReadUInt32Vector P reply) of None \<Rightarrow> [] | Some uids \<Rightarrow> uids)"

definition NetPolicyServiceProxy_IsUidNetAccess_metered ::
    "'p parcel_ops \<Rightarrow> ('p, 'f) policy_remote \<Rightarrow> uint32 \<Rightarrow> bool \<Rightarrow> 'f policy_state \<Rightarrow> bool \<times> 'f policy_state" where
  "NetPolicyServiceProxy_IsUidNetAccess_metered P remote uid metered =
     proxy_call P remote CMD_NSM_IS_NET_ACCESS_METERED
       [(WriteToken P policy_descriptor, False), (WriteUint32 P uid, False), (WriteBool P metered, False)]
       False (\<lambda>_. False) (ReadBool_value P)"

definition NetPolicyServiceProxy_IsUidNetAccess_iface ::
    "'p parcel_ops \<Rightarrow> ('p, 'f) policy_remote \<Rightarrow> uint32 \<Rightarrow> string \<Rightarrow> 'f policy_state \<Rightarrow> bool \<times> 'f policy_state" where
  "NetPolicyServiceProxy_IsUidNetAccess_iface P remote uid ifaceName =
     proxy_call P remote CMD_NSM_IS_NET_ACCESS_IFACENAME
       [(WriteToken P policy_descriptor, False), (WriteUint32 P uid, False), (WriteString P ifaceName, False)]
       False (\<lambda>_. False) (ReadBool_value P)"

section \<open>The client\<close>

text \<open>Each method takes the remote objects the proxies stand for as \<open>remotes\<close>.\<close>

definition NetPolicyClient_SetUidPolicy where
  "NetPolicyClient_SetUidPolicy E P remotes uid policy =
     client_call E (\<lambda>p. NetPolicyServiceProxy_SetUidPolicy P (remotes p) uid policy) (NetPolicyResultCode_val ERR_INTERNAL_ERROR)"
definition NetPolicyClient_GetUidPolicy where
  "NetPolicyClient_GetUidPolicy E P remotes uid =
     client_call E (\<lambda>p. NetPolicyServiceProxy_GetUidPolicy P (remotes p) uid) NET_POLICY_NONE"
definition NetPolicyClient_GetUids where
  "NetPolicyClient_GetUids E P remotes policy =
     client_call E (\<lambda>p. NetPolicyServiceProxy_GetUids P (remotes p) policy) []"
definition NetPolicyClient_IsUidNetAccess_metered where
  "NetPolicyClient_IsUidNetAccess_metered E P remotes uid metered =
     client_call E (\<lambda>p. NetPolicyServiceProxy_IsUidNetAccess_metered P (remotes p) uid metered) False"
definition NetPolicyClient_IsUidNetAccess_iface where
  "NetPolicyClient_IsUidNetAccess_iface E P remotes uid ifaceName =
     client_call E (\<lambda>p. NetPolicyServiceProxy_IsUidNetAccess_iface P (remotes p) uid ifaceName) False"


text \<open>The client finds its proxy and loses it again as the client of the connection service does.\<close>

definition NetPolicyClient_GetProxy :: "client_env \<Rightarrow> client_state \<Rightarrow> nat option \<times> client_state" where
  "NetPolicyClient_GetProxy = client_GetProxy"
definition NetPolicyClient_OnRemoteDied :: "client_env \<Rightarrow> nat option \<Rightarrow> client_state \<Rightarrow> client_state" where
  "NetPolicyClient_OnRemoteDied = client_OnRemoteDied"

section \<open>A call through proxy and stub\<close>

interpretation uid_u32: codec P "\<lambda>(uid, v). write_seq [WriteUint32 P uid, WriteUint32 P v]" "read_uid_u32 P"
  "\<lambda>(uid, v). [I_Uint32 uid, I_Uint32 v]" "\<lambda>_. True" for P :: "'p parcel_ops"
  by unfold_locales (auto simp: read_uid_u32_def always_writes_typed simp del: write_seq.simps write_seq_single
      intro!: parcel_rules always_writes_seq)

interpretation uid_bool: codec P "\<lambda>(uid, v). write_seq [WriteUint32 P uid, WriteBool P v]" "read_uid_bool P"
  "\<lambda>(uid, v). [I_Uint32 uid, I_Bool v]" "\<lambda>_. True" for P :: "'p parcel_ops"
  by unfold_locales (auto simp: read_uid_bool_def always_writes_typed simp del: write_seq.simps write_seq_single
      intro!: parcel_rules always_writes_seq)

interpretation uid_string: codec P "\<lambda>(uid, v). write_seq [WriteUint32 P uid, WriteString P v]" "read_uid_string P"
  "\<lambda>(uid, v). [I_Uint32 uid, I_String v]" "\<lambda>_. True" for P :: "'p parcel_ops"
  by unfold_locales (auto simp: read_uid_string_def always_writes_typed simp del: write_seq.simps write_seq_single
      intro!: parcel_rules always_writes_seq)

interpretation one_u32: codec P "WriteUint32 P" "ReadUint32 P" "\<lambda>v. [I_Uint32 v]" "\<lambda>_. True" for P :: "'p parcel_ops"
  by unfold_locales (simp_all add: encodes_typed always_writes_typed decodes_typed)


text \<open>
  A transport that carries every request to the stub and its answer back. When the service throws,
  the process is gone and nothing is said about the answer.
\<close>

definition policy_connected :: "('p, 'f, 'j) policy_ipc \<Rightarrow> ('p, 'f policy_state) send_request \<Rightarrow> bool" where
  "policy_connected I send \<longleftrightarrow> (\<forall>code data reply s r.
     NetPolicyServiceStub_OnRemoteRequest I code data reply s = Inr r \<longrightarrow> send code data reply s = r)"

lemma NetPolicyServiceStub_table_entries:
  "NetPolicyServiceStub_table I CMD_NSM_SET_UID_POLICY = Some (NetPolicyServiceStub_OnSetUidPolicy I)"
  "NetPolicyServiceStub_table I CMD_NSM_GET_UID_POLICY = Some (NetPolicyServiceStub_OnGetUidPolicy I)"
  "NetPolicyServiceStub_table I CMD_NSM_GET_UIDS = Some (NetPolicyServiceStub_OnGetUids I)"
  "NetPolicyServiceStub_table I CMD_NSM_IS_NET_ACCESS_METERED = Some (NetPolicyServiceStub_OnIsUidNetAccessMetered I)"
  "NetPolicyServiceStub_table I CMD_NSM_IS_NET_ACCESS_IFACENAME = Some (NetPolicyServiceStub_OnIsUidNetAccessIfaceName I)"
  by (simp_all add: NetPolicyServiceStub_table_def policy_codes)

text \<open>The codec of a method turns a connected stub into the answer of its handler.\<close>

context codec
begin

lemma policy_call:
  assumes "parcel_laws P" and "parcel_never_fails P" and "valid x"
    and "map fst ws = WriteToken P policy_descriptor # us" and "marshal x = write_seq us"
    and "policy_connected I send" and "pi_parcel I = P" and "NetPolicyServiceStub_table I code = Some h"
    and "\<And>data' rest. unmarshal data' = (Some x, rest) \<Longrightarrow> h data' (new_parcel P) s = Inr (0, reply, t)"
    and "result reply = v"
  shows "proxy_call P (Some send) code ws null failed result s = (v, t)"
proof -
  have "proxy_call P (Some send) code ws null failed result s = (if (0 :: int32) \<noteq> 0 then failed 0 else result reply, t)"
  proof (rule call_through [where table = "NetPolicyServiceStub_table I" and mismatch = "policy_refused I" and fallback = "pi_default I",
        OF assms(1-5,8,9)])
    fix data
    assume "stub_dispatch P policy_descriptor (policy_refused I) (NetPolicyServiceStub_table I) (pi_default I) code data
      (new_parcel P) s = Inr (0, reply, t)"
    then show "send code data (new_parcel P) s = (0, reply, t)"
      using assms(6,7) unfolding policy_connected_def NetPolicyServiceStub_OnRemoteRequest_def by simp
  qed
  then show ?thesis using assms(10) by simp
qed

end

lemma SetUidPolicy_through:
  assumes "parcel_laws (pi_parcel I)" and "parcel_never_fails (pi_parcel I)" and "policy_connected I send"
    and "NetPolicyService_SetUidPolicy (pi_service I) uid policy s = Inr (res, t)"
  shows "NetPolicyServiceProxy_SetUidPolicy (pi_parcel I) (Some send) uid policy s = (NetPolicyResultCode_val res, t)"
proof -
  obtain reply where r: "reply_with (pi_codes I) (WriteInt32 (pi_parcel I) (NetPolicyResultCode_val res)) (new_parcel (pi_parcel I)) t = (0, reply, t)"
    "ReadInt32_value (pi_parcel I) reply = NetPolicyResultCode_val res"
    using reply_int32 [OF assms(1,2), where C = "pi_codes I" and s = t] by blast
  show ?thesis unfolding NetPolicyServiceProxy_SetUidPolicy_def Let_def
    by (rule uid_u32.policy_call [where x = "(uid, policy)" and us = "[WriteUint32 (pi_parcel I) uid, WriteUint32 (pi_parcel I) policy]" and I = I
          and h = "NetPolicyServiceStub_OnSetUidPolicy I" and reply = reply])
      (use assms r in \<open>simp_all add: NetPolicyServiceStub_table_entries NetPolicyServiceStub_OnSetUidPolicy_def\<close>)
qed

lemma GetUidPolicy_through:
  assumes "parcel_laws (pi_parcel I)" and "parcel_never_fails (pi_parcel I)" and "policy_connected I send"
    and "NetPolicyService_GetUidPolicy (pi_service I) uid s = Inr p"
  shows "NetPolicyServiceProxy_GetUidPolicy (pi_parcel I) (Some send) uid s = (p, s)"
proof -
  obtain reply where r: "reply_with (pi_codes I) (WriteInt32 (pi_parcel I) p) (new_parcel (pi_parcel I)) s = (0, reply, s)"
    "ReadInt32_value (pi_parcel I) reply = p"
    using reply_int32 [OF assms(1,2), where C = "pi_codes I" and s = s] by blast
  show ?thesis unfolding NetPolicyServiceProxy_GetUidPolicy_def
    by (rule one_u32.policy_call [where x = "uid" and us = "[WriteUint32 (pi_parcel I) uid]" and I = I
          and h = "NetPolicyServiceStub_OnGetUidPolicy I" and reply = reply])
      (use assms r in \<open>simp_all add: NetPolicyServiceStub_table_entries NetPolicyServiceStub_OnGetUidPolicy_def\<close>)
qed

lemma GetUids_through:
  assumes "parcel_laws (pi_parcel I)" and "parcel_never_fails (pi_parcel I)" and "policy_connected I send"
    and "NetPolicyService_GetUids (pi_service I) policy s = Inr us"
  shows "NetPolicyServiceProxy_GetUids (pi_parcel I) (Some send) policy s = (us, s)"
proof -
  obtain reply rest where r: "reply_with (pi_codes I) (WriteUInt32Vector (pi_parcel I) us) (new_parcel (pi_parcel I)) s = (0, reply, s)"
    "ReadUInt32Vector (pi_parcel I) reply = (Some us, rest)"
    using reply_vector [OF assms(1,2), where C = "pi_codes I" and s = s] by blast
  show ?thesis unfolding NetPolicyServiceProxy_GetUids_def
    by (rule one_u32.policy_call [where x = "policy" and us = "[WriteUint32 (pi_parcel I) policy]" and I = I
          and h = "NetPolicyServiceStub_OnGetUids I" and reply = reply])
      (use assms r in \<open>simp_all add: NetPolicyServiceStub_table_entries NetPolicyServiceStub_OnGetUids_def\<close>)
qed

lemma IsUidNetAccess_metered_through:
  assumes "parcel_laws (pi_parcel I)" and "parcel_never_fails (pi_parcel I)" and "policy_connected I send"
    and "NetPolicyService_IsUidNetAccess_metered (pi_service I) uid metered s = Inr b"
  shows "NetPolicyServiceProxy_IsUidNetAccess_metered (pi_parcel I) (Some send) uid metered s = (b, s)"
proof -
  obtain reply where r: "reply_with (pi_codes I) (WriteBool (pi_parcel I) b) (new_parcel (pi_parcel I)) s = (0, reply, s)"
    "ReadBool_value (pi_parcel I) reply = b"
    using reply_bool [OF assms(1,2), where C = "pi_codes I" and s = s] by blast
  show ?thesis unfolding NetPolicyServiceProxy_IsUidNetAccess_metered_def
    by (rule uid_bool.policy_call [where x = "(uid, metered)" and us = "[WriteUint32 (pi_parcel I) uid, WriteBool (pi_parcel I) metered]" and I = I
          and h = "NetPolicyServiceStub_OnIsUidNetAccessMetered I" and reply = reply])
      (use assms r in \<open>simp_all add: NetPolicyServiceStub_table_entries NetPolicyServiceStub_OnIsUidNetAccessMetered_def\<close>)
qed

lemma IsUidNetAccess_iface_through:
  assumes "parcel_laws (pi_parcel I)" and "parcel_never_fails (pi_parcel I)" and "policy_connected I send"
    and "NetPolicyService_IsUidNetAccess_iface (pi_service I) uid ifaceName s = Inr b"
  shows "NetPolicyServiceProxy_IsUidNetAccess_iface (pi_parcel I) (Some send) uid ifaceName s = (b, s)"
proof -
  obtain reply where r: "reply_with (pi_codes I) (WriteBool (pi_parcel I) b) (new_parcel (pi_parcel I)) s = (0, reply, s)"
    "ReadBool_value (pi_parcel I) reply = b"
    using reply_bool [OF assms(1,2), where C = "pi_codes I" and s = s] by blast
  show ?thesis unfolding NetPolicyServiceProxy_IsUidNetAccess_iface_def
    by (rule uid_string.policy_call [where x = "(uid, ifaceName)" and us = "[WriteUint32 (pi_parcel I) uid, WriteString (pi_parcel I) ifaceName]" and I = I
          and h = "NetPolicyServiceStub_OnIsUidNetAccessIfaceName I" and reply = reply])
      (use assms r in \<open>simp_all add: NetPolicyServiceStub_table_entries NetPolicyServiceStub_OnIsUidNetAccessIfaceName_def\<close>)
qed

text \<open>
  C13. A call through proxy, transport and stub is the call of the service: each of the five methods of
  the proxy returns what the service returns and leaves the state the service leaves.
\<close>

theorem policy_call_through:
  assumes "parcel_laws (pi_parcel I)" and "parcel_never_fails (pi_parcel I)" and "policy_connected I send"
  shows "(\<forall>uid policy s res t. NetPolicyService_SetUidPolicy (pi_service I) uid policy s = Inr (res, t) \<longrightarrow>
      NetPolicyServiceProxy_SetUidPolicy (pi_parcel I) (Some send) uid policy s = (NetPolicyResultCode_val res, t)) \<and>
    (\<forall>uid s p. NetPolicyService_GetUidPolicy (pi_service I) uid s = Inr p \<longrightarrow>
      NetPolicyServiceProxy_GetUidPolicy (pi_parcel I) (Some send) uid s = (p, s)) \<and>
    (\<forall>policy s us. NetPolicyService_GetUids (pi_service I) policy s = Inr us \<longrightarrow>
      NetPolicyServiceProxy_GetUids (pi_parcel I) (Some send) policy s = (us, s)) \<and>
    (\<forall>uid metered s b. NetPolicyService_IsUidNetAccess_metered (pi_service I) uid metered s = Inr b \<longrightarrow>
      NetPolicyServiceProxy_IsUidNetAccess_metered (pi_parcel I) (Some send) uid metered s = (b, s)) \<and>
    (\<forall>uid ifaceName s b. NetPolicyService_IsUidNetAccess_iface (pi_service I) uid ifaceName s = Inr b \<longrightarrow>
      NetPolicyServiceProxy_IsUidNetAccess_iface (pi_parcel I) (Some send) uid ifaceName s = (b, s))"
  using SetUidPolicy_through [OF assms] GetUidPolicy_through [OF assms] GetUids_through [OF assms]
    IsUidNetAccess_metered_through [OF assms] IsUidNetAccess_iface_through [OF assms] by blast

definition sample_policy_ipc :: "(parcel_item list, string option, sample_json) policy_ipc" where
  "sample_policy_ipc = \<lparr>pi_parcel = list_parcel, pi_codes = \<lparr>ERR_FLATTEN_OBJECT = 5, ERR_NULL_OBJECT = 7, IPC_PROXY_ERR = 9\<rparr>,
     pi_default = (\<lambda>code data reply s. Inr (1, reply, s)), pi_service = sample_policy_env64\<rparr>"

definition sample_policy_send :: "(parcel_item list, string option policy_state) send_request" where
  "sample_policy_send code data reply s =
     (case NetPolicyServiceStub_OnRemoteRequest sample_policy_ipc code data reply s of Inl e \<Rightarrow> (29, reply, s) | Inr r \<Rightarrow> r)"

theorem policy_call_through_witness:
  "NetPolicyServiceProxy_IsUidNetAccess_metered list_parcel (Some sample_policy_send) 10 False sample_policy_state = (False, sample_policy_state)"
proof -
  have "policy_connected sample_policy_ipc sample_policy_send"
    by (simp add: policy_connected_def sample_policy_send_def)
  moreover have "NetPolicyService_IsUidNetAccess_metered sample_policy_env64 10 False sample_policy_state = Inr False"
    using GetUidPolicy_entries [OF sample_policy_facts(1), of sample_policy_env64 10]
    by (simp add: NetPolicyService_IsUidNetAccess_metered_def allowed_by_def net_uid_policy_defs NET_POLICY_ALLOW_MASK_def)
  ultimately show ?thesis
    using policy_call_through [of sample_policy_ipc sample_policy_send] by (simp add: sample_policy_ipc_def)
qed

end
