(* ===== verification/Ethernet_Device.thy ===== *)
theory Ethernet_Device
  imports Parcelables
begin

text \<open>
  \<open>DevInterfaceState\<close> (\<open>dev_interface_state.cpp\<close>): one Ethernet device, its configuration, its link
  information and its registration with the connection service. The other side (the connection
  client, the socket calls and the DHCP client) is a record of operations on a state \<open>'s\<close> of its own;
  the theory of the whole system fills it with the model of the connection service.
\<close>

section \<open>Devices\<close>

datatype ConnLinkState = REGISTERED | UNREGISTERED | LINK_AVAILABLE | LINK_UNAVAILABLE

record dev_state =
  dv_connLinkState :: ConnLinkState
  dv_netSupplier :: int32
  dv_devName :: string
  dv_devHWaddr :: "uint8 list"
  dv_linkUp :: bool
  dv_lowerUp :: bool
  dv_dhcpReqState :: bool
  dv_linkInfo :: "NetLinkInfo option"
  dv_netSupplierInfo :: "NetSupplierInfo option"
  dv_ifcfg :: "InterfaceConfiguration option"
  dv_netCapabilities :: uint64

definition MINIMUM_SUPPLIER_ID :: int32 where "MINIMUM_SUPPLIER_ID = 1000"
definition NETMANAGER_ERROR :: int32 where "NETMANAGER_ERROR = - 1"

definition DevInterfaceState_new :: dev_state where
  "DevInterfaceState_new =
     \<lparr>dv_connLinkState = UNREGISTERED, dv_netSupplier = 0, dv_devName = [], dv_devHWaddr = [], dv_linkUp = False,
      dv_lowerUp = False, dv_dhcpReqState = False, dv_linkInfo = None, dv_netSupplierInfo = Some NetSupplierInfo_new,
      dv_ifcfg = None, dv_netCapabilities = NetCapabilities_val NET_CAPABILITIES_INTERNET\<rparr>"

text \<open>What the code calls: the connection client, \<open>NetLinkRtnl\<close> and the DHCP client.\<close>

record dhcp_result =
  dr_iptype :: uint8
  dr_strYourCli :: string
  dr_strServer :: string
  dr_strDns1 :: string
  dr_strDns2 :: string
  dr_strRouter1 :: string
  dr_strRouter2 :: string

record nlk_event_info =
  ne_iface :: string
  ne_ifiFlags :: uint64

record 's eth_ops =
  eo_RegisterNetSupplier :: "uint32 \<Rightarrow> string \<Rightarrow> uint64 \<Rightarrow> 's \<Rightarrow> int32 \<times> 's"
  eo_UnregisterNetSupplier :: "uint32 \<Rightarrow> 's \<Rightarrow> int32 \<times> 's"
  eo_UpdateNetLinkInfo :: "uint32 \<Rightarrow> NetLinkInfo \<Rightarrow> 's \<Rightarrow> int32 \<times> 's"
  eo_UpdateNetSupplierInfo :: "uint32 \<Rightarrow> NetSupplierInfo \<Rightarrow> 's \<Rightarrow> int32 \<times> 's"
  eo_SetIpAddr :: "string \<Rightarrow> string \<Rightarrow> 's \<Rightarrow> int32 \<times> 's"
  eo_GetHWaddr :: "string \<Rightarrow> 's \<Rightarrow> uint8 list \<times> 's"
  eo_GetLinkInfo :: "'s \<Rightarrow> nlk_event_info list \<times> 's"
  eo_hasDhcpService :: bool
  eo_StartDhcpClient :: "string \<Rightarrow> bool \<Rightarrow> 's \<Rightarrow> 's"
  eo_StopDhcpClient :: "string \<Rightarrow> bool \<Rightarrow> 's \<Rightarrow> 's"
  eo_GetDhcpResult :: "string \<Rightarrow> int32 \<Rightarrow> 's \<Rightarrow> int32 \<times> 's"

section \<open>Accessors\<close>

definition DevInterfaceState_SetDevName :: "string \<Rightarrow> dev_state \<Rightarrow> dev_state" where
  "DevInterfaceState_SetDevName devName d = d\<lparr>dv_devName := devName\<rparr>"
definition DevInterfaceState_SetDevHWaddr :: "uint8 list \<Rightarrow> dev_state \<Rightarrow> dev_state" where
  "DevInterfaceState_SetDevHWaddr hwAddr d = d\<lparr>dv_devHWaddr := hwAddr\<rparr>"
definition DevInterfaceState_SetNetCapabilities :: "uint64 \<Rightarrow> dev_state \<Rightarrow> dev_state" where
  "DevInterfaceState_SetNetCapabilities netCapabilities d = d\<lparr>dv_netCapabilities := netCapabilities\<rparr>"
definition DevInterfaceState_SetLinkUp :: "bool \<Rightarrow> dev_state \<Rightarrow> dev_state" where
  "DevInterfaceState_SetLinkUp up d = d\<lparr>dv_linkUp := up\<rparr>"
definition DevInterfaceState_SetLowerUp :: "bool \<Rightarrow> dev_state \<Rightarrow> dev_state" where
  "DevInterfaceState_SetLowerUp lowerUp d = d\<lparr>dv_lowerUp := lowerUp\<rparr>"
definition DevInterfaceState_SetlinkInfo :: "NetLinkInfo option \<Rightarrow> dev_state \<Rightarrow> dev_state" where
  "DevInterfaceState_SetlinkInfo linkInfo d = d\<lparr>dv_linkInfo := linkInfo\<rparr>"
definition DevInterfaceState_SetDhcpReqState :: "bool \<Rightarrow> dev_state \<Rightarrow> dev_state" where
  "DevInterfaceState_SetDhcpReqState dhcpReqState d = d\<lparr>dv_dhcpReqState := dhcpReqState\<rparr>"

lemmas dev_setters [simp] = DevInterfaceState_SetDevName_def DevInterfaceState_SetDevHWaddr_def
  DevInterfaceState_SetNetCapabilities_def DevInterfaceState_SetLinkUp_def DevInterfaceState_SetLowerUp_def
  DevInterfaceState_SetlinkInfo_def DevInterfaceState_SetDhcpReqState_def

definition DevInterfaceState_GetIPSetMode :: "dev_state \<Rightarrow> int32" where
  "DevInterfaceState_GetIPSetMode d = (case dv_ifcfg d of None \<Rightarrow> STATIC | Some c \<Rightarrow> ic_mode c)"

section \<open>The connection service\<close>

definition DevInterfaceState_RemoteRegisterNetSupplier :: "'s eth_ops \<Rightarrow> dev_state \<Rightarrow> 's \<Rightarrow> int32 \<times> dev_state \<times> 's" where
  "DevInterfaceState_RemoteRegisterNetSupplier E d w =
     (if dv_connLinkState d = UNREGISTERED
      then (case eo_RegisterNetSupplier E (NetworkType_val NET_TYPE_ETHERNET) (dv_devName d) (dv_netCapabilities d) w of
              (i, w') \<Rightarrow>
                let d1 = d\<lparr>dv_netSupplier := i\<rparr>;
                    d2 = (if MINIMUM_SUPPLIER_ID <s i then d1\<lparr>dv_connLinkState := REGISTERED\<rparr> else d1)
                in (dv_netSupplier d2, d2, w'))
      else (dv_netSupplier d, d, w))"

definition DevInterfaceState_RemoteUnregisterNetSupplier :: "'s eth_ops \<Rightarrow> dev_state \<Rightarrow> 's \<Rightarrow> int32 \<times> dev_state \<times> 's" where
  "DevInterfaceState_RemoteUnregisterNetSupplier E d w =
     (if dv_connLinkState d = UNREGISTERED then (NETMANAGER_ERROR, d, w)
      else (case eo_UnregisterNetSupplier E (dv_netSupplier d) w of
              (ret, w') \<Rightarrow> (ret, if ret = 0 then d\<lparr>dv_connLinkState := UNREGISTERED, dv_netSupplier := 0\<rparr> else d, w')))"

definition DevInterfaceState_RemoteUpdateNetLinkInfo :: "'s eth_ops \<Rightarrow> dev_state \<Rightarrow> 's \<Rightarrow> int32 \<times> 's" where
  "DevInterfaceState_RemoteUpdateNetLinkInfo E d w =
     (if dv_connLinkState d = LINK_UNAVAILABLE then (NETMANAGER_ERROR, w)
      else (case dv_linkInfo d of None \<Rightarrow> (NETMANAGER_ERROR, w)
            | Some li \<Rightarrow> eo_UpdateNetLinkInfo E (dv_netSupplier d) li w))"

definition DevInterfaceState_UpdateSupplierAvailable :: "dev_state \<Rightarrow> dev_state" where
  "DevInterfaceState_UpdateSupplierAvailable d =
     (let isAvailable = (dv_linkUp d \<and> dv_lowerUp d)
      in d\<lparr>dv_netSupplierInfo := map_option (\<lambda>i. i\<lparr>si_isAvailable := isAvailable\<rparr>) (dv_netSupplierInfo d),
           dv_connLinkState := (if isAvailable then LINK_AVAILABLE else LINK_UNAVAILABLE)\<rparr>)"

definition DevInterfaceState_RemoteUpdateNetSupplierInfo :: "'s eth_ops \<Rightarrow> dev_state \<Rightarrow> 's \<Rightarrow> int32 \<times> dev_state \<times> 's" where
  "DevInterfaceState_RemoteUpdateNetSupplierInfo E d w =
     (if dv_connLinkState d = UNREGISTERED then (NETMANAGER_ERROR, d, w)
      else (case dv_netSupplierInfo (DevInterfaceState_UpdateSupplierAvailable d) of
              None \<Rightarrow> (NETMANAGER_ERROR, d, w)
            | Some i \<Rightarrow>
                (case eo_UpdateNetSupplierInfo E (dv_netSupplier d) i w of
                   (ret, w') \<Rightarrow> (ret, DevInterfaceState_UpdateSupplierAvailable d, w'))))"

section \<open>Link information\<close>

text \<open>
  From a static configuration. The test \<open>!ifcfg_ && ifcfg_->mode_ != STATIC\<close> at the start dereferences a
  null configuration and otherwise never holds: \<open>None\<close> is that crash.
\<close>

definition DevInterfaceState_UpdateLinkInfo_static :: "dev_state \<Rightarrow> dev_state option" where
  "DevInterfaceState_UpdateLinkInfo_static d =
     (case dv_ifcfg d of None \<Rightarrow> None
      | Some c \<Rightarrow>
          let li = (case dv_linkInfo d of None \<Rightarrow> NetLinkInfo_new | Some l \<Rightarrow> l);
              ip = ic_ipStatic c
          in Some (d\<lparr>dv_linkInfo := Some (li
               \<lparr>li_netAddrList := [sc_ipAddr ip],
                li_routeList := [\<lparr>rt_iface = dv_devName d, rt_destination = sc_route ip, rt_gateway = sc_gate ip\<rparr>],
                li_dnsList := sc_dnsServers ip\<rparr>)\<rparr>))"

text \<open>From a DHCP result. The route, gateway and destination are filled twice; the name servers are only appended.\<close>

definition dhcp_route :: "string \<Rightarrow> dhcp_result \<Rightarrow> string \<Rightarrow> Route" where
  "dhcp_route iface r router =
     \<lparr>rt_iface = iface,
      rt_destination = INetAddr_new\<lparr>ia_address := (if router = ''*'' then ''0.0.0.0'' else router)\<rparr>,
      rt_gateway = INetAddr_new\<lparr>ia_address := dr_strServer r\<rparr>\<rparr>"

definition DevInterfaceState_UpdateLinkInfo_dhcp :: "string \<Rightarrow> dhcp_result \<Rightarrow> dev_state \<Rightarrow> dev_state" where
  "DevInterfaceState_UpdateLinkInfo_dhcp iface r d =
     (let li = (case dv_linkInfo d of None \<Rightarrow> NetLinkInfo_new | Some l \<Rightarrow> l);
          ipAddr = INetAddr_new\<lparr>ia_type := dr_iptype r, ia_address := dr_strYourCli r\<rparr>;
          route1 = (if dr_strServer r \<noteq> dr_strRouter1 r then [dhcp_route iface r (dr_strRouter1 r)] else []);
          route2 = (if dr_strServer r \<noteq> dr_strRouter2 r then [dhcp_route iface r (dr_strRouter2 r)] else [])
      in d\<lparr>dv_linkInfo := Some (li
           \<lparr>li_netAddrList := [ipAddr],
            li_routeList := route1 @ route2,
            li_dnsList := li_dnsList li @ [ipAddr\<lparr>ia_address := dr_strDns1 r\<rparr>, ipAddr\<lparr>ia_address := dr_strDns2 r\<rparr>]\<rparr>)\<rparr>)"

definition DevInterfaceState_SetIpAddr :: "'s eth_ops \<Rightarrow> dev_state \<Rightarrow> 's \<Rightarrow> 's option" where
  "DevInterfaceState_SetIpAddr E d w =
     (case dv_ifcfg d of None \<Rightarrow> None
      | Some c \<Rightarrow> Some (snd (eo_SetIpAddr E (dv_devName d) (ia_address (sc_ipAddr (ic_ipStatic c))) w)))"

definition DevInterfaceState_SetIfcfg ::
    "'s eth_ops \<Rightarrow> InterfaceConfiguration option \<Rightarrow> dev_state \<Rightarrow> 's \<Rightarrow> (dev_state \<times> 's) option" where
  "DevInterfaceState_SetIfcfg E ifcfg d w =
     (let d0 = d\<lparr>dv_ifcfg := ifcfg\<rparr> in
      case ifcfg of None \<Rightarrow> None
      | Some c \<Rightarrow>
          if ic_mode c = STATIC
          then (case DevInterfaceState_UpdateLinkInfo_static d0 of None \<Rightarrow> None
                | Some d1 \<Rightarrow>
                    (case DevInterfaceState_SetIpAddr E d1 w of None \<Rightarrow> None
                     | Some w1 \<Rightarrow>
                         Some (d1, if dv_connLinkState d1 = LINK_AVAILABLE
                                   then snd (DevInterfaceState_RemoteUpdateNetLinkInfo E d1 w1) else w1)))
          else Some (d0, w))"

end
