(* ===== verification/Ethernet_Service.thy ===== *)
theory Ethernet_Service
  imports Ethernet_Device "HOL-Library.List_Lexorder" "HOL-Library.Char_ord"
begin

text \<open>
  \<open>EthernetManagement\<close> and \<open>EthernetService\<close> (\<open>ethernet_management.cpp\<close>, \<open>ethernet_service.cpp\<close>): the table of
  devices by name, the reaction to link events, and the requests of the clients. The mutex of the
  management is held in every operation but \<open>Init\<close>, so the operations are atomic steps. \<open>std::map\<close> keeps
  its keys in the order of \<open>std::string\<close>, which compares bytes: a list sorted by key.
\<close>

section \<open>The table of devices\<close>

type_synonym dev_table = "(string \<times> dev_state) list"

text \<open>\<open>std::map::insert\<close> leaves an existing entry as it is.\<close>

fun map_insert :: "string \<Rightarrow> 'v \<Rightarrow> (string \<times> 'v) list \<Rightarrow> (string \<times> 'v) list" where
  "map_insert k v [] = [(k, v)]"
| "map_insert k v (e # es) =
     (if k < fst e then (k, v) # e # es else if k = fst e then e # es else e # map_insert k v es)"

definition map_put :: "string \<Rightarrow> 'v \<Rightarrow> (string \<times> 'v) list \<Rightarrow> (string \<times> 'v) list" where
  "map_put k v es = map (\<lambda>e. if fst e = k then (k, v) else e) es"

definition ETHERNET_ERROR :: int32 where "ETHERNET_ERROR = - 1"
definition ETHERNET_SUCCESS :: int32 where "ETHERNET_SUCCESS = 0"
definition DHCP_TIMEOUT :: int32 where "DHCP_TIMEOUT = 60"
definition IFF_UP :: uint64 where "IFF_UP = 1"
definition IFF_LOWER_UP :: uint64 where "IFF_LOWER_UP = 0x10000"

section \<open>EthernetManagement\<close>

text \<open>The reaction of one device to a change of its link, and what it asks of the DHCP client.\<close>

definition device_link_change :: "'s eth_ops \<Rightarrow> string \<Rightarrow> bool \<Rightarrow> bool \<Rightarrow> dev_state \<Rightarrow> 's \<Rightarrow> dev_state \<times> 's" where
  "device_link_change E dev up lowerUp dev0 w =
     (let d = DevInterfaceState_SetLowerUp lowerUp (DevInterfaceState_SetLinkUp up dev0);
          mode = DevInterfaceState_GetIPSetMode d;
          dhcpReqState = dv_dhcpReqState d
      in if lowerUp then
           (case DevInterfaceState_RemoteUpdateNetSupplierInfo E d w of (_, d1, w1) \<Rightarrow>
              if mode = DHCP \<and> \<not> dhcpReqState
              then (if \<not> eo_hasDhcpService E then (d1, w1)
                    else (case eo_GetDhcpResult E dev DHCP_TIMEOUT (eo_StartDhcpClient E dev False w1) of (_, w2) \<Rightarrow>
                            (DevInterfaceState_SetDhcpReqState True d1, w2)))
              else (d1, snd (DevInterfaceState_RemoteUpdateNetLinkInfo E d1 w1)))
         else if mode = DHCP \<and> dhcpReqState \<and> \<not> eo_hasDhcpService E then (d, w)
         else (let (d1, w1) = (if mode = DHCP \<and> dhcpReqState
                               then (DevInterfaceState_SetDhcpReqState False d, eo_StopDhcpClient E dev False w)
                               else (d, w))
               in case DevInterfaceState_RemoteUpdateNetSupplierInfo E d1 w1 of (_, d2, w2) \<Rightarrow> (d2, w2)))"

definition EthernetManagement_UpdateInterfaceState ::
    "'s eth_ops \<Rightarrow> string \<Rightarrow> bool \<Rightarrow> bool \<Rightarrow> dev_table \<Rightarrow> 's \<Rightarrow> dev_table \<times> 's" where
  "EthernetManagement_UpdateInterfaceState E dev up lowerUp devs w =
     (case map_of devs dev of None \<Rightarrow> (devs, w)
      | Some d \<Rightarrow> (case device_link_change E dev up lowerUp d w of (d', w') \<Rightarrow> (map_put dev d' devs, w')))"

text \<open>\<open>None\<close> is a null pointer that is dereferenced: a null configuration for a device that is up.\<close>

definition EthernetManagement_UpdateDevInterfaceState ::
    "'s eth_ops \<Rightarrow> string \<Rightarrow> InterfaceConfiguration option \<Rightarrow> dev_table \<Rightarrow> 's \<Rightarrow> (int32 \<times> dev_table \<times> 's) option" where
  "EthernetManagement_UpdateDevInterfaceState E iface cfg devs w =
     (case map_of devs iface of None \<Rightarrow> Some (ETHERNET_ERROR, devs, w)
      | Some d \<Rightarrow>
          if \<not> dv_linkUp d then Some (ETHERNET_ERROR, devs, w)
          else (case DevInterfaceState_SetIfcfg E cfg d w of None \<Rightarrow> None
                | Some (d', w') \<Rightarrow> Some (ETHERNET_SUCCESS, map_put iface d' devs, w')))"

definition EthernetManagement_UpdateDevInterfaceLinkInfo ::
    "'s eth_ops \<Rightarrow> string \<Rightarrow> dhcp_result \<Rightarrow> dev_table \<Rightarrow> 's \<Rightarrow> int32 \<times> dev_table \<times> 's" where
  "EthernetManagement_UpdateDevInterfaceLinkInfo E iface result devs w =
     (case map_of devs iface of None \<Rightarrow> (ETHERNET_ERROR, devs, w)
      | Some d \<Rightarrow>
          if \<not> dv_linkUp d then (ETHERNET_ERROR, devs, w)
          else (let d' = DevInterfaceState_UpdateLinkInfo_dhcp iface result d
                in (ETHERNET_SUCCESS, map_put iface d' devs, snd (DevInterfaceState_RemoteUpdateNetLinkInfo E d' w))))"

definition EthDhcpResultNotify_OnSuccess ::
    "'s eth_ops \<Rightarrow> int32 \<Rightarrow> string \<Rightarrow> dhcp_result \<Rightarrow> dev_table \<Rightarrow> 's \<Rightarrow> dev_table \<times> 's" where
  "EthDhcpResultNotify_OnSuccess E status ifname result devs w =
     snd (EthernetManagement_UpdateDevInterfaceLinkInfo E ifname result devs w)"

definition EthernetManagement_GetDevInterfaceCfg :: "string \<Rightarrow> dev_table \<Rightarrow> InterfaceConfiguration option" where
  "EthernetManagement_GetDevInterfaceCfg iface devs = (case map_of devs iface of None \<Rightarrow> None | Some d \<Rightarrow> dv_ifcfg d)"

definition EthernetManagement_IsActivate :: "string \<Rightarrow> dev_table \<Rightarrow> int32" where
  "EthernetManagement_IsActivate iface devs =
     (case map_of devs iface of None \<Rightarrow> ETHERNET_ERROR | Some d \<Rightarrow> if dv_linkUp d then 1 else 0)"

definition EthernetManagement_GetActivateInterfaces :: "dev_table \<Rightarrow> string list" where
  "EthernetManagement_GetActivateInterfaces devs = map fst devs"

definition EthernetManagement_Handle :: "'s eth_ops \<Rightarrow> nlk_event_info \<Rightarrow> dev_table \<times> 's \<Rightarrow> dev_table \<times> 's" where
  "EthernetManagement_Handle E info s =
     EthernetManagement_UpdateInterfaceState E (ne_iface info) (ne_ifiFlags info AND IFF_UP \<noteq> 0)
       (ne_ifiFlags info AND IFF_LOWER_UP \<noteq> 0) (fst s) (snd s)"

text \<open>
  \<open>Init\<close> makes an object for every device with a name. When the name is in the table already the new
  object is not inserted, but it is set up and registered all the same.
\<close>

definition static_ifcfg :: InterfaceConfiguration where
  "static_ifcfg = \<lparr>ic_mode = STATIC, ic_ipStatic = \<lparr>sc_ipAddr = INetAddr_new, sc_route = INetAddr_new, sc_gate = INetAddr_new,
     sc_netMask = INetAddr_new, sc_dnsServers = [], sc_domain = []\<rparr>\<rparr>"

definition init_device :: "'s eth_ops \<Rightarrow> nlk_event_info \<Rightarrow> 's \<Rightarrow> (dev_state \<times> 's) option" where
  "init_device E info w =
     (case DevInterfaceState_SetIfcfg E (Some static_ifcfg) DevInterfaceState_new w of None \<Rightarrow> None
      | Some (d0, w0) \<Rightarrow>
          (case eo_GetHWaddr E (ne_iface info) w0 of (hwAddr, w1) \<Rightarrow>
             let up = (ne_ifiFlags info AND IFF_UP \<noteq> 0);
                 lowerUp = (ne_ifiFlags info AND IFF_LOWER_UP \<noteq> 0);
                 d1 = DevInterfaceState_SetLowerUp lowerUp (DevInterfaceState_SetLinkUp up
                        (DevInterfaceState_SetDevHWaddr hwAddr (DevInterfaceState_SetDevName (ne_iface info) d0)))
             in (case DevInterfaceState_RemoteRegisterNetSupplier E d1 w1 of (_, d2, w2) \<Rightarrow>
                   if up \<and> lowerUp
                   then (case DevInterfaceState_RemoteUpdateNetSupplierInfo E d2 w2 of (_, d3, w3) \<Rightarrow> Some (d3, w3))
                   else Some (d2, w2))))"

fun init_devices :: "'s eth_ops \<Rightarrow> nlk_event_info list \<Rightarrow> dev_table \<times> 's \<Rightarrow> (dev_table \<times> 's) option" where
  "init_devices E [] s = Some s"
| "init_devices E (i # is) s =
     (if ne_iface i = [] then init_devices E is s
      else (case init_device E i (snd s) of None \<Rightarrow> None
            | Some (d, w) \<Rightarrow> init_devices E is (map_insert (ne_iface i) d (fst s), w)))"

definition EthernetManagement_Init :: "'s eth_ops \<Rightarrow> dev_table \<times> 's \<Rightarrow> (dev_table \<times> 's) option" where
  "EthernetManagement_Init E s =
     (case eo_GetLinkInfo E (snd s) of (linkInfos, w) \<Rightarrow> init_devices E linkInfos (fst s, w))"

section \<open>EthernetService\<close>

text \<open>
  The listener thread calls every registered handle for an event; the only handle is the management,
  which every start registers once more, so their number is kept.
\<close>

record eth_service =
  es_state :: ServiceRunningState
  es_registerToService :: bool
  es_devs :: "dev_table option"
  es_listeners :: nat
  es_nlkHandles :: nat

definition EthernetService_new :: eth_service where
  "EthernetService_new = \<lparr>es_state = STATE_STOPPED, es_registerToService = False, es_devs = Some [], es_listeners = 0, es_nlkHandles = 0\<rparr>"

definition EthernetService_Init :: "bool \<Rightarrow> bool \<Rightarrow> eth_service \<Rightarrow> bool \<times> eth_service" where
  "EthernetService_Init registered publish s =
     (if \<not> registered then (False, s)
      else if \<not> es_registerToService s \<and> \<not> publish then (False, s)
      else (True, s\<lparr>es_registerToService := True\<rparr>))"

definition EthernetService_OnStart ::
    "bool \<Rightarrow> bool \<Rightarrow> 's eth_ops \<Rightarrow> eth_service \<Rightarrow> 's \<Rightarrow> (eth_service \<times> 's) option" where
  "EthernetService_OnStart registered publish E s w =
     (if es_state s = STATE_RUNNING then Some (s, w)
      else (case EthernetService_Init registered publish s of
              (False, s1) \<Rightarrow> Some (s1, w)
            | (True, s1) \<Rightarrow>
                (let s2 = s1\<lparr>es_listeners := Suc (es_listeners s1)\<rparr> in
                 case es_devs s2 of
                   None \<Rightarrow> Some (s2\<lparr>es_state := STATE_RUNNING\<rparr>, w)
                 | Some devs \<Rightarrow>
                     (case EthernetManagement_Init E (devs, w) of None \<Rightarrow> None
                      | Some (devs', w') \<Rightarrow>
                          Some (s2\<lparr>es_devs := Some devs', es_nlkHandles := Suc (es_nlkHandles s2), es_state := STATE_RUNNING\<rparr>, w')))))"

definition EthernetService_OnStop :: "eth_service \<Rightarrow> eth_service" where
  "EthernetService_OnStop s = s\<lparr>es_state := STATE_STOPPED, es_registerToService := False\<rparr>"

definition EthernetService_SetIfaceConfig ::
    "'s eth_ops \<Rightarrow> string \<Rightarrow> InterfaceConfiguration option \<Rightarrow> eth_service \<Rightarrow> 's \<Rightarrow> (int32 \<times> eth_service \<times> 's) option" where
  "EthernetService_SetIfaceConfig E iface ic s w =
     (case es_devs s of None \<Rightarrow> Some (ETHERNET_ERROR, s, w)
      | Some devs \<Rightarrow>
          (case EthernetManagement_UpdateDevInterfaceState E iface ic devs w of None \<Rightarrow> None
           | Some (ret, devs', w') \<Rightarrow> Some (ret, s\<lparr>es_devs := Some devs'\<rparr>, w')))"

definition EthernetService_GetIfaceConfig :: "string \<Rightarrow> eth_service \<Rightarrow> InterfaceConfiguration option" where
  "EthernetService_GetIfaceConfig iface s =
     (case es_devs s of None \<Rightarrow> None | Some devs \<Rightarrow> EthernetManagement_GetDevInterfaceCfg iface devs)"

definition EthernetService_IsActivate :: "string \<Rightarrow> eth_service \<Rightarrow> int32" where
  "EthernetService_IsActivate iface s =
     (case es_devs s of None \<Rightarrow> ETHERNET_ERROR | Some devs \<Rightarrow> EthernetManagement_IsActivate iface devs)"

definition EthernetService_GetActivateInterfaces :: "eth_service \<Rightarrow> string list" where
  "EthernetService_GetActivateInterfaces s =
     (case es_devs s of None \<Rightarrow> [] | Some devs \<Rightarrow> EthernetManagement_GetActivateInterfaces devs)"

text \<open>A link event in one listener thread (each of the \<open>es_listeners\<close> receives it): every handle in turn.\<close>

definition deliver_event :: "'s eth_ops \<Rightarrow> nlk_event_info \<Rightarrow> eth_service \<Rightarrow> 's \<Rightarrow> eth_service \<times> 's" where
  "deliver_event E info s w =
     (case es_devs s of None \<Rightarrow> (s, w)
      | Some devs \<Rightarrow> (case (EthernetManagement_Handle E info ^^ es_nlkHandles s) (devs, w) of
                       (devs', w') \<Rightarrow> (s\<lparr>es_devs := Some devs'\<rparr>, w')))"

end
