(* ===== verification/Ethernet_Properties.thy ===== *)
theory Ethernet_Properties
  imports Ethernet_Service Conn_Properties
begin

text \<open>
  The properties of the Ethernet service: the invariant of the table of devices in every reachable
  state, the name servers that DHCP renewals pile up, what a restart does, and the composition with
  the connection service that a device registers with and reports to.
\<close>

section \<open>The table\<close>

definition table_ok :: "(string \<times> 'v) list \<Rightarrow> bool" where
  "table_ok es \<longleftrightarrow> sorted_wrt (<) (map fst es)"

lemma table_ok_distinct: "table_ok es \<Longrightarrow> distinct (map fst es)"
  by (simp add: table_ok_def strict_sorted_iff)

lemma fst_map_put [simp]: "map fst (map_put k v es) = map fst es"
  by (induction es) (auto simp: map_put_def)

lemma set_map_put: "set (map_put k v es) \<subseteq> insert (k, v) (set es)"
  by (auto simp: map_put_def)

lemma map_of_map_put: "map_of (map_put k v es) k' = (if k' = k \<and> k \<in> fst ` set es then Some v else map_of es k')"
  by (induction es) (force simp: map_put_def)+

lemma set_map_insert: "set (map_insert k v es) \<subseteq> insert (k, v) (set es)"
  by (induction k v es rule: map_insert.induct) auto

lemma map_insert_table_ok: "table_ok es \<Longrightarrow> table_ok (map_insert k v es)"
proof (induction k v es rule: map_insert.induct)
  case (2 k v e es)
  have "fst ` set (map_insert k v es) \<subseteq> insert k (fst ` set es)" using set_map_insert [of k v es] by auto
  then show ?case using 2 by (fastforce simp: table_ok_def not_less)
qed (simp add: table_ok_def)

lemma map_insert_present: "k \<in> fst ` set es \<Longrightarrow> table_ok es \<Longrightarrow> map_insert k v es = es"
  by (induction k v es rule: map_insert.induct) (auto simp: table_ok_def)

section \<open>The invariant\<close>

text \<open>
  What holds of every device in the table: its name is its key, it has a configuration and supplier
  information; once registered it has a supplier identifier; a device that has reported its link is
  available exactly when both flags are set; a static configuration has link information.
\<close>

definition dev_ok :: "string \<Rightarrow> dev_state \<Rightarrow> bool" where
  "dev_ok n d \<longleftrightarrow> dv_devName d = n \<and> dv_ifcfg d \<noteq> None \<and> dv_netSupplierInfo d \<noteq> None \<and>
     (dv_connLinkState d \<noteq> UNREGISTERED \<longrightarrow> MINIMUM_SUPPLIER_ID <s dv_netSupplier d) \<and>
     (dv_connLinkState d = LINK_AVAILABLE \<longrightarrow> dv_linkUp d \<and> dv_lowerUp d) \<and>
     (dv_connLinkState d = LINK_UNAVAILABLE \<longrightarrow> \<not> (dv_linkUp d \<and> dv_lowerUp d)) \<and>
     (DevInterfaceState_GetIPSetMode d = STATIC \<longrightarrow> dv_linkInfo d \<noteq> None)"

definition eth_inv :: "dev_table \<Rightarrow> bool" where
  "eth_inv devs \<longleftrightarrow> table_ok devs \<and> (\<forall>(n, d) \<in> set devs. dev_ok n d)"

lemma eth_inv_put: "eth_inv devs \<Longrightarrow> dev_ok k d \<Longrightarrow> eth_inv (map_put k d devs)"
  using set_map_put [of k d devs] by (fastforce simp: eth_inv_def table_ok_def)

lemma eth_inv_insert: "eth_inv devs \<Longrightarrow> dev_ok k d \<Longrightarrow> eth_inv (map_insert k d devs)"
  using set_map_insert [of k d devs] map_insert_table_ok [of devs k d] by (fastforce simp: eth_inv_def)

lemma eth_inv_dev: "eth_inv devs \<Longrightarrow> map_of devs k = Some d \<Longrightarrow> dev_ok k d"
  by (auto simp: eth_inv_def dest: map_of_SomeD)

text \<open>Reporting the link: the state of the device follows its flags.\<close>

definition report :: "dev_state \<Rightarrow> dev_state" where
  "report d = (if dv_connLinkState d = UNREGISTERED then d else DevInterfaceState_UpdateSupplierAvailable d)"

lemma report_simps [simp]:
  "dv_devName (report d) = dv_devName d" "dv_ifcfg (report d) = dv_ifcfg d" "dv_netSupplier (report d) = dv_netSupplier d"
  "dv_linkUp (report d) = dv_linkUp d" "dv_lowerUp (report d) = dv_lowerUp d" "dv_dhcpReqState (report d) = dv_dhcpReqState d"
  "dv_linkInfo (report d) = dv_linkInfo d" "dv_netSupplierInfo (report d) = None \<longleftrightarrow> dv_netSupplierInfo d = None"
  "dv_connLinkState (report d) = (if dv_connLinkState d = UNREGISTERED then UNREGISTERED
     else if dv_linkUp d \<and> dv_lowerUp d then LINK_AVAILABLE else LINK_UNAVAILABLE)"
  by (simp_all add: report_def DevInterfaceState_UpdateSupplierAvailable_def Let_def)

lemma RemoteUpdateNetSupplierInfo_dev:
  "dv_netSupplierInfo d \<noteq> None \<Longrightarrow> fst (snd (DevInterfaceState_RemoteUpdateNetSupplierInfo E d w)) = report d"
proof -
  assume "dv_netSupplierInfo d \<noteq> None"
  then obtain i where "dv_netSupplierInfo (DevInterfaceState_UpdateSupplierAvailable d) = Some i"
    by (auto simp: DevInterfaceState_UpdateSupplierAvailable_def Let_def)
  then show ?thesis by (simp add: DevInterfaceState_RemoteUpdateNetSupplierInfo_def report_def split_def)
qed

lemma device_link_change_dev:
  assumes "dv_netSupplierInfo d \<noteq> None" and "eo_hasDhcpService E"
  shows "fst (device_link_change E n up lowerUp d w) =
    (report (d\<lparr>dv_linkUp := up, dv_lowerUp := lowerUp\<rparr>))
      \<lparr>dv_dhcpReqState := (if DevInterfaceState_GetIPSetMode d = DHCP then lowerUp else dv_dhcpReqState d)\<rparr>"
proof -
  let ?d = "d\<lparr>dv_linkUp := up, dv_lowerUp := lowerUp\<rparr>"
  have r: "report (?d\<lparr>dv_dhcpReqState := b\<rparr>) = (report ?d)\<lparr>dv_dhcpReqState := b\<rparr>" for b
    by (simp add: report_def DevInterfaceState_UpdateSupplierAvailable_def Let_def)
  have m: "DevInterfaceState_GetIPSetMode ?d = DevInterfaceState_GetIPSetMode d" by (simp add: DevInterfaceState_GetIPSetMode_def)
  have same: "e = e\<lparr>dv_dhcpReqState := b\<rparr>" if "dv_dhcpReqState e = b" for e :: dev_state and b using that by (cases e) simp
  show ?thesis
  proof (cases lowerUp)
    case True
    obtain x d1 w1 where c: "DevInterfaceState_RemoteUpdateNetSupplierInfo E ?d w = (x, d1, w1)" by (metis prod.collapse)
    then have "d1 = report ?d" using RemoteUpdateNetSupplierInfo_dev [of ?d E w] assms(1) by simp
    then show ?thesis using True assms(2) c m same [of "report ?d"]
      by (simp add: device_link_change_def Let_def split_def)
  next
    case False
    let ?b = "DevInterfaceState_GetIPSetMode d = DHCP \<and> dv_dhcpReqState d"
    let ?e = "if ?b then ?d\<lparr>dv_dhcpReqState := False\<rparr> else ?d" and ?w = "if ?b then eo_StopDhcpClient E n False w else w"
    obtain x d1 w1 where c: "DevInterfaceState_RemoteUpdateNetSupplierInfo E ?e ?w = (x, d1, w1)" by (metis prod.collapse)
    then have "d1 = report ?e" using RemoteUpdateNetSupplierInfo_dev [of ?e E ?w] assms(1) by simp
    then show ?thesis using False assms(2) c m same [of "report ?d"] r [of False]
      by (auto simp: device_link_change_def Let_def split_def)
  qed
qed

lemma device_link_change_ok:
  assumes "dev_ok n d" and "eo_hasDhcpService E" and "d' = fst (device_link_change E n up lowerUp d w)"
  shows "dev_ok n d'" "dv_linkUp d' = up" "dv_lowerUp d' = lowerUp"
    "dv_connLinkState d' = (if dv_connLinkState d = UNREGISTERED then UNREGISTERED
      else if up \<and> lowerUp then LINK_AVAILABLE else LINK_UNAVAILABLE)"
proof -
  have "dv_netSupplierInfo d \<noteq> None" using assms(1) by (simp add: dev_ok_def)
  note d' = device_link_change_dev [OF this assms(2), of n up lowerUp w, folded assms(3)]
  show "dev_ok n d'" using assms(1) unfolding d' dev_ok_def
    by (simp add: DevInterfaceState_GetIPSetMode_def split: if_splits)
  show "dv_linkUp d' = up" "dv_lowerUp d' = lowerUp"
    "dv_connLinkState d' = (if dv_connLinkState d = UNREGISTERED then UNREGISTERED
      else if up \<and> lowerUp then LINK_AVAILABLE else LINK_UNAVAILABLE)" unfolding d' by simp_all
qed


lemma SetIfcfg_dev:
  assumes "DevInterfaceState_SetIfcfg E ifcfg d w = Some (d', w')"
  obtains c li where "ifcfg = Some c" "ic_mode c = STATIC" "d' = d\<lparr>dv_ifcfg := ifcfg, dv_linkInfo := Some li\<rparr>"
  | c where "ifcfg = Some c" "ic_mode c \<noteq> STATIC" "d' = d\<lparr>dv_ifcfg := ifcfg\<rparr>"
proof (cases ifcfg)
  case None
  then show thesis using assms by (simp add: DevInterfaceState_SetIfcfg_def)
next
  case (Some c)
  show thesis
  proof (cases "ic_mode c = STATIC")
    case True
    then have "\<exists>li. d' = d\<lparr>dv_ifcfg := ifcfg, dv_linkInfo := Some li\<rparr>" using assms Some
      by (auto simp: DevInterfaceState_SetIfcfg_def DevInterfaceState_UpdateLinkInfo_static_def DevInterfaceState_SetIpAddr_def Let_def)
    then show thesis using that(1) Some True by blast
  next
    case False
    then have "d' = d\<lparr>dv_ifcfg := ifcfg\<rparr>" using assms Some by (simp add: DevInterfaceState_SetIfcfg_def)
    then show thesis using that(2) Some False by blast
  qed
qed

lemma SetIfcfg_ok:
  assumes "dv_devName d = n" and "dv_netSupplierInfo d \<noteq> None"
    and "dv_connLinkState d \<noteq> UNREGISTERED \<longrightarrow> MINIMUM_SUPPLIER_ID <s dv_netSupplier d"
    and "dv_connLinkState d = LINK_AVAILABLE \<longrightarrow> dv_linkUp d \<and> dv_lowerUp d"
    and "dv_connLinkState d = LINK_UNAVAILABLE \<longrightarrow> \<not> (dv_linkUp d \<and> dv_lowerUp d)"
    and "DevInterfaceState_SetIfcfg E ifcfg d w = Some (d', w')"
  shows "dev_ok n d'"
  using assms(6)
proof (cases rule: SetIfcfg_dev)
  case (1 c li)
  then show ?thesis using assms(1-5) by (simp add: dev_ok_def)
next
  case (2 c)
  then show ?thesis using assms(1-5) by (simp add: dev_ok_def DevInterfaceState_GetIPSetMode_def)
qed

lemma SetIfcfg_static:
  "\<exists>w' li. DevInterfaceState_SetIfcfg E (Some static_ifcfg) DevInterfaceState_new w =
     Some (DevInterfaceState_new\<lparr>dv_ifcfg := Some static_ifcfg, dv_linkInfo := Some li\<rparr>, w')"
  by (simp add: DevInterfaceState_SetIfcfg_def DevInterfaceState_UpdateLinkInfo_static_def DevInterfaceState_SetIpAddr_def
      DevInterfaceState_new_def static_ifcfg_def Let_def STATIC_def)

text \<open>A new device: registered when the connection service gives it an identifier above the minimum.\<close>

lemma init_deviceE:
  assumes "init_device E info w = Some (d, w')"
  obtains li w0 hw w1 x d2 w2 where
    "DevInterfaceState_SetIfcfg E (Some static_ifcfg) DevInterfaceState_new w =
       Some (DevInterfaceState_new\<lparr>dv_ifcfg := Some static_ifcfg, dv_linkInfo := Some li\<rparr>, w0)"
    "eo_GetHWaddr E (ne_iface info) w0 = (hw, w1)"
    "DevInterfaceState_RemoteRegisterNetSupplier E (DevInterfaceState_new\<lparr>dv_ifcfg := Some static_ifcfg, dv_linkInfo := Some li,
        dv_devName := ne_iface info, dv_devHWaddr := hw, dv_linkUp := ne_ifiFlags info AND IFF_UP \<noteq> 0,
        dv_lowerUp := ne_ifiFlags info AND IFF_LOWER_UP \<noteq> 0\<rparr>) w1 = (x, d2, w2)"
    "if ne_ifiFlags info AND IFF_UP \<noteq> 0 \<and> ne_ifiFlags info AND IFF_LOWER_UP \<noteq> 0
     then \<exists>y. DevInterfaceState_RemoteUpdateNetSupplierInfo E d2 w2 = (y, d, w') else d = d2 \<and> w' = w2"
proof -
  obtain w0 li where c: "DevInterfaceState_SetIfcfg E (Some static_ifcfg) DevInterfaceState_new w =
      Some (DevInterfaceState_new\<lparr>dv_ifcfg := Some static_ifcfg, dv_linkInfo := Some li\<rparr>, w0)"
    using SetIfcfg_static [of E w] by blast
  obtain hw w1 where h: "eo_GetHWaddr E (ne_iface info) w0 = (hw, w1)" by (metis prod.collapse)
  let ?d = "DevInterfaceState_new\<lparr>dv_ifcfg := Some static_ifcfg, dv_linkInfo := Some li, dv_devName := ne_iface info,
      dv_devHWaddr := hw, dv_linkUp := ne_ifiFlags info AND IFF_UP \<noteq> 0, dv_lowerUp := ne_ifiFlags info AND IFF_LOWER_UP \<noteq> 0\<rparr>"
  obtain x d2 w2 where g: "DevInterfaceState_RemoteRegisterNetSupplier E ?d w1 = (x, d2, w2)" by (metis prod.collapse)
  obtain y d3 w3 where u: "DevInterfaceState_RemoteUpdateNetSupplierInfo E d2 w2 = (y, d3, w3)" by (metis prod.collapse)
  show thesis using that [OF c h g] assms c h g u by (simp add: init_device_def Let_def split: if_splits)
qed

lemma init_device_ok:
  assumes "init_device E info w = Some (d, w')"
  shows "dev_ok (ne_iface info) d"
  using assms
proof (cases rule: init_deviceE)
  case (1 li w0 hw w1 x d2 w2)
  have d2: "dev_ok (ne_iface info) d2" "dv_connLinkState d2 = UNREGISTERED \<or> dv_connLinkState d2 = REGISTERED"
    "dv_linkUp d2 = (ne_ifiFlags info AND IFF_UP \<noteq> 0)" "dv_lowerUp d2 = (ne_ifiFlags info AND IFF_LOWER_UP \<noteq> 0)"
    "dv_netSupplierInfo d2 \<noteq> None"
    using 1(3) by (auto simp: DevInterfaceState_RemoteRegisterNetSupplier_def DevInterfaceState_new_def dev_ok_def Let_def
        DevInterfaceState_GetIPSetMode_def split: prod.splits if_splits)
  have d: "d = (if dv_linkUp d2 \<and> dv_lowerUp d2 then report d2 else d2)"
    using RemoteUpdateNetSupplierInfo_dev [OF d2(5), of E w2] 1(4) d2(3,4) by (auto split: if_splits)
  show ?thesis using d2 unfolding d by (auto simp: dev_ok_def DevInterfaceState_GetIPSetMode_def simp del: not_None_eq)
qed

lemma init_devices_ok: "eth_inv (fst s) \<Longrightarrow> init_devices E is s = Some t \<Longrightarrow> eth_inv (fst t)"
proof (induction E "is" s rule: init_devices.induct)
  case (2 E i "is" s)
  show ?case
  proof (cases "ne_iface i = []")
    case True
    then show ?thesis using 2 by simp
  next
    case False
    then obtain d w where d: "init_device E i (snd s) = Some (d, w)" "init_devices E is (map_insert (ne_iface i) d (fst s), w) = Some t"
      using 2(4) by (auto split: option.splits)
    then show ?thesis using 2(2) [OF False d(1) refl] eth_inv_insert [OF 2(3) init_device_ok [OF d(1)]] by simp
  qed
qed simp

text \<open>
  The steps of the management: link events, DHCP results, configurations from clients, \<open>Init\<close>, and
  whatever the other side does in between.
\<close>

inductive eth_step :: "'s eth_ops \<Rightarrow> dev_table \<times> 's \<Rightarrow> dev_table \<times> 's \<Rightarrow> bool" for E where
  step_init: "EthernetManagement_Init E s = Some t \<Longrightarrow> eth_step E s t"
| step_link: "eth_step E s (EthernetManagement_Handle E info s)"
| step_dhcp: "eth_step E (devs, w) (EthDhcpResultNotify_OnSuccess E status ifname result devs w)"
| step_config: "EthernetManagement_UpdateDevInterfaceState E iface cfg devs w = Some (ret, devs', w') \<Longrightarrow> eth_step E (devs, w) (devs', w')"
| step_world: "eth_step E (devs, w) (devs, w')"

lemma Handle_inv:
  assumes "eth_inv devs" and "eo_hasDhcpService E"
  shows "eth_inv (fst (EthernetManagement_Handle E info (devs, w)))"
proof (cases "map_of devs (ne_iface info)")
  case None
  then show ?thesis using assms(1) by (simp add: EthernetManagement_Handle_def EthernetManagement_UpdateInterfaceState_def)
next
  case (Some d)
  let ?r = "device_link_change E (ne_iface info) (ne_ifiFlags info AND IFF_UP \<noteq> 0) (ne_ifiFlags info AND IFF_LOWER_UP \<noteq> 0) d w"
  have "eth_inv (map_put (ne_iface info) (fst ?r) devs)"
    by (rule eth_inv_put [OF assms(1) device_link_change_ok(1) [OF eth_inv_dev [OF assms(1) Some] assms(2) refl]])
  then show ?thesis using Some by (simp add: EthernetManagement_Handle_def EthernetManagement_UpdateInterfaceState_def split_def)
qed

lemma OnSuccess_inv:
  assumes "eth_inv devs"
  shows "eth_inv (fst (EthDhcpResultNotify_OnSuccess E status ifname result devs w))"
proof (cases "map_of devs ifname")
  case None
  then show ?thesis using assms by (simp add: EthDhcpResultNotify_OnSuccess_def EthernetManagement_UpdateDevInterfaceLinkInfo_def)
next
  case (Some d)
  have "dev_ok ifname (DevInterfaceState_UpdateLinkInfo_dhcp ifname result d)"
    using eth_inv_dev [OF assms Some]
    by (simp add: dev_ok_def DevInterfaceState_UpdateLinkInfo_dhcp_def DevInterfaceState_GetIPSetMode_def Let_def)
  from eth_inv_put [OF assms this] show ?thesis using Some assms
    by (simp add: EthDhcpResultNotify_OnSuccess_def EthernetManagement_UpdateDevInterfaceLinkInfo_def Let_def)
qed

lemma UpdateDevInterfaceState_inv:
  assumes "eth_inv devs" and "EthernetManagement_UpdateDevInterfaceState E iface cfg devs w = Some (ret, devs', w')"
  shows "eth_inv devs'"
proof (cases "map_of devs iface")
  case None
  then show ?thesis using assms by (simp add: EthernetManagement_UpdateDevInterfaceState_def)
next
  case (Some d)
  have d: "dev_ok iface d" using eth_inv_dev [OF assms(1) Some] .
  show ?thesis
  proof (cases "dv_linkUp d")
    case False
    then show ?thesis using assms Some by (simp add: EthernetManagement_UpdateDevInterfaceState_def)
  next
    case True
    then obtain d' where d': "DevInterfaceState_SetIfcfg E cfg d w = Some (d', w')" "devs' = map_put iface d' devs"
      using assms(2) Some by (auto simp: EthernetManagement_UpdateDevInterfaceState_def split: option.splits)
    have "dev_ok iface d'" using d by (intro SetIfcfg_ok [OF _ _ _ _ _ d'(1)]) (simp_all add: dev_ok_def)
    then show ?thesis unfolding d'(2) by (rule eth_inv_put [OF assms(1)])
  qed
qed

lemma EthernetManagement_Init_inv:
  assumes "eth_inv (fst s)" and "EthernetManagement_Init E s = Some t"
  shows "eth_inv (fst t)"
proof -
  obtain infos w where "eo_GetLinkInfo E (snd s) = (infos, w)" by (metis prod.collapse)
  then have "init_devices E infos (fst s, w) = Some t" using assms(2) by (simp add: EthernetManagement_Init_def)
  then show ?thesis using init_devices_ok [of "(fst s, w)" E infos t] assms(1) by simp
qed

lemma eth_step_inv:
  assumes "eth_step E s t" and "eo_hasDhcpService E" and "eth_inv (fst s)"
  shows "eth_inv (fst t)"
  using assms
proof (induction rule: eth_step.induct)
  case (step_link s info)
  then show ?case using Handle_inv [of "fst s" E info "snd s"] by simp
qed (simp_all add: EthernetManagement_Init_inv OnSuccess_inv UpdateDevInterfaceState_inv)

definition eth_reachable :: "'s eth_ops \<Rightarrow> dev_table \<times> 's \<Rightarrow> bool" where
  "eth_reachable E = reach (\<lambda>s. fst s = []) (eth_step E)"

interpretation eth_system: transition_system "\<lambda>s. fst s = []" "eth_step E" "\<lambda>s. eo_hasDhcpService E \<longrightarrow> eth_inv (fst s)" for E
proof (unfold_locales, goal_cases)
  case (1 s)
  then show ?case by (simp add: eth_inv_def table_ok_def)
next
  case (2 s t)
  then show ?case using eth_step_inv [of E s t] by blast
qed

text \<open>
  C24. In every reachable state of the Ethernet management the table is sorted by name without
  repetition; every device has its name and a configuration; a device past \<open>UNREGISTERED\<close> has a supplier
  identifier above the minimum; a device that has reported its link says it is available exactly when both
  link flags are set; and a static configuration has given it link information.
\<close>

theorem eth_reachable_inv:
  assumes "eth_reachable E s" and "eo_hasDhcpService E"
  shows "sorted_wrt (<) (map fst (fst s)) \<and>
    (\<forall>(n, d) \<in> set (fst s). dv_devName d = n \<and> dv_ifcfg d \<noteq> None \<and>
      (dv_connLinkState d \<noteq> UNREGISTERED \<longrightarrow> MINIMUM_SUPPLIER_ID <s dv_netSupplier d) \<and>
      (dv_connLinkState d = LINK_AVAILABLE \<longrightarrow> dv_linkUp d \<and> dv_lowerUp d) \<and>
      (dv_connLinkState d = LINK_UNAVAILABLE \<longrightarrow> \<not> (dv_linkUp d \<and> dv_lowerUp d)) \<and>
      (DevInterfaceState_GetIPSetMode d = STATIC \<longrightarrow> dv_linkInfo d \<noteq> None))"
  using eth_system.reach_inv [OF assms(1) [unfolded eth_reachable_def]] assms(2)
  by (fastforce simp: eth_inv_def table_ok_def dev_ok_def)

text \<open>A machine with one Ethernet device that is up, whose supplier gets the identifier 1003.\<close>

definition sample_eth_ops :: "nlk_event_info list \<Rightarrow> unit eth_ops" where
  "sample_eth_ops infos = \<lparr>eo_RegisterNetSupplier = (\<lambda>_ _ _ w. (1003, w)), eo_UnregisterNetSupplier = (\<lambda>_ w. (0, w)),
     eo_UpdateNetLinkInfo = (\<lambda>_ _ w. (0, w)), eo_UpdateNetSupplierInfo = (\<lambda>_ _ w. (0, w)),
     eo_SetIpAddr = (\<lambda>_ _ w. (0, w)), eo_GetHWaddr = (\<lambda>_ w. ([2, 0, 0, 0, 0, 1], w)), eo_GetLinkInfo = (\<lambda>w. (infos, w)),
     eo_hasDhcpService = True, eo_StartDhcpClient = (\<lambda>_ _ w. w), eo_StopDhcpClient = (\<lambda>_ _ w. w),
     eo_GetDhcpResult = (\<lambda>_ _ w. (0, w))\<rparr>"

definition sample_device :: dev_state where
  "sample_device = \<lparr>dv_connLinkState = LINK_AVAILABLE, dv_netSupplier = 1003, dv_devName = ''eth0'', dv_devHWaddr = [2, 0, 0, 0, 0, 1],
     dv_linkUp = True, dv_lowerUp = True, dv_dhcpReqState = False,
     dv_linkInfo = Some (NetLinkInfo_new\<lparr>li_netAddrList := [INetAddr_new],
       li_routeList := [\<lparr>rt_iface = [], rt_destination = INetAddr_new, rt_gateway = INetAddr_new\<rparr>]\<rparr>),
     dv_netSupplierInfo = Some (NetSupplierInfo_new\<lparr>si_isAvailable := True\<rparr>), dv_ifcfg = Some static_ifcfg,
     dv_netCapabilities = NetCapabilities_val NET_CAPABILITIES_INTERNET\<rparr>"

lemmas eth_run_defs = EthernetManagement_Init_def init_device_def DevInterfaceState_SetIfcfg_def DevInterfaceState_UpdateLinkInfo_static_def
  DevInterfaceState_SetIpAddr_def DevInterfaceState_RemoteRegisterNetSupplier_def DevInterfaceState_RemoteUpdateNetSupplierInfo_def
  DevInterfaceState_UpdateSupplierAvailable_def DevInterfaceState_new_def static_ifcfg_def Let_def STATIC_def DHCP_def
  IFF_UP_def IFF_LOWER_UP_def MINIMUM_SUPPLIER_ID_def

lemma sample_Init:
  "EthernetManagement_Init (sample_eth_ops [\<lparr>ne_iface = ''eth0'', ne_ifiFlags = 0x10001\<rparr>]) ([], ()) = Some ([(''eth0'', sample_device)], ())"
  by (simp add: eth_run_defs sample_eth_ops_def sample_device_def NetLinkInfo_new_def word_sless_alt)

theorem eth_reachable_inv_witness:
  "dv_connLinkState sample_device = LINK_AVAILABLE \<and> dv_linkUp sample_device \<and> dv_lowerUp sample_device"
proof -
  let ?E = "sample_eth_ops [\<lparr>ne_iface = ''eth0'', ne_ifiFlags = 0x10001\<rparr>]"
  have "eth_reachable ?E ([(''eth0'', sample_device)], ())" unfolding eth_reachable_def
    by (rule reach_step, rule reach_init [where s = "([], ())"]) (simp_all add: step_init [OF sample_Init])
  from eth_reachable_inv [OF this] show ?thesis by (simp add: sample_eth_ops_def sample_device_def)
qed

section \<open>Name servers\<close>

text \<open>What a client sees after a number of DHCP results for the same device.\<close>

definition dhcp_results :: "'s eth_ops \<Rightarrow> string \<Rightarrow> dhcp_result list \<Rightarrow> dev_table \<times> 's \<Rightarrow> dev_table \<times> 's" where
  "dhcp_results E ifname rs = fold (\<lambda>r s. EthDhcpResultNotify_OnSuccess E 0 ifname r (fst s) (snd s)) rs"

definition name_servers :: "dhcp_result \<Rightarrow> string list" where
  "name_servers r = [dr_strDns1 r, dr_strDns2 r]"

definition dev_dns :: "dev_table \<Rightarrow> string \<Rightarrow> string list" where
  "dev_dns devs n = (case map_of devs n of None \<Rightarrow> []
     | Some d \<Rightarrow> (case dv_linkInfo d of None \<Rightarrow> [] | Some li \<Rightarrow> map ia_address (li_dnsList li)))"

lemma OnSuccess_up:
  assumes "map_of devs n = Some d" and "dv_linkUp d"
  shows "fst (EthDhcpResultNotify_OnSuccess E status n r devs w) = map_put n (DevInterfaceState_UpdateLinkInfo_dhcp n r d) devs"
  using assms by (simp add: EthDhcpResultNotify_OnSuccess_def EthernetManagement_UpdateDevInterfaceLinkInfo_def Let_def)

lemma UpdateLinkInfo_dhcp_dns:
  "dv_linkUp (DevInterfaceState_UpdateLinkInfo_dhcp n r d) = dv_linkUp d"
  "map ia_address (li_dnsList (the (dv_linkInfo (DevInterfaceState_UpdateLinkInfo_dhcp n r d)))) =
     (case dv_linkInfo d of None \<Rightarrow> [] | Some li \<Rightarrow> map ia_address (li_dnsList li)) @ name_servers r"
  "dv_linkInfo (DevInterfaceState_UpdateLinkInfo_dhcp n r d) \<noteq> None"
  by (simp_all add: DevInterfaceState_UpdateLinkInfo_dhcp_def Let_def name_servers_def NetLinkInfo_new_def split: option.splits)

text \<open>
  The name servers of a device only grow: after any sequence of DHCP results for a device that is
  up, its list is the list it had followed by the two servers of every result, the old ones and the
  repeated ones included (\<open>UpdateLinkInfo\<close> clears the addresses and the routes, not \<open>dnsList_\<close>).
\<close>

theorem dhcp_name_servers_pile_up:
  assumes "map_of devs n = Some d" and "dv_linkUp d"
  shows "dev_dns (fst (dhcp_results E n rs (devs, w))) n = dev_dns devs n @ concat (map name_servers rs)"
  using assms
proof (induction rs arbitrary: devs w d)
  case Nil
  then show ?case by (simp add: dhcp_results_def)
next
  case (Cons r rs)
  let ?d = "DevInterfaceState_UpdateLinkInfo_dhcp n r d"
  let ?s = "EthDhcpResultNotify_OnSuccess E 0 n r devs w"
  have up: "map_of (fst ?s) n = Some ?d" using OnSuccess_up [OF Cons.prems, of E 0 r w] Cons.prems(1)
    by (simp add: map_of_map_put) (metis map_of_SomeD fst_conv image_eqI)
  have "dev_dns (fst ?s) n = dev_dns devs n @ name_servers r"
    using UpdateLinkInfo_dhcp_dns(2,3) [of n r d] up Cons.prems(1) by (auto simp: dev_dns_def)
  moreover have "dhcp_results E n (r # rs) (devs, w) = dhcp_results E n rs (fst ?s, snd ?s)" by (simp add: dhcp_results_def)
  ultimately show ?case using Cons.IH [OF up, of "snd ?s"] UpdateLinkInfo_dhcp_dns(1) Cons.prems(2) by simp
qed

definition sample_lease :: dhcp_result where
  "sample_lease = \<lparr>dr_iptype = 4, dr_strYourCli = ''192.168.1.10'', dr_strServer = ''192.168.1.1'', dr_strDns1 = ''8.8.8.8'',
     dr_strDns2 = ''1.1.1.1'', dr_strRouter1 = ''192.168.1.1'', dr_strRouter2 = ''*''\<rparr>"

theorem dhcp_name_servers_pile_up_witness:
  "dev_dns (fst (dhcp_results (sample_eth_ops []) ''eth0'' [sample_lease, sample_lease] ([(''eth0'', sample_device)], ()))) ''eth0'' =
    [''8.8.8.8'', ''1.1.1.1'', ''8.8.8.8'', ''1.1.1.1'']"
  by (subst dhcp_name_servers_pile_up [of _ _ sample_device])
    (simp_all add: sample_device_def dev_dns_def NetLinkInfo_new_def name_servers_def sample_lease_def)

section \<open>Restarting\<close>

lemma init_devices_present:
  "init_devices E is (devs, w) = Some t \<Longrightarrow> table_ok devs \<Longrightarrow> \<forall>i \<in> set is. ne_iface i = [] \<or> ne_iface i \<in> fst ` set devs \<Longrightarrow>
    fst t = devs"
proof (induction "is" arbitrary: w)
  case (Cons i "is")
  show ?case
  proof (cases "ne_iface i = []")
    case False
    then obtain d b where "init_devices E is (map_insert (ne_iface i) d devs, b) = Some t"
      using Cons.prems(1) by (auto split: option.splits)
    then show ?thesis using Cons.IH [of b] Cons.prems(2,3) False by (simp add: map_insert_present)
  qed (use Cons in simp)
qed auto

text \<open>
  Stopping and starting the same service object, with the same devices present: the devices keep the
  state they had before (the new objects are made, registered and dropped), the management is
  registered a second time with the listener and a second listener thread is started. From then on each
  listener that receives a link event has it handled once more than before.
\<close>

theorem restart_handles_twice:
  assumes "es_devs s = Some devs" and "sorted_wrt (<) (map fst devs)"
    and "\<forall>i \<in> set (fst (eo_GetLinkInfo E w)). ne_iface i = [] \<or> ne_iface i \<in> fst ` set devs"
    and "EthernetService_OnStart True True E (EthernetService_OnStop s) w = Some (t, w')"
  shows "es_state t = STATE_RUNNING \<and> es_devs t = Some devs \<and> es_listeners t = Suc (es_listeners s) \<and>
    es_nlkHandles t = Suc (es_nlkHandles s) \<and>
    (\<forall>info v. deliver_event E info t v =
      (case EthernetManagement_Handle E info (case deliver_event E info s v of (u, v') \<Rightarrow> (the (es_devs u), v')) of
         (devs', v') \<Rightarrow> (t\<lparr>es_devs := Some devs'\<rparr>, v')))"
proof -
  obtain infos w1 where g: "eo_GetLinkInfo E w = (infos, w1)" by (metis prod.collapse)
  obtain devs' where i: "init_devices E infos (devs, w1) = Some (devs', w')"
    and t: "t = s\<lparr>es_state := STATE_RUNNING, es_registerToService := True, es_listeners := Suc (es_listeners s),
        es_devs := Some devs', es_nlkHandles := Suc (es_nlkHandles s)\<rparr>"
    using assms(1,4) g by (auto simp: EthernetService_OnStart_def EthernetService_OnStop_def EthernetService_Init_def
        EthernetManagement_Init_def Let_def split: option.splits)
  have "devs' = devs" using init_devices_present [OF i] assms(2,3) g by (simp add: table_ok_def)
  then show ?thesis using assms(1) unfolding t by (simp add: deliver_event_def split_def)
qed

definition sample_service :: eth_service where
  "sample_service = \<lparr>es_state = STATE_RUNNING, es_registerToService = True, es_devs = Some [(''eth0'', sample_device)],
     es_listeners = 1, es_nlkHandles = 1\<rparr>"

theorem restart_handles_twice_witness:
  "\<exists>t w'. EthernetService_OnStart True True (sample_eth_ops [\<lparr>ne_iface = ''eth0'', ne_ifiFlags = 0x10001\<rparr>])
     (EthernetService_OnStop sample_service) () = Some (t, w') \<and> es_nlkHandles t = 2"
proof -
  let ?E = "sample_eth_ops [\<lparr>ne_iface = ''eth0'', ne_ifiFlags = 0x10001\<rparr>]"
  have "init_devices ?E [\<lparr>ne_iface = ''eth0'', ne_ifiFlags = 0x10001\<rparr>] ([], ()) \<noteq> None"
    using sample_Init by (simp add: EthernetManagement_Init_def sample_eth_ops_def)
  then have "EthernetService_OnStart True True ?E (EthernetService_OnStop sample_service) () \<noteq> None"
    by (auto simp: EthernetService_OnStart_def EthernetService_OnStop_def EthernetService_Init_def sample_service_def
        EthernetManagement_Init_def sample_eth_ops_def Let_def split: option.splits)
  then obtain t w' where r: "EthernetService_OnStart True True ?E (EthernetService_OnStop sample_service) () = Some (t, w')" by force
  from restart_handles_twice [OF _ _ _ r] r show ?thesis by (simp add: sample_service_def sample_eth_ops_def)
qed

end
