(* ===== verification/Ethernet_Conn.thy ===== *)
theory Ethernet_Conn
  imports Ethernet_Properties
begin

text \<open>
  The Ethernet service on top of the connection service: the client operations of a device are the
  operations of \<open>NetConnService\<close> (a call through client, proxy and stub is the call of the service, see
  \<open>Net_Conn_Ipc\<close>), and the rest of its environment keeps a state of its own. The joint system
  interleaves the steps of the Ethernet management with those of all other users of the connection
  service.
\<close>

section \<open>The composed environment\<close>

definition on_conn :: "(conn_state \<Rightarrow> 'a \<times> conn_state) \<Rightarrow> conn_state \<times> 'w \<Rightarrow> 'a \<times> conn_state \<times> 'w" where
  "on_conn f s = (case f (fst s) of (r, t) \<Rightarrow> (r, t, snd s))"
definition on_rest :: "('w \<Rightarrow> 'a \<times> 'w) \<Rightarrow> conn_state \<times> 'w \<Rightarrow> 'a \<times> conn_state \<times> 'w" where
  "on_rest f s = (case f (snd s) of (r, w) \<Rightarrow> (r, fst s, w))"

definition conn_eth_ops :: "conn_env \<Rightarrow> 'w eth_ops \<Rightarrow> (conn_state \<times> 'w) eth_ops" where
  "conn_eth_ops E B =
     \<lparr>eo_RegisterNetSupplier = (\<lambda>ty ident caps. on_conn (NetConnService_RegisterNetSupplier E ty ident caps)),
      eo_UnregisterNetSupplier = (\<lambda>i. on_conn (NetConnService_UnregisterNetSupplier E i)),
      eo_UpdateNetLinkInfo = (\<lambda>i li. on_conn (NetConnService_UpdateNetLinkInfo E i (Some li))),
      eo_UpdateNetSupplierInfo = (\<lambda>i si. on_conn (NetConnService_UpdateNetSupplierInfo E i (Some si))),
      eo_SetIpAddr = (\<lambda>ifc ip. on_rest (eo_SetIpAddr B ifc ip)),
      eo_GetHWaddr = (\<lambda>ifc. on_rest (eo_GetHWaddr B ifc)),
      eo_GetLinkInfo = on_rest (eo_GetLinkInfo B),
      eo_hasDhcpService = eo_hasDhcpService B,
      eo_StartDhcpClient = (\<lambda>ifc v6 s. (fst s, eo_StartDhcpClient B ifc v6 (snd s))),
      eo_StopDhcpClient = (\<lambda>ifc v6 s. (fst s, eo_StopDhcpClient B ifc v6 (snd s))),
      eo_GetDhcpResult = (\<lambda>ifc t. on_rest (eo_GetDhcpResult B ifc t))\<rparr>"

section \<open>Suppliers stay registered\<close>

definition registered :: "conn_state \<Rightarrow> uint32 \<Rightarrow> NetworkType \<times> string \<Rightarrow> bool" where
  "registered s i k \<longleftrightarrow> (\<exists>r \<in> set (cs_netSupplier s). ns_supplierId (sup_at s r) = i \<and> sup_key s r = k)"

text \<open>Every listed supplier that is not of an identifier in \<open>X\<close> stays, with its identity.\<close>

definition keeps_suppliers :: "uint32 set \<Rightarrow> conn_state \<Rightarrow> conn_state \<Rightarrow> bool" where
  "keeps_suppliers X s t \<longleftrightarrow> (\<forall>r \<in> set (cs_netSupplier s). ns_supplierId (sup_at s r) \<notin> X \<longrightarrow>
     r \<in> set (cs_netSupplier t) \<and> ns_shape (sup_at t r) = ns_shape (sup_at s r))"

lemma keeps_refl [simp]: "keeps_suppliers X s s"
  by (simp add: keeps_suppliers_def)

lemma ns_shape_id: "ns_shape a = ns_shape b \<Longrightarrow> ns_supplierId a = ns_supplierId b \<and>
    ns_netSupplierType a = ns_netSupplierType b \<and> ns_netSupplierIdent a = ns_netSupplierIdent b"
  by (simp add: ns_shape_def)

lemma keeps_trans: "keeps_suppliers {} s t \<Longrightarrow> keeps_suppliers {} t u \<Longrightarrow> keeps_suppliers {} s u"
  by (simp add: keeps_suppliers_def)

lemma keeps_registered: "keeps_suppliers X s t \<Longrightarrow> i \<notin> X \<Longrightarrow> registered s i k \<Longrightarrow> registered t i k"
  unfolding keeps_suppliers_def registered_def sup_key_def by (metis ns_shape_id)

lemma shape_keeps: "same_shape s t \<Longrightarrow> keeps_suppliers {} s t"
  by (simp add: keeps_suppliers_def shape_lists shape_objects)

lemma keeps_frame: "cs_netSupplier t = cs_netSupplier s \<Longrightarrow> cs_suppliers t = cs_suppliers s \<Longrightarrow> keeps_suppliers {} s t"
  by (simp add: keeps_suppliers_def sup_at_def del: at_fold)

lemma RegisterNetSupplier_keeps:
  assumes "conn_inv E s" and "NetConnService_RegisterNetSupplier E netType ident caps s = (res, t)"
  shows "keeps_suppliers {} s t"
proof (cases "netType \<ge> NetworkType_val NET_TYPE_MAX \<or> netType \<le> NetworkType_val NET_TYPE_UNKNOWN")
  case True
  with assms(2) show ?thesis by (simp add: NetConnService_RegisterNetSupplier_def)
next
  case False
  then obtain ty where ty: "ty \<in> {NET_TYPE_CELLULAR, NET_TYPE_ETHERNET}" "netType = NetworkType_val ty"
    by (rule netType_valid)
  show ?thesis
  proof (cases "NetConnService_GetNetSupplierFromList (NetworkType_val ty) ident s")
    case (Some r)
    with assms(2) show ?thesis unfolding ty(2) by (simp add: RegisterNetSupplier_known [OF ty(1)])
  next
    case None
    obtain sr u where co: "create_objects E (NetworkType_val ty) ident caps s = (sr, u)" by (rule prod.exhaust)
    note c = create_objects_inv [OF assms(1) ty(1) None co]
    have t: "t = connect_default E u"
      using RegisterNetSupplier_new [OF ty(1) None co] assms(2) unfolding ty(2) by simp
    have "keeps_suppliers {} s u" using c(3,14) by (simp add: keeps_suppliers_def)
    then show ?thesis unfolding t using shape_keeps [OF connect_default_shape [OF c(1)]] by (rule keeps_trans)
  qed
qed

lemma RegisterNetSupplier_registers:
  assumes "conn_inv E s" and "ty \<in> {NET_TYPE_CELLULAR, NET_TYPE_ETHERNET}"
    and "NetConnService_RegisterNetSupplier E (NetworkType_val ty) ident caps s = (res, t)"
  shows "registered t res (ty, ident)"
proof (cases "NetConnService_GetNetSupplierFromList (NetworkType_val ty) ident s")
  case (Some r)
  have "r \<in> set (cs_netSupplier s)" "sup_key s r = (ty, ident)" using Some
    by (auto simp: NetConnService_GetNetSupplierFromList_def sup_key_def dest: find_Some_D)
  then show ?thesis using assms(3) RegisterNetSupplier_known [OF assms(2) Some] by (auto simp: registered_def)
next
  case None
  obtain sr u where co: "create_objects E (NetworkType_val ty) ident caps s = (sr, u)" by (rule prod.exhaust)
  note c = create_objects_inv [OF assms(1,2) None co]
  have t: "t = connect_default E u" "res = ns_supplierId (sup_at t sr)"
    using RegisterNetSupplier_new [OF assms(2) None co] assms(3) by simp_all
  have sh: "same_shape u t" unfolding t(1) using c(1) by (rule connect_default_shape)
  show ?thesis using c(3,8) t(2) shape_lists(2) [OF sh] shape_keys(1) [OF sh] by (auto simp: registered_def)
qed

lemma supplier_update_keeps:
  assumes "ns_shape spl = ns_shape (sup_at s q)"
  shows "keeps_suppliers {} s (s\<lparr>cs_networks := N, cs_suppliers := (cs_suppliers s)(q \<mapsto> spl), cs_world := w\<rparr>)"
    "keeps_suppliers {} s (s\<lparr>cs_networks := N, cs_suppliers := (cs_suppliers s)(q \<mapsto> spl)\<rparr>)"
  using assms by (simp_all add: keeps_suppliers_def sup_at_def del: at_fold)

lemma UpdateNetSupplierInfo_keeps: "keeps_suppliers {} s (snd (NetConnService_UpdateNetSupplierInfo E i info s))"
  by (auto simp: NetConnService_UpdateNetSupplierInfo_def Network_UpdateNetSupplierInfo_def NetSupplier_UpdateNetSupplierInfo_def
      net_sup_def ns_shape_def Let_def intro!: supplier_update_keeps split: option.splits prod.splits if_splits)

lemma UpdateNetLinkInfo_keeps: "keeps_suppliers {} s (snd (NetConnService_UpdateNetLinkInfo E i info s))"
  by (auto simp: NetConnService_UpdateNetLinkInfo_def Let_def intro!: keeps_frame split: option.splits prod.splits)

lemma update_capability_suppliers:
  "cs_netSupplier (update_capability caps cap ident ty nr s) = cs_netSupplier s"
  "cs_suppliers (update_capability caps cap ident ty nr s) = cs_suppliers s"
  by (simp_all add: update_capability_def push_service_def NetConnService_DeleteServiceFromListByCap_def Let_def)

lemma UpdateNetCapabilities_keeps: "keeps_suppliers {} s (snd (NetConnService_UpdateNetCapabilities i caps s))"
  by (auto simp: NetConnService_UpdateNetCapabilities_def Let_def update_capability_suppliers intro!: keeps_frame split: option.splits)

lemma fold_update_service_suppliers:
  "cs_netSupplier (fold (update_service f) rs s) = cs_netSupplier s" "cs_suppliers (fold (update_service f) rs s) = cs_suppliers s"
  by (induction rs arbitrary: s) (simp_all add: update_service_def)

lemma callback_ops_keep:
  "keeps_suppliers {} s (snd (NetConnService_RegisterNetConnCallback_all cb s))"
  "keeps_suppliers {} s (snd (NetConnService_RegisterNetConnCallback spec cb s))"
  "keeps_suppliers {} s (snd (NetConnService_UnregisterNetConnCallback_all cb s))"
  "keeps_suppliers {} s (snd (NetConnService_UnregisterNetConnCallback spec cb s))"
  by (auto simp: NetConnService_RegisterNetConnCallback_all_def NetConnService_RegisterNetConnCallback_def
      NetConnService_UnregisterNetConnCallback_all_def NetConnService_UnregisterNetConnCallback_def
      fold_update_service_suppliers update_service_def intro!: keeps_frame split: option.splits)

lemma ReConnectService_shape: "conn_inv E s \<Longrightarrow> same_shape s (snd (NetConnService_ReConnectService E s))"
proof (cases "cs_defaultNetService s")
  case (Some d)
  assume inv: "conn_inv E s"
  have run: "same_shape u (snd (run_service d f u))" if "conn_inv E u" "cs_defaultNetService u = Some d" "\<And>cx. cx_keeps cx (snd (f cx))" for u f
    using that by (intro run_service_shape [where X = "{}"]) (simp_all add: in_live conn_inv_def)
  let ?t = "snd (run_service d (NetService_ServiceDisConnect E) s)"
  have t: "conn_inv E ?t" "same_shape s ?t" "cs_defaultNetService ?t = Some d" using inv Some
    by (auto intro!: run_service_inv run ServiceDisConnect_keeps simp: in_live run_service_fields)
  have "same_shape ?t (snd (run_service d (NetService_ServiceConnect E) ?t))"
    "same_shape s (snd (run_service d (NetService_ServiceConnect E) s))"
    using run [OF t(1,3)] run [OF inv Some] ServiceConnect_keeps by blast+
  then show ?thesis using Some same_shape_trans [OF t(2)] by (simp add: NetConnService_ReConnectService_def Let_def)
qed (simp add: NetConnService_ReConnectService_def)

lemma fire_timer_keeps: "conn_inv E s \<Longrightarrow> keeps_suppliers {} s (fire_timer E s)"
proof -
  let ?u = "s\<lparr>cs_reConnectTimers := cs_reConnectTimers s - 1\<rparr>"
  assume "conn_inv E s"
  then have "conn_inv E ?u" by (simp add: conn_inv_parts_world)
  then have "keeps_suppliers {} ?u (fire_timer E s)"
    unfolding fire_timer_def NetConnService_ReConnectServiceTask_def by (intro shape_keeps ReConnectService_shape)
  moreover have "keeps_suppliers {} s ?u" by (rule keeps_frame) simp_all
  ultimately show ?thesis using keeps_trans by blast
qed

lemma UnregisterNetSupplier_keeps:
  assumes "conn_inv E s"
  shows "keeps_suppliers {i} s (snd (NetConnService_UnregisterNetSupplier E i s))"
proof -
  have erase: "r \<in> set (erase_first P xs)" if "r \<in> set xs" "\<not> P r" for r P and xs :: "nat list"
    using that by (induction xs) auto
  show ?thesis
    by (auto simp: keeps_suppliers_def NetConnService_UnregisterNetSupplier_def Let_def release_network_def
        NetConnService_DeleteServiceFromListByNet_def NetConnService_DeleteNetworkFromListBySupplierId_def
        NetConnService_DeleteSupplierFromListById_def sup_at_def intro!: erase simp del: at_fold split: option.splits)
qed

text \<open>Every step of the connection service keeps the suppliers, but for an unregistration.\<close>

lemma conn_step_keeps:
  assumes "conn_step E s t" and "conn_inv E s"
  shows "keeps_suppliers {} s t \<or> (\<exists>i. t = snd (NetConnService_UnregisterNetSupplier E i s))"
  using assms(1)
proof (cases rule: conn_step.cases)
  case (step_register netType ident caps)
  then show ?thesis using RegisterNetSupplier_keeps [OF assms(2) prod.collapse [symmetric]] by blast
qed (use fire_timer_keeps [OF assms(2)] in \<open>auto simp: callback_ops_keep UpdateNetSupplierInfo_keeps UpdateNetLinkInfo_keeps
    UpdateNetCapabilities_keeps NetConnService_OnStart_def NetConnService_OnStop_def NetConnService_Init_def intro: keeps_frame\<close>)

section \<open>The joint system\<close>

text \<open>What an operation of the Ethernet service does to the connection service behind it.\<close>

definition conn_kept :: "conn_env \<Rightarrow> conn_state \<times> 'w \<Rightarrow> conn_state \<times> 'w \<Rightarrow> bool" where
  "conn_kept E a b \<longleftrightarrow> (conn_inv E (fst a) \<longrightarrow> conn_inv E (fst b) \<and> keeps_suppliers {} (fst a) (fst b))"

lemma conn_kept_refl [simp]: "conn_kept E a a"
  by (simp add: conn_kept_def)

lemma conn_kept_trans: "conn_kept E a b \<Longrightarrow> conn_kept E b c \<Longrightarrow> conn_kept E a c"
  using keeps_trans by (auto simp: conn_kept_def)

lemma conn_eth_ops_kept:
  "conn_kept E a (snd (eo_RegisterNetSupplier (conn_eth_ops E B) ty ident caps a))"
  "conn_kept E a (snd (eo_UpdateNetLinkInfo (conn_eth_ops E B) i li a))"
  "conn_kept E a (snd (eo_UpdateNetSupplierInfo (conn_eth_ops E B) i si a))"
  "conn_kept E a (snd (eo_SetIpAddr (conn_eth_ops E B) ifc ip a))"
  "conn_kept E a (snd (eo_GetHWaddr (conn_eth_ops E B) ifc a))"
  "conn_kept E a (snd (eo_GetLinkInfo (conn_eth_ops E B) a))"
  "conn_kept E a (eo_StartDhcpClient (conn_eth_ops E B) ifc v6 a)"
  "conn_kept E a (eo_StopDhcpClient (conn_eth_ops E B) ifc v6 a)"
  "conn_kept E a (snd (eo_GetDhcpResult (conn_eth_ops E B) ifc timeout a))"
  using RegisterNetSupplier_inv [of E "fst a" ty ident caps] RegisterNetSupplier_keeps [of E "fst a" ty ident caps]
    UpdateNetLinkInfo_inv [of E "fst a" i "Some li"] UpdateNetLinkInfo_keeps [of "fst a" E i "Some li"]
    UpdateNetSupplierInfo_inv [of E "fst a" i "Some si"] UpdateNetSupplierInfo_keeps [of "fst a" E i "Some si"]
  by (auto simp: conn_eth_ops_def conn_kept_def on_conn_def on_rest_def split: prod.splits)

lemma Remote_kept:
  "conn_kept E a (snd (snd (DevInterfaceState_RemoteRegisterNetSupplier (conn_eth_ops E B) d a)))"
  "conn_kept E a (snd (DevInterfaceState_RemoteUpdateNetLinkInfo (conn_eth_ops E B) d a))"
  "conn_kept E a (snd (snd (DevInterfaceState_RemoteUpdateNetSupplierInfo (conn_eth_ops E B) d a)))"
  using conn_eth_ops_kept(1) [of E a B "NetworkType_val NET_TYPE_ETHERNET" "dv_devName d" "dv_netCapabilities d"]
    conn_eth_ops_kept(2) [of E a B "dv_netSupplier d" "the (dv_linkInfo d)"]
    conn_eth_ops_kept(3) [of E a B "dv_netSupplier d" "the (dv_netSupplierInfo (DevInterfaceState_UpdateSupplierAvailable d))"]
  by (auto simp: DevInterfaceState_RemoteRegisterNetSupplier_def DevInterfaceState_RemoteUpdateNetLinkInfo_def
      DevInterfaceState_RemoteUpdateNetSupplierInfo_def split_def Let_def split: option.splits)

lemma SetIfcfg_kept:
  assumes "DevInterfaceState_SetIfcfg (conn_eth_ops E B) cfg d a = Some (d', b)"
  shows "conn_kept E a b"
proof -
  let ?E = "conn_eth_ops E B"
  have "b = a \<or> (\<exists>n i. b = snd (eo_SetIpAddr ?E n i a)) \<or>
      (\<exists>n i. b = snd (DevInterfaceState_RemoteUpdateNetLinkInfo ?E d' (snd (eo_SetIpAddr ?E n i a))))"
    using assms unfolding DevInterfaceState_SetIfcfg_def DevInterfaceState_SetIpAddr_def Let_def
    by (simp split: option.splits if_splits) metis+
  moreover have "conn_kept E a (snd (DevInterfaceState_RemoteUpdateNetLinkInfo ?E e (snd (eo_SetIpAddr ?E n i a))))" for e n i
    by (rule conn_kept_trans [OF conn_eth_ops_kept(4) Remote_kept(2)])
  ultimately show ?thesis using conn_eth_ops_kept(4) conn_kept_refl by metis
qed

lemma device_link_change_kept:
  "conn_kept E a (snd (device_link_change (conn_eth_ops E B) dev up lowerUp d a))"
proof -
  let ?E = "conn_eth_ops E B"
  have "conn_kept E a (snd (eo_GetDhcpResult ?E dev t (eo_StartDhcpClient ?E dev v6
      (snd (snd (DevInterfaceState_RemoteUpdateNetSupplierInfo ?E e a))))))" for t v6 e
    by (rule conn_kept_trans [OF conn_kept_trans [OF Remote_kept(3) conn_eth_ops_kept(7)] conn_eth_ops_kept(9)])
  moreover have "conn_kept E a (snd (DevInterfaceState_RemoteUpdateNetLinkInfo ?E e'
      (snd (snd (DevInterfaceState_RemoteUpdateNetSupplierInfo ?E e a)))))" for e e'
    by (rule conn_kept_trans [OF Remote_kept(3) Remote_kept(2)])
  moreover have "conn_kept E a (snd (snd (DevInterfaceState_RemoteUpdateNetSupplierInfo ?E e (eo_StopDhcpClient ?E dev v6 a))))" for e v6
    by (rule conn_kept_trans [OF conn_eth_ops_kept(8) Remote_kept(3)])
  ultimately show ?thesis using Remote_kept(3) [where E = E and B = B and a = a]
    by (simp add: device_link_change_def Let_def split_def)
qed

text \<open>A device that says it is registered is registered, under its name.\<close>

definition dev_registered :: "conn_state \<Rightarrow> string \<Rightarrow> dev_state \<Rightarrow> bool" where
  "dev_registered s n d \<longleftrightarrow>
     (dv_connLinkState d \<noteq> UNREGISTERED \<longrightarrow> registered s (dv_netSupplier d) (NET_TYPE_ETHERNET, n))"

lemma dev_registered_kept:
  "dev_registered (fst a) n d \<Longrightarrow> conn_inv E (fst a) \<Longrightarrow> conn_kept E a b \<Longrightarrow> dv_netSupplier d' = dv_netSupplier d \<Longrightarrow>
    (dv_connLinkState d' = UNREGISTERED) = (dv_connLinkState d = UNREGISTERED) \<Longrightarrow> dev_registered (fst b) n d'"
  using keeps_registered [of "{}"] by (auto simp: dev_registered_def conn_kept_def)

lemma RemoteRegister_registered:
  assumes "conn_inv E (fst a)" and "dv_devName d = n" and "dv_connLinkState d = UNREGISTERED"
    and "DevInterfaceState_RemoteRegisterNetSupplier (conn_eth_ops E B) d a = (r, d', b)"
  shows "dev_registered (fst b) n d'" "dv_connLinkState d' \<in> {UNREGISTERED, REGISTERED}"
    "dv_netSupplierInfo d' = dv_netSupplierInfo d"
proof -
  obtain i t where reg: "NetConnService_RegisterNetSupplier E (NetworkType_val NET_TYPE_ETHERNET) n (dv_netCapabilities d) (fst a) = (i, t)"
    by (metis prod.collapse)
  have "registered t i (NET_TYPE_ETHERNET, n)" by (rule RegisterNetSupplier_registers [OF assms(1) _ reg]) simp
  moreover have "b = (t, snd a)" "d' = (let d1 = d\<lparr>dv_netSupplier := i\<rparr>
      in if MINIMUM_SUPPLIER_ID <s i then d1\<lparr>dv_connLinkState := REGISTERED\<rparr> else d1)"
    using assms(2-4) reg by (auto simp: DevInterfaceState_RemoteRegisterNetSupplier_def conn_eth_ops_def on_conn_def Let_def)
  ultimately show "dev_registered (fst b) n d'" "dv_connLinkState d' \<in> {UNREGISTERED, REGISTERED}"
    "dv_netSupplierInfo d' = dv_netSupplierInfo d" using assms(3) by (auto simp: dev_registered_def Let_def)
qed

lemma init_device_kept:
  assumes "init_device (conn_eth_ops E B) info a = Some (d, b)"
  obtains li hw x d2 w1 w2 where "conn_kept E a b" "conn_kept E a w1" "conn_kept E w1 w2" "conn_kept E w2 b"
    "DevInterfaceState_RemoteRegisterNetSupplier (conn_eth_ops E B) (DevInterfaceState_new\<lparr>dv_ifcfg := Some static_ifcfg,
        dv_linkInfo := Some li, dv_devName := ne_iface info, dv_devHWaddr := hw, dv_linkUp := ne_ifiFlags info AND IFF_UP \<noteq> 0,
        dv_lowerUp := ne_ifiFlags info AND IFF_LOWER_UP \<noteq> 0\<rparr>) w1 = (x, d2, w2)"
    "dv_netSupplierInfo d2 = None \<or> d = d2 \<or> d = report d2"
  using assms
proof (cases rule: init_deviceE)
  case (1 li w0 hw w1 x d2 w2)
  have a1: "conn_kept E a w1"
    using conn_kept_trans [OF SetIfcfg_kept [OF 1(1)] conn_eth_ops_kept(5) [of E w0 B "ne_iface info"]] 1(2) by simp
  have a2: "conn_kept E w1 w2" using Remote_kept(1) [of E w1 B] 1(3) by (metis snd_conv)
  have a3: "conn_kept E w2 b" using Remote_kept(3) [of E w2 B d2] 1(4) by (auto split: if_splits)
  have "dv_netSupplierInfo d2 = None \<or> d = d2 \<or> d = report d2"
    using RemoteUpdateNetSupplierInfo_dev [of d2 "conn_eth_ops E B" w2] 1(4) by (cases "dv_netSupplierInfo d2 = None") (auto split: if_splits)
  then show thesis using that [OF conn_kept_trans [OF conn_kept_trans [OF a1 a2] a3] a1 a2 a3 1(3)] by blast
qed

lemma init_device_registered:
  assumes "init_device (conn_eth_ops E B) info a = Some (d, b)" and "conn_inv E (fst a)"
  shows "dev_registered (fst b) (ne_iface info) d" "conn_kept E a b"
proof -
  obtain li hw x d2 w1 w2 where k: "conn_kept E a b" "conn_kept E a w1" "conn_kept E w1 w2" "conn_kept E w2 b"
    and reg: "DevInterfaceState_RemoteRegisterNetSupplier (conn_eth_ops E B) (DevInterfaceState_new\<lparr>dv_ifcfg := Some static_ifcfg,
        dv_linkInfo := Some li, dv_devName := ne_iface info, dv_devHWaddr := hw, dv_linkUp := ne_ifiFlags info AND IFF_UP \<noteq> 0,
        dv_lowerUp := ne_ifiFlags info AND IFF_LOWER_UP \<noteq> 0\<rparr>) w1 = (x, d2, w2)"
    and d: "dv_netSupplierInfo d2 = None \<or> d = d2 \<or> d = report d2" by (rule init_device_kept [OF assms(1)])
  have inv: "conn_inv E (fst w1)" "conn_inv E (fst w2)" using k(2,3) assms(2) by (simp_all add: conn_kept_def)
  have d2: "dev_registered (fst w2) (ne_iface info) d2" "dv_netSupplierInfo d2 \<noteq> None"
    using RemoteRegister_registered [OF inv(1) _ _ reg] by (simp_all add: DevInterfaceState_new_def)
  have "dv_netSupplier d = dv_netSupplier d2" "(dv_connLinkState d = UNREGISTERED) = (dv_connLinkState d2 = UNREGISTERED)"
    using d d2(2) by (auto split: if_splits)
  then show "dev_registered (fst b) (ne_iface info) d" by (rule dev_registered_kept [OF d2(1) inv(2) k(4)])
  show "conn_kept E a b" by (rule k(1))
qed

text \<open>The invariant of the joint system, and how one device moves.\<close>

definition joint_inv :: "conn_env \<Rightarrow> dev_table \<times> conn_state \<times> 'w \<Rightarrow> bool" where
  "joint_inv E s \<longleftrightarrow> eth_inv (fst s) \<and> conn_inv E (fst (snd s)) \<and>
     (\<forall>(n, d) \<in> set (fst s). dev_registered (fst (snd s)) n d)"

lemma joint_inv_kept: "joint_inv E (devs, a) \<Longrightarrow> conn_kept E a b \<Longrightarrow> joint_inv E (devs, b)"
  using dev_registered_kept [of a _ _ E b] by (fastforce simp: joint_inv_def conn_kept_def)

lemma joint_inv_put:
  assumes "joint_inv E (devs, a)" and "conn_kept E a b" and "dev_ok k d" and "dev_registered (fst b) k d"
  shows "joint_inv E (map_put k d devs, b)"
  using joint_inv_kept [OF assms(1,2)] eth_inv_put [OF _ assms(3), of devs] set_map_put [of k d devs] assms(4)
  by (fastforce simp: joint_inv_def)

lemma joint_inv_insert:
  assumes "joint_inv E (devs, a)" and "conn_kept E a b" and "dev_ok k d" and "dev_registered (fst b) k d"
  shows "joint_inv E (map_insert k d devs, b)"
  using joint_inv_kept [OF assms(1,2)] eth_inv_insert [OF _ assms(3), of devs] set_map_insert [of k d devs] assms(4)
  by (fastforce simp: joint_inv_def)

lemma joint_inv_dev:
  assumes "joint_inv E (devs, a)" and "map_of devs k = Some d"
  shows "dev_ok k d" "dev_registered (fst a) k d" "conn_inv E (fst a)"
  using assms by (auto simp: joint_inv_def eth_inv_def dest: map_of_SomeD)

lemma init_devices_joint:
  "init_devices (conn_eth_ops E B) is s = Some t \<Longrightarrow> joint_inv E s \<Longrightarrow> joint_inv E t"
proof (induction "is" arbitrary: s)
  case (Cons i "is")
  show ?case
  proof (cases "ne_iface i = []")
    case False
    then obtain d b where d: "init_device (conn_eth_ops E B) i (snd s) = Some (d, b)"
      "init_devices (conn_eth_ops E B) is (map_insert (ne_iface i) d (fst s), b) = Some t"
      using Cons.prems(1) by (auto split: option.splits)
    have "joint_inv E (map_insert (ne_iface i) d (fst s), b)"
      using Cons.prems(2) init_device_registered [OF d(1)]
      by (intro joint_inv_insert [of _ _ "snd s"] init_device_ok [OF d(1)]) (simp_all add: joint_inv_def)
    then show ?thesis by (rule Cons.IH [OF d(2)])
  qed (use Cons in simp)
qed simp

lemma Handle_joint:
  assumes "joint_inv E s" and "eo_hasDhcpService B"
  shows "joint_inv E (EthernetManagement_Handle (conn_eth_ops E B) info s)"
proof (cases "map_of (fst s) (ne_iface info)")
  case (Some d)
  let ?r = "device_link_change (conn_eth_ops E B) (ne_iface info) (ne_ifiFlags info AND IFF_UP \<noteq> 0)
    (ne_ifiFlags info AND IFF_LOWER_UP \<noteq> 0) d (snd s)"
  have inv: "joint_inv E (fst s, snd s)" using assms(1) by simp
  note d = joint_inv_dev [OF inv Some]
  have dhcp: "eo_hasDhcpService (conn_eth_ops E B)" using assms(2) by (simp add: conn_eth_ops_def)
  note ok = device_link_change_ok [OF d(1) dhcp refl]
  have "dv_netSupplierInfo d \<noteq> None" using d(1) by (simp add: dev_ok_def)
  from device_link_change_dev [OF this dhcp] have "dv_netSupplier (fst ?r) = dv_netSupplier d" by simp
  then have "dev_registered (fst (snd ?r)) (ne_iface info) (fst ?r)"
    by (intro dev_registered_kept [OF d(2,3) device_link_change_kept]) (simp_all add: ok(4) del: split_paired_All)
  then show ?thesis using joint_inv_put [OF inv device_link_change_kept ok(1)] Some
    by (simp add: EthernetManagement_Handle_def EthernetManagement_UpdateInterfaceState_def split_def)
qed (use assms in \<open>simp add: EthernetManagement_Handle_def EthernetManagement_UpdateInterfaceState_def\<close>)

lemma OnSuccess_joint:
  assumes "joint_inv E (devs, a)"
  shows "joint_inv E (EthDhcpResultNotify_OnSuccess (conn_eth_ops E B) status ifname result devs a)"
proof (cases "map_of devs ifname")
  case (Some d)
  let ?d = "DevInterfaceState_UpdateLinkInfo_dhcp ifname result d"
  note d = joint_inv_dev [OF assms Some]
  have same: "dv_netSupplier ?d = dv_netSupplier d" "dv_connLinkState ?d = dv_connLinkState d" "dev_ok ifname ?d"
    using d(1) by (simp_all add: dev_ok_def DevInterfaceState_UpdateLinkInfo_dhcp_def DevInterfaceState_GetIPSetMode_def Let_def)
  have "dev_registered (fst (snd (DevInterfaceState_RemoteUpdateNetLinkInfo (conn_eth_ops E B) ?d a))) ifname ?d"
    using same by (intro dev_registered_kept [OF d(2,3) Remote_kept(2)]) simp_all
  then show ?thesis using joint_inv_put [OF assms Remote_kept(2) same(3)] Some assms
    by (simp add: EthDhcpResultNotify_OnSuccess_def EthernetManagement_UpdateDevInterfaceLinkInfo_def Let_def)
qed (use assms in \<open>simp add: EthDhcpResultNotify_OnSuccess_def EthernetManagement_UpdateDevInterfaceLinkInfo_def\<close>)

lemma config_joint:
  assumes "joint_inv E (devs, a)"
    and "EthernetManagement_UpdateDevInterfaceState (conn_eth_ops E B) iface cfg devs a = Some (ret, devs', b)"
  shows "joint_inv E (devs', b)"
proof (cases "\<exists>d. map_of devs iface = Some d \<and> dv_linkUp d")
  case True
  then obtain d d' where d: "map_of devs iface = Some d" "dv_linkUp d"
    and set: "DevInterfaceState_SetIfcfg (conn_eth_ops E B) cfg d a = Some (d', b)" "devs' = map_put iface d' devs"
    using assms(2) by (auto simp: EthernetManagement_UpdateDevInterfaceState_def split: option.splits)
  note inv = joint_inv_dev [OF assms(1) d(1)]
  have "dv_netSupplier d' = dv_netSupplier d" "dv_connLinkState d' = dv_connLinkState d"
    using set(1) by (cases rule: SetIfcfg_dev; simp)+
  then have "dev_registered (fst b) iface d'" by (intro dev_registered_kept [OF inv(2,3) SetIfcfg_kept [OF set(1)]]) simp_all
  moreover have "dev_ok iface d'" using inv(1) by (intro SetIfcfg_ok [OF _ _ _ _ _ set(1)]) (simp_all add: dev_ok_def)
  ultimately show ?thesis unfolding set(2) using joint_inv_put [OF assms(1) SetIfcfg_kept [OF set(1)]] by blast
next
  case False
  then show ?thesis using assms by (auto simp: EthernetManagement_UpdateDevInterfaceState_def split: option.splits)
qed

text \<open>
  The steps: those of the Ethernet management, those of the connection service for any other client -
  except that nobody unregisters the supplier of a device - and changes of the rest of the world.
\<close>

definition held :: "dev_table \<Rightarrow> uint32 set" where
  "held devs = {dv_netSupplier d | n d. (n, d) \<in> set devs \<and> dv_connLinkState d \<noteq> UNREGISTERED}"

inductive joint_step :: "conn_env \<Rightarrow> 'w eth_ops \<Rightarrow> dev_table \<times> conn_state \<times> 'w \<Rightarrow> dev_table \<times> conn_state \<times> 'w \<Rightarrow> bool" for E B where
  joint_init: "EthernetManagement_Init (conn_eth_ops E B) s = Some t \<Longrightarrow> joint_step E B s t"
| joint_link: "joint_step E B s (EthernetManagement_Handle (conn_eth_ops E B) info s)"
| joint_dhcp: "joint_step E B (devs, a) (EthDhcpResultNotify_OnSuccess (conn_eth_ops E B) status ifname result devs a)"
| joint_config: "EthernetManagement_UpdateDevInterfaceState (conn_eth_ops E B) iface cfg devs a = Some (ret, devs', b) \<Longrightarrow>
    joint_step E B (devs, a) (devs', b)"
| joint_conn: "conn_step E s t \<Longrightarrow> \<forall>i \<in> held devs. t \<noteq> snd (NetConnService_UnregisterNetSupplier E i s) \<Longrightarrow>
    joint_step E B (devs, s, w) (devs, t, w)"
| joint_world: "joint_step E B (devs, s, w) (devs, s, w')"

lemma conn_joint:
  assumes "joint_inv E (devs, s, w)" and "conn_step E s t" and "\<forall>i \<in> held devs. t \<noteq> snd (NetConnService_UnregisterNetSupplier E i s)"
  shows "joint_inv E (devs, t, w)"
proof -
  have inv: "conn_inv E s" using assms(1) by (simp add: joint_inv_def)
  obtain X where X: "keeps_suppliers X s t" "X \<inter> held devs = {}"
    using conn_step_keeps [OF assms(2) inv] assms(3) UnregisterNetSupplier_keeps [OF inv] by blast
  have "dev_registered t n d" if "(n, d) \<in> set devs" for n d
    using assms(1) that keeps_registered [OF X(1), of "dv_netSupplier d"] X(2)
    by (fastforce simp: joint_inv_def dev_registered_def held_def)
  then show ?thesis using assms(1) conn_system.step_inv [OF inv assms(2)] by (auto simp: joint_inv_def)
qed

lemma joint_step_inv:
  assumes "joint_step E B s t" and "eo_hasDhcpService B" and "joint_inv E s"
  shows "joint_inv E t"
  using assms
proof (induction rule: joint_step.induct)
  case (joint_init s t)
  obtain infos a where g: "eo_GetLinkInfo (conn_eth_ops E B) (snd s) = (infos, a)" by (metis prod.collapse)
  then have "joint_inv E (fst s, a)"
    using joint_init(3) joint_inv_kept [of E "fst s" "snd s" a] conn_eth_ops_kept(6) [of E "snd s" B] by simp
  moreover have "init_devices (conn_eth_ops E B) infos (fst s, a) = Some t" using joint_init(1) g by (simp add: EthernetManagement_Init_def)
  ultimately show ?case by (metis init_devices_joint)
next
  case (joint_conn s t devs w)
  then show ?case by (blast intro: conn_joint)
qed (simp_all add: Handle_joint OnSuccess_joint config_joint, simp add: joint_inv_def)

interpretation joint_system: transition_system "\<lambda>s. fst s = [] \<and> fst (snd s) = NetConnService_new E" "joint_step E B"
  "\<lambda>s. eo_hasDhcpService B \<longrightarrow> joint_inv E s" for E B
proof (unfold_locales, goal_cases)
  case (1 s)
  then show ?case by (simp add: joint_inv_def eth_inv_def table_ok_def conn_inv_new)
next
  case (2 s t)
  then show ?case using joint_step_inv [of E B s t] by blast
qed

abbreviation joint_reachable :: "conn_env \<Rightarrow> 'w eth_ops \<Rightarrow> dev_table \<times> conn_state \<times> 'w \<Rightarrow> bool" where
  "joint_reachable E B \<equiv> reach (\<lambda>s. fst s = [] \<and> fst (snd s) = NetConnService_new E) (joint_step E B)"

section \<open>Reports arrive\<close>

lemma shape_lookup:
  assumes "same_shape s t"
  shows "NetConnService_GetNetSupplierFromListById i t = NetConnService_GetNetSupplierFromListById i s"
    "NetConnService_GetNetworkFromListBySupplierId i t = NetConnService_GetNetworkFromListBySupplierId i s"
  by (simp_all add: NetConnService_GetNetSupplierFromListById_def NetConnService_GetNetworkFromListBySupplierId_def net_sup_def
      shape_lists [OF assms] shape_fields [OF assms])

lemma registered_lookup:
  assumes "conn_inv E s" and "registered s i k"
  obtains sr nr where "NetConnService_GetNetSupplierFromListById i s = Some sr" "NetConnService_GetNetworkFromListBySupplierId i s = Some nr"
    "nr \<in> set (cs_networkList s)" "ns_supplierId (sup_at s sr) = i" "nw_supplier (net_at s nr) = sr"
proof -
  obtain r where "r \<in> set (cs_netSupplier s)" "ns_supplierId (sup_at s r) = i" using assms(2) by (auto simp: registered_def)
  then have "NetConnService_GetNetSupplierFromListById i s \<noteq> None"
    unfolding NetConnService_GetNetSupplierFromListById_def
    using find_None_D [of "\<lambda>r. ns_supplierId (sup_at s r) = i" "cs_netSupplier s" r] by blast
  then obtain sr where sr: "NetConnService_GetNetSupplierFromListById i s = Some sr" by blast
  have "parts_inv {} s" using assms(1) by (simp add: conn_inv_parts_world)
  from find_by_id [OF this sr] show thesis using that [OF sr] by metis
qed

lemma UpdateNetSupplierInfo_found:
  assumes "conn_inv E s" and "registered s i k" and "NetConnService_UpdateNetSupplierInfo E i (Some info) s = (res, t)"
    and "NetConnService_GetNetworkFromListBySupplierId i s = Some nr"
  shows "res = ResultCode_val ERR_NONE" "same_shape s t" "ns_isAvailable (net_sup t nr) = si_isAvailable info"
proof -
  obtain sr where l: "NetConnService_GetNetSupplierFromListById i s = Some sr" "nr \<in> set (cs_networkList s)"
    "ns_supplierId (sup_at s sr) = i" "nw_supplier (net_at s nr) = sr"
    using registered_lookup [OF assms(1,2)] assms(4) by (metis option.inject)
  note ptrs = network_pointers [OF assms(1) l(2)]
  let ?spl = "NetSupplier_UpdateNetSupplierInfo info (net_sup s nr)"
  obtain b nw spl w where run: "Network_UpdateNetSupplierInfo E info (net_at s nr) (net_sup s nr) (cs_world s) = (b, nw, spl, w)"
    by (metis prod.collapse)
  then have nw: "nw_shape nw = nw_shape (net_at s nr)" "spl = ?spl"
    by (auto simp: Network_UpdateNetSupplierInfo_def Let_def nw_shape_def split: if_splits)
  have t: "t = s\<lparr>cs_networks := (cs_networks s)(nr \<mapsto> nw), cs_suppliers := (cs_suppliers s)(sr \<mapsto> ?spl), cs_world := w\<rparr>"
    and r: "res = ResultCode_val ERR_NONE"
    using assms(3,4) l run nw(2) by (simp_all add: NetConnService_UpdateNetSupplierInfo_def Let_def)
  show "res = ResultCode_val ERR_NONE" by (rule r)
  have "ns_shape ?spl = ns_shape (sup_at s sr)" using l(4) by (simp add: net_sup_def ns_shape_def NetSupplier_UpdateNetSupplierInfo_def)
  then show "same_shape s t" using update_objects_shape [OF ptrs(1,2) nw(1)] l(4) unfolding t by simp
  then have "nw_supplier (net_at t nr) = sr" using shape_fields(5) l(4) by simp
  then show "ns_isAvailable (net_sup t nr) = si_isAvailable info"
    unfolding net_sup_def by (simp add: t sup_at_def NetSupplier_UpdateNetSupplierInfo_def del: at_fold)
qed

lemma UpdateNetLinkInfo_found:
  assumes "conn_inv E s" and "registered s i k" and "NetConnService_UpdateNetLinkInfo E i (Some li) s = (res, t)"
    and "NetConnService_GetNetworkFromListBySupplierId i s = Some nr"
  shows "res = ResultCode_val ERR_NONE" "same_shape s t" "nw_netLinkInfo (net_at t nr) = li" "net_sup t nr = net_sup s nr"
proof -
  obtain sr where l: "NetConnService_GetNetSupplierFromListById i s = Some sr" "nr \<in> set (cs_networkList s)"
    "ns_supplierId (sup_at s sr) = i" "nw_supplier (net_at s nr) = sr"
    using registered_lookup [OF assms(1,2)] assms(4) by (metis option.inject)
  note ptrs = network_pointers [OF assms(1) l(2)]
  obtain r nw w where run: "Network_UpdateNetLinkInfo E li (net_at s nr) (cs_world s) = (r, nw, w)" by (metis prod.collapse)
  note nw = UpdateNetLinkInfo_world(3) [OF run]
  have t: "t = s\<lparr>cs_networks := (cs_networks s)(nr \<mapsto> nw), cs_world := w\<rparr>" and r: "res = ResultCode_val ERR_NONE"
    using assms(3,4) l run by (simp_all add: NetConnService_UpdateNetLinkInfo_def Let_def)
  show "res = ResultCode_val ERR_NONE" by (rule r)
  show "nw_netLinkInfo (net_at t nr) = li" unfolding t nw by (simp add: net_at_def del: at_fold)
  show "same_shape s t" using ptrs(1) unfolding t nw
    by (auto simp: same_shape_def net_at_def nw_shape_def simp del: at_fold)
  then have "nw_supplier (net_at t nr) = nw_supplier (net_at s nr)" by (rule shape_fields(5))
  moreover have "sup_at t = sup_at s" unfolding t by (simp add: sup_at_def fun_eq_iff del: at_fold)
  ultimately show "net_sup t nr = net_sup s nr" by (simp add: net_sup_def)
qed


text \<open>
  A link event of a device with a static configuration, through the connection service: what the
  two reports leave there.
\<close>

lemma conn_reports:
  assumes "conn_inv E s" and "registered s i k" and "NetConnService_GetNetworkFromListBySupplierId i s = Some nr"
    and "NetConnService_UpdateNetSupplierInfo E i (Some si) s = (r1, t)" and "NetConnService_UpdateNetLinkInfo E i (Some li) t = (r2, u)"
  shows "NetConnService_GetNetworkFromListBySupplierId i t = Some nr" "ns_isAvailable (net_sup t nr) = si_isAvailable si"
    "NetConnService_GetNetworkFromListBySupplierId i u = Some nr" "ns_isAvailable (net_sup u nr) = si_isAvailable si"
    "nw_netLinkInfo (net_at u nr) = li"
proof -
  note a = UpdateNetSupplierInfo_found [OF assms(1,2,4,3)]
  show "NetConnService_GetNetworkFromListBySupplierId i t = Some nr" "ns_isAvailable (net_sup t nr) = si_isAvailable si"
    using assms(3) a(3) by (simp_all add: shape_lookup [OF a(2)])
  moreover have "conn_inv E t" using UpdateNetSupplierInfo_inv [OF assms(1), of i "Some si"] assms(4) by simp
  moreover have "registered t i k" using keeps_registered [OF shape_keeps [OF a(2)] _ assms(2)] by simp
  ultimately have b: "same_shape t u" "nw_netLinkInfo (net_at u nr) = li" "net_sup u nr = net_sup t nr"
    using UpdateNetLinkInfo_found [of E t i k li r2 u nr] assms(5) by simp_all
  show "NetConnService_GetNetworkFromListBySupplierId i u = Some nr" "ns_isAvailable (net_sup u nr) = si_isAvailable si"
    "nw_netLinkInfo (net_at u nr) = li"
    using b assms(3) a(3) by (simp_all add: shape_lookup [OF b(1)] shape_lookup [OF a(2)])
qed

lemma static_link_change_world:
  assumes "DevInterfaceState_GetIPSetMode d = STATIC" and "dv_connLinkState d \<noteq> UNREGISTERED" and "dv_netSupplierInfo d = Some si"
    and "dv_linkInfo d = Some li"
    and "NetConnService_UpdateNetSupplierInfo E (dv_netSupplier d) (Some (si\<lparr>si_isAvailable := up \<and> low\<rparr>)) s = (r1, t)"
    and "NetConnService_UpdateNetLinkInfo E (dv_netSupplier d) (Some li) t = (r2, u)"
  shows "fst (snd (device_link_change (conn_eth_ops E B) n up low d (s, w))) = (if low \<and> up then u else t)"
  using assms
  by (auto simp: device_link_change_def DevInterfaceState_RemoteUpdateNetSupplierInfo_def DevInterfaceState_RemoteUpdateNetLinkInfo_def
      DevInterfaceState_UpdateSupplierAvailable_def DevInterfaceState_GetIPSetMode_def STATIC_def DHCP_def conn_eth_ops_def on_conn_def Let_def split: option.splits)

text \<open>
  C26. A link event arrives: for a registered device with a static configuration, in every reachable
  state, the event leaves the supplier of the device in the connection service available exactly when both
  flags are set, the device says the same of itself, and when they are set the network of that supplier
  has the link information of the device.
\<close>

theorem link_event_arrives:
  assumes "joint_reachable E B (devs, s, w)" and "eo_hasDhcpService B"
    and "map_of devs (ne_iface info) = Some d" and "dv_connLinkState d \<noteq> UNREGISTERED" and "DevInterfaceState_GetIPSetMode d = STATIC"
    and "EthernetManagement_Handle (conn_eth_ops E B) info (devs, s, w) = (devs', s', w')"
    and "avail \<longleftrightarrow> ne_ifiFlags info AND IFF_UP \<noteq> 0 \<and> ne_ifiFlags info AND IFF_LOWER_UP \<noteq> 0"
  shows "\<exists>nr li. NetConnService_GetNetworkFromListBySupplierId (dv_netSupplier d) s' = Some nr \<and>
    ns_isAvailable (net_sup s' nr) = avail \<and> dv_linkInfo d = Some li \<and> (avail \<longrightarrow> nw_netLinkInfo (net_at s' nr) = li) \<and>
    map_option dv_connLinkState (map_of devs' (ne_iface info)) = Some (if avail then LINK_AVAILABLE else LINK_UNAVAILABLE)"
proof -
  let ?up = "ne_ifiFlags info AND IFF_UP \<noteq> 0" and ?low = "ne_ifiFlags info AND IFF_LOWER_UP \<noteq> 0" and ?i = "dv_netSupplier d"
  let ?r = "device_link_change (conn_eth_ops E B) (ne_iface info) ?up ?low d (s, w)"
  have inv: "joint_inv E (devs, s, w)" using joint_system.reach_inv [OF assms(1)] assms(2) by simp
  note d = joint_inv_dev [OF inv assms(3)]
  have c: "conn_inv E s" and reg: "registered s ?i (NET_TYPE_ETHERNET, ne_iface info)"
    using d(2,3) assms(4) by (simp_all add: dev_registered_def)
  obtain nr where nr: "NetConnService_GetNetworkFromListBySupplierId ?i s = Some nr" using registered_lookup [OF c reg] by metis
  obtain si li where dev: "dv_netSupplierInfo d = Some si" "dv_linkInfo d = Some li"
    using d(1) assms(5) by (auto simp: dev_ok_def)
  obtain r1 t where u1: "NetConnService_UpdateNetSupplierInfo E ?i (Some (si\<lparr>si_isAvailable := ?up \<and> ?low\<rparr>)) s = (r1, t)" by (metis prod.collapse)
  obtain r2 u where u2: "NetConnService_UpdateNetLinkInfo E ?i (Some li) t = (r2, u)" by (metis prod.collapse)
  note rep = conn_reports [OF c reg nr u1 u2]
  have h: "devs' = map_put (ne_iface info) (fst ?r) devs" "s' = fst (snd ?r)" using assms(3,6)
    by (auto simp: EthernetManagement_Handle_def EthernetManagement_UpdateInterfaceState_def split: prod.splits)
  have s': "s' = (if avail then u else t)"
    unfolding h(2) static_link_change_world [OF assms(5,4) dev u1 u2] assms(7) by simp
  have "dv_connLinkState (fst ?r) = (if avail then LINK_AVAILABLE else LINK_UNAVAILABLE)"
    using device_link_change_ok(4) [OF d(1) _ refl, of "conn_eth_ops E B" ?up ?low "(s, w)"] assms(2,4,7) by (simp add: conn_eth_ops_def)
  moreover have "map_of devs' (ne_iface info) = Some (fst ?r)"
    unfolding h(1) map_of_map_put using map_of_SomeD [OF assms(3)] by force
  ultimately show ?thesis using rep dev(2) assms(7) unfolding s' by simp
qed

section \<open>A concrete run\<close>

definition sample_info :: "uint64 \<Rightarrow> nlk_event_info" where
  "sample_info flags = \<lparr>ne_iface = ''eth0'', ne_ifiFlags = flags\<rparr>"

text \<open>A machine whose device \<open>eth0\<close> is down at the start.\<close>

lemma sample_init:
  obtains d t where "EthernetManagement_Init (conn_eth_ops sample_env (sample_eth_ops [sample_info 0])) ([], NetConnService_new sample_env, ()) =
      Some ([(''eth0'', d)], t, ())"
    "dv_connLinkState d = REGISTERED" "dv_netSupplier d = 0x03EB" "DevInterfaceState_GetIPSetMode d = STATIC"
proof -
  let ?E = "conn_eth_ops sample_env (sample_eth_ops [sample_info 0])" and ?c = "NetConnService_new sample_env"
  let ?caps = "NetCapabilities_val NET_CAPABILITIES_INTERNET"
  have none: "NetConnService_GetNetSupplierFromList (NetworkType_val NET_TYPE_ETHERNET) ''eth0'' ?c = None"
    by (simp add: NetConnService_GetNetSupplierFromList_def NetConnService_new_def)
  obtain sr u where co: "create_objects sample_env (NetworkType_val NET_TYPE_ETHERNET) ''eth0'' ?caps ?c = (sr, u)" by (rule prod.exhaust)
  note c = create_objects_inv [OF conn_inv_new _ none co]
  let ?t = "connect_default sample_env u"
  have "ns_supplierId (sup_at ?t sr) = 0x03EB" using c(9) shape_fields(4) [OF connect_default_shape [OF c(1)]]
    by (simp add: NetConnService_new_def g_nextNetSupplierId_init_def)
  then have reg: "NetConnService_RegisterNetSupplier sample_env (NetworkType_val NET_TYPE_ETHERNET) ''eth0'' ?caps ?c = (0x03EB, ?t)"
    using RegisterNetSupplier_new [OF _ none co] by simp
  obtain d w where d: "init_device ?E (sample_info 0) (?c, ()) = Some (d, w)" "dv_connLinkState d = REGISTERED" "dv_netSupplier d = 0x03EB"
      "DevInterfaceState_GetIPSetMode d = STATIC"
    using reg by (simp add: eth_run_defs conn_eth_ops_def on_conn_def on_rest_def sample_eth_ops_def sample_info_def word_sless_alt
        DevInterfaceState_GetIPSetMode_def)
  have "w = (fst w, ())" by (cases w) simp
  moreover have "EthernetManagement_Init ?E ([], ?c, ()) = Some ([(''eth0'', d)], w)"
    using d(1) by (simp add: EthernetManagement_Init_def conn_eth_ops_def on_rest_def sample_eth_ops_def sample_info_def)
  ultimately show thesis using that [of d "fst w"] d(2-4) by simp
qed

lemma sample_joint:
  obtains d t where "joint_reachable sample_env (sample_eth_ops [sample_info 0]) ([(''eth0'', d)], t, ())"
    "dv_connLinkState d = REGISTERED" "dv_netSupplier d = 0x03EB" "DevInterfaceState_GetIPSetMode d = STATIC"
proof -
  obtain d t where i: "EthernetManagement_Init (conn_eth_ops sample_env (sample_eth_ops [sample_info 0])) ([], NetConnService_new sample_env, ()) =
      Some ([(''eth0'', d)], t, ())"
    "dv_connLinkState d = REGISTERED" "dv_netSupplier d = 0x03EB" "DevInterfaceState_GetIPSetMode d = STATIC" by (rule sample_init)
  from joint_init [OF i(1)] have "joint_reachable sample_env (sample_eth_ops [sample_info 0]) ([(''eth0'', d)], t, ())"
    by (rule reach_step [OF reach_init, rotated]) simp
  then show thesis using that i(2-4) by blast
qed


theorem link_event_arrives_witness:
  "\<exists>d t devs' s' w' nr. joint_reachable sample_env (sample_eth_ops [sample_info 0]) ([(''eth0'', d)], t, ()) \<and>
    EthernetManagement_Handle (conn_eth_ops sample_env (sample_eth_ops [sample_info 0])) (sample_info 0x10001) ([(''eth0'', d)], t, ()) = (devs', s', w') \<and>
    NetConnService_GetNetworkFromListBySupplierId 0x03EB s' = Some nr \<and> ns_isAvailable (net_sup s' nr)"
proof -
  obtain d t where r: "joint_reachable sample_env (sample_eth_ops [sample_info 0]) ([(''eth0'', d)], t, ())"
    "dv_connLinkState d = REGISTERED" "dv_netSupplier d = 0x03EB" "DevInterfaceState_GetIPSetMode d = STATIC" by (rule sample_joint)
  obtain devs' s' w' where h: "EthernetManagement_Handle (conn_eth_ops sample_env (sample_eth_ops [sample_info 0])) (sample_info 0x10001)
      ([(''eth0'', d)], t, ()) = (devs', s', w')" by (metis prod.collapse)
  have "eo_hasDhcpService (sample_eth_ops [sample_info 0])" by (simp add: sample_eth_ops_def)
  from link_event_arrives [OF r(1) this _ _ r(4) h, of True] r(2,3)
  have "\<exists>nr. NetConnService_GetNetworkFromListBySupplierId 0x03EB s' = Some nr \<and> ns_isAvailable (net_sup s' nr)"
    by (auto simp: sample_info_def IFF_UP_def IFF_LOWER_UP_def)
  then show ?thesis using r(1) h by blast
qed

end
