(* ===== verification/Manager_Ipc.thy ===== *)
theory Manager_Ipc
  imports Ipc Parcelables
begin

text \<open>
  What the proxies and stubs of the Ethernet and the DNS service share: the common error codes of
  \<open>netmanager_constants.h\<close> over the offset the platform gives them, replies that end in
  \<open>NETMANAGER_ERR_WRITE_REPLY_FAIL\<close>, lists that are written with a signed 32-bit size, and the lemma
  that turns a connected stub into the answer of its handler. A handler returns \<open>None\<close> when it
  dereferences a null pointer.
\<close>

section \<open>Codes and replies\<close>

text \<open>\<open>COMMON_ERR_OFFSET\<close> is a parameter: it is computed from the number of the subsystem.\<close>

definition NETMANAGER_ERR_STRING_EMPTY :: "int32 \<Rightarrow> int32" where "NETMANAGER_ERR_STRING_EMPTY off = off + 4"
definition NETMANAGER_ERR_LOCAL_PTR_NULL :: "int32 \<Rightarrow> int32" where "NETMANAGER_ERR_LOCAL_PTR_NULL off = off + 5"
definition NETMANAGER_ERR_DESCRIPTOR_MISMATCH :: "int32 \<Rightarrow> int32" where "NETMANAGER_ERR_DESCRIPTOR_MISMATCH off = off + 7"
definition NETMANAGER_ERR_WRITE_DESCRIPTOR_TOKEN_FAIL :: "int32 \<Rightarrow> int32" where "NETMANAGER_ERR_WRITE_DESCRIPTOR_TOKEN_FAIL off = off + 8"
definition NETMANAGER_ERR_WRITE_DATA_FAIL :: "int32 \<Rightarrow> int32" where "NETMANAGER_ERR_WRITE_DATA_FAIL off = off + 9"
definition NETMANAGER_ERR_WRITE_REPLY_FAIL :: "int32 \<Rightarrow> int32" where "NETMANAGER_ERR_WRITE_REPLY_FAIL off = off + 10"
definition NETMANAGER_ERR_READ_DATA_FAIL :: "int32 \<Rightarrow> int32" where "NETMANAGER_ERR_READ_DATA_FAIL off = off + 11"
definition NETMANAGER_ERR_READ_REPLY_FAIL :: "int32 \<Rightarrow> int32" where "NETMANAGER_ERR_READ_REPLY_FAIL off = off + 12"
definition NETMANAGER_ERR_IPC_CONNECT_STUB_FAIL :: "int32 \<Rightarrow> int32" where "NETMANAGER_ERR_IPC_CONNECT_STUB_FAIL off = off + 13"

type_synonym ('p, 's) manager_handler = "'p \<Rightarrow> 'p \<Rightarrow> 's \<Rightarrow> (int32 \<times> 'p \<times> 's) option"

record ('p, 's) manager_ipc =
  mi_parcel :: "'p parcel_ops"
  mi_offset :: int32
  mi_default :: "uint32 \<Rightarrow> ('p, 's) manager_handler"

definition refuse :: "int32 \<Rightarrow> 'p \<Rightarrow> 's \<Rightarrow> (int32 \<times> 'p \<times> 's) option" where
  "refuse e reply s = Some (e, reply, s)"

text \<open>\<open>if (!reply.Write(...)) return NETMANAGER_ERR_WRITE_REPLY_FAIL;\<close> for every write, then success.\<close>

definition answer :: "('p, 's) manager_ipc \<Rightarrow> 'p writer \<Rightarrow> 'p \<Rightarrow> 's \<Rightarrow> (int32 \<times> 'p \<times> 's) option" where
  "answer I w reply s = (let r = w reply in Some (if fst r then 0 else NETMANAGER_ERR_WRITE_REPLY_FAIL (mi_offset I), snd r, s))"

definition manager_stub ::
    "('p, 's) manager_ipc \<Rightarrow> string \<Rightarrow> (uint32 \<Rightarrow> ('p, 's) manager_handler option) \<Rightarrow> uint32 \<Rightarrow> ('p, 's) manager_handler" where
  "manager_stub I descriptor table =
     stub_dispatch (mi_parcel I) descriptor (refuse (NETMANAGER_ERR_DESCRIPTOR_MISMATCH (mi_offset I))) table (mi_default I)"

section \<open>Lists with a signed size\<close>

definition write_list :: "'p parcel_ops \<Rightarrow> ('a \<Rightarrow> 'p writer) \<Rightarrow> 'a list \<Rightarrow> 'p writer" where
  "write_list P w xs = write_seq (WriteInt32 P (of_nat (length xs)) # map w xs)"

definition read_list :: "'p parcel_ops \<Rightarrow> ('p, 'a) reader \<Rightarrow> ('p, 'a list) reader" where
  "read_list P r = read_then (ReadInt32 P) (\<lambda>size. read_n r (nat (sint size)))"

definition list_items :: "('a \<Rightarrow> parcel_item list) \<Rightarrow> 'a list \<Rightarrow> parcel_item list" where
  "list_items f xs = I_Int32 (of_nat (length xs)) # concat (map f xs)"

definition int_list :: "'a list \<Rightarrow> bool" where
  "int_list xs \<longleftrightarrow> length xs < 2 ^ 31"

lemma int_list_size: "int_list xs \<Longrightarrow> nat (sint (of_nat (length xs) :: int32)) = length xs"
  by (simp add: int_list_def signed_of_nat signed_take_bit_int_eq_self)

context codec
begin

lemma list_encodes:
  "parcel_laws P \<Longrightarrow> encodes P (write_list P marshal xs) (list_items items xs)"
  unfolding write_list_def list_items_def by (intro encodes_Cons_item encodes_typed marshal_list_encodes)

lemma list_writes:
  "parcel_never_fails P \<Longrightarrow> always_writes (write_list P marshal xs)"
  unfolding write_list_def by (intro always_writes_seq) (auto simp: marshal_writes always_writes_typed)

lemma list_decodes:
  assumes "parcel_laws P" and "\<forall>x \<in> set xs. valid x" and "int_list xs"
  shows "decodes P (read_list P unmarshal) (list_items items xs) xs"
  unfolding read_list_def list_items_def
  using unmarshal_list_decodes [OF assms(1,2)] decodes_typed(6) [OF assms(1)] int_list_size [OF assms(3)]
  by (intro decodes_then_item) auto

end

text \<open>The codecs of the single values, and of lists of strings.\<close>

interpretation one_string: codec P "WriteString P" "ReadString P" "\<lambda>v. [I_String v]" "\<lambda>_. True" for P :: "'p parcel_ops"
  by unfold_locales (simp_all add: encodes_typed always_writes_typed decodes_typed)

interpretation one_u16: codec P "WriteUint16 P" "ReadUint16 P" "\<lambda>v. [I_Uint16 v]" "\<lambda>_. True" for P :: "'p parcel_ops"
  by unfold_locales (simp_all add: encodes_typed always_writes_typed decodes_typed)

interpretation one_i32: codec P "WriteInt32 P" "ReadInt32 P" "\<lambda>v. [I_Int32 v]" "\<lambda>_. True" for P :: "'p parcel_ops"
  by unfold_locales (simp_all add: encodes_typed always_writes_typed decodes_typed)

interpretation string_list: codec P "write_list P (WriteString P)" "read_list P (ReadString P)"
  "list_items (\<lambda>v. [I_String v])" int_list for P :: "'p parcel_ops"
  by unfold_locales (simp_all add: one_string.list_encodes one_string.list_writes one_string.list_decodes)

definition no_arguments :: "('p, unit) reader" where
  "no_arguments = read_done ()"

interpretation unit_codec: codec P "\<lambda>_. write_seq []" no_arguments "\<lambda>_. []" "\<lambda>_. True" for P :: "'p parcel_ops"
  by unfold_locales (simp_all add: encodes_Nil always_writes_def no_arguments_def decodes_done)

section \<open>A call through a connected stub\<close>

definition connected :: "(uint32 \<Rightarrow> ('p, 's) manager_handler) \<Rightarrow> ('p, 's) send_request \<Rightarrow> bool" where
  "connected stub send \<longleftrightarrow> (\<forall>code data reply s r. stub code data reply s = Some r \<longrightarrow> send code data reply s = r)"

text \<open>An answer that can be read.\<close>

lemma answer_decodes:
  assumes "parcel_laws P" and "parcel_never_fails P" and "mi_parcel I = P" and "encodes P w its" and "always_writes w" and "decodes P r its v"
  shows "\<exists>reply rest. answer I w (new_parcel P) s = Some (0, reply, s) \<and> r reply = (Some v, rest) \<and> contents P rest = []"
proof -
  obtain reply where w: "w (new_parcel P) = (True, reply)" using assms(5) unfolding always_writes_def by (metis prod.collapse)
  then have "contents P reply = its @ []" using assms(1,4) by (simp add: encodes_def parcel_laws_def)
  then obtain rest where "r reply = (Some v, rest)" "contents P rest = []" using assms(6) unfolding decodes_def by blast
  then show ?thesis using w by (simp add: answer_def)
qed

lemma answer_int32:
  assumes "parcel_laws P" and "parcel_never_fails P" and "mi_parcel I = P"
  shows "\<exists>reply. answer I (WriteInt32 P v) (new_parcel P) s = Some (0, reply, s) \<and> ReadInt32_value P reply = v"
  using answer_decodes [OF assms encodes_typed(6) [OF assms(1)] always_writes_typed(6) [OF assms(2)] decodes_typed(6) [OF assms(1)], of v s]
  by (auto simp: ReadInt32_value_def)

context codec
begin

lemma manager_call:
  assumes "parcel_laws P" and "parcel_never_fails P" and "valid x"
    and "map fst ws = WriteToken P d # us" and "marshal x = write_seq us"
    and "connected (manager_stub I d table) send" and "mi_parcel I = P" and "table code = Some h"
    and "\<And>data' rest. unmarshal data' = (Some x, rest) \<Longrightarrow> h data' (new_parcel P) s = Some (0, reply, t)"
    and "result reply = v"
  shows "proxy_call P (Some send) code ws null failed result s = (v, t)"
proof -
  have "proxy_call P (Some send) code ws null failed result s = (if (0 :: int32) \<noteq> 0 then failed 0 else result reply, t)"
  proof (rule call_through [where table = table and mismatch = "refuse (NETMANAGER_ERR_DESCRIPTOR_MISMATCH (mi_offset I))"
        and fallback = "mi_default I", OF assms(1-5,8,9)])
    fix data
    assume "stub_dispatch P d (refuse (NETMANAGER_ERR_DESCRIPTOR_MISMATCH (mi_offset I))) table (mi_default I) code data
      (new_parcel P) s = Some (0, reply, t)"
    then show "send code data (new_parcel P) s = (0, reply, t)"
      using assms(6,7) unfolding connected_def manager_stub_def by simp
  qed
  then show ?thesis using assms(10) by simp
qed

end

end
