(* ===== verification/Ethernet_Ipc.thy ===== *)
theory Ethernet_Ipc
  imports Manager_Ipc Ethernet_Properties
begin

text \<open>
  \<open>EthernetServiceProxy\<close>, \<open>EthernetServiceStub\<close> and \<open>EthernetClient\<close>: the four methods of the Ethernet
  service over parcels, and that a call through proxy and stub is the call of the service. The state of
  the process is the service object with the world it works on.
\<close>

section \<open>The stub\<close>

definition ethernet_descriptor :: string where "ethernet_descriptor = ''OHOS.NetManagerStandard.IEthernetService''"
definition CMD_SET_IF_CFG :: uint32 where "CMD_SET_IF_CFG = 0"
definition CMD_GET_IF_CFG :: uint32 where "CMD_GET_IF_CFG = 1"
definition CMD_IS_ACTIVATE :: uint32 where "CMD_IS_ACTIVATE = 2"
definition CMD_GET_ACTIVATE_INTERFACE :: uint32 where "CMD_GET_ACTIVATE_INTERFACE = 3"
definition GET_CFG_SUC :: int32 where "GET_CFG_SUC = 1"

lemmas ethernet_codes = CMD_SET_IF_CFG_def CMD_GET_IF_CFG_def CMD_IS_ACTIVATE_def CMD_GET_ACTIVATE_INTERFACE_def

type_synonym 'w eth_process = "eth_service \<times> 'w"

definition EthernetServiceStub_OnSetIfaceConfig ::
    "('p, 'w eth_process) manager_ipc \<Rightarrow> 'w eth_ops \<Rightarrow> ('p, 'w eth_process) manager_handler" where
  "EthernetServiceStub_OnSetIfaceConfig I E data reply s =
     (case ReadString (mi_parcel I) data of (None, _) \<Rightarrow> refuse (NETMANAGER_ERR_READ_DATA_FAIL (mi_offset I)) reply s
      | (Some iface, data') \<Rightarrow>
          (case fst (InterfaceConfiguration_Unmarshalling (mi_parcel I) data') of
             None \<Rightarrow> refuse (NETMANAGER_ERR_LOCAL_PTR_NULL (mi_offset I)) reply s
           | Some ic \<Rightarrow>
               (case EthernetService_SetIfaceConfig E iface (Some ic) (fst s) (snd s) of None \<Rightarrow> None
                | Some (ret, t, w) \<Rightarrow> answer I (WriteInt32 (mi_parcel I) ret) reply (t, w))))"

definition EthernetServiceStub_OnGetIfaceConfig ::
    "('p, 'w eth_process) manager_ipc \<Rightarrow> ('p, 'w eth_process) manager_handler" where
  "EthernetServiceStub_OnGetIfaceConfig I data reply s =
     (case fst (ReadString (mi_parcel I) data) of None \<Rightarrow> refuse (NETMANAGER_ERR_READ_DATA_FAIL (mi_offset I)) reply s
      | Some iface \<Rightarrow>
          (case EthernetService_GetIfaceConfig iface (fst s) of
             Some ic \<Rightarrow> answer I (write_seq [WriteInt32 (mi_parcel I) GET_CFG_SUC, InterfaceConfiguration_Marshalling (mi_parcel I) ic]) reply s
           | None \<Rightarrow> answer I (WriteInt32 (mi_parcel I) 0) reply s))"

definition EthernetServiceStub_OnIsActivate ::
    "('p, 'w eth_process) manager_ipc \<Rightarrow> ('p, 'w eth_process) manager_handler" where
  "EthernetServiceStub_OnIsActivate I data reply s =
     (case fst (ReadString (mi_parcel I) data) of None \<Rightarrow> refuse (NETMANAGER_ERR_READ_DATA_FAIL (mi_offset I)) reply s
      | Some iface \<Rightarrow> answer I (WriteInt32 (mi_parcel I) (EthernetService_IsActivate iface (fst s))) reply s)"

definition EthernetServiceStub_OnGetActivateInterfaces ::
    "('p, 'w eth_process) manager_ipc \<Rightarrow> ('p, 'w eth_process) manager_handler" where
  "EthernetServiceStub_OnGetActivateInterfaces I data reply s =
     answer I (write_list (mi_parcel I) (WriteString (mi_parcel I)) (EthernetService_GetActivateInterfaces (fst s))) reply s"

definition EthernetServiceStub_table ::
    "('p, 'w eth_process) manager_ipc \<Rightarrow> 'w eth_ops \<Rightarrow> uint32 \<Rightarrow> ('p, 'w eth_process) manager_handler option" where
  "EthernetServiceStub_table I E = map_of
     [(CMD_SET_IF_CFG, EthernetServiceStub_OnSetIfaceConfig I E), (CMD_GET_IF_CFG, EthernetServiceStub_OnGetIfaceConfig I),
      (CMD_IS_ACTIVATE, EthernetServiceStub_OnIsActivate I),
      (CMD_GET_ACTIVATE_INTERFACE, EthernetServiceStub_OnGetActivateInterfaces I)]"

definition EthernetServiceStub_OnRemoteRequest ::
    "('p, 'w eth_process) manager_ipc \<Rightarrow> 'w eth_ops \<Rightarrow> uint32 \<Rightarrow> ('p, 'w eth_process) manager_handler" where
  "EthernetServiceStub_OnRemoteRequest I E = manager_stub I ethernet_descriptor (EthernetServiceStub_table I E)"

section \<open>The proxy\<close>

text \<open>A null configuration is dereferenced after the name was written: \<open>None\<close> is that crash of the caller.\<close>

definition EthernetServiceProxy_SetIfaceConfig ::
    "'p parcel_ops \<Rightarrow> int32 \<Rightarrow> ('p, 's) send_request option \<Rightarrow> string \<Rightarrow> InterfaceConfiguration option \<Rightarrow> 's \<Rightarrow> int32 option \<times> 's" where
  "EthernetServiceProxy_SetIfaceConfig P off remote iface ic s =
     (let e = Some (NETMANAGER_ERR_WRITE_DESCRIPTOR_TOKEN_FAIL off);
          f = Some (NETMANAGER_ERR_IPC_CONNECT_STUB_FAIL off);
          ws = [(WriteToken P ethernet_descriptor, e), (WriteString P iface, e)]
      in case ic of
           Some c \<Rightarrow> proxy_call P remote CMD_SET_IF_CFG (ws @ [(InterfaceConfiguration_Marshalling P c, e)]) f (\<lambda>_. f)
                       (\<lambda>reply. Some (ReadInt32_value P reply)) s
         | None \<Rightarrow> (case write_checked ws (new_parcel P) of Inl x \<Rightarrow> (x, s) | Inr _ \<Rightarrow> (None, s)))"

definition EthernetServiceProxy_GetIfaceConfig ::
    "'p parcel_ops \<Rightarrow> ('p, 's) send_request option \<Rightarrow> string \<Rightarrow> 's \<Rightarrow> InterfaceConfiguration option \<times> 's" where
  "EthernetServiceProxy_GetIfaceConfig P remote iface =
     proxy_call P remote CMD_GET_IF_CFG [(WriteToken P ethernet_descriptor, None), (WriteString P iface, None)] None (\<lambda>_. None)
       (\<lambda>reply. case ReadInt32 P reply of (None, _) \<Rightarrow> None
          | (Some res, reply') \<Rightarrow> if res \<noteq> GET_CFG_SUC then None else fst (InterfaceConfiguration_Unmarshalling P reply'))"

definition EthernetServiceProxy_IsActivate ::
    "'p parcel_ops \<Rightarrow> int32 \<Rightarrow> ('p, 's) send_request option \<Rightarrow> string \<Rightarrow> 's \<Rightarrow> int32 \<times> 's" where
  "EthernetServiceProxy_IsActivate P off remote iface =
     (let e = NETMANAGER_ERR_WRITE_DESCRIPTOR_TOKEN_FAIL off; f = NETMANAGER_ERR_IPC_CONNECT_STUB_FAIL off
      in proxy_call P remote CMD_IS_ACTIVATE [(WriteToken P ethernet_descriptor, e), (WriteString P iface, e)] f (\<lambda>_. f) (ReadInt32_value P))"

text \<open>The loop of \<open>GetActivateInterfaces\<close> reads without checks: a string that cannot be read is empty.\<close>

fun read_strings :: "'p parcel_ops \<Rightarrow> nat \<Rightarrow> 'p \<Rightarrow> string list" where
  "read_strings P 0 p = []"
| "read_strings P (Suc n) p =
     (case ReadString P p of (v, p') \<Rightarrow> (case v of None \<Rightarrow> [] | Some x \<Rightarrow> x) # read_strings P n p')"

definition EthernetServiceProxy_GetActivateInterfaces ::
    "'p parcel_ops \<Rightarrow> ('p, 's) send_request option \<Rightarrow> 's \<Rightarrow> string list \<times> 's" where
  "EthernetServiceProxy_GetActivateInterfaces P remote =
     proxy_call P remote CMD_GET_ACTIVATE_INTERFACE [(WriteToken P ethernet_descriptor, [])] [] (\<lambda>_. [])
       (\<lambda>reply. case ReadInt32 P reply of (count, reply') \<Rightarrow>
          read_strings P (nat (sint (case count of None \<Rightarrow> 0 | Some v \<Rightarrow> v))) reply')"

section \<open>The client\<close>

definition EthernetClient_SetIfaceConfig where
  "EthernetClient_SetIfaceConfig C E P off remotes iface ic =
     client_call E (\<lambda>p. EthernetServiceProxy_SetIfaceConfig P off (remotes p) iface ic) (Some (IPC_PROXY_ERR C))"
definition EthernetClient_GetIfaceConfig where
  "EthernetClient_GetIfaceConfig E P remotes iface =
     client_call E (\<lambda>p. EthernetServiceProxy_GetIfaceConfig P (remotes p) iface) None"
definition EthernetClient_IsActivate where
  "EthernetClient_IsActivate C E P off remotes iface =
     client_call E (\<lambda>p. EthernetServiceProxy_IsActivate P off (remotes p) iface) (IPC_PROXY_ERR C)"
definition EthernetClient_GetActivateInterfaces where
  "EthernetClient_GetActivateInterfaces E P remotes =
     client_call E (\<lambda>p. EthernetServiceProxy_GetActivateInterfaces P (remotes p)) []"

text \<open>The client finds its proxy and loses it again as the client of the connection service does.\<close>

definition EthernetClient_GetProxy :: "client_env \<Rightarrow> client_state \<Rightarrow> nat option \<times> client_state" where
  "EthernetClient_GetProxy = client_GetProxy"
definition EthernetClient_OnRemoteDied :: "client_env \<Rightarrow> nat option \<Rightarrow> client_state \<Rightarrow> client_state" where
  "EthernetClient_OnRemoteDied = client_OnRemoteDied"

section \<open>A call through proxy and stub\<close>

lemma EthernetServiceStub_table_entries:
  "EthernetServiceStub_table I E CMD_SET_IF_CFG = Some (EthernetServiceStub_OnSetIfaceConfig I E)"
  "EthernetServiceStub_table I E CMD_GET_IF_CFG = Some (EthernetServiceStub_OnGetIfaceConfig I)"
  "EthernetServiceStub_table I E CMD_IS_ACTIVATE = Some (EthernetServiceStub_OnIsActivate I)"
  "EthernetServiceStub_table I E CMD_GET_ACTIVATE_INTERFACE = Some (EthernetServiceStub_OnGetActivateInterfaces I)"
  by (simp_all add: EthernetServiceStub_table_def ethernet_codes)

definition read_config :: "'p parcel_ops \<Rightarrow> ('p, string \<times> InterfaceConfiguration) reader" where
  "read_config P = read_pair (ReadString P) (InterfaceConfiguration_Unmarshalling P)"

interpretation set_config: codec P "\<lambda>(iface, c). write_seq [WriteString P iface, InterfaceConfiguration_Marshalling P c]" "read_config P"
  "\<lambda>(iface, c). I_String iface # InterfaceConfiguration_items c @ []" "\<lambda>(iface, c). InterfaceConfiguration_short c" for P :: "'p parcel_ops"
proof (unfold_locales, goal_cases)
  case (1 x)
  have "encodes P (write_seq [WriteString P iface, InterfaceConfiguration_Marshalling P c]) (I_String iface # InterfaceConfiguration_items c @ [])"
    for iface c using 1 by (intro encodes_Cons_item encodes_Cons encodes_Nil encodes_typed interface_configuration.marshal_encodes)
  then show ?case by (cases x) simp
next
  case (2 x)
  then show ?case by (cases x) (auto simp del: write_seq.simps write_seq_single intro!: always_writes_seq
        simp: always_writes_typed interface_configuration.marshal_writes)
next
  case (3 x)
  then show ?case by (cases x) (auto simp: read_config_def read_pair_def simp del: append_Nil2 intro!: decodes_then_item [OF decodes_typed(7)]
        decodes_then [OF interface_configuration.unmarshal_decodes] decodes_done)
qed

text \<open>The service does not crash on a configuration that is not null.\<close>

lemma SetIfaceConfig_returns: "EthernetService_SetIfaceConfig E iface (Some ic) s w \<noteq> None"
  by (auto simp: EthernetService_SetIfaceConfig_def EthernetManagement_UpdateDevInterfaceState_def DevInterfaceState_SetIfcfg_def
      DevInterfaceState_UpdateLinkInfo_static_def DevInterfaceState_SetIpAddr_def Let_def split: option.splits)

lemma read_strings_decodes:
  assumes "parcel_laws P" and "contents P p = concat (map (\<lambda>v. [I_String v]) xs) @ rest"
  shows "read_strings P (length xs) p = xs"
  using assms(2)
proof (induction xs arbitrary: p)
  case (Cons x xs)
  then obtain p' where "ReadString P p = (Some x, p')" "contents P p' = concat (map (\<lambda>v. [I_String v]) xs) @ rest"
    using decodes_typed(7) [OF assms(1), of x] unfolding decodes_def by fastforce
  then show ?case using Cons.IH by simp
qed simp

lemma SetIfaceConfig_through:
  assumes "parcel_laws P" and "parcel_never_fails P" and "mi_parcel I = P" and "connected (EthernetServiceStub_OnRemoteRequest I E) send"
    and "InterfaceConfiguration_short c" and "EthernetService_SetIfaceConfig E iface (Some c) (fst s) (snd s) = Some (ret, t)"
  shows "EthernetServiceProxy_SetIfaceConfig P off (Some send) iface (Some c) s = (Some ret, t)"
proof -
  obtain reply where r: "answer I (WriteInt32 P ret) (new_parcel P) t = Some (0, reply, t)" "ReadInt32_value P reply = ret"
    using answer_int32 [OF assms(1-3)] by blast
  show ?thesis unfolding EthernetServiceProxy_SetIfaceConfig_def Let_def option.case
    by (rule set_config.manager_call [where x = "(iface, c)" and us = "[WriteString P iface, InterfaceConfiguration_Marshalling P c]" and I = I
          and d = ethernet_descriptor and table = "EthernetServiceStub_table I E" and h = "EthernetServiceStub_OnSetIfaceConfig I E" and reply = reply])
      (use assms r in \<open>auto simp: EthernetServiceStub_table_entries EthernetServiceStub_OnSetIfaceConfig_def EthernetServiceStub_OnRemoteRequest_def
          read_config_def read_pair_def read_then_def read_done_def Let_def split: prod.splits option.splits\<close>)
qed

definition read_config_reply :: "'p parcel_ops \<Rightarrow> 'p \<Rightarrow> InterfaceConfiguration option" where
  "read_config_reply P reply = (case ReadInt32 P reply of (None, _) \<Rightarrow> None
     | (Some res, reply') \<Rightarrow> if res \<noteq> GET_CFG_SUC then None else fst (InterfaceConfiguration_Unmarshalling P reply'))"

lemma config_reply_null:
  assumes "parcel_laws P" and "parcel_never_fails P" and "mi_parcel I = P"
  shows "\<exists>reply. answer I (WriteInt32 P 0) (new_parcel P) s = Some (0, reply, s) \<and> read_config_reply P reply = None"
proof -
  obtain reply rest where "answer I (WriteInt32 P 0) (new_parcel P) s = Some (0, reply, s)" "ReadInt32 P reply = (Some 0, rest)"
    using answer_decodes [OF assms encodes_typed(6) [OF assms(1), of 0] always_writes_typed(6) [OF assms(2), of 0]
        decodes_typed(6) [OF assms(1), of 0], of s] by (elim exE conjE)
  then show ?thesis by (auto simp: read_config_reply_def GET_CFG_SUC_def)
qed

lemma config_reply_some:
  assumes "parcel_laws P" and "parcel_never_fails P" and "mi_parcel I = P" and "InterfaceConfiguration_short c"
  shows "\<exists>reply. answer I (write_seq [WriteInt32 P GET_CFG_SUC, InterfaceConfiguration_Marshalling P c]) (new_parcel P) s = Some (0, reply, s) \<and>
    read_config_reply P reply = Some c"
proof -
  let ?w = "write_seq [WriteInt32 P GET_CFG_SUC, InterfaceConfiguration_Marshalling P c]"
  let ?r = "read_pair (ReadInt32 P) (InterfaceConfiguration_Unmarshalling P)"
  let ?its = "I_Int32 GET_CFG_SUC # InterfaceConfiguration_items c @ []"
  have e: "encodes P ?w ?its"
    using assms(1) by (intro encodes_Cons_item encodes_Cons encodes_Nil encodes_typed interface_configuration.marshal_encodes)
  have d: "decodes P ?r ?its (GET_CFG_SUC, c)"
    unfolding read_pair_def using assms(1,4)
    by (intro decodes_then_item [OF decodes_typed(6)] decodes_then [OF interface_configuration.unmarshal_decodes] decodes_done)
  have w: "always_writes ?w"
    using assms(2) by (intro always_writes_seq) (simp add: always_writes_typed interface_configuration.marshal_writes)
  from answer_decodes [OF assms(1-3) e w d, of s] obtain reply rest where
    a: "answer I ?w (new_parcel P) s = Some (0, reply, s)" "?r reply = (Some (GET_CFG_SUC, c), rest)" by (elim exE conjE)
  have "read_config_reply P reply = Some c" using a(2)
    by (auto simp: read_config_reply_def read_pair_def read_then_def read_done_def Let_def split: prod.splits option.splits)
  then show ?thesis using a(1) by blast
qed

lemma GetIfaceConfig_through:
  assumes "parcel_laws P" and "parcel_never_fails P" and "mi_parcel I = P" and "connected (EthernetServiceStub_OnRemoteRequest I E) send"
    and "\<forall>c. EthernetService_GetIfaceConfig iface (fst s) = Some c \<longrightarrow> InterfaceConfiguration_short c"
  shows "EthernetServiceProxy_GetIfaceConfig P (Some send) iface s = (EthernetService_GetIfaceConfig iface (fst s), s)"
proof -
  let ?g = "EthernetService_GetIfaceConfig iface (fst s)"
  let ?w = "case ?g of Some ic \<Rightarrow> write_seq [WriteInt32 P GET_CFG_SUC, InterfaceConfiguration_Marshalling P ic] | None \<Rightarrow> WriteInt32 P 0"
  have "\<exists>reply. answer I ?w (new_parcel P) s = Some (0, reply, s) \<and> read_config_reply P reply = ?g"
    using config_reply_null [OF assms(1-3), of s] config_reply_some [OF assms(1-3), of _ s] assms(5) by (cases ?g) (simp_all del: write_seq.simps)
  then obtain reply where r: "answer I ?w (new_parcel P) s = Some (0, reply, s)" "read_config_reply P reply = ?g" by (elim exE conjE)
  have h: "EthernetServiceStub_OnGetIfaceConfig I data (new_parcel P) s = Some (0, reply, s)" if "ReadString P data = (Some iface, rest)" for data rest
    using r(1) that assms(3) by (simp add: EthernetServiceStub_OnGetIfaceConfig_def del: write_seq.simps split: option.splits)
  show ?thesis unfolding EthernetServiceProxy_GetIfaceConfig_def read_config_reply_def [symmetric]
    by (rule one_string.manager_call [where x = iface and us = "[WriteString P iface]" and I = I
          and d = ethernet_descriptor and table = "EthernetServiceStub_table I E" and h = "EthernetServiceStub_OnGetIfaceConfig I" and reply = reply])
      (use assms(1-4) r(2) h in \<open>simp_all add: EthernetServiceStub_table_entries EthernetServiceStub_OnRemoteRequest_def\<close>)
qed

lemma IsActivate_through:
  assumes "parcel_laws P" and "parcel_never_fails P" and "mi_parcel I = P" and "connected (EthernetServiceStub_OnRemoteRequest I E) send"
  shows "EthernetServiceProxy_IsActivate P off (Some send) iface s = (EthernetService_IsActivate iface (fst s), s)"
proof -
  obtain reply where r: "answer I (WriteInt32 P (EthernetService_IsActivate iface (fst s))) (new_parcel P) s = Some (0, reply, s)"
    "ReadInt32_value P reply = EthernetService_IsActivate iface (fst s)"
    using answer_int32 [OF assms(1-3)] by blast
  show ?thesis unfolding EthernetServiceProxy_IsActivate_def Let_def
    by (rule one_string.manager_call [where x = iface and us = "[WriteString P iface]" and I = I
          and d = ethernet_descriptor and table = "EthernetServiceStub_table I E" and h = "EthernetServiceStub_OnIsActivate I" and reply = reply])
      (use assms r in \<open>simp_all add: EthernetServiceStub_table_entries EthernetServiceStub_OnIsActivate_def EthernetServiceStub_OnRemoteRequest_def\<close>)
qed

lemma GetActivateInterfaces_through:
  assumes "parcel_laws P" and "parcel_never_fails P" and "mi_parcel I = P" and "connected (EthernetServiceStub_OnRemoteRequest I E) send"
    and "int_list (EthernetService_GetActivateInterfaces (fst s))"
  shows "EthernetServiceProxy_GetActivateInterfaces P (Some send) s = (EthernetService_GetActivateInterfaces (fst s), s)"
proof -
  let ?xs = "EthernetService_GetActivateInterfaces (fst s)"
  obtain reply where a: "write_list P (WriteString P) ?xs (new_parcel P) = (True, reply)"
    using one_string.list_writes [OF assms(2)] unfolding always_writes_def by (metis prod.collapse)
  have "contents P reply = list_items (\<lambda>v. [I_String v]) ?xs"
    using one_string.list_encodes [OF assms(1), of ?xs] a assms(1) by (simp add: encodes_def parcel_laws_def)
  then obtain rest where c: "ReadInt32 P reply = (Some (of_nat (length ?xs)), rest)" "contents P rest = concat (map (\<lambda>v. [I_String v]) ?xs) @ []"
    using decodes_typed(6) [OF assms(1), of "of_nat (length ?xs)"] unfolding decodes_def list_items_def by fastforce
  have "read_strings P (length ?xs) rest = ?xs" using read_strings_decodes [OF assms(1) c(2)] .
  then have r: "(case ReadInt32 P reply of (count, reply') \<Rightarrow> read_strings P (nat (sint (case count of None \<Rightarrow> 0 | Some v \<Rightarrow> v))) reply') = ?xs"
    using c(1) int_list_size [OF assms(5)] by simp
  show ?thesis unfolding EthernetServiceProxy_GetActivateInterfaces_def
    by (rule unit_codec.manager_call [where x = "()" and us = "[]" and I = I
          and d = ethernet_descriptor and table = "EthernetServiceStub_table I E" and h = "EthernetServiceStub_OnGetActivateInterfaces I" and reply = reply])
      (use assms a r in \<open>simp_all add: EthernetServiceStub_table_entries EthernetServiceStub_OnGetActivateInterfaces_def
          EthernetServiceStub_OnRemoteRequest_def answer_def Let_def\<close>)
qed

text \<open>
  C27. A call through proxy, transport and stub is the call of the Ethernet service: each of the four
  methods returns what the service returns and leaves the state the service leaves. The configurations
  have to fit a parcel (fewer than 2^32 name servers) and the interface names an \<open>int32_t\<close>.
\<close>

theorem ethernet_call_through:
  assumes "parcel_laws P" and "parcel_never_fails P" and "mi_parcel I = P" and "connected (EthernetServiceStub_OnRemoteRequest I E) send"
  shows "(\<forall>iface c s. InterfaceConfiguration_short c \<longrightarrow>
      (\<exists>ret t. EthernetService_SetIfaceConfig E iface (Some c) (fst s) (snd s) = Some (ret, t) \<and>
        EthernetServiceProxy_SetIfaceConfig P off (Some send) iface (Some c) s = (Some ret, t))) \<and>
    (\<forall>iface s. (\<forall>c. EthernetService_GetIfaceConfig iface (fst s) = Some c \<longrightarrow> InterfaceConfiguration_short c) \<longrightarrow>
      EthernetServiceProxy_GetIfaceConfig P (Some send) iface s = (EthernetService_GetIfaceConfig iface (fst s), s)) \<and>
    (\<forall>iface s. EthernetServiceProxy_IsActivate P off (Some send) iface s = (EthernetService_IsActivate iface (fst s), s)) \<and>
    (\<forall>s. int_list (EthernetService_GetActivateInterfaces (fst s)) \<longrightarrow>
      EthernetServiceProxy_GetActivateInterfaces P (Some send) s = (EthernetService_GetActivateInterfaces (fst s), s))"
proof (intro conjI allI impI)
  fix iface c s assume c: "InterfaceConfiguration_short c"
  obtain ret t where r: "EthernetService_SetIfaceConfig E iface (Some c) (fst s) (snd s) = Some (ret, t)"
    using SetIfaceConfig_returns [of E iface c "fst s" "snd s"] by (metis not_None_eq prod.collapse)
  then show "\<exists>ret t. EthernetService_SetIfaceConfig E iface (Some c) (fst s) (snd s) = Some (ret, t) \<and>
      EthernetServiceProxy_SetIfaceConfig P off (Some send) iface (Some c) s = (Some ret, t)"
    using SetIfaceConfig_through [OF assms c r] by blast
qed (simp_all add: GetIfaceConfig_through [OF assms] IsActivate_through [OF assms] GetActivateInterfaces_through [OF assms])

definition sample_eth_ipc :: "(parcel_item list, unit eth_process) manager_ipc" where
  "sample_eth_ipc = \<lparr>mi_parcel = list_parcel, mi_offset = 0x200000, mi_default = (\<lambda>code data. refuse 1)\<rparr>"

definition sample_eth_send :: "(parcel_item list, unit eth_process) send_request" where
  "sample_eth_send code data reply s =
     (case EthernetServiceStub_OnRemoteRequest sample_eth_ipc (sample_eth_ops []) code data reply s of None \<Rightarrow> (29, reply, s) | Some r \<Rightarrow> r)"

theorem ethernet_call_through_witness:
  "EthernetServiceProxy_IsActivate list_parcel 0x200000 (Some sample_eth_send) ''eth0'' (sample_service, ()) = (1, sample_service, ()) \<and>
   EthernetServiceProxy_GetActivateInterfaces list_parcel (Some sample_eth_send) (sample_service, ()) = ([''eth0''], sample_service, ())"
proof -
  have "connected (EthernetServiceStub_OnRemoteRequest sample_eth_ipc (sample_eth_ops [])) sample_eth_send"
    by (simp add: connected_def sample_eth_send_def)
  note t = ethernet_call_through [OF list_parcel_laws list_parcel_never_fails _ this]
  have "EthernetService_IsActivate ''eth0'' sample_service = 1" "EthernetService_GetActivateInterfaces sample_service = [''eth0'']"
    by (simp_all add: EthernetService_IsActivate_def EthernetManagement_IsActivate_def EthernetService_GetActivateInterfaces_def
        EthernetManagement_GetActivateInterfaces_def sample_service_def sample_device_def)
  then show ?thesis using t [where off = "0x200000"] by (simp add: sample_eth_ipc_def int_list_def)
qed

end
