(* ===== verification/Netlink_Rtnl.thy ===== *)
theory Netlink_Rtnl
  imports Ethernet_Service
begin

text \<open>
  \<open>NetLinkRtnl\<close> (\<open>netLink_rtnl.cpp\<close>): the loops over the messages of a netlink buffer and over the
  attributes of a link message, and the socket calls around them. The macros and structures of the
  kernel headers are a record of functions; a read outside the buffer is a \<open>Fault\<close>, and a loop that does
  not end is \<open>None\<close>.
\<close>

section \<open>Memory and the kernel headers\<close>

type_synonym mem = "uint8 list"

record nl_headers =
  nl_NLMSG_OK :: "mem \<Rightarrow> nat \<Rightarrow> int32 \<Rightarrow> bool option"
  nl_NLMSG_NEXT :: "mem \<Rightarrow> nat \<Rightarrow> int32 \<Rightarrow> (nat \<times> int32) option"
  nl_NLMSG_DATA :: "nat \<Rightarrow> nat"
  nl_nlmsg_type :: "mem \<Rightarrow> nat \<Rightarrow> uint16 option"
  nl_nlmsg_len :: "mem \<Rightarrow> nat \<Rightarrow> uint32 option"
  nl_ifinfo_space :: uint32
  nl_ifi_type :: "mem \<Rightarrow> nat \<Rightarrow> uint16 option"
  nl_ifi_flags :: "mem \<Rightarrow> nat \<Rightarrow> uint32 option"
  nl_IFLA_RTA :: "nat \<Rightarrow> nat"
  nl_RTA_OK :: "mem \<Rightarrow> nat \<Rightarrow> int32 \<Rightarrow> bool option"
  nl_RTA_NEXT :: "mem \<Rightarrow> nat \<Rightarrow> int32 \<Rightarrow> (nat \<times> int32) option"
  nl_RTA_DATA :: "nat \<Rightarrow> nat"
  nl_rta_type :: "mem \<Rightarrow> nat \<Rightarrow> uint16 option"
  nl_RTM_NEWLINK :: uint16
  nl_RTM_DELLINK :: uint16
  nl_ARPHRD_ETHER :: uint16
  nl_IFLA_MAX :: nat
  nl_IFLA_IFNAME :: nat

text \<open>\<open>std::string(char *)\<close>: the bytes up to the first zero, wherever it is.\<close>

definition c_string :: "mem \<Rightarrow> nat \<Rightarrow> string run" where
  "c_string m p =
     (let s = takeWhile (\<lambda>b. b \<noteq> 0) (drop p m)
      in if p + length s < length m then Done (map (\<lambda>b. char_of (unat b)) s) else Fault)"

section \<open>One link message\<close>

text \<open>The loop that enters the attributes in the table \<open>tb\<close>, later ones over earlier ones.\<close>

partial_function (option) attr_loop ::
    "nl_headers \<Rightarrow> mem \<Rightarrow> nat \<Rightarrow> int32 \<Rightarrow> nat option list \<Rightarrow> nat option list run option" where
  "attr_loop H m attr len tb =
     (case nl_RTA_OK H m attr len of None \<Rightarrow> Some Fault
      | Some ok \<Rightarrow>
          if \<not> ok then Some (Done tb)
          else (case nl_rta_type H m attr of None \<Rightarrow> Some Fault
                | Some ty \<Rightarrow>
                    (case nl_RTA_NEXT H m attr len of None \<Rightarrow> Some Fault
                     | Some (attr', len') \<Rightarrow>
                         attr_loop H m attr' len' (if unat ty \<le> nl_IFLA_MAX H then tb[unat ty := Some attr] else tb))))"

text \<open>The part \<open>ProcessIfInfoMsg\<close> and \<open>ProcessLinkMsg\<close> share; \<open>Done None\<close> is a message of another kind of device.\<close>

definition link_name :: "nl_headers \<Rightarrow> mem \<Rightarrow> nat option list \<Rightarrow> string run" where
  "link_name H m tb = (case tb ! nl_IFLA_IFNAME H of None \<Rightarrow> Done [] | Some attr \<Rightarrow> c_string m (nl_RTA_DATA H attr))"

definition parse_link_msg :: "nl_headers \<Rightarrow> mem \<Rightarrow> nat \<Rightarrow> nlk_event_info option run option" where
  "parse_link_msg H m nh =
     (let ifInfo = nl_NLMSG_DATA H nh in
      case nl_ifi_type H m ifInfo of None \<Rightarrow> Some Fault
      | Some ty \<Rightarrow>
          if ty \<noteq> nl_ARPHRD_ETHER H then Some (Done None)
          else (case nl_nlmsg_len H m nh of None \<Rightarrow> Some Fault
                | Some msglen \<Rightarrow>
                    (case attr_loop H m (nl_IFLA_RTA H ifInfo) (msglen - nl_ifinfo_space H) (replicate (nl_IFLA_MAX H + 1) None) of
                       None \<Rightarrow> None
                     | Some Fault \<Rightarrow> Some Fault
                     | Some (Done tb) \<Rightarrow>
                         (case (link_name H m tb, nl_ifi_flags H m ifInfo) of
                            (Done name, Some flags) \<Rightarrow> Some (Done (Some \<lparr>ne_iface = name, ne_ifiFlags = ucast flags\<rparr>))
                          | _ \<Rightarrow> Some Fault))))"

text \<open>\<open>ProcessIfInfoMsg\<close> hands the information to every handle: the events it delivers, none or one.\<close>

definition NetLinkRtnl_ProcessIfInfoMsg :: "nl_headers \<Rightarrow> mem \<Rightarrow> nat \<Rightarrow> nlk_event_info list run option" where
  "NetLinkRtnl_ProcessIfInfoMsg H m nh =
     (case parse_link_msg H m nh of None \<Rightarrow> None | Some Fault \<Rightarrow> Some Fault
      | Some (Done None) \<Rightarrow> Some (Done []) | Some (Done (Some info)) \<Rightarrow> Some (Done [info]))"

text \<open>\<open>ProcessLinkMsg\<close> returns an empty information for another kind of device, and the caller keeps it.\<close>

definition NetLinkRtnl_ProcessLinkMsg :: "nl_headers \<Rightarrow> mem \<Rightarrow> nat \<Rightarrow> nlk_event_info list run option" where
  "NetLinkRtnl_ProcessLinkMsg H m nh =
     (case parse_link_msg H m nh of None \<Rightarrow> None | Some Fault \<Rightarrow> Some Fault
      | Some (Done None) \<Rightarrow> Some (Done [\<lparr>ne_iface = [], ne_ifiFlags = 0\<rparr>]) | Some (Done (Some info)) \<Rightarrow> Some (Done [info]))"

section \<open>The messages of a buffer\<close>

partial_function (option) msg_loop ::
    "nl_headers \<Rightarrow> (nat \<Rightarrow> nlk_event_info list run option) \<Rightarrow> mem \<Rightarrow> nat \<Rightarrow> int32 \<Rightarrow> nlk_event_info list \<Rightarrow> nlk_event_info list run option" where
  "msg_loop H f m nh len out =
     (case nl_NLMSG_OK H m nh len of None \<Rightarrow> Some Fault
      | Some ok \<Rightarrow>
          if \<not> ok then Some (Done out)
          else (case nl_nlmsg_type H m nh of None \<Rightarrow> Some Fault
                | Some ty \<Rightarrow>
                    (case (if ty = nl_RTM_NEWLINK H \<or> ty = nl_RTM_DELLINK H then f nh else Some (Done [])) of
                       None \<Rightarrow> None
                     | Some Fault \<Rightarrow> Some Fault
                     | Some (Done infos) \<Rightarrow>
                         (case nl_NLMSG_NEXT H m nh len of None \<Rightarrow> Some Fault
                          | Some (nh', len') \<Rightarrow> msg_loop H f m nh' len' (out @ infos)))))"

definition NetLinkRtnl_ProcessReadMsg ::
    "nl_headers \<Rightarrow> mem option \<Rightarrow> int32 \<Rightarrow> nlk_event_info list \<Rightarrow> nlk_event_info list run option" where
  "NetLinkRtnl_ProcessReadMsg H pBuff len infos =
     (case pBuff of None \<Rightarrow> Some (Done infos)
      | Some m \<Rightarrow> msg_loop H (NetLinkRtnl_ProcessLinkMsg H m) m 0 len infos)"

text \<open>The events in the order they are delivered.\<close>

definition NetLinkRtnl_ProcessLinkEventMsg :: "nl_headers \<Rightarrow> mem option \<Rightarrow> int32 \<Rightarrow> nlk_event_info list run option" where
  "NetLinkRtnl_ProcessLinkEventMsg H pBuff len =
     (case pBuff of None \<Rightarrow> Some (Done [])
      | Some m \<Rightarrow> msg_loop H (NetLinkRtnl_ProcessIfInfoMsg H m) m 0 len [])"

section \<open>Sockets\<close>

text \<open>
  What the system calls answer, in the order they are made; the set of open descriptors is the state.
  \<open>getsockname\<close> gives its result, whether the length is the one of the structure and whether the family
  is \<open>AF_NETLINK\<close>; \<open>read\<close> its result and the buffer it leaves.
\<close>

record nl_calls =
  ny_socket :: int32
  ny_fcntl :: int32
  ny_bind :: int32
  ny_getsockname :: "int32 \<times> bool \<times> bool"
  ny_sendmsg :: int32
  ny_read :: "int32 \<times> mem"

definition NetLinkRtnl_CreateNetLinkSocket :: "nl_calls \<Rightarrow> int32 set \<Rightarrow> int32 \<times> int32 set" where
  "NetLinkRtnl_CreateNetLinkSocket c open_fds =
     (let fd = ny_socket c in
      if fd <s 0 then (ETHERNET_ERROR, open_fds)
      else if ny_fcntl c <s 0 then (ETHERNET_ERROR, open_fds - {fd})
      else if ny_bind c <s 0 then (ETHERNET_ERROR, open_fds - {fd})
      else (case ny_getsockname c of (ret, sameLength, sameFamily) \<Rightarrow>
              if ret <s 0 \<or> \<not> sameLength then (ETHERNET_ERROR, open_fds - {fd})
              else if \<not> sameFamily then (ETHERNET_ERROR, open_fds - {fd})
              else (fd, insert fd open_fds)))"

definition NetLinkRtnl_GetLinkInfo ::
    "nl_headers \<Rightarrow> nl_calls \<Rightarrow> nlk_event_info list \<Rightarrow> int32 set \<Rightarrow> (nlk_event_info list run \<times> int32 set) option" where
  "NetLinkRtnl_GetLinkInfo H c infos open_fds =
     (case NetLinkRtnl_CreateNetLinkSocket c open_fds of (fd, open1) \<Rightarrow>
        if fd <s 0 then Some (Done infos, open1)
        else if ny_sendmsg c <s 0 then Some (Done infos, open1)
        else (case ny_read c of (ret, buff) \<Rightarrow>
                map_option (\<lambda>r. (r, open1)) (NetLinkRtnl_ProcessReadMsg H (Some buff) ret infos)))"

text \<open>
  One round of the listener thread: \<open>select\<close> takes the timeout by reference and gives its result, whether
  the socket is in the set, and the timeout it leaves; then what \<open>read\<close> gives.
\<close>

type_synonym timeval = "int \<times> int"

record nl_round =
  nr_select :: "timeval \<Rightarrow> int32 \<times> bool \<times> timeval"
  nr_read :: "int32 \<times> mem"

definition NLK_TV_SEC :: int32 where "NLK_TV_SEC = 5"

definition NLK_TV_USEC :: int32 where "NLK_TV_USEC = 0"

definition NetLinkRtnl_NetLinkHandle ::
    "nl_headers \<Rightarrow> nl_round \<Rightarrow> timeval \<Rightarrow> (int32 \<times> nlk_event_info list \<times> timeval) run option" where
  "NetLinkRtnl_NetLinkHandle H r timeout =
     (case nr_select r timeout of (selectFd, isset, timeout') \<Rightarrow>
        if selectFd <s 0 then Some (Done (ETHERNET_ERROR, [], timeout'))
        else if 0 <s selectFd \<and> isset
        then (case NetLinkRtnl_ProcessLinkEventMsg H (Some (snd (nr_read r))) (fst (nr_read r)) of None \<Rightarrow> None
              | Some Fault \<Rightarrow> Some Fault | Some (Done events) \<Rightarrow> Some (Done (ETHERNET_SUCCESS, events, timeout')))
        else Some (Done (ETHERNET_SUCCESS, [], timeout')))"

text \<open>
  The listener never returns once the socket is set up: what it has delivered, and the timeout it has, after
  any number of rounds. Its socket is left open when the set-up fails.
\<close>

fun listen_rounds ::
    "nl_headers \<Rightarrow> nl_round list \<Rightarrow> timeval \<Rightarrow> nlk_event_info list \<Rightarrow> (nlk_event_info list \<times> timeval) run option" where
  "listen_rounds H [] timeout out = Some (Done (out, timeout))"
| "listen_rounds H (r # rs) timeout out =
     (case NetLinkRtnl_NetLinkHandle H r timeout of None \<Rightarrow> None | Some Fault \<Rightarrow> Some Fault
      | Some (Done (_, events, timeout')) \<Rightarrow> listen_rounds H rs timeout' (out @ events))"

definition NetLinkRtnl_NetLinkListenerThead ::
    "nl_headers \<Rightarrow> int32 \<Rightarrow> int32 \<Rightarrow> int32 \<Rightarrow> nl_round list \<Rightarrow> int32 set
     \<Rightarrow> (nlk_event_info list \<times> timeval) run option option \<times> int32 set" where
  "NetLinkRtnl_NetLinkListenerThead H netLinkSocket setsockopt bind rounds open_fds =
     (if netLinkSocket <s 0 then (None, open_fds)
      else if setsockopt \<noteq> 0 then (None, insert netLinkSocket open_fds)
      else if bind \<noteq> 0 then (None, insert netLinkSocket open_fds)
      else (Some (listen_rounds H rounds (sint NLK_TV_SEC, sint NLK_TV_USEC) []), insert netLinkSocket open_fds))"

text \<open>
  The requests on an interface. \<open>strcpy_s\<close> and \<open>strncpy_s\<close> say what ends up in \<open>ifr_name\<close>, \<open>inet_pton\<close> what
  address (zero when the text is not one).
\<close>

record if_calls =
  fc_socket :: int32
  fc_strcpy_s :: "string \<Rightarrow> string"
  fc_strncpy_s :: "string \<Rightarrow> string"
  fc_inet_pton :: "string \<Rightarrow> uint32"
  fc_SIOCGIFFLAGS :: "string \<Rightarrow> int32"
  fc_SIOCSIFADDR :: "string \<Rightarrow> uint32 \<Rightarrow> int32"
  fc_SIOCGIFHWADDR :: "string \<Rightarrow> int32 \<times> uint8 list"

definition NLK_HWADDR_LEN :: nat where "NLK_HWADDR_LEN = 6"

definition NetLinkRtnl_SetIpAddr :: "if_calls \<Rightarrow> string \<Rightarrow> string \<Rightarrow> int32" where
  "NetLinkRtnl_SetIpAddr c ifName ip =
     (if fc_socket c = - 1 then ETHERNET_ERROR
      else if fc_SIOCGIFFLAGS c (fc_strcpy_s c ifName) <s 0 then ETHERNET_ERROR
      else if fc_SIOCSIFADDR c (fc_strncpy_s c ifName) (fc_inet_pton c ip) <s 0 then ETHERNET_ERROR
      else ETHERNET_SUCCESS)"

definition NetLinkRtnl_GetHWaddr :: "if_calls \<Rightarrow> string \<Rightarrow> uint8 list" where
  "NetLinkRtnl_GetHWaddr c devName =
     (if fc_socket c <s 0 then []
      else (case fc_SIOCGIFHWADDR c (fc_strcpy_s c devName) of (ret, sa_data) \<Rightarrow>
              if ret <s 0 then [] else take NLK_HWADDR_LEN sa_data))"

end
