(* ===== verification/Netlink_Properties.thy ===== *)
theory Netlink_Properties
  imports Netlink_Rtnl
begin

text \<open>
  The properties of the netlink loops: with headers that keep the contract of \<open>netlink(3)\<close> and
  \<open>rtnetlink(3)\<close> they always end; on the layout the kernel documents the messages of a buffer are
  decoded exactly; and a link message that is too short, or a name without a final zero, is read beyond
  its end.
\<close>

section \<open>The contract of the headers\<close>

text \<open>
  When the test holds there is something left, and the next element leaves less than before: the
  remaining length never falls to a value that is taken for a large one.
\<close>

definition steps_down :: "(mem \<Rightarrow> nat \<Rightarrow> int32 \<Rightarrow> bool option) \<Rightarrow> (mem \<Rightarrow> nat \<Rightarrow> int32 \<Rightarrow> (nat \<times> int32) option) \<Rightarrow> bool" where
  "steps_down ok next \<longleftrightarrow> (\<forall>m p len. ok m p len = Some True \<longrightarrow> 0 < sint len \<and>
     (\<forall>p' len'. next m p len = Some (p', len') \<longrightarrow> sint len' < sint len))"

locale netlink_headers =
  fixes H :: nl_headers
  assumes messages_step: "steps_down (nl_NLMSG_OK H) (nl_NLMSG_NEXT H)"
    and attributes_step: "steps_down (nl_RTA_OK H) (nl_RTA_NEXT H)"
begin

lemma attr_loop_returns: "attr_loop H m attr len tb \<noteq> None"
proof (induction "nat (sint len)" arbitrary: attr len tb rule: less_induct)
  case less
  show ?case
  proof (cases "nl_RTA_OK H m attr len = Some True")
    case True
    then have "0 < sint len" "nl_RTA_NEXT H m attr len = Some (p', len') \<Longrightarrow> sint len' < sint len" for p' len'
      using attributes_step by (auto simp: steps_down_def)
    then show ?thesis using less True by (subst attr_loop.simps) (auto split: option.splits)
  next
    case False
    then show ?thesis by (subst attr_loop.simps) (auto split: option.splits)
  qed
qed

lemma parse_link_msg_returns: "parse_link_msg H m nh \<noteq> None"
  using attr_loop_returns by (auto simp: parse_link_msg_def Let_def simp del: not_None_eq split: option.splits run.splits)

lemma process_returns: "NetLinkRtnl_ProcessIfInfoMsg H m nh \<noteq> None" "NetLinkRtnl_ProcessLinkMsg H m nh \<noteq> None"
  using parse_link_msg_returns [of m nh]
  by (auto simp: NetLinkRtnl_ProcessIfInfoMsg_def NetLinkRtnl_ProcessLinkMsg_def split: option.splits run.splits)

lemma msg_loop_returns: "(\<And>nh. f nh \<noteq> None) \<Longrightarrow> msg_loop H f m nh len out \<noteq> None"
proof (induction "nat (sint len)" arbitrary: nh len out rule: less_induct)
  case less
  show ?case
  proof (cases "nl_NLMSG_OK H m nh len = Some True")
    case True
    then have "0 < sint len" "nl_NLMSG_NEXT H m nh len = Some (p', len') \<Longrightarrow> sint len' < sint len" for p' len'
      using messages_step by (auto simp: steps_down_def)
    then show ?thesis using less True by (subst msg_loop.simps) (auto simp del: not_None_eq split: option.splits run.splits)
  next
    case False
    then show ?thesis by (subst msg_loop.simps) (auto simp del: not_None_eq split: option.splits)
  qed
qed

end

section \<open>The layout of the kernel\<close>

definition rd16 :: "mem \<Rightarrow> nat \<Rightarrow> uint16 option" where
  "rd16 m p = (case drop p m of a # b # _ \<Rightarrow> Some (word_of_nat (unat a + 256 * unat b)) | _ \<Rightarrow> None)"

definition rd32 :: "mem \<Rightarrow> nat \<Rightarrow> uint32 option" where
  "rd32 m p = (case drop p m of a # b # c # d # _ \<Rightarrow>
       Some (word_of_nat (unat a + 256 * unat b + 65536 * unat c + 16777216 * unat d)) | _ \<Rightarrow> None)"

text \<open>Rounding up to a multiple of four.\<close>

definition nl_align :: "uint32 \<Rightarrow> uint32" where
  "nl_align l = (l + 3) div 4 * 4"

definition linux_headers :: "nat \<Rightarrow> nl_headers" where
  "linux_headers mx =
     \<lparr>nl_NLMSG_OK = (\<lambda>m p len. if \<not> (16 \<le>s len) then Some False else map_option (\<lambda>l. 16 \<le> l \<and> l \<le> len) (rd32 m p)),
      nl_NLMSG_NEXT = (\<lambda>m p len. map_option (\<lambda>l. (p + unat (nl_align l), len - nl_align l)) (rd32 m p)),
      nl_NLMSG_DATA = (\<lambda>p. p + 16),
      nl_nlmsg_type = (\<lambda>m p. rd16 m (p + 4)),
      nl_nlmsg_len = rd32,
      nl_ifinfo_space = 32,
      nl_ifi_type = (\<lambda>m p. rd16 m (p + 2)),
      nl_ifi_flags = (\<lambda>m p. rd32 m (p + 8)),
      nl_IFLA_RTA = (\<lambda>p. p + 16),
      nl_RTA_OK = (\<lambda>m p len. if \<not> (4 \<le>s len) then Some False
        else map_option (\<lambda>l. 4 \<le> l \<and> (ucast l :: uint32) \<le>s len) (rd16 m p)),
      nl_RTA_NEXT = (\<lambda>m p len. map_option (\<lambda>l. (p + unat (nl_align (ucast l)), len - nl_align (ucast l))) (rd16 m p)),
      nl_RTA_DATA = (\<lambda>p. p + 4),
      nl_rta_type = (\<lambda>m p. rd16 m (p + 2)),
      nl_RTM_NEWLINK = 16, nl_RTM_DELLINK = 17, nl_ARPHRD_ETHER = 1, nl_IFLA_MAX = mx, nl_IFLA_IFNAME = 3\<rparr>"

lemma linux_fields [simp]:
  "nl_NLMSG_DATA (linux_headers mx) p = p + 16" "nl_nlmsg_type (linux_headers mx) m p = rd16 m (p + 4)"
  "nl_nlmsg_len (linux_headers mx) = rd32" "nl_ifinfo_space (linux_headers mx) = 32"
  "nl_ifi_type (linux_headers mx) m p = rd16 m (p + 2)" "nl_ifi_flags (linux_headers mx) m p = rd32 m (p + 8)"
  "nl_IFLA_RTA (linux_headers mx) p = p + 16" "nl_RTA_DATA (linux_headers mx) p = p + 4"
  "nl_RTM_NEWLINK (linux_headers mx) = 16" "nl_RTM_DELLINK (linux_headers mx) = 17"
  "nl_ARPHRD_ETHER (linux_headers mx) = 1" "nl_IFLA_MAX (linux_headers mx) = mx" "nl_IFLA_IFNAME (linux_headers mx) = 3"
  by (simp_all add: linux_headers_def)

text \<open>The remaining length shrinks: the rounded size is positive, and at most three above the length.\<close>

lemma nl_align_unat:
  assumes "unat l \<le> 2 ^ 31"
  shows "unat (nl_align l) = (unat l + 3) div 4 * 4"
proof -
  have four: "unat (4 :: uint32) = 4" "unat (3 :: uint32) = 3" by simp_all
  have "unat l + unat (3 :: uint32) < 2 ^ LENGTH(32)" using assms by simp
  then have a: "unat (l + 3) = unat l + 3" by (metis unat_add_lem four(2))
  have b: "unat ((l + 3) div 4) = (unat l + 3) div 4" by (simp add: unat_div a)
  have "(unat l + 3) div 4 * 4 \<le> unat l + 3" by (rule div_times_less_eq_dividend)
  also have "\<dots> < 2 ^ LENGTH(32)" using assms by simp
  finally have "unat ((l + 3) div 4) * unat (4 :: uint32) < 2 ^ LENGTH(32)" unfolding b four .
  then show ?thesis unfolding nl_align_def by (metis unat_mult_lem b four(1))
qed

lemma sint_nonneg: "0 \<le> sint (len :: int32) \<Longrightarrow> sint len = int (unat len)"
  using uint_sint [of len] sint_lt [of len] by (simp add: take_bit_int_eq_self)

lemma align_shrinks:
  assumes "0 < unat l" and "int (unat l) \<le> sint (len :: int32)"
  shows "sint (len - nl_align l) = sint len - int ((unat l + 3) div 4 * 4)" "sint (len - nl_align l) < sint len"
proof -
  have len: "sint len < 2 ^ 31" using sint_lt [of len] by simp
  then have "int (unat l) \<le> int (2 ^ 31)" using assms(2) by simp
  then have l: "unat l \<le> 2 ^ 31" by (simp only: of_nat_le_iff)
  let ?k = "(unat l + 3) div 4 * 4"
  have k: "0 < ?k" "?k \<le> unat l + 3" using assms(1) by auto
  have "len - nl_align l = word_of_int (sint len - int ?k)"
  proof -
    have "nl_align l = word_of_nat ?k" unfolding nl_align_unat [OF l, symmetric] by simp
    then show ?thesis by simp
  qed
  then have "sint (len - nl_align l) = signed_take_bit 31 (sint len - int ?k)" by (simp only: signed_of_int) simp
  also have "\<dots> = sint len - int ?k"
  proof (rule signed_take_bit_int_eq_self)
    have k': "int ?k \<le> int (unat l) + 3" "0 < int ?k" using k by linarith+
    have "- 3 \<le> sint len - int ?k" using k'(1) assms(2) by linarith
    then show "- (2 ^ 31) \<le> sint len - int ?k" by simp
    show "sint len - int ?k < 2 ^ 31" using k'(2) len by simp
  qed
  finally show "sint (len - nl_align l) = sint len - int ?k" .
  then show "sint (len - nl_align l) < sint len" using k(1) by linarith
qed

lemma linux_steps_down:
  "steps_down (nl_NLMSG_OK (linux_headers mx)) (nl_NLMSG_NEXT (linux_headers mx))"
  "steps_down (nl_RTA_OK (linux_headers mx)) (nl_RTA_NEXT (linux_headers mx))"
proof -
  have u: "16 \<le> l \<Longrightarrow> l \<le> len \<Longrightarrow> 16 \<le>s len \<Longrightarrow> 0 < unat l \<and> int (unat l) \<le> sint len" for l len :: uint32
    using sint_nonneg [of len] by (auto simp: word_le_def word_sle_eq unat_gt_0)
  show "steps_down (nl_NLMSG_OK (linux_headers mx)) (nl_NLMSG_NEXT (linux_headers mx))"
    using u align_shrinks(2) by (auto simp: steps_down_def linux_headers_def word_sle_eq split: if_splits)
  have v: "4 \<le> l \<Longrightarrow> (ucast l :: uint32) \<le>s len \<Longrightarrow> 4 \<le>s len \<Longrightarrow> 0 < unat (ucast l :: uint32) \<and> int (unat (ucast l :: uint32)) \<le> sint len"
    for l :: uint16 and len :: uint32
  proof -
    assume a: "4 \<le> l" "(ucast l :: uint32) \<le>s len"
    have l: "0 \<le> uint l" "uint l < 65536" "unat l < 65536" using uint_bounded [of l] unsigned_less [of l, where 'a = nat] by simp_all
    have "- (2 ^ 31) \<le> (0 :: int)" by simp
    from order_trans [OF this l(1)] have "signed_take_bit 31 (uint l) = uint l" using l(2) by (intro signed_take_bit_int_eq_self) simp_all
    moreover have "take_bit 32 (unat l) = unat l" "take_bit 32 (uint l) = uint l"
      using l by (simp_all add: take_bit_nat_eq_self take_bit_int_eq_self)
    ultimately have "sint (ucast l :: uint32) = uint l" "unat (ucast l :: uint32) = unat l"
      by (simp_all add: sint_uint unsigned_ucast_eq)
    then show "0 < unat (ucast l :: uint32) \<and> int (unat (ucast l :: uint32)) \<le> sint len"
      using a by (auto simp: word_le_def word_sle_eq unat_gt_0)
  qed
  show "steps_down (nl_RTA_OK (linux_headers mx)) (nl_RTA_NEXT (linux_headers mx))"
    using v align_shrinks(2) by (auto simp: steps_down_def linux_headers_def word_sle_eq split: if_splits)
qed

interpretation linux: netlink_headers "linux_headers mx" for mx
  by unfold_locales (rule linux_steps_down)+

section \<open>Buffers the kernel writes\<close>

definition nth_byte :: "nat \<Rightarrow> nat \<Rightarrow> uint8" where
  "nth_byte k n = word_of_nat (n div 256 ^ k)"

lemma unat_nth_byte: "unat (nth_byte k n) = n div 256 ^ k mod 256"
  by (simp add: nth_byte_def unat_of_nat)

definition le16 :: "uint16 \<Rightarrow> mem" where
  "le16 v = map (\<lambda>k. nth_byte k (unat v)) [0, 1]"
definition le32 :: "uint32 \<Rightarrow> mem" where
  "le32 v = map (\<lambda>k. nth_byte k (unat v)) [0, 1, 2, 3]"

lemma length_le [simp]: "length (le16 v) = 2" "length (le32 w) = 4"
  by (simp_all add: le16_def le32_def)

lemma rd16_le:
  assumes "drop p m = le16 v @ r"
  shows "rd16 m p = Some v"
proof -
  have "unat v < 65536" using unsigned_less [of v, where 'a = nat] by simp
  then have e: "unat (nth_byte 0 (unat v)) + 256 * unat (nth_byte 1 (unat v)) = unat v" by (simp add: unat_nth_byte)
  have "rd16 m p = Some (word_of_nat (unat (nth_byte 0 (unat v)) + 256 * unat (nth_byte 1 (unat v))))"
    using assms by (simp only: rd16_def le16_def list.map append.simps list.case)
  then show ?thesis unfolding e by simp
qed

lemma rd32_le:
  assumes "drop p m = le32 v @ r"
  shows "rd32 m p = Some v"
proof -
  let ?b = "\<lambda>k. unat (nth_byte k (unat v))"
  have "unat v < 4294967296" using unsigned_less [of v, where 'a = nat] by simp
  then have h: "unat v div 16777216 mod 256 = unat v div 16777216" by simp
  have "unat v mod 256 + 256 * (unat v div 256) = unat v" by simp
  moreover have "unat v div 256 mod 256 + 256 * (unat v div 65536) = unat v div 256"
    using mod_mult_div_eq [of "unat v div 256" 256] by (simp add: div_mult2_eq [symmetric])
  moreover have "unat v div 65536 mod 256 + 256 * (unat v div 16777216) = unat v div 65536"
    using mod_mult_div_eq [of "unat v div 65536" 256] by (simp add: div_mult2_eq [symmetric])
  ultimately have "unat v mod 256 + 256 * (unat v div 256 mod 256) + 65536 * (unat v div 65536 mod 256) + 16777216 * (unat v div 16777216) = unat v"
    by linarith
  then have e: "?b 0 + 256 * ?b 1 + 65536 * ?b 2 + 16777216 * ?b 3 = unat v" by (simp add: unat_nth_byte h)
  have "rd32 m p = Some (word_of_nat (?b 0 + 256 * ?b 1 + 65536 * ?b 2 + 16777216 * ?b 3))"
    using assms by (simp only: rd32_def le32_def list.map append.simps list.case)
  then show ?thesis unfolding e by simp
qed

lemma drop_more: "drop p m = xs @ ys \<Longrightarrow> n = length xs \<Longrightarrow> drop (p + n) m = ys"
  by (metis append_eq_conv_conj drop_drop add.commute)

definition pad :: "nat \<Rightarrow> mem" where
  "pad n = replicate ((n + 3) div 4 * 4 - n) 0"

lemma length_pad: "n + length (pad n) = (n + 3) div 4 * 4"
  by (simp add: pad_def)

text \<open>Attributes: type and data. \<open>enc_attr\<close> is what \<open>nla_put\<close> appends.\<close>

type_synonym attr = "uint16 \<times> mem"

definition enc_attr :: "attr \<Rightarrow> mem" where
  "enc_attr a = le16 (word_of_nat (4 + length (snd a))) @ le16 (fst a) @ snd a @ pad (4 + length (snd a))"

definition enc_attrs :: "attr list \<Rightarrow> mem" where
  "enc_attrs as = concat (map enc_attr as)"

definition attr_fits :: "attr \<Rightarrow> bool" where
  "attr_fits a \<longleftrightarrow> 4 + length (snd a) < 2 ^ 16"

lemma length_enc_attr: "length (enc_attr a) = (4 + length (snd a) + 3) div 4 * 4"
  using length_pad [of "4 + length (snd a)"] by (simp add: enc_attr_def)

lemma align_nat:
  assumes "n < 2 ^ 31"
  shows "nl_align (word_of_nat n) = word_of_nat ((n + 3) div 4 * 4)" "unat (nl_align (word_of_nat n)) = (n + 3) div 4 * 4"
proof -
  have "unat (word_of_nat n :: uint32) = n" using assms by (simp add: unat_of_nat)
  then show u: "unat (nl_align (word_of_nat n)) = (n + 3) div 4 * 4" using nl_align_unat [of "word_of_nat n"] assms by simp
  show "nl_align (word_of_nat n) = word_of_nat ((n + 3) div 4 * 4)" unfolding u [symmetric] by simp
qed

lemma sint_of_nat32: "n < 2 ^ 31 \<Longrightarrow> sint (word_of_nat n :: int32) = int n"
  by (simp add: signed_of_nat signed_take_bit_int_eq_self)

text \<open>The table after the loop.\<close>

fun enter_attrs :: "nat \<Rightarrow> attr list \<Rightarrow> nat \<Rightarrow> nat option list \<Rightarrow> nat option list" where
  "enter_attrs mx [] p tb = tb"
| "enter_attrs mx (a # as) p tb =
     enter_attrs mx as (p + length (enc_attr a)) (if unat (fst a) \<le> mx then tb[unat (fst a) := Some p] else tb)"

lemma small_u16:
  assumes "l < 2 ^ 16"
  shows "(ucast (word_of_nat l :: uint16) :: uint32) = word_of_nat l" "4 \<le> l \<Longrightarrow> 4 \<le> (word_of_nat l :: uint16)"
  using assms by (simp_all add: word_unat_eq_iff word_le_nat_alt unsigned_ucast_eq unat_of_nat take_bit_nat_eq_self)

lemma attr_step:
  assumes "drop p m = enc_attr a @ rest" and "attr_fits a" and "n < 2 ^ 31" and "length (enc_attr a) \<le> n"
  shows "nl_RTA_OK (linux_headers mx) m p (word_of_nat n) = Some True" "nl_rta_type (linux_headers mx) m p = Some (fst a)"
    "nl_RTA_NEXT (linux_headers mx) m p (word_of_nat n) = Some (p + length (enc_attr a), word_of_nat (n - length (enc_attr a)))"
proof -
  let ?l = "4 + length (snd a)"
  have l16: "rd16 m p = Some (word_of_nat ?l)" using assms(1) unfolding enc_attr_def append_assoc by (rule rd16_le)
  have "drop (p + 2) m = le16 (fst a) @ snd a @ pad ?l @ rest" using drop_more [OF assms(1) [unfolded enc_attr_def append_assoc], of 2] by simp
  then show "nl_rta_type (linux_headers mx) m p = Some (fst a)" by (simp add: linux_headers_def rd16_le)
  have u: "(ucast (word_of_nat ?l :: uint16) :: uint32) = word_of_nat ?l" "4 \<le> (word_of_nat ?l :: uint16)"
    using small_u16 [of ?l] assms(2) by (simp_all add: attr_fits_def del: of_nat_add)
  have len: "length (enc_attr a) = (?l + 3) div 4 * 4" by (rule length_enc_attr)
  have al: "nl_align (word_of_nat ?l) = word_of_nat (length (enc_attr a))" "unat (nl_align (word_of_nat ?l)) = length (enc_attr a)"
    using align_nat [of ?l] assms(2) unfolding len attr_fits_def by simp_all
  have "?l \<le> n" using assms(4) len by linarith
  then show "nl_RTA_OK (linux_headers mx) m p (word_of_nat n) = Some True"
    using l16 u assms(2,3) by (simp add: linux_headers_def word_sle_eq sint_of_nat32 attr_fits_def del: of_nat_add)
  show "nl_RTA_NEXT (linux_headers mx) m p (word_of_nat n) = Some (p + length (enc_attr a), word_of_nat (n - length (enc_attr a)))"
    using l16 u al assms(4) by (simp add: linux_headers_def of_nat_diff del: of_nat_add)
qed

lemma attr_loop_end: "n < 4 \<Longrightarrow> attr_loop (linux_headers mx) m p (word_of_nat n) tb = Some (Done tb)"
  by (subst attr_loop.simps) (simp add: linux_headers_def word_sle_eq sint_of_nat32)

lemma attr_loop_enc:
  assumes "drop p m = enc_attrs as @ rest" and "\<forall>a \<in> set as. attr_fits a" and "length (enc_attrs as) < 2 ^ 31"
  shows "attr_loop (linux_headers mx) m p (word_of_nat (length (enc_attrs as))) tb = Some (Done (enter_attrs mx as p tb))"
  using assms
proof (induction as arbitrary: p tb)
  case Nil
  then show ?case using attr_loop_end [of 0] by (simp add: enc_attrs_def)
next
  case (Cons a as)
  let ?n = "length (enc_attrs (a # as))" and ?k = "length (enc_attr a)"
  have n: "?n = ?k + length (enc_attrs as)" by (simp add: enc_attrs_def)
  have d: "drop p m = enc_attr a @ enc_attrs as @ rest" using Cons.prems(1) by (simp add: enc_attrs_def)
  have fits: "attr_fits a" and kn: "?k \<le> ?n" using Cons.prems(2) n by simp_all
  note step = attr_step [OF d fits Cons.prems(3) kn, of mx]
  have "drop (p + ?k) m = enc_attrs as @ rest" using drop_more [OF d refl] .
  from Cons.IH [OF this] have "attr_loop (linux_headers mx) m (p + ?k) (word_of_nat (?n - ?k)) tb' = Some (Done (enter_attrs mx as (p + ?k) tb'))" for tb'
    using Cons.prems(2,3) n by simp
  then show ?case by (subst attr_loop.simps) (simp add: step del: of_nat_diff)
qed

text \<open>The name of an interface: the last attribute of type \<open>IFLA_IFNAME\<close>, up to its first zero.\<close>

fun last_ifname :: "attr list \<Rightarrow> mem option" where
  "last_ifname [] = None"
| "last_ifname (a # as) = (case last_ifname as of Some d \<Rightarrow> Some d | None \<Rightarrow> if fst a = 3 then Some (snd a) else None)"

definition text_of :: "mem \<Rightarrow> string" where
  "text_of d = map (\<lambda>b. char_of (unat b)) (takeWhile (\<lambda>b. b \<noteq> 0) d)"

lemma enter_attrs_name:
  assumes "drop p m = enc_attrs as @ rest" and "3 \<le> mx" and "length tb = mx + 1"
  shows "case last_ifname as of None \<Rightarrow> enter_attrs mx as p tb ! 3 = tb ! 3
    | Some d \<Rightarrow> \<exists>q r. enter_attrs mx as p tb ! 3 = Some q \<and> drop q m = enc_attr (3, d) @ r"
  using assms
proof (induction as arbitrary: p tb)
  case (Cons a as)
  let ?tb = "if unat (fst a) \<le> mx then tb[unat (fst a) := Some p] else tb"
  have d: "drop p m = enc_attr a @ enc_attrs as @ rest" using Cons.prems(1) by (simp add: enc_attrs_def)
  have "drop (p + length (enc_attr a)) m = enc_attrs as @ rest" using drop_more [OF d refl] .
  note IH = Cons.IH [OF this Cons.prems(2), of ?tb]
  have "unat (fst a) = 3 \<longleftrightarrow> fst a = 3" by (simp add: word_unat_eq_iff)
  then have "?tb ! 3 = (if fst a = 3 then Some p else tb ! 3)" using Cons.prems(2,3) by auto
  moreover have "a = (3, snd a)" if "fst a = 3" using that by (cases a) simp
  ultimately show ?case using IH Cons.prems(3) d by (fastforce split: option.splits if_splits)
qed simp

lemma takeWhile_nonzero: "0 \<in> set d \<Longrightarrow> length (takeWhile (\<lambda>b. b \<noteq> 0) d) < length d"
  by (induction d) auto

lemma c_string_enc:
  assumes "drop q m = enc_attr (3, d) @ r" and "0 \<in> set d"
  shows "c_string m (q + 4) = Done (text_of d)"
proof -
  have "drop q m = le16 (word_of_nat (4 + length d)) @ le16 3 @ d @ pad (4 + length d) @ r" using assms(1) by (simp only: enc_attr_def append_assoc fst_conv snd_conv)
  from drop_more [OF this, of 2] have "drop (q + 2) m = le16 3 @ d @ pad (4 + length d) @ r" by (simp only: length_le)
  from drop_more [OF this, of 2] have m: "drop (q + 4) m = d @ pad (4 + length d) @ r" by (simp add: numeral_eq_Suc)
  have t: "takeWhile (\<lambda>b. b \<noteq> 0) (d @ e) = takeWhile (\<lambda>b. b \<noteq> 0) d" for e using assms(2) by (intro takeWhile_append1) auto
  have "length (takeWhile (\<lambda>b. b \<noteq> 0) d) < length d"
    using assms(2) by (rule takeWhile_nonzero)
  moreover have "length m - (q + 4) \<ge> length d" using arg_cong [OF m, of length] by simp
  ultimately have "q + 4 + length (takeWhile (\<lambda>b. b \<noteq> 0) d) < length m" by linarith
  then show ?thesis unfolding c_string_def m t Let_def text_of_def by simp
qed

text \<open>Link messages, and messages of other types; \<open>kl_head\<close> is the rest of the message header.\<close>

record klink =
  kl_type :: uint16
  kl_head :: mem
  kl_family :: mem
  kl_iftype :: uint16
  kl_index :: mem
  kl_flags :: uint32
  kl_change :: mem
  kl_attrs :: "attr list"

datatype kmsg = KLink klink | KOther uint16 mem mem

definition enc_link :: "klink \<Rightarrow> mem" where
  "enc_link k = kl_family k @ le16 (kl_iftype k) @ kl_index k @ le32 (kl_flags k) @ kl_change k @ enc_attrs (kl_attrs k)"

definition enc_parts :: "uint16 \<Rightarrow> mem \<Rightarrow> mem \<Rightarrow> mem" where
  "enc_parts ty head payload = le32 (word_of_nat (16 + length payload)) @ le16 ty @ head @ payload @ pad (16 + length payload)"

fun enc_msg :: "kmsg \<Rightarrow> mem" where
  "enc_msg (KLink k) = enc_parts (kl_type k) (kl_head k) (enc_link k)"
| "enc_msg (KOther ty head payload) = enc_parts ty head payload"

definition link_ok :: "klink \<Rightarrow> bool" where
  "link_ok k \<longleftrightarrow> length (kl_family k) = 2 \<and> length (kl_index k) = 4 \<and> length (kl_change k) = 4 \<and>
     (\<forall>a \<in> set (kl_attrs k). attr_fits a) \<and> (\<forall>d. last_ifname (kl_attrs k) = Some d \<longrightarrow> 0 \<in> set d)"

fun msg_ok :: "kmsg \<Rightarrow> bool" where
  "msg_ok (KLink k) = (kl_type k \<in> {16, 17} \<and> length (kl_head k) = 10 \<and> link_ok k)"
| "msg_ok (KOther ty head payload) = (ty \<notin> {16, 17} \<and> length head = 10)"

definition link_info :: "klink \<Rightarrow> nlk_event_info" where
  "link_info k = \<lparr>ne_iface = (case last_ifname (kl_attrs k) of None \<Rightarrow> [] | Some d \<Rightarrow> text_of d), ne_ifiFlags = ucast (kl_flags k)\<rparr>"

lemma length_enc_attrs_4: "4 dvd length (enc_attrs as)"
  by (induction as) (auto simp: enc_attrs_def length_enc_attr)

lemma length_enc_parts: "length head = 10 \<Longrightarrow> length (enc_parts ty head payload) = (16 + length payload + 3) div 4 * 4"
  using length_pad [of "16 + length payload"] by (simp add: enc_parts_def)

lemma enc_parts_read:
  assumes "drop p m = enc_parts ty head payload @ rest" and "length head = 10"
  shows "rd32 m p = Some (word_of_nat (16 + length payload))" "rd16 m (p + 4) = Some ty"
    "\<exists>r. drop (p + 16) m = payload @ r"
proof -
  note d = assms(1) [unfolded enc_parts_def append_assoc]
  show "rd32 m p = Some (word_of_nat (16 + length payload))" by (rule rd32_le [OF d])
  have d4: "drop (p + 4) m = le16 ty @ head @ payload @ pad (16 + length payload) @ rest" by (rule drop_more [OF d]) simp
  then show "rd16 m (p + 4) = Some ty" by (rule rd16_le)
  have "drop (p + 4 + 2) m = head @ payload @ pad (16 + length payload) @ rest" by (rule drop_more [OF d4]) simp
  from drop_more [OF this, of 10] assms(2) have "drop (p + 16) m = payload @ pad (16 + length payload) @ rest" by (simp add: ac_simps)
  then show "\<exists>r. drop (p + 16) m = payload @ r" by blast
qed

text \<open>A link message is parsed to its information.\<close>

lemma parse_link_enc:
  assumes "drop p m = enc_parts (kl_type k) (kl_head k) (enc_link k) @ rest" and "length (kl_head k) = 10" and "link_ok k"
    and "16 + length (enc_link k) < 2 ^ 31" and "3 \<le> mx"
  shows "parse_link_msg (linux_headers mx) m p = Some (Done (if kl_iftype k = 1 then Some (link_info k) else None))"
proof -
  have len: "length (kl_family k) = 2" "length (kl_index k) = 4" "length (kl_change k) = 4" using assms(3) by (simp_all add: link_ok_def)
  note head = enc_parts_read [OF assms(1,2)]
  obtain r where d: "drop (p + 16) m = kl_family k @ le16 (kl_iftype k) @ kl_index k @ le32 (kl_flags k) @ kl_change k @ enc_attrs (kl_attrs k) @ r"
    using head(3) by (auto simp: enc_link_def)
  have d2: "drop (p + 16 + 2) m = le16 (kl_iftype k) @ kl_index k @ le32 (kl_flags k) @ kl_change k @ enc_attrs (kl_attrs k) @ r"
    by (rule drop_more [OF d]) (simp add: len)
  have d4: "drop (p + 16 + 2 + 2) m = kl_index k @ le32 (kl_flags k) @ kl_change k @ enc_attrs (kl_attrs k) @ r" by (rule drop_more [OF d2]) simp
  have d8: "drop (p + 16 + 2 + 2 + 4) m = le32 (kl_flags k) @ kl_change k @ enc_attrs (kl_attrs k) @ r" by (rule drop_more [OF d4]) (simp add: len)
  have d12: "drop (p + 16 + 2 + 2 + 4 + 4) m = kl_change k @ enc_attrs (kl_attrs k) @ r" by (rule drop_more [OF d8]) simp
  have d16: "drop (p + 16 + 2 + 2 + 4 + 4 + 4) m = enc_attrs (kl_attrs k) @ r" by (rule drop_more [OF d12]) (simp add: len)
  have ty: "rd16 m (p + 16 + 2) = Some (kl_iftype k)" by (rule rd16_le [OF d2])
  have fl: "rd32 m (p + 16 + 8) = Some (kl_flags k)" using rd32_le [OF d8] by (simp add: ac_simps)
  have at: "drop (p + 32) m = enc_attrs (kl_attrs k) @ r" using d16 by (simp add: ac_simps)
  let ?tb = "enter_attrs mx (kl_attrs k) (p + 32) (replicate (mx + 1) None)"
  have n: "length (enc_link k) = 16 + length (enc_attrs (kl_attrs k))" by (simp add: enc_link_def len)
  have "attr_loop (linux_headers mx) m (p + 32) (word_of_nat (length (enc_attrs (kl_attrs k)))) (replicate (mx + 1) None) = Some (Done ?tb)"
    using assms(3,4) n by (intro attr_loop_enc [OF at]) (simp_all add: link_ok_def)
  then have loop: "attr_loop (linux_headers mx) m (p + 32) (word_of_nat (16 + length (enc_link k)) - 32) (replicate (mx + 1) None) = Some (Done ?tb)"
    by (simp add: n)
  have "link_name (linux_headers mx) m ?tb = Done (case last_ifname (kl_attrs k) of None \<Rightarrow> [] | Some d \<Rightarrow> text_of d)"
    using enter_attrs_name [OF at assms(5), of "replicate (mx + 1) None"] assms(3,5) c_string_enc
    by (fastforce simp: link_name_def link_ok_def split: option.splits simp del: replicate_Suc)
  then show ?thesis using head(1) ty fl loop
    by (simp add: parse_link_msg_def link_info_def add.assoc del: replicate_Suc of_nat_add)
qed

lemma msg_step:
  assumes "drop p m = enc_parts ty head payload @ rest" and "length head = 10" and "n < 2 ^ 31" and "length (enc_parts ty head payload) \<le> n"
  shows "nl_NLMSG_OK (linux_headers mx) m p (word_of_nat n) = Some True"
    "nl_NLMSG_NEXT (linux_headers mx) m p (word_of_nat n) =
      Some (p + length (enc_parts ty head payload), word_of_nat (n - length (enc_parts ty head payload)))"
proof -
  let ?l = "16 + length payload"
  have l: "rd32 m p = Some (word_of_nat ?l)" by (rule enc_parts_read(1) [OF assms(1,2)])
  have L: "length (enc_parts ty head payload) = (?l + 3) div 4 * 4" by (rule length_enc_parts [OF assms(2)])
  have ln: "?l \<le> n" using assms(4) L by linarith
  then have l31: "?l < 2 ^ 31" using assms(3) by linarith
  have al: "nl_align (word_of_nat ?l) = word_of_nat (length (enc_parts ty head payload))"
    "unat (nl_align (word_of_nat ?l)) = length (enc_parts ty head payload)"
    using align_nat [OF l31] unfolding L by simp_all
  have "unat (word_of_nat ?l :: uint32) = ?l" "unat (word_of_nat n :: uint32) = n"
    using l31 assms(3) by (simp_all add: unat_of_nat del: of_nat_add)
  then have le: "(16 :: uint32) \<le> word_of_nat ?l" "(word_of_nat ?l :: uint32) \<le> word_of_nat n" using ln by (simp_all add: word_le_nat_alt del: of_nat_add)
  show "nl_NLMSG_OK (linux_headers mx) m p (word_of_nat n) = Some True"
    using l le ln assms(3) by (simp add: linux_headers_def word_sle_eq sint_of_nat32 del: of_nat_add)
  show "nl_NLMSG_NEXT (linux_headers mx) m p (word_of_nat n) =
      Some (p + length (enc_parts ty head payload), word_of_nat (n - length (enc_parts ty head payload)))"
    using l al assms(4) by (simp add: linux_headers_def of_nat_diff del: of_nat_add)
qed

lemma enc_msg_parts:
  assumes "msg_ok k"
  obtains ty head payload where "enc_msg k = enc_parts ty head payload" "length head = 10"
    "case k of KLink l \<Rightarrow> ty = kl_type l \<and> ty \<in> {16, 17} \<and> head = kl_head l \<and> payload = enc_link l | KOther _ _ _ \<Rightarrow> ty \<notin> {16, 17}"
  using assms by (cases k) auto

fun links :: "kmsg list \<Rightarrow> klink list" where
  "links [] = []"
| "links (KLink k # ms) = k # links ms"
| "links (KOther ty head payload # ms) = links ms"

lemma links_Cons: "links (k # ms) = (case k of KLink l \<Rightarrow> [l] | KOther _ _ _ \<Rightarrow> []) @ links ms"
  by (cases k) simp_all

lemma msg_loop_end: "msg_loop (linux_headers mx) f m p 0 out = Some (Done out)"
  by (subst msg_loop.simps) (simp add: linux_headers_def word_sle_eq)

lemma msg_loop_enc:
  assumes "drop p m = concat (map enc_msg ms) @ rest" and "\<forall>k \<in> set ms. msg_ok k" and "length (concat (map enc_msg ms)) < 2 ^ 31"
    and "\<And>k p r. drop p m = enc_parts (kl_type k) (kl_head k) (enc_link k) @ r \<Longrightarrow> length (kl_head k) = 10 \<Longrightarrow> link_ok k \<Longrightarrow>
      16 + length (enc_link k) < 2 ^ 31 \<Longrightarrow> f p = Some (Done (g k))"
  shows "msg_loop (linux_headers mx) f m p (word_of_nat (length (concat (map enc_msg ms)))) out =
    Some (Done (out @ concat (map g (links ms))))"
  using assms(1-3)
proof (induction ms arbitrary: p out)
  case Nil
  then show ?case by (simp add: msg_loop_end)
next
  case (Cons k ms)
  define n where "n = length (concat (map enc_msg (k # ms)))"
  obtain ty head payload where k: "enc_msg k = enc_parts ty head payload" "length head = 10"
    "case k of KLink l \<Rightarrow> ty = kl_type l \<and> ty \<in> {16, 17} \<and> head = kl_head l \<and> payload = enc_link l | KOther _ _ _ \<Rightarrow> ty \<notin> {16, 17}"
    using Cons.prems(2) by (auto intro: enc_msg_parts [of k])
  let ?L = "length (enc_parts ty head payload)"
  have d: "drop p m = enc_parts ty head payload @ concat (map enc_msg ms) @ rest" using Cons.prems(1) k(1) by simp
  have n: "n = ?L + length (concat (map enc_msg ms))" using k(1) by (simp add: n_def)
  then have kn: "?L \<le> n" and n31: "n < 2 ^ 31" using Cons.prems(3) by (simp_all add: n_def)
  note step = msg_step [OF d k(2) n31 kn, of mx] and ty = enc_parts_read(2) [OF d k(2)]
  have f: "(if ty = 16 \<or> ty = 17 then f p else Some (Done [])) = Some (Done (concat (map g (case k of KLink l \<Rightarrow> [l] | KOther _ _ _ \<Rightarrow> []))))"
  proof (cases k)
    case (KLink l)
    have "16 + length payload \<le> ?L" using length_enc_parts [OF k(2), of ty payload] by linarith
    then have "16 + length (enc_link l) < 2 ^ 31" using k(3) KLink kn n31 by simp
    then have "f p = Some (Done (g l))" using d k(2,3) KLink Cons.prems(2) by (intro assms(4)) auto
    then show ?thesis using k(3) KLink by auto
  qed (use k(3) in auto)
  have "drop (p + ?L) m = concat (map enc_msg ms) @ rest" by (rule drop_more [OF d refl])
  from Cons.IH [OF this] have IH: "msg_loop (linux_headers mx) f m (p + ?L) (word_of_nat (n - ?L)) out' = Some (Done (out' @ concat (map g (links ms))))" for out'
    using Cons.prems(2) n n31 by simp
  show ?case unfolding n_def [symmetric] by (subst msg_loop.simps) (simp add: step ty f IH links_Cons del: of_nat_diff)
qed

section \<open>The properties\<close>

lemma process_link_enc:
  assumes "drop p m = enc_parts (kl_type k) (kl_head k) (enc_link k) @ rest" and "length (kl_head k) = 10" and "link_ok k"
    and "16 + length (enc_link k) < 2 ^ 31" and "3 \<le> mx"
  shows "NetLinkRtnl_ProcessLinkMsg (linux_headers mx) m p =
      Some (Done [if kl_iftype k = 1 then link_info k else \<lparr>ne_iface = [], ne_ifiFlags = 0\<rparr>])"
    "NetLinkRtnl_ProcessIfInfoMsg (linux_headers mx) m p = Some (Done (if kl_iftype k = 1 then [link_info k] else []))"
  using parse_link_enc [OF assms] by (simp_all add: NetLinkRtnl_ProcessLinkMsg_def NetLinkRtnl_ProcessIfInfoMsg_def)

text \<open>
  C28. The loops over messages and attributes always end, whatever is in the buffer and whatever its
  length is taken to be, a negative one included, when the macros of the headers keep their contract: the
  remaining length is positive where the test holds, and the next element leaves less of it.
\<close>

theorem netlink_returns:
  assumes "steps_down (nl_NLMSG_OK H) (nl_NLMSG_NEXT H)" and "steps_down (nl_RTA_OK H) (nl_RTA_NEXT H)"
  shows "NetLinkRtnl_ProcessReadMsg H pBuff len infos \<noteq> None \<and> NetLinkRtnl_ProcessLinkEventMsg H pBuff len \<noteq> None \<and>
    NetLinkRtnl_GetLinkInfo H calls infos open_fds \<noteq> None \<and> NetLinkRtnl_NetLinkHandle H r timeout \<noteq> None"
proof -
  have H: "netlink_headers H" by unfold_locales (fact assms)+
  have r: "NetLinkRtnl_ProcessReadMsg H b l out \<noteq> None" "NetLinkRtnl_ProcessLinkEventMsg H b l \<noteq> None" for b l out
    using netlink_headers.msg_loop_returns [OF H] netlink_headers.process_returns [OF H]
    by (simp_all add: NetLinkRtnl_ProcessReadMsg_def NetLinkRtnl_ProcessLinkEventMsg_def split: option.splits del: not_None_eq)
  moreover have "NetLinkRtnl_GetLinkInfo H calls infos open_fds \<noteq> None"
    using r(1) by (simp add: NetLinkRtnl_GetLinkInfo_def split_def del: not_None_eq)
  moreover have "NetLinkRtnl_NetLinkHandle H r timeout \<noteq> None"
    using r(2) by (simp add: NetLinkRtnl_NetLinkHandle_def split_def split: option.splits run.splits del: not_None_eq)
  ultimately show ?thesis by blast
qed

theorem netlink_returns_witness:
  "NetLinkRtnl_ProcessReadMsg (linux_headers 60) (Some (replicate 64 255)) 64 [] \<noteq> None"
  using netlink_returns [OF linux_steps_down, of 60 "Some (replicate 64 255)" 64 "[]"] by blast

lemma messages_decoded:
  assumes "\<forall>k \<in> set ms. msg_ok k" and "length (concat (map enc_msg ms)) < 2 ^ 31" and "3 \<le> mx"
  shows "NetLinkRtnl_ProcessReadMsg (linux_headers mx) (Some (concat (map enc_msg ms) @ rest)) (word_of_nat (length (concat (map enc_msg ms)))) infos =
      Some (Done (infos @ map (\<lambda>k. if kl_iftype k = 1 then link_info k else \<lparr>ne_iface = [], ne_ifiFlags = 0\<rparr>) (links ms))) \<and>
    NetLinkRtnl_ProcessLinkEventMsg (linux_headers mx) (Some (concat (map enc_msg ms) @ rest)) (word_of_nat (length (concat (map enc_msg ms)))) =
      Some (Done (map link_info (filter (\<lambda>k. kl_iftype k = 1) (links ms))))"
proof -
  let ?m = "concat (map enc_msg ms) @ rest"
  have d: "drop 0 ?m = concat (map enc_msg ms) @ rest" by simp
  have a: "concat (map (\<lambda>k. [h k]) ks) = map h ks" "concat (map (\<lambda>k. if P k then [h k] else []) ks) = map h (filter P ks)"
    for h :: "klink \<Rightarrow> nlk_event_info" and P ks by (induction ks) simp_all
  show ?thesis
    using msg_loop_enc [OF d assms(1,2), where mx = mx and f = "NetLinkRtnl_ProcessLinkMsg (linux_headers mx) ?m" and out = infos
        and g = "\<lambda>k. [if kl_iftype k = 1 then link_info k else \<lparr>ne_iface = [], ne_ifiFlags = 0\<rparr>]"]
      msg_loop_enc [OF d assms(1,2), where mx = mx and f = "NetLinkRtnl_ProcessIfInfoMsg (linux_headers mx) ?m" and out = "[]"
        and g = "\<lambda>k. if kl_iftype k = 1 then [link_info k] else []"]
      process_link_enc assms(3)
    unfolding NetLinkRtnl_ProcessReadMsg_def NetLinkRtnl_ProcessLinkEventMsg_def option.case a append_Nil by blast
qed

text \<open>
  C29. On the layout the kernel documents a buffer of complete messages is decoded exactly:
  \<open>GetLinkInfo\<close> gets one information per link message in order, with the flags and the name of the last
  name attribute for an Ethernet device and an empty one for any other device; the listener delivers an
  event for the Ethernet devices only; other messages are skipped. Every name must end in a zero byte
  within its attribute, because the loop reads it as a C string.
\<close>

theorem netlink_messages_decoded:
  assumes "\<forall>k \<in> set ms. msg_ok k" and "length (concat (map enc_msg ms)) < 2 ^ 31" and "3 \<le> mx"
  shows "NetLinkRtnl_ProcessReadMsg (linux_headers mx) (Some (concat (map enc_msg ms) @ rest)) (word_of_nat (length (concat (map enc_msg ms)))) infos =
      Some (Done (infos @ map (\<lambda>k. if kl_iftype k = 1 then link_info k else \<lparr>ne_iface = [], ne_ifiFlags = 0\<rparr>) (links ms))) \<and>
    NetLinkRtnl_ProcessLinkEventMsg (linux_headers mx) (Some (concat (map enc_msg ms) @ rest)) (word_of_nat (length (concat (map enc_msg ms)))) =
      Some (Done (map link_info (filter (\<lambda>k. kl_iftype k = 1) (links ms))))"
  by (rule messages_decoded [OF assms])

definition sample_link :: klink where
  "sample_link = \<lparr>kl_type = 16, kl_head = replicate 10 0, kl_family = [0, 0], kl_iftype = 1, kl_index = [2, 0, 0, 0], kl_flags = 0x10001,
     kl_change = replicate 4 0, kl_attrs = [(3, [101, 116, 104, 48, 0])]\<rparr>"

theorem netlink_messages_decoded_witness:
  "NetLinkRtnl_ProcessReadMsg (linux_headers 60) (Some (enc_msg (KLink sample_link))) 44 [] =
     Some (Done [\<lparr>ne_iface = ''eth0'', ne_ifiFlags = 0x10001\<rparr>])"
proof -
  have ok: "\<forall>k \<in> set [KLink sample_link]. msg_ok k" by (simp add: sample_link_def link_ok_def attr_fits_def)
  have len: "length (concat (map enc_msg [KLink sample_link])) = 44"
    by (simp add: enc_parts_def enc_link_def enc_attrs_def enc_attr_def pad_def sample_link_def)
  have "link_info sample_link = \<lparr>ne_iface = ''eth0'', ne_ifiFlags = 0x10001\<rparr>"
    by (simp add: link_info_def sample_link_def text_of_def char_of_def bit_Suc_0_iff)
  with netlink_messages_decoded [OF ok, of 60 "[]" "[]"] show ?thesis
    unfolding len by (simp add: sample_link_def)
qed

text \<open>
  The loop checks that a message has a header, not that a link message has its structure: a link message
  of 16 bytes at the end of the buffer is read beyond it.
\<close>

lemma short_link_message_faults:
  assumes "ty \<in> {16, 17}" and "length head = 10"
  shows "NetLinkRtnl_ProcessReadMsg (linux_headers mx) (Some (enc_parts ty head [])) 16 infos = Some Fault"
proof -
  let ?m = "enc_parts ty head []"
  have d: "drop 0 ?m = enc_parts ty head [] @ []" by simp
  have L: "length ?m = 16" using length_enc_parts [OF assms(2), of ty "[]"] by simp
  have n: "(16 :: int32) = word_of_nat 16" by simp
  have "nl_NLMSG_OK (linux_headers mx) ?m 0 16 = Some True" unfolding n by (rule msg_step(1) [OF d assms(2)]) (simp_all add: L)
  moreover have "rd16 ?m 4 = Some ty" using enc_parts_read(2) [OF d assms(2)] by simp
  moreover have "parse_link_msg (linux_headers mx) ?m 0 = Some Fault" using L by (simp add: parse_link_msg_def rd16_def)
  ultimately show ?thesis unfolding NetLinkRtnl_ProcessReadMsg_def option.case using assms(1)
    by (subst msg_loop.simps) (auto simp: NetLinkRtnl_ProcessLinkMsg_def)
qed


text \<open>
  Linux \<open>select\<close> leaves the time that was not used. The listener sets the timeout once, before its loop:
  after the first round that times out every later one waits no time at all, and the thread spins.
\<close>

definition linux_select :: "nl_round \<Rightarrow> bool" where
  "linux_select r \<longleftrightarrow>
     (\<forall>t. case nr_select r t of (ret, _, t') \<Rightarrow> (ret = 0 \<longrightarrow> t' = (0, 0)) \<and> (t = (0, 0) \<longrightarrow> t' = (0, 0)))"

lemma handle_timeout:
  assumes "linux_select r" "NetLinkRtnl_NetLinkHandle H r t = Some (Done (ret, events, t'))"
      and "t = (0, 0) \<or> fst (nr_select r t) = 0"
  shows "t' = (0, 0)"
proof -
  obtain fd isset u where r: "nr_select r t = (fd, isset, u)" by (cases "nr_select r t")
  have "case nr_select r t of (ret, _, t') \<Rightarrow> (ret = 0 \<longrightarrow> t' = (0, 0)) \<and> (t = (0, 0) \<longrightarrow> t' = (0, 0))"
    using assms(1) unfolding linux_select_def by (rule spec)
  then have "u = (0, 0)" using assms(3) unfolding r prod.case fst_conv by (elim disjE) simp_all
  moreover have "t' = u" using assms(2) r unfolding NetLinkRtnl_NetLinkHandle_def
    by (cases "NetLinkRtnl_ProcessLinkEventMsg H (Some (snd (nr_read r))) (fst (nr_read r))")
      (auto split: if_splits run.splits)
  ultimately show ?thesis by simp
qed

lemma listener_spins:
  "list_all linux_select rs \<Longrightarrow> listen_rounds H rs (0, 0) out = Some (Done (out', t)) \<Longrightarrow> t = (0, 0)"
proof (induction rs arbitrary: out)
  case (Cons r rs)
  then obtain ret events t' where 1: "NetLinkRtnl_NetLinkHandle H r (0, 0) = Some (Done (ret, events, t'))"
      and 2: "listen_rounds H rs t' (out @ events) = Some (Done (out', t))"
    by (auto split: option.splits run.splits)
  have "t' = (0, 0)" using handle_timeout [OF _ 1] Cons.prems(1) by simp
  then show ?case using Cons.IH 2 Cons.prems(1) by simp
qed simp

end
