(* ===== verification/Dns_Service.thy ===== *)
theory Dns_Service
  imports Netd_Controller Parcelables
begin

text \<open>
  \<open>DnsResolverService\<close> (\<open>dns_resolver_service.cpp\<close>): start and stop, the check of host names by a
  regular expression, and the requests it hands to \<open>NetdController\<close>. \<open>std::regex_match\<close> is modelled by
  derivatives and shown to compute the words a pattern denotes. The constants and \<open>inet_ntop\<close> of the
  platform are parameters.
\<close>

section \<open>Regular expressions\<close>

text \<open>What the pattern of \<open>IsDomainValid\<close> uses: classes of ranges, sequence, alternatives and \<open>+\<close>.\<close>

datatype pattern =
    Never
  | Blank
  | Range "(char \<times> char) list"
  | Cat pattern pattern
  | Alt pattern pattern
  | Many pattern

definition in_range :: "(char \<times> char) list \<Rightarrow> char \<Rightarrow> bool" where
  "in_range rs c \<longleftrightarrow> list_ex (\<lambda>(a, b). of_char a \<le> (of_char c :: nat) \<and> (of_char c :: nat) \<le> of_char b) rs"

text \<open>The words of a pattern.\<close>

inductive denotes :: "pattern \<Rightarrow> string \<Rightarrow> bool" where
  blank: "denotes Blank []"
| ranged: "in_range rs c \<Longrightarrow> denotes (Range rs) [c]"
| cat: "denotes p u \<Longrightarrow> denotes q v \<Longrightarrow> denotes (Cat p q) (u @ v)"
| left: "denotes p u \<Longrightarrow> denotes (Alt p q) u"
| right: "denotes q u \<Longrightarrow> denotes (Alt p q) u"
| once: "denotes p u \<Longrightarrow> denotes (Many p) u"
| more: "denotes p u \<Longrightarrow> denotes (Many p) v \<Longrightarrow> denotes (Many p) (u @ v)"

inductive_simps denotes_simps [simp]:
  "denotes Never s" "denotes Blank s" "denotes (Range rs) s" "denotes (Alt p q) s"

inductive_simps denotes_Cat: "denotes (Cat p q) s"
inductive_simps denotes_Many: "denotes (Many p) s"

fun accepts_blank :: "pattern \<Rightarrow> bool" where
  "accepts_blank Never = False"
| "accepts_blank Blank = True"
| "accepts_blank (Range rs) = False"
| "accepts_blank (Cat p q) = (accepts_blank p \<and> accepts_blank q)"
| "accepts_blank (Alt p q) = (accepts_blank p \<or> accepts_blank q)"
| "accepts_blank (Many p) = accepts_blank p"

fun residual :: "char \<Rightarrow> pattern \<Rightarrow> pattern" where
  "residual c Never = Never"
| "residual c Blank = Never"
| "residual c (Range rs) = (if in_range rs c then Blank else Never)"
| "residual c (Cat p q) = (if accepts_blank p then Alt (Cat (residual c p) q) (residual c q) else Cat (residual c p) q)"
| "residual c (Alt p q) = Alt (residual c p) (residual c q)"
| "residual c (Many p) = Alt (residual c p) (Cat (residual c p) (Many p))"

definition regex_match :: "pattern \<Rightarrow> string \<Rightarrow> bool" where
  "regex_match p s \<longleftrightarrow> accepts_blank (foldl (\<lambda>q c. residual c q) p s)"

lemma many_blank: "denotes (Many p) [] \<longleftrightarrow> denotes p []"
proof
  show "denotes p []" if "denotes (Many p) []"
    using that by (induction "Many p" "[] :: string" rule: denotes.induct) auto
qed (rule once)

lemma accepts_blank_iff: "accepts_blank p \<longleftrightarrow> denotes p []"
  by (induction p) (auto simp: denotes_Cat many_blank)

lemma many_Cons:
  assumes "denotes (Many p) s" and "s = c # t"
  shows "\<exists>u v. t = u @ v \<and> denotes p (c # u) \<and> (v = [] \<or> denotes (Many p) v)"
  using assms by (induction "Many p" s rule: denotes.induct) (auto simp: append_eq_Cons_conv)

lemma residual_iff: "denotes (residual c p) s \<longleftrightarrow> denotes p (c # s)"
proof (induction p arbitrary: s)
  case (Cat p q)
  have "denotes (Cat p q) (c # s) \<longleftrightarrow>
      (\<exists>u v. s = u @ v \<and> denotes p (c # u) \<and> denotes q v) \<or> denotes p [] \<and> denotes q (c # s)"
    by (auto simp: denotes_Cat Cons_eq_append_conv)
  then show ?case using Cat.IH by (auto simp: denotes_Cat accepts_blank_iff)
next
  case (Many p)
  have "denotes (Many p) (c # s) \<longleftrightarrow> denotes p (c # s) \<or> (\<exists>u v. s = u @ v \<and> denotes p (c # u) \<and> denotes (Many p) v)"
    using many_Cons [of p "c # s" c s] more [of p "c # _"] once [of p "c # s"] by force
  then show ?case using Many.IH by (auto simp: denotes_Cat)
qed auto

lemma regex_match_iff: "regex_match p s \<longleftrightarrow> denotes p s"
  unfolding regex_match_def by (induction s arbitrary: p) (simp_all add: accepts_blank_iff residual_iff)

lemma many_range: "denotes (Many (Range rs)) s \<longleftrightarrow> s \<noteq> [] \<and> (\<forall>c \<in> set s. in_range rs c)"
proof (induction s)
  case (Cons c s)
  show ?case using Cons many_Cons [of "Range rs" "c # s" c s]
    by (auto intro: once ranged more [of "Range rs" "[c]" s, simplified])
qed (simp add: many_blank)

section \<open>Host names\<close>

text \<open>\<open>([0-9A-Za-z\-_\.]+)\.([0-9a-z]+\.[a-z]{2,3}(\.[a-z]{2})?)\<close>\<close>

definition name_range :: "(char \<times> char) list" where
  "name_range = [(CHR ''0'', CHR ''9''), (CHR ''A'', CHR ''Z''), (CHR ''a'', CHR ''z''), (CHR ''-'', CHR ''-''), (CHR ''_'', CHR ''_''), (CHR ''.'', CHR ''.'')]"

definition label_range :: "(char \<times> char) list" where
  "label_range = [(CHR ''0'', CHR ''9''), (CHR ''a'', CHR ''z'')]"

definition letter_range :: "(char \<times> char) list" where
  "letter_range = [(CHR ''a'', CHR ''z'')]"

definition domainPattern :: pattern where
  "domainPattern =
     (let dot = Range [(CHR ''.'', CHR ''.'')]; letter = Range letter_range; two = Cat letter letter
      in Cat (Many (Range name_range)) (Cat dot (Cat (Many (Range label_range)) (Cat dot
           (Cat (Cat two (Alt letter Blank)) (Alt (Cat dot two) Blank))))))"

definition IsDomainValid :: "string \<Rightarrow> bool" where
  "IsDomainValid hostName \<longleftrightarrow> hostName \<noteq> [] \<and> regex_match domainPattern hostName"

text \<open>The shape of the names the pattern takes.\<close>

abbreviation only :: "(char \<times> char) list \<Rightarrow> string \<Rightarrow> bool" where
  "only rs s \<equiv> \<forall>c \<in> set s. in_range rs c"

lemma in_range_dot: "in_range [(CHR ''.'', CHR ''.'')] c \<longleftrightarrow> c = CHR ''.''"
proof -
  have "of_char CHR ''.'' = (46 :: nat)" by simp
  then have "c = CHR ''.''" if "of_char c = (46 :: nat)" using that by (metis of_char_eq_iff)
  then show ?thesis by (auto simp: in_range_def)
qed

lemma two_letters: "denotes (Cat (Range rs) (Range rs)) s \<longleftrightarrow> length s = 2 \<and> only rs s"
proof
  assume "length s = 2 \<and> only rs s"
  then obtain x y where "s = [x] @ [y]" "in_range rs x" "in_range rs y" by (auto simp: length_Suc_conv numeral_2_eq_2)
  then show "denotes (Cat (Range rs) (Range rs)) s" by (metis cat ranged)
qed (auto simp: denotes_Cat)

lemma two_or_three_letters:
  "denotes (Cat (Cat (Range rs) (Range rs)) (Alt (Range rs) Blank)) s \<longleftrightarrow> length s \<in> {2, 3} \<and> only rs s"
proof -
  have "denotes (Cat (Cat (Range rs) (Range rs)) (Alt (Range rs) Blank)) s \<longleftrightarrow>
      (\<exists>u v. s = u @ v \<and> (length u = 2 \<and> only rs u) \<and> (v = [] \<or> (\<exists>c. v = [c] \<and> in_range rs c)))"
    by (simp add: denotes_Cat [of _ "Alt _ _"] two_letters) blast
  also have "\<dots> \<longleftrightarrow> length s \<in> {2, 3} \<and> only rs s" (is "?l \<longleftrightarrow> ?r")
  proof
    assume ?r
    then have "s = take 2 s @ drop 2 s \<and> (length (take 2 s) = 2 \<and> only rs (take 2 s)) \<and>
        (drop 2 s = [] \<or> (\<exists>c. drop 2 s = [c] \<and> in_range rs c))"
      by (auto simp: length_Suc_conv numeral_2_eq_2 numeral_3_eq_3)
    then show ?l by blast
  qed auto
  finally show ?thesis .
qed

lemma denotes_dot: "denotes (Cat (Range [(CHR ''.'', CHR ''.'')]) p) s \<longleftrightarrow> (\<exists>t. s = CHR ''.'' # t \<and> denotes p t)"
  by (auto simp: denotes_Cat in_range_dot)

lemma many_dot:
  "denotes (Cat (Many (Range rs)) (Cat (Range [(CHR ''.'', CHR ''.'')]) p)) s \<longleftrightarrow>
     (\<exists>u t. s = u @ ''.'' @ t \<and> u \<noteq> [] \<and> only rs u \<and> denotes p t)"
  unfolding denotes_Cat [of "Many (Range rs)"] many_range denotes_dot append.simps by blast

lemma domainPattern_shape:
  "denotes domainPattern h \<longleftrightarrow>
     (\<exists>name label top rest. h = name @ ''.'' @ label @ ''.'' @ top @ rest \<and> name \<noteq> [] \<and> only name_range name \<and>
        label \<noteq> [] \<and> only label_range label \<and> length top \<in> {2, 3} \<and> only letter_range top \<and>
        (rest = [] \<or> (\<exists>country. rest = ''.'' @ country \<and> length country = 2 \<and> only letter_range country)))"
proof -
  let ?letter = "Range letter_range"
  let ?ending = "Cat (Cat (Cat ?letter ?letter) (Alt ?letter Blank)) (Alt (Cat (Range [(CHR ''.'', CHR ''.'')]) (Cat ?letter ?letter)) Blank)"
  have e: "denotes ?ending t \<longleftrightarrow> (\<exists>top rest. t = top @ rest \<and> (length top \<in> {2, 3} \<and> only letter_range top) \<and>
      (rest = [] \<or> (\<exists>country. rest = ''.'' @ country \<and> length country = 2 \<and> only letter_range country)))" for t
    unfolding denotes_Cat [of _ "Alt (Cat _ _) _"] two_or_three_letters denotes_simps denotes_dot two_letters append.simps by blast
  show ?thesis unfolding domainPattern_def Let_def many_dot e by simp blast
qed

section \<open>The service\<close>

record dns_platform =
  dp_AF_INET :: int32
  dp_AF_INET6 :: int32
  dp_AI_PASSIVE :: int32
  dp_SOCK_DGRAM :: int32
  dp_ntop4 :: "uint32 \<Rightarrow> string"
  dp_ntop6 :: "128 word \<Rightarrow> string"

text \<open>\<open>REGISTER_LOCAL_RESULT_DNS\<close> is a constant of the library; \<open>dr_netd\<close> is the instance of \<open>NetdController\<close>.\<close>

record dns_service =
  dr_running :: bool
  dr_registerToService :: bool
  dr_netd :: "netd_state option"

definition DnsResolverService_new :: "netd_state option \<Rightarrow> dns_service" where
  "DnsResolverService_new single = \<lparr>dr_running = False, dr_registerToService = False, dr_netd = single\<rparr>"

definition DnsResolverService_Init :: "bool \<Rightarrow> bool \<Rightarrow> dns_service \<Rightarrow> bool \<times> dns_service" where
  "DnsResolverService_Init registered published s =
     (if \<not> registered then (False, s)
      else if \<not> dr_registerToService s
      then if \<not> published then (False, s) else (True, s\<lparr>dr_registerToService := True\<rparr>)
      else (True, s))"

definition DnsResolverService_OnStart :: "bool \<Rightarrow> bool \<Rightarrow> dns_service \<Rightarrow> dns_service" where
  "DnsResolverService_OnStart registered published s =
     (if dr_running s then s
      else (case DnsResolverService_Init registered published s of (ok, t) \<Rightarrow>
              if \<not> ok then t else t\<lparr>dr_running := True\<rparr>))"

definition DnsResolverService_OnStop :: "dns_service \<Rightarrow> dns_service" where
  "DnsResolverService_OnStop s = s\<lparr>dr_running := False, dr_registerToService := False\<rparr>"

text \<open>\<open>NetdController::GetInstance()->...\<close>\<close>

definition with_dns_netd :: "netd_env \<Rightarrow> (netd_state \<Rightarrow> 'r \<times> netd_state) \<Rightarrow> dns_service \<Rightarrow> 'r \<times> dns_service" where
  "with_dns_netd N f s = (case f (NetdController_GetInstance N (dr_netd s)) of (r, n) \<Rightarrow> (r, s\<lparr>dr_netd := Some n\<rparr>))"

definition DNS_ERROR :: int32 where "DNS_ERROR = - 1"
definition DNS_SUCCESS :: int32 where "DNS_SUCCESS = 0"

definition InitAddrInfo :: "int32 \<Rightarrow> int32 \<Rightarrow> int32 \<Rightarrow> int32 \<Rightarrow> addrinfo" where
  "InitAddrInfo family flags protocol sockType =
     \<lparr>ai_flags = flags, ai_family = family, ai_socktype = sockType, ai_protocol = protocol,
      ai_sin_addr = 0, ai_sin6_addr = 0, ai_canonname = None\<rparr>"

definition ProcessIPV4 :: "dns_platform \<Rightarrow> addrinfo \<Rightarrow> INetAddr list \<Rightarrow> INetAddr list" where
  "ProcessIPV4 D addr addrInfo =
     addrInfo @ [INetAddr_new\<lparr>ia_family := ucast (ai_family addr), ia_address := dp_ntop4 D (ai_sin_addr addr)\<rparr>]"

definition ProcessIPV6 :: "dns_platform \<Rightarrow> addrinfo \<Rightarrow> INetAddr list \<Rightarrow> INetAddr list" where
  "ProcessIPV6 D addr addrInfo =
     addrInfo @ [INetAddr_new\<lparr>ia_family := ucast (ai_family addr), ia_address := dp_ntop6 D (ai_sin6_addr addr)\<rparr>]"

fun add_addresses :: "dns_platform \<Rightarrow> addrinfo list \<Rightarrow> INetAddr list \<Rightarrow> INetAddr list" where
  "add_addresses D [] addrInfo = addrInfo"
| "add_addresses D (cur # rest) addrInfo = add_addresses D rest
     (if ai_family cur = dp_AF_INET D then ProcessIPV4 D cur addrInfo
      else if ai_family cur = dp_AF_INET6 D then ProcessIPV6 D cur addrInfo
      else addrInfo)"

definition DnsResolverService_GetAddressesByName ::
    "netd_env \<Rightarrow> dns_platform \<Rightarrow> string \<Rightarrow> INetAddr list \<Rightarrow> dns_service \<Rightarrow> (int32 \<times> INetAddr list) \<times> dns_service" where
  "DnsResolverService_GetAddressesByName N D hostName addrInfo s =
     (if \<not> IsDomainValid hostName then ((DNS_ERROR, addrInfo), s)
      else
        (case with_dns_netd N (NetdController_GetAddrInfo N hostName []
                (InitAddrInfo (dp_AF_INET D) (dp_AI_PASSIVE D) 0 (dp_SOCK_DGRAM D)) 0) s of
           ((ret, res), t) \<Rightarrow>
             if ret \<noteq> 0 then ((ret, addrInfo), t)
             else if res = [] then ((DNS_ERROR, addrInfo), t)
             else ((DNS_SUCCESS, add_addresses D res addrInfo), t)))"

text \<open>
  The list is read by \<open>GetAddrInfo\<close> without being freed; \<open>None\<close> is the crash on a null \<open>hints\<close>.
\<close>

fun add_infos :: "dns_platform \<Rightarrow> addrinfo list \<Rightarrow> DnsAddrInfo list \<Rightarrow> DnsAddrInfo list" where
  "add_infos D [] dnsAddrInfo = dnsAddrInfo"
| "add_infos D (cur # rest) dnsAddrInfo = add_infos D rest (dnsAddrInfo @
     [\<lparr>da_flags = ai_flags cur, da_family = ai_family cur, da_sockType = ai_socktype cur, da_protocol = ai_protocol cur,
       da_addr = (if ai_family cur = dp_AF_INET D then dp_ntop4 D (ai_sin_addr cur) else []), da_canonName = []\<rparr>])"

definition DnsResolverService_GetAddrInfo ::
    "netd_env \<Rightarrow> dns_platform \<Rightarrow> string \<Rightarrow> string \<Rightarrow> DnsAddrInfo option \<Rightarrow> DnsAddrInfo list \<Rightarrow> dns_service
     \<Rightarrow> ((int32 \<times> DnsAddrInfo list) \<times> dns_service) option" where
  "DnsResolverService_GetAddrInfo N D hostName server hints dnsAddrInfo s =
     (if \<not> IsDomainValid hostName then Some ((DNS_ERROR, dnsAddrInfo), s)
      else (case hints of None \<Rightarrow> None
            | Some h \<Rightarrow>
                (case with_dns_netd N (NetdController_GetAddrInfo N hostName server
                        (InitAddrInfo (da_family h) (da_flags h) (da_protocol h) (da_sockType h)) 0) s of
                   ((ret, res), t) \<Rightarrow>
                     if ret <s 0 then Some ((ret, dnsAddrInfo), t)
                     else if res = [] then Some ((DNS_ERROR, dnsAddrInfo), t)
                     else Some ((DNS_SUCCESS, add_infos D res dnsAddrInfo), t))))"

definition DnsResolverService_CreateNetworkCache :: "netd_env \<Rightarrow> uint16 \<Rightarrow> dns_service \<Rightarrow> int32 \<times> dns_service" where
  "DnsResolverService_CreateNetworkCache N netId = with_dns_netd N (NetdController_CreateNetworkCache N netId)"

definition DnsResolverService_DestoryNetworkCache :: "netd_env \<Rightarrow> uint16 \<Rightarrow> dns_service \<Rightarrow> int32 \<times> dns_service" where
  "DnsResolverService_DestoryNetworkCache N netId = with_dns_netd N (NetdController_DestoryNetworkCache N netId)"

definition DnsResolverService_FlushNetworkCache :: "netd_env \<Rightarrow> uint16 \<Rightarrow> dns_service \<Rightarrow> int32 \<times> dns_service" where
  "DnsResolverService_FlushNetworkCache N netId = with_dns_netd N (NetdController_FlushNetworkCache N netId)"

definition DnsResolverService_SetResolverConfig ::
    "netd_env \<Rightarrow> uint16 \<Rightarrow> uint16 \<Rightarrow> uint8 \<Rightarrow> string list \<Rightarrow> string list \<Rightarrow> dns_service \<Rightarrow> int32 \<times> dns_service" where
  "DnsResolverService_SetResolverConfig N netId baseTimeoutMsec retryCount servers domains =
     with_dns_netd N (NetdController_SetResolverConfig N netId baseTimeoutMsec retryCount servers domains)"

definition DnsResolverService_GetResolverInfo ::
    "netd_env \<Rightarrow> uint16 \<Rightarrow> string list \<Rightarrow> string list \<Rightarrow> uint16 \<Rightarrow> uint8 \<Rightarrow> dns_service
     \<Rightarrow> (int32 \<times> string list \<times> string list \<times> uint16 \<times> uint8) \<times> dns_service" where
  "DnsResolverService_GetResolverInfo N netId servers domains baseTimeoutMsec retryCount =
     with_dns_netd N (NetdController_GetResolverInfo N netId servers domains baseTimeoutMsec retryCount)"

end
