(* ===== verification/Dns_Properties.thy ===== *)
theory Dns_Properties
  imports Dns_Service
begin

text \<open>
  The host names the DNS service accepts, and what its two lookups return: the calls they make to
  \<open>NetdController\<close> and the entries of the result list they keep.
\<close>

section \<open>Accepted host names\<close>

lemma in_range_name: "in_range label_range c \<Longrightarrow> in_range name_range c" "in_range letter_range c \<Longrightarrow> in_range name_range c"
    "in_range name_range CHR ''.''"
  by (auto simp: in_range_def name_range_def label_range_def letter_range_def)

text \<open>
  C30. A host name is valid exactly when it is a prefix of letters, digits, dashes, underscores and dots,
  a label of small letters and digits, a label of two or three small letters, and perhaps a country of two
  letters, separated by dots. So every valid name has at least two dots: a name of two labels such as
  \<open>example.com\<close> is refused, while the prefix may be dots only.
\<close>

theorem IsDomainValid_shape:
  "(IsDomainValid h \<longleftrightarrow>
     (\<exists>name label top rest. h = name @ ''.'' @ label @ ''.'' @ top @ rest \<and>
        name \<noteq> [] \<and> (\<forall>c \<in> set name. in_range name_range c) \<and>
        label \<noteq> [] \<and> (\<forall>c \<in> set label. in_range label_range c) \<and>
        length top \<in> {2, 3} \<and> (\<forall>c \<in> set top. in_range letter_range c) \<and>
        (rest = [] \<or> (\<exists>country. rest = ''.'' @ country \<and> length country = 2 \<and> (\<forall>c \<in> set country. in_range letter_range c))))) \<and>
   (IsDomainValid h \<longrightarrow> 2 \<le> count_list h CHR ''.'' \<and> (\<forall>c \<in> set h. in_range name_range c))"
proof -
  have "h \<noteq> []" if "denotes domainPattern h" using that unfolding domainPattern_shape by auto
  then have i: "IsDomainValid h \<longleftrightarrow> denotes domainPattern h"
    by (auto simp: IsDomainValid_def regex_match_iff)
  moreover have "2 \<le> count_list h CHR ''.'' \<and> (\<forall>c \<in> set h. in_range name_range c)" if "denotes domainPattern h"
    using that unfolding domainPattern_shape by (auto simp: in_range_name)
  ultimately show ?thesis using domainPattern_shape [of h] by blast
qed

theorem IsDomainValid_shape_witness:
  "IsDomainValid ''www.example.com'' \<and> IsDomainValid ''..a.co.uk'' \<and>
   \<not> IsDomainValid ''example.com'' \<and> \<not> IsDomainValid ''www.example.info'' \<and> \<not> IsDomainValid ''www.my-site.com''"
proof -
  have "\<not> IsDomainValid ''example.com''"
    using conjunct2 [OF IsDomainValid_shape [of "''example.com''"]] by auto
  moreover have "IsDomainValid ''www.example.com''" "IsDomainValid ''..a.co.uk''"
      "\<not> IsDomainValid ''www.example.info''" "\<not> IsDomainValid ''www.my-site.com''" by code_simp+
  ultimately show ?thesis by blast
qed

section \<open>Lookups\<close>

definition address_of :: "dns_platform \<Rightarrow> addrinfo \<Rightarrow> INetAddr" where
  "address_of D a = INetAddr_new\<lparr>ia_family := ucast (ai_family a),
     ia_address := (if ai_family a = dp_AF_INET D then dp_ntop4 D (ai_sin_addr a) else dp_ntop6 D (ai_sin6_addr a))\<rparr>"

definition info_of :: "dns_platform \<Rightarrow> addrinfo \<Rightarrow> DnsAddrInfo" where
  "info_of D a = \<lparr>da_flags = ai_flags a, da_family = ai_family a, da_sockType = ai_socktype a, da_protocol = ai_protocol a,
     da_addr = (if ai_family a = dp_AF_INET D then dp_ntop4 D (ai_sin_addr a) else []), da_canonName = []\<rparr>"

lemma add_addresses_map:
  "add_addresses D res xs = xs @ map (address_of D) (filter (\<lambda>a. ai_family a \<in> {dp_AF_INET D, dp_AF_INET6 D}) res)"
  by (induction res arbitrary: xs) (auto simp: ProcessIPV4_def ProcessIPV6_def address_of_def)

lemma add_infos_map: "add_infos D res xs = xs @ map (info_of D) res"
  by (induction res arbitrary: xs) (simp_all add: info_of_def)

text \<open>One request to the daemon: its result, its list, and the state with the request made.\<close>

definition one_request :: "netd_env \<Rightarrow> string \<Rightarrow> addrinfo \<Rightarrow> dns_service \<Rightarrow> int32 \<times> addrinfo list \<times> dns_service" where
  "one_request N h hints s =
    (let n = NetdController_GetInstance N (dr_netd s)
     in (native_result N (nd_log n) (N_getaddrinfo h hints 0), native_addrinfo N (nd_log n) h hints 0,
         s\<lparr>dr_netd := Some (netd_logs [N_getaddrinfo h hints 0] n)\<rparr>))"

lemma with_dns_netd_lookup:
  assumes "netd_ready N (NetdController_GetInstance N (dr_netd s))"
  shows "with_dns_netd N (NetdController_GetAddrInfo N h server hints 0) s =
    (if native N then (case one_request N h hints s of (ret, res, t) \<Rightarrow> ((ret, res), t))
     else ((0, []), s\<lparr>dr_netd := Some (NetdController_GetInstance N (dr_netd s))\<rparr>))"
  using assms by (simp add: with_dns_netd_def NetdController_GetAddrInfo_def netd_ready_def one_request_def Let_def)

text \<open>
  C31. Lookups of a valid name make exactly one request, for network 0, and never name the server.
  \<open>GetAddressesByName\<close> asks for IPv4 addresses, passes any error on, and keeps the IPv4 and IPv6 entries in
  order, each with the platform's family and no type; \<open>GetAddrInfo\<close> takes the hints of the caller, treats
  only a negative result as an error, keeps every entry in order, and has a text only for IPv4 addresses.
  An empty list is an error for both. Without the daemon every lookup is an error, and so is every
  invalid name, for which nothing is asked.
\<close>

theorem dns_lookup_outcomes:
  assumes "netd_ready N (NetdController_GetInstance N (dr_netd s))"
  shows "(IsDomainValid h \<and> native N \<longrightarrow>
      DnsResolverService_GetAddressesByName N D h xs s =
        (case one_request N h (InitAddrInfo (dp_AF_INET D) (dp_AI_PASSIVE D) 0 (dp_SOCK_DGRAM D)) s of (ret, res, t) \<Rightarrow>
          (if ret \<noteq> 0 then (ret, xs) else if res = [] then (DNS_ERROR, xs)
           else (DNS_SUCCESS, xs @ map (address_of D) (filter (\<lambda>a. ai_family a \<in> {dp_AF_INET D, dp_AF_INET6 D}) res)), t)) \<and>
      DnsResolverService_GetAddrInfo N D h server (Some d) ds s =
        (case one_request N h (InitAddrInfo (da_family d) (da_flags d) (da_protocol d) (da_sockType d)) s of (ret, res, t) \<Rightarrow>
          Some (if ret <s 0 then (ret, ds) else if res = [] then (DNS_ERROR, ds) else (DNS_SUCCESS, ds @ map (info_of D) res), t))) \<and>
    (IsDomainValid h \<and> \<not> native N \<longrightarrow>
      fst (DnsResolverService_GetAddressesByName N D h xs s) = (DNS_ERROR, xs) \<and>
      map_option fst (DnsResolverService_GetAddrInfo N D h server (Some d) ds s) = Some (DNS_ERROR, ds)) \<and>
    (\<not> IsDomainValid h \<longrightarrow>
      DnsResolverService_GetAddressesByName N D h xs s = ((DNS_ERROR, xs), s) \<and>
      DnsResolverService_GetAddrInfo N D h server hints ds s = Some ((DNS_ERROR, ds), s))"
  by (simp add: DnsResolverService_GetAddressesByName_def DnsResolverService_GetAddrInfo_def with_dns_netd_lookup [OF assms]
      add_addresses_map add_infos_map split: prod.splits)

definition sample_platform :: dns_platform where
  "sample_platform = \<lparr>dp_AF_INET = 2, dp_AF_INET6 = 10, dp_AI_PASSIVE = 1, dp_SOCK_DGRAM = 2,
     dp_ntop4 = (\<lambda>a. if a = 0x0100007F then ''127.0.0.1'' else ''0.0.0.0''), dp_ntop6 = (\<lambda>_. ''::'')\<rparr>"

definition sample_resolver :: netd_env where
  "sample_resolver = \<lparr>native = True, native_result = (\<lambda>_ _. 0), native_getConfig = (\<lambda>_ i. \<lparr>if_ifName = i, if_hwAddr = [], if_ipv4Addr = [], if_prefixLength = 0, if_flags = []\<rparr>),
     native_resolverInfo = (\<lambda>_ _ a b. (a, b, 0, 0)),
     native_addrinfo = (\<lambda>_ h hints _. if h = ''www.example.com'' then [hints\<lparr>ai_sin_addr := 0x0100007F\<rparr>, hints\<lparr>ai_family := 1\<rparr>] else []),
     sys_socket = (\<lambda>_. 3), sys_inet_aton = (\<lambda>_. None), sys_ioctl = (\<lambda>_ _ _. 0)\<rparr>"

theorem dns_lookup_outcomes_witness:
  "fst (DnsResolverService_GetAddressesByName sample_resolver sample_platform ''www.example.com'' [] (DnsResolverService_new None)) =
     (DNS_SUCCESS, [INetAddr_new\<lparr>ia_family := 2, ia_address := ''127.0.0.1''\<rparr>])"
proof -
  have r: "netd_ready sample_resolver (NetdController_GetInstance sample_resolver (dr_netd (DnsResolverService_new None)))"
    by (simp add: DnsResolverService_new_def NetdController_GetInstance_def)
  have "IsDomainValid ''www.example.com''" by code_simp
  then show ?thesis
    using dns_lookup_outcomes [OF r, of "''www.example.com''" sample_platform "[]"]
    by (simp add: one_request_def sample_resolver_def sample_platform_def address_of_def InitAddrInfo_def Let_def)
qed

end
