(* ===== verification/Dns_Ipc.thy ===== *)
theory Dns_Ipc
  imports Manager_Ipc Dns_Properties
begin

text \<open>
  \<open>DnsResolverServiceProxy\<close>, \<open>DnsResolverServiceStub\<close> and \<open>DnsResolverClient\<close>: the seven methods of the DNS
  service over parcels, and that a call through proxy and stub is the call of the service.
\<close>

section \<open>The stub\<close>

definition dns_descriptor :: string where "dns_descriptor = ''OHOS.NetManagerStandard.IDnsResolverService''"
definition CMD_GET_ADDR_BY_NAME :: uint32 where "CMD_GET_ADDR_BY_NAME = 0"
definition CMD_GET_ADDR_INFO :: uint32 where "CMD_GET_ADDR_INFO = 1"
definition CMD_CRT_NETWORK_CACHE :: uint32 where "CMD_CRT_NETWORK_CACHE = 2"
definition CMD_DEL_NETWORK_CACHE :: uint32 where "CMD_DEL_NETWORK_CACHE = 3"
definition CMD_FLS_NETWORK_CACHE :: uint32 where "CMD_FLS_NETWORK_CACHE = 4"
definition CMD_SET_RESOLVER_CONFIG :: uint32 where "CMD_SET_RESOLVER_CONFIG = 5"
definition CMD_GET_RESOLVER_INFO :: uint32 where "CMD_GET_RESOLVER_INFO = 6"

lemmas dns_codes = CMD_GET_ADDR_BY_NAME_def CMD_GET_ADDR_INFO_def CMD_CRT_NETWORK_CACHE_def CMD_DEL_NETWORK_CACHE_def
  CMD_FLS_NETWORK_CACHE_def CMD_SET_RESOLVER_CONFIG_def CMD_GET_RESOLVER_INFO_def

text \<open>The network and platform the service works on.\<close>

type_synonym dns_world = "netd_env \<times> dns_platform"

definition DnsResolverServiceStub_OnGetAddressesByName ::
    "('p, dns_service) manager_ipc \<Rightarrow> dns_world \<Rightarrow> ('p, dns_service) manager_handler" where
  "DnsResolverServiceStub_OnGetAddressesByName I W data reply s =
     (case fst (ReadString (mi_parcel I) data) of None \<Rightarrow> refuse (NETMANAGER_ERR_READ_DATA_FAIL (mi_offset I)) reply s
      | Some hostName \<Rightarrow>
          (case DnsResolverService_GetAddressesByName (fst W) (snd W) hostName [] s of ((ret, addrInfo), t) \<Rightarrow>
             answer I (write_seq [write_list (mi_parcel I) (INetAddr_Marshalling (mi_parcel I)) addrInfo,
                                  WriteInt32 (mi_parcel I) ret]) reply t))"

text \<open>Neither the result of \<open>Unmarshalling\<close> nor that of \<open>Marshalling\<close> is looked at.\<close>

definition DnsResolverServiceStub_OnGetAddrInfo ::
    "('p, dns_service) manager_ipc \<Rightarrow> dns_world \<Rightarrow> ('p, dns_service) manager_handler" where
  "DnsResolverServiceStub_OnGetAddrInfo I W data reply s =
     (case ReadString (mi_parcel I) data of (None, _) \<Rightarrow> refuse (NETMANAGER_ERR_READ_DATA_FAIL (mi_offset I)) reply s
      | (Some hostname, data1) \<Rightarrow>
          (case ReadString (mi_parcel I) data1 of (None, _) \<Rightarrow> refuse (NETMANAGER_ERR_READ_DATA_FAIL (mi_offset I)) reply s
           | (Some server, data2) \<Rightarrow>
               (case DnsResolverService_GetAddrInfo (fst W) (snd W) hostname server (fst (DnsAddrInfo_Unmarshalling (mi_parcel I) data2)) [] s of
                  None \<Rightarrow> None
                | Some ((ret, dnsAddrInfo), t) \<Rightarrow>
                    answer I (write_seq [write_list (mi_parcel I) (\<lambda>d. ignoring_failure (DnsAddrInfo_Marshalling (mi_parcel I) d)) dnsAddrInfo,
                                         WriteInt32 (mi_parcel I) ret]) reply t)))"

text \<open>The three handlers that read an identifier and answer the result of a method.\<close>

definition net_id_handler ::
    "('p, dns_service) manager_ipc \<Rightarrow> (uint16 \<Rightarrow> dns_service \<Rightarrow> int32 \<times> dns_service) \<Rightarrow> ('p, dns_service) manager_handler" where
  "net_id_handler I method data reply s =
     (case fst (ReadUint16 (mi_parcel I) data) of None \<Rightarrow> refuse (NETMANAGER_ERR_READ_DATA_FAIL (mi_offset I)) reply s
      | Some netId \<Rightarrow> (case method netId s of (ret, t) \<Rightarrow> answer I (WriteInt32 (mi_parcel I) ret) reply t))"

definition DnsResolverServiceStub_OnCreateNetworkCache where
  "DnsResolverServiceStub_OnCreateNetworkCache I W = net_id_handler I (DnsResolverService_CreateNetworkCache (fst (W :: dns_world)))"

definition DnsResolverServiceStub_OnDestoryNetworkCache where
  "DnsResolverServiceStub_OnDestoryNetworkCache I W = net_id_handler I (DnsResolverService_DestoryNetworkCache (fst (W :: dns_world)))"

definition DnsResolverServiceStub_OnFlushNetworkCache where
  "DnsResolverServiceStub_OnFlushNetworkCache I W = net_id_handler I (DnsResolverService_FlushNetworkCache (fst (W :: dns_world)))"

text \<open>The arguments of \<open>OnSetResolverConfig\<close>, every read checked.\<close>

definition read_resolver_config :: "'p parcel_ops \<Rightarrow> ('p, uint16 \<times> uint16 \<times> uint8 \<times> string list \<times> string list) reader" where
  "read_resolver_config P =
     read_then (ReadUint16 P) (\<lambda>netId. read_then (ReadUint16 P) (\<lambda>baseTimeoutMsec. read_then (ReadUint8 P) (\<lambda>retryCount.
     read_then (read_list P (ReadString P)) (\<lambda>servers. read_then (read_list P (ReadString P)) (\<lambda>domains.
     read_done (netId, baseTimeoutMsec, retryCount, servers, domains))))))"

definition DnsResolverServiceStub_OnSetResolverConfig ::
    "('p, dns_service) manager_ipc \<Rightarrow> dns_world \<Rightarrow> ('p, dns_service) manager_handler" where
  "DnsResolverServiceStub_OnSetResolverConfig I W data reply s =
     (case fst (read_resolver_config (mi_parcel I) data) of None \<Rightarrow> refuse (NETMANAGER_ERR_READ_DATA_FAIL (mi_offset I)) reply s
      | Some (netId, baseTimeoutMsec, retryCount, servers, domains) \<Rightarrow>
          (case DnsResolverService_SetResolverConfig (fst W) netId baseTimeoutMsec retryCount servers domains s of (ret, t) \<Rightarrow>
             answer I (WriteInt32 (mi_parcel I) ret) reply t))"

definition write_resolver_info :: "'p parcel_ops \<Rightarrow> string list \<Rightarrow> string list \<Rightarrow> uint16 \<Rightarrow> uint8 \<Rightarrow> int32 \<Rightarrow> 'p writer" where
  "write_resolver_info P servers domains baseTimeoutMsec retryCount ret =
     write_seq [write_list P (WriteString P) servers, write_list P (WriteString P) domains,
                WriteUint16 P baseTimeoutMsec, WriteUint8 P retryCount, WriteInt32 P ret]"

definition DnsResolverServiceStub_OnGetResolverInfo ::
    "('p, dns_service) manager_ipc \<Rightarrow> dns_world \<Rightarrow> ('p, dns_service) manager_handler" where
  "DnsResolverServiceStub_OnGetResolverInfo I W data reply s =
     (case fst (ReadUint16 (mi_parcel I) data) of None \<Rightarrow> refuse (NETMANAGER_ERR_READ_DATA_FAIL (mi_offset I)) reply s
      | Some netId \<Rightarrow>
          (case DnsResolverService_GetResolverInfo (fst W) netId [] [] 0 0 s of
             ((ret, servers, domains, baseTimeoutMsec, retryCount), t) \<Rightarrow>
               answer I (write_resolver_info (mi_parcel I) servers domains baseTimeoutMsec retryCount ret) reply t))"

definition DnsResolverServiceStub_table ::
    "('p, dns_service) manager_ipc \<Rightarrow> dns_world \<Rightarrow> uint32 \<Rightarrow> ('p, dns_service) manager_handler option" where
  "DnsResolverServiceStub_table I W = map_of
     [(CMD_GET_ADDR_BY_NAME, DnsResolverServiceStub_OnGetAddressesByName I W),
      (CMD_GET_ADDR_INFO, DnsResolverServiceStub_OnGetAddrInfo I W),
      (CMD_CRT_NETWORK_CACHE, DnsResolverServiceStub_OnCreateNetworkCache I W),
      (CMD_DEL_NETWORK_CACHE, DnsResolverServiceStub_OnDestoryNetworkCache I W),
      (CMD_FLS_NETWORK_CACHE, DnsResolverServiceStub_OnFlushNetworkCache I W),
      (CMD_SET_RESOLVER_CONFIG, DnsResolverServiceStub_OnSetResolverConfig I W),
      (CMD_GET_RESOLVER_INFO, DnsResolverServiceStub_OnGetResolverInfo I W)]"

definition DnsResolverServiceStub_OnRemoteRequest ::
    "('p, dns_service) manager_ipc \<Rightarrow> dns_world \<Rightarrow> uint32 \<Rightarrow> ('p, dns_service) manager_handler" where
  "DnsResolverServiceStub_OnRemoteRequest I W = manager_stub I dns_descriptor (DnsResolverServiceStub_table I W)"

section \<open>The proxy\<close>

text \<open>Elements read until one cannot be read: those before it, and the rest of the parcel if there was none.\<close>

fun read_prefix :: "('p, 'a) reader \<Rightarrow> nat \<Rightarrow> 'p \<Rightarrow> 'a list \<times> 'p option" where
  "read_prefix r 0 p = ([], Some p)"
| "read_prefix r (Suc n) p =
     (case r p of (None, _) \<Rightarrow> ([], None)
      | (Some x, p') \<Rightarrow> (case read_prefix r n p' of (xs, q) \<Rightarrow> (x # xs, q)))"

text \<open>An address that cannot be read is a null pointer the loop dereferences: \<open>None\<close>.\<close>

definition read_addresses :: "'p parcel_ops \<Rightarrow> int32 \<Rightarrow> INetAddr list \<Rightarrow> 'p \<Rightarrow> (int32 \<times> INetAddr list) option" where
  "read_addresses P off addrInfo reply =
     (case ReadInt32 P reply of (None, _) \<Rightarrow> Some (NETMANAGER_ERR_READ_REPLY_FAIL off, addrInfo)
      | (Some vsize, reply1) \<Rightarrow>
          (case read_n (INetAddr_Unmarshalling P) (nat (sint vsize)) reply1 of (None, _) \<Rightarrow> None
           | (Some xs, reply2) \<Rightarrow> Some (ReadInt32_value P reply2, addrInfo @ xs)))"

definition DnsResolverServiceProxy_GetAddressesByName ::
    "'p parcel_ops \<Rightarrow> int32 \<Rightarrow> ('p, 's) send_request option \<Rightarrow> string \<Rightarrow> INetAddr list \<Rightarrow> 's
     \<Rightarrow> (int32 \<times> INetAddr list) option \<times> 's" where
  "DnsResolverServiceProxy_GetAddressesByName P off remote hostName addrInfo s =
     (let no = \<lambda>e. Some (e off, addrInfo); f = no NETMANAGER_ERR_IPC_CONNECT_STUB_FAIL
      in if hostName = [] then (no NETMANAGER_ERR_STRING_EMPTY, s)
         else proxy_call P remote CMD_GET_ADDR_BY_NAME
           [(WriteToken P dns_descriptor, no NETMANAGER_ERR_WRITE_DESCRIPTOR_TOKEN_FAIL),
            (WriteString P hostName, no NETMANAGER_ERR_WRITE_DATA_FAIL)] f (\<lambda>_. f) (read_addresses P off addrInfo) s)"

definition read_infos :: "'p parcel_ops \<Rightarrow> int32 \<Rightarrow> DnsAddrInfo list \<Rightarrow> 'p \<Rightarrow> int32 \<times> DnsAddrInfo list" where
  "read_infos P off dnsAddrInfo reply =
     (case ReadInt32 P reply of (None, _) \<Rightarrow> (NETMANAGER_ERR_READ_REPLY_FAIL off, dnsAddrInfo)
      | (Some vsize, reply1) \<Rightarrow>
          (case read_prefix (DnsAddrInfo_Unmarshalling P) (nat (sint vsize)) reply1 of
             (ds, None) \<Rightarrow> (NETMANAGER_ERR_LOCAL_PTR_NULL off, dnsAddrInfo @ ds)
           | (ds, Some reply2) \<Rightarrow> (ReadInt32_value P reply2, dnsAddrInfo @ ds)))"

text \<open>Null hints are dereferenced after the names were written.\<close>

definition DnsResolverServiceProxy_GetAddrInfo ::
    "'p parcel_ops \<Rightarrow> int32 \<Rightarrow> ('p, 's) send_request option \<Rightarrow> string \<Rightarrow> string \<Rightarrow> DnsAddrInfo option \<Rightarrow> DnsAddrInfo list \<Rightarrow> 's
     \<Rightarrow> (int32 \<times> DnsAddrInfo list) option \<times> 's" where
  "DnsResolverServiceProxy_GetAddrInfo P off remote hostName server hints dnsAddrInfo s =
     (let no = \<lambda>e. Some (e off, dnsAddrInfo); f = no NETMANAGER_ERR_IPC_CONNECT_STUB_FAIL; w = no NETMANAGER_ERR_WRITE_DATA_FAIL;
          ws = [(WriteToken P dns_descriptor, no NETMANAGER_ERR_WRITE_DESCRIPTOR_TOKEN_FAIL),
                (WriteString P hostName, w), (WriteString P server, w)]
      in if hostName = [] then (no NETMANAGER_ERR_STRING_EMPTY, s)
         else (case hints of
                 Some h \<Rightarrow> proxy_call P remote CMD_GET_ADDR_INFO (ws @ [(DnsAddrInfo_Marshalling P h, w)]) f (\<lambda>_. f)
                            (\<lambda>reply. Some (read_infos P off dnsAddrInfo reply)) s
               | None \<Rightarrow> (case write_checked ws (new_parcel P) of Inl x \<Rightarrow> (x, s) | Inr _ \<Rightarrow> (None, s))))"

text \<open>What the three methods on a network cache share.\<close>

definition net_id_request ::
    "uint32 \<Rightarrow> 'p parcel_ops \<Rightarrow> int32 \<Rightarrow> ('p, 's) send_request option \<Rightarrow> uint16 \<Rightarrow> 's \<Rightarrow> int32 \<times> 's" where
  "net_id_request code P off remote netId =
     proxy_call P remote code
       [(WriteToken P dns_descriptor, NETMANAGER_ERR_WRITE_DESCRIPTOR_TOKEN_FAIL off), (WriteUint16 P netId, NETMANAGER_ERR_WRITE_DATA_FAIL off)]
       (NETMANAGER_ERR_IPC_CONNECT_STUB_FAIL off) (\<lambda>_. NETMANAGER_ERR_IPC_CONNECT_STUB_FAIL off) (ReadInt32_value P)"

definition DnsResolverServiceProxy_CreateNetworkCache where
  "DnsResolverServiceProxy_CreateNetworkCache P = net_id_request CMD_CRT_NETWORK_CACHE P"
definition DnsResolverServiceProxy_DestoryNetworkCache where
  "DnsResolverServiceProxy_DestoryNetworkCache P = net_id_request CMD_DEL_NETWORK_CACHE P"
definition DnsResolverServiceProxy_FlushNetworkCache where
  "DnsResolverServiceProxy_FlushNetworkCache P = net_id_request CMD_FLS_NETWORK_CACHE P"

definition DnsResolverServiceProxy_SetResolverConfig ::
    "'p parcel_ops \<Rightarrow> int32 \<Rightarrow> ('p, 's) send_request option \<Rightarrow> uint16 \<Rightarrow> uint16 \<Rightarrow> uint8 \<Rightarrow> string list \<Rightarrow> string list \<Rightarrow> 's \<Rightarrow> int32 \<times> 's" where
  "DnsResolverServiceProxy_SetResolverConfig P off remote netId baseTimeoutMsec retryCount servers domains =
     (let w = NETMANAGER_ERR_WRITE_DATA_FAIL off; f = NETMANAGER_ERR_IPC_CONNECT_STUB_FAIL off
      in proxy_call P remote CMD_SET_RESOLVER_CONFIG
           [(WriteToken P dns_descriptor, NETMANAGER_ERR_WRITE_DESCRIPTOR_TOKEN_FAIL off), (WriteUint16 P netId, w),
            (WriteUint16 P baseTimeoutMsec, w), (WriteUint8 P retryCount, w),
            (write_list P (WriteString P) servers, w), (write_list P (WriteString P) domains, w)]
           f (\<lambda>_. f) (ReadInt32_value P))"

definition append_strings :: "'p parcel_ops \<Rightarrow> string list \<Rightarrow> 'p \<Rightarrow> string list \<times> 'p option" where
  "append_strings P xs reply =
     (case ReadInt32 P reply of (None, _) \<Rightarrow> (xs, None)
      | (Some count, reply1) \<Rightarrow> (case read_prefix (ReadString P) (nat (sint count)) reply1 of (ys, rest) \<Rightarrow> (xs @ ys, rest)))"

definition read_info :: "'p parcel_ops \<Rightarrow> int32 \<Rightarrow> string list \<Rightarrow> string list \<Rightarrow> uint16 \<Rightarrow> uint8 \<Rightarrow> 'p
     \<Rightarrow> int32 \<times> string list \<times> string list \<times> uint16 \<times> uint8" where
  "read_info P off servers domains baseTimeoutMsec retryCount reply =
     (let e = NETMANAGER_ERR_READ_REPLY_FAIL off in
      case append_strings P servers reply of (sv, None) \<Rightarrow> (e, sv, domains, baseTimeoutMsec, retryCount)
      | (sv, Some reply1) \<Rightarrow>
          (case append_strings P domains reply1 of (dm, None) \<Rightarrow> (e, sv, dm, baseTimeoutMsec, retryCount)
           | (dm, Some reply2) \<Rightarrow>
               (case ReadUint16 P reply2 of (None, _) \<Rightarrow> (e, sv, dm, baseTimeoutMsec, retryCount)
                | (Some bt, reply3) \<Rightarrow>
                    (case ReadUint8 P reply3 of (None, _) \<Rightarrow> (e, sv, dm, bt, retryCount)
                     | (Some rc, reply4) \<Rightarrow> (ReadInt32_value P reply4, sv, dm, bt, rc)))))"

definition DnsResolverServiceProxy_GetResolverInfo ::
    "'p parcel_ops \<Rightarrow> int32 \<Rightarrow> ('p, 's) send_request option \<Rightarrow> uint16 \<Rightarrow> string list \<Rightarrow> string list \<Rightarrow> uint16 \<Rightarrow> uint8 \<Rightarrow> 's
     \<Rightarrow> (int32 \<times> string list \<times> string list \<times> uint16 \<times> uint8) \<times> 's" where
  "DnsResolverServiceProxy_GetResolverInfo P off remote netId servers domains baseTimeoutMsec retryCount =
     (let no = \<lambda>e. (e off, servers, domains, baseTimeoutMsec, retryCount); f = no NETMANAGER_ERR_IPC_CONNECT_STUB_FAIL
      in proxy_call P remote CMD_GET_RESOLVER_INFO
           [(WriteToken P dns_descriptor, no NETMANAGER_ERR_WRITE_DESCRIPTOR_TOKEN_FAIL), (WriteUint16 P netId, no NETMANAGER_ERR_WRITE_DATA_FAIL)]
           f (\<lambda>_. f) (read_info P off servers domains baseTimeoutMsec retryCount))"

section \<open>The client\<close>

definition DnsResolverClient_GetAddressesByName where
  "DnsResolverClient_GetAddressesByName C E P off remotes hostName addrInfo =
     client_call E (\<lambda>p. DnsResolverServiceProxy_GetAddressesByName P off (remotes p) hostName addrInfo) (Some (IPC_PROXY_ERR C, addrInfo))"
definition DnsResolverClient_GetAddrInfo where
  "DnsResolverClient_GetAddrInfo C E P off remotes hostName server hints dnsAddrInfo =
     client_call E (\<lambda>p. DnsResolverServiceProxy_GetAddrInfo P off (remotes p) hostName server hints dnsAddrInfo) (Some (IPC_PROXY_ERR C, dnsAddrInfo))"
definition DnsResolverClient_CreateNetworkCache where
  "DnsResolverClient_CreateNetworkCache C E P off remotes netId =
     client_call E (\<lambda>p. DnsResolverServiceProxy_CreateNetworkCache P off (remotes p) netId) (IPC_PROXY_ERR C)"
definition DnsResolverClient_DestoryNetworkCache where
  "DnsResolverClient_DestoryNetworkCache C E P off remotes netId =
     client_call E (\<lambda>p. DnsResolverServiceProxy_DestoryNetworkCache P off (remotes p) netId) (IPC_PROXY_ERR C)"
definition DnsResolverClient_FlushNetworkCache where
  "DnsResolverClient_FlushNetworkCache C E P off remotes netId =
     client_call E (\<lambda>p. DnsResolverServiceProxy_FlushNetworkCache P off (remotes p) netId) (IPC_PROXY_ERR C)"
definition DnsResolverClient_SetResolverConfig where
  "DnsResolverClient_SetResolverConfig C E P off remotes netId baseTimeoutMsec retryCount servers domains =
     client_call E (\<lambda>p. DnsResolverServiceProxy_SetResolverConfig P off (remotes p) netId baseTimeoutMsec retryCount servers domains) (IPC_PROXY_ERR C)"
definition DnsResolverClient_GetResolverInfo where
  "DnsResolverClient_GetResolverInfo C E P off remotes netId servers domains baseTimeoutMsec retryCount =
     client_call E (\<lambda>p. DnsResolverServiceProxy_GetResolverInfo P off (remotes p) netId servers domains baseTimeoutMsec retryCount)
       (IPC_PROXY_ERR C, servers, domains, baseTimeoutMsec, retryCount)"

text \<open>The client finds its proxy and loses it again as the client of the connection service does.\<close>

definition DnsResolverClient_GetProxy :: "client_env \<Rightarrow> client_state \<Rightarrow> nat option \<times> client_state" where
  "DnsResolverClient_GetProxy = client_GetProxy"
definition DnsResolverClient_OnRemoteDied :: "client_env \<Rightarrow> nat option \<Rightarrow> client_state \<Rightarrow> client_state" where
  "DnsResolverClient_OnRemoteDied = client_OnRemoteDied"

section \<open>A call through proxy and stub\<close>

lemma DnsResolverServiceStub_table_entries:
  "DnsResolverServiceStub_table I W CMD_GET_ADDR_BY_NAME = Some (DnsResolverServiceStub_OnGetAddressesByName I W)"
  "DnsResolverServiceStub_table I W CMD_GET_ADDR_INFO = Some (DnsResolverServiceStub_OnGetAddrInfo I W)"
  "DnsResolverServiceStub_table I W CMD_CRT_NETWORK_CACHE = Some (DnsResolverServiceStub_OnCreateNetworkCache I W)"
  "DnsResolverServiceStub_table I W CMD_DEL_NETWORK_CACHE = Some (DnsResolverServiceStub_OnDestoryNetworkCache I W)"
  "DnsResolverServiceStub_table I W CMD_FLS_NETWORK_CACHE = Some (DnsResolverServiceStub_OnFlushNetworkCache I W)"
  "DnsResolverServiceStub_table I W CMD_SET_RESOLVER_CONFIG = Some (DnsResolverServiceStub_OnSetResolverConfig I W)"
  "DnsResolverServiceStub_table I W CMD_GET_RESOLVER_INFO = Some (DnsResolverServiceStub_OnGetResolverInfo I W)"
  by (simp_all add: DnsResolverServiceStub_table_def dns_codes)

lemma read_prefix_all: "read_n r n p = (Some xs, q) \<Longrightarrow> read_prefix r n p = (xs, Some q)"
  by (induction n arbitrary: p xs) (auto simp: read_then_Some read_done_Some)

text \<open>A list, then the result.\<close>

lemma read_list_Some: "read_list P r p = (Some xs, rest) \<longleftrightarrow> (\<exists>n p1. ReadInt32 P p = (Some n, p1) \<and> read_n r (nat (sint n)) p1 = (Some xs, rest))"
  by (auto simp: read_list_def read_then_Some)

context codec
begin

lemma answer_list_int32:
  assumes "parcel_laws P" and "parcel_never_fails P" and "mi_parcel I = P" and "\<forall>x \<in> set xs. valid x" and "int_list xs"
  shows "\<exists>reply p1. answer I (write_seq [write_list P marshal xs, WriteInt32 P v]) (new_parcel P) s = Some (0, reply, s) \<and>
    read_list P unmarshal reply = (Some xs, p1) \<and> ReadInt32_value P p1 = v"
proof -
  let ?its = "list_items items xs @ I_Int32 v # []"
  have e: "encodes P (write_seq [write_list P marshal xs, WriteInt32 P v]) ?its"
    using assms(1) by (intro encodes_Cons_item encodes_Cons encodes_Nil encodes_typed list_encodes)
  have w: "always_writes (write_seq [write_list P marshal xs, WriteInt32 P v])"
    using assms(2) by (intro always_writes_seq) (simp add: always_writes_typed list_writes)
  have d: "decodes P (read_pair (read_list P unmarshal) (ReadInt32 P)) ?its (xs, v)"
    by (rule decodes_pair [OF list_decodes [OF assms(1,4,5)] decodes_typed(6) [OF assms(1)]])
  from answer_decodes [OF assms(1-3) e w d, of s] show ?thesis
    unfolding read_pair_Some by (auto simp: ReadInt32_value_def simp del: write_seq.simps)
qed

end

interpretation addr_info_args: codec P "\<lambda>(hostName, server, h). write_seq [WriteString P hostName, WriteString P server, DnsAddrInfo_Marshalling P h]"
  "read_pair (ReadString P) (read_pair (ReadString P) (DnsAddrInfo_Unmarshalling P))"
  "\<lambda>(hostName, server, h). I_String hostName # I_String server # (DnsAddrInfo_items h @ [])" "\<lambda>(hostName, server, h). da_canonName h = []"
  for P :: "'p parcel_ops"
proof (unfold_locales, goal_cases)
  case (1 x)
  have "encodes P (write_seq [WriteString P a, WriteString P b, DnsAddrInfo_Marshalling P h]) (I_String a # I_String b # (DnsAddrInfo_items h @ []))" for a b h
    using 1 by (intro encodes_Cons_item encodes_Cons encodes_Nil encodes_typed dns_addr_info.marshal_encodes)
  then show ?case by (cases x) simp
next
  case (2 x)
  then show ?case by (cases x) (auto simp del: write_seq.simps write_seq_single intro!: always_writes_seq
        simp: always_writes_typed dns_addr_info.marshal_writes)
next
  case (3 x)
  obtain a b h where x: "x = (a, b, h)" by (cases x)
  then have "decodes P (DnsAddrInfo_Unmarshalling P) (DnsAddrInfo_items h) h" using 3 by (simp add: dns_addr_info.unmarshal_decodes)
  from decodes_pair [OF decodes_typed(7) [OF 3(1)] decodes_pair [OF decodes_typed(7) [OF 3(1)] this]]
  show ?case by (simp add: x)
qed

interpretation config_args: codec P
  "\<lambda>(netId, baseTimeoutMsec, retryCount, servers, domains). write_seq [WriteUint16 P netId, WriteUint16 P baseTimeoutMsec,
     WriteUint8 P retryCount, write_list P (WriteString P) servers, write_list P (WriteString P) domains]"
  "read_resolver_config P"
  "\<lambda>(netId, baseTimeoutMsec, retryCount, servers, domains). I_Uint16 netId # I_Uint16 baseTimeoutMsec # I_Uint8 retryCount #
     (list_items (\<lambda>v. [I_String v]) servers @ list_items (\<lambda>v. [I_String v]) domains @ [])"
  "\<lambda>(netId, baseTimeoutMsec, retryCount, servers, domains). int_list servers \<and> int_list domains"
  for P :: "'p parcel_ops"
proof (unfold_locales, goal_cases)
  case (1 x)
  have "encodes P (write_seq [WriteUint16 P n, WriteUint16 P t, WriteUint8 P c, write_list P (WriteString P) sv, write_list P (WriteString P) dm])
      (I_Uint16 n # I_Uint16 t # I_Uint8 c # (list_items (\<lambda>v. [I_String v]) sv @ list_items (\<lambda>v. [I_String v]) dm @ []))" for n t c sv dm
    using 1 by (intro encodes_Cons_item encodes_Cons encodes_Nil encodes_typed one_string.list_encodes)
  then show ?case by (cases x) simp
next
  case (2 x)
  then show ?case by (cases x) (auto simp del: write_seq.simps write_seq_single intro!: always_writes_seq
        simp: always_writes_typed one_string.list_writes)
next
  case (3 x)
  obtain n t c sv dm where x: "x = (n, t, c, sv, dm)" by (cases x)
  have "decodes P (read_list P (ReadString P)) (list_items (\<lambda>v. [I_String v]) xs) xs" if "int_list xs" for xs
    using 3(1) that by (simp add: one_string.list_decodes)
  then show ?case using 3 x unfolding read_resolver_config_def
    by (auto intro!: decodes_then_item [OF decodes_typed(3)] decodes_then_item [OF decodes_typed(2)] decodes_then decodes_done
        simp del: append_Nil2)
qed

lemma resolver_info_reply:
  assumes "parcel_laws P" and "parcel_never_fails P" and "mi_parcel I = P" and "int_list sv" and "int_list dm"
  shows "\<exists>reply. answer I (write_resolver_info P sv dm bt rc ret) (new_parcel P) s = Some (0, reply, s) \<and>
    (\<forall>off a b u v. read_info P off a b u v reply = (ret, a @ sv, b @ dm, bt, rc))"
proof -
  let ?l = "list_items (\<lambda>v. [I_String v])"
  have e: "encodes P (write_resolver_info P sv dm bt rc ret) (?l sv @ ?l dm @ I_Uint16 bt # I_Uint8 rc # I_Int32 ret # [])"
    unfolding write_resolver_info_def using assms(1)
    by (intro encodes_Cons_item encodes_Cons encodes_Nil encodes_typed one_string.list_encodes)
  have w: "always_writes (write_resolver_info P sv dm bt rc ret)"
    unfolding write_resolver_info_def using assms(2) by (intro always_writes_seq) (simp add: always_writes_typed one_string.list_writes)
  note d = decodes_typed [OF assms(1)]
  have l: "decodes P (read_list P (ReadString P)) (?l xs) xs" if "int_list xs" for xs
    using assms(1) that by (simp add: one_string.list_decodes)
  have "decodes P (read_pair (read_list P (ReadString P)) (read_pair (read_list P (ReadString P)) (read_pair (ReadUint16 P) (read_pair (ReadUint8 P) (ReadInt32 P)))))
      (?l sv @ ?l dm @ I_Uint16 bt # I_Uint8 rc # I_Int32 ret # []) (sv, dm, bt, rc, ret)"
    using decodes_pair [OF l [OF assms(4)] decodes_pair [OF l [OF assms(5)]
      decodes_pair [OF d(3) decodes_pair [OF d(2) d(6)]]], of bt rc ret] by simp
  from answer_decodes [OF assms(1-3) e w this, of s]
  obtain reply p1 p2 p3 p4 p5 where "answer I (write_resolver_info P sv dm bt rc ret) (new_parcel P) s = Some (0, reply, s)"
    "read_list P (ReadString P) reply = (Some sv, p1)" "read_list P (ReadString P) p1 = (Some dm, p2)"
    "ReadUint16 P p2 = (Some bt, p3)" "ReadUint8 P p3 = (Some rc, p4)" "ReadInt32 P p4 = (Some ret, p5)"
    by (auto simp: read_pair_Some)
  then show ?thesis
    by (auto simp: read_info_def append_strings_def read_list_Some ReadInt32_value_def dest!: read_prefix_all)
qed

lemma GetAddressesByName_through:
  assumes "parcel_laws P" and "parcel_never_fails P" and "mi_parcel I = P" and "connected (DnsResolverServiceStub_OnRemoteRequest I W) send"
    and "hostName \<noteq> []" and "DnsResolverService_GetAddressesByName (fst W) (snd W) hostName [] s = ((ret, addrs), t)" and "int_list addrs"
  shows "DnsResolverServiceProxy_GetAddressesByName P off (Some send) hostName xs s = (Some (ret, xs @ addrs), t)"
proof -
  obtain reply p1 where r: "answer I (write_seq [write_list P (INetAddr_Marshalling P) addrs, WriteInt32 P ret]) (new_parcel P) t = Some (0, reply, t)"
    "read_list P (INetAddr_Unmarshalling P) reply = (Some addrs, p1)" "ReadInt32_value P p1 = ret"
    using inet_addr.answer_list_int32 [OF assms(1-3) _ assms(7), of ret t] by blast
  have v: "read_addresses P off xs reply = Some (ret, xs @ addrs)"
    using r(2,3) by (auto simp: read_addresses_def read_list_Some)
  have h: "DnsResolverServiceStub_OnGetAddressesByName I W data (new_parcel P) s = Some (0, reply, t)"
    if "ReadString P data = (Some hostName, rest)" for data rest
    using that r(1) assms(3,6) by (simp add: DnsResolverServiceStub_OnGetAddressesByName_def del: write_seq.simps)
  show ?thesis unfolding DnsResolverServiceProxy_GetAddressesByName_def Let_def if_not_P [OF assms(5)]
    by (rule one_string.manager_call [where x = hostName and us = "[WriteString P hostName]" and I = I
          and d = dns_descriptor and table = "DnsResolverServiceStub_table I W" and h = "DnsResolverServiceStub_OnGetAddressesByName I W" and reply = reply])
      (use assms(1-4) v h in \<open>simp_all add: DnsResolverServiceStub_table_entries DnsResolverServiceStub_OnRemoteRequest_def\<close>)
qed

text \<open>\<open>canonName_\<close> does not travel, and the service neither uses nor sets it.\<close>

lemma GetAddrInfo_ignores_canonName:
  "DnsResolverService_GetAddrInfo N D h server (Some (d\<lparr>da_canonName := c\<rparr>)) ds s = DnsResolverService_GetAddrInfo N D h server (Some d) ds s"
  by (simp add: DnsResolverService_GetAddrInfo_def)

lemma GetAddrInfo_no_canonName:
  "DnsResolverService_GetAddrInfo N D h server hints [] s = Some ((ret, ds), t) \<Longrightarrow> \<forall>d \<in> set ds. da_canonName d = []"
  by (auto simp: DnsResolverService_GetAddrInfo_def add_infos_map info_of_def split: if_splits option.splits prod.splits)

lemma GetAddrInfo_returns: "DnsResolverService_GetAddrInfo N D h server (Some d) ds s \<noteq> None"
  by (simp add: DnsResolverService_GetAddrInfo_def split: prod.splits)

lemma GetAddrInfo_through:
  assumes "parcel_laws P" and "parcel_never_fails P" and "mi_parcel I = P" and "connected (DnsResolverServiceStub_OnRemoteRequest I W) send"
    and "hostName \<noteq> []" and "DnsResolverService_GetAddrInfo (fst W) (snd W) hostName server (Some d) [] s = Some ((ret, ds), t)" and "int_list ds"
  shows "DnsResolverServiceProxy_GetAddrInfo P off (Some send) hostName server (Some d) xs s = (Some (ret, xs @ ds), t)"
proof -
  obtain reply p1 where r: "answer I (write_seq [write_list P (DnsAddrInfo_Marshalling P) ds, WriteInt32 P ret]) (new_parcel P) t = Some (0, reply, t)"
    "read_list P (DnsAddrInfo_Unmarshalling P) reply = (Some ds, p1)" "ReadInt32_value P p1 = ret"
    using dns_addr_info.answer_list_int32 [OF assms(1-3) GetAddrInfo_no_canonName [OF assms(6)] assms(7), of ret t] by blast
  have v: "read_infos P off xs reply = (ret, xs @ ds)"
    using r(2,3) by (auto simp: read_infos_def read_list_Some dest!: read_prefix_all)
  have m: "(\<lambda>e. ignoring_failure (DnsAddrInfo_Marshalling P e)) = DnsAddrInfo_Marshalling P"
    using dns_addr_info.marshal_writes [OF assms(2)] by (simp add: ignoring_always)
  have h: "DnsResolverServiceStub_OnGetAddrInfo I W data (new_parcel P) s = Some (0, reply, t)"
    if "read_pair (ReadString P) (read_pair (ReadString P) (DnsAddrInfo_Unmarshalling P)) data = (Some (hostName, server, d\<lparr>da_canonName := []\<rparr>), rest)" for data rest
    using that r(1) assms(6)
    by (auto simp: assms(3) DnsResolverServiceStub_OnGetAddrInfo_def read_pair_Some m GetAddrInfo_ignores_canonName simp del: write_seq.simps)
  show ?thesis unfolding DnsResolverServiceProxy_GetAddrInfo_def Let_def if_not_P [OF assms(5)] option.case
    by (rule addr_info_args.manager_call [where x = "(hostName, server, d\<lparr>da_canonName := []\<rparr>)"
          and us = "[WriteString P hostName, WriteString P server, DnsAddrInfo_Marshalling P d]" and I = I
          and d = dns_descriptor and table = "DnsResolverServiceStub_table I W" and h = "DnsResolverServiceStub_OnGetAddrInfo I W" and reply = reply])
      (use assms(1-4) v h in \<open>simp_all add: DnsResolverServiceStub_table_entries DnsResolverServiceStub_OnRemoteRequest_def
         DnsAddrInfo_Marshalling_def\<close>)
qed

text \<open>
  Hints that cannot be read are a null pointer, which the stub hands on: with a valid host name the
  service process dereferences it.
\<close>

lemma unreadable_hints_crash:
  assumes "ReadString (mi_parcel I) data = (Some h, p1)" and "ReadString (mi_parcel I) p1 = (Some server, p2)"
    and "fst (DnsAddrInfo_Unmarshalling (mi_parcel I) p2) = None" and "IsDomainValid h"
  shows "DnsResolverServiceStub_OnGetAddrInfo I W data reply s = None"
  using assms by (simp add: DnsResolverServiceStub_OnGetAddrInfo_def DnsResolverService_GetAddrInfo_def)

lemma net_id_through:
  assumes "parcel_laws P" and "parcel_never_fails P" and "mi_parcel I = P" and "connected (DnsResolverServiceStub_OnRemoteRequest I W) send"
    and "DnsResolverServiceStub_table I W code = Some (net_id_handler I method)"
  shows "net_id_request code P off (Some send) netId s = method netId s"
proof -
  obtain ret t where m: "method netId s = (ret, t)" by (cases "method netId s")
  obtain reply where r: "answer I (WriteInt32 P ret) (new_parcel P) t = Some (0, reply, t)" "ReadInt32_value P reply = ret"
    using answer_int32 [OF assms(1-3)] by blast
  show ?thesis unfolding net_id_request_def m
    by (rule one_u16.manager_call [where x = netId and us = "[WriteUint16 P netId]" and I = I
          and d = dns_descriptor and table = "DnsResolverServiceStub_table I W" and h = "net_id_handler I method" and reply = reply])
      (use assms m r in \<open>simp_all add: net_id_handler_def DnsResolverServiceStub_OnRemoteRequest_def\<close>)
qed

lemma SetResolverConfig_through:
  assumes "parcel_laws P" and "parcel_never_fails P" and "mi_parcel I = P" and "connected (DnsResolverServiceStub_OnRemoteRequest I W) send"
    and "int_list sv" and "int_list dm"
  shows "DnsResolverServiceProxy_SetResolverConfig P off (Some send) netId bt rc sv dm s =
    DnsResolverService_SetResolverConfig (fst W) netId bt rc sv dm s"
proof -
  obtain ret t where m: "DnsResolverService_SetResolverConfig (fst W) netId bt rc sv dm s = (ret, t)"
    by (cases "DnsResolverService_SetResolverConfig (fst W) netId bt rc sv dm s")
  obtain reply where r: "answer I (WriteInt32 P ret) (new_parcel P) t = Some (0, reply, t)" "ReadInt32_value P reply = ret"
    using answer_int32 [OF assms(1-3)] by blast
  show ?thesis unfolding DnsResolverServiceProxy_SetResolverConfig_def Let_def m
    by (rule config_args.manager_call [where x = "(netId, bt, rc, sv, dm)" and us = "[WriteUint16 P netId, WriteUint16 P bt, WriteUint8 P rc,
            write_list P (WriteString P) sv, write_list P (WriteString P) dm]" and I = I
          and d = dns_descriptor and table = "DnsResolverServiceStub_table I W" and h = "DnsResolverServiceStub_OnSetResolverConfig I W" and reply = reply])
      (use assms m r in \<open>simp_all add: DnsResolverServiceStub_OnSetResolverConfig_def DnsResolverServiceStub_table_entries
         DnsResolverServiceStub_OnRemoteRequest_def\<close>)
qed

lemma GetResolverInfo_through:
  assumes "parcel_laws P" and "parcel_never_fails P" and "mi_parcel I = P" and "connected (DnsResolverServiceStub_OnRemoteRequest I W) send"
    and "DnsResolverService_GetResolverInfo (fst W) netId [] [] 0 0 s = ((ret, sv, dm, bt, rc), t)" and "int_list sv" and "int_list dm"
  shows "DnsResolverServiceProxy_GetResolverInfo P off (Some send) netId a b u v s = ((ret, a @ sv, b @ dm, bt, rc), t)"
proof -
  obtain reply where r: "answer I (write_resolver_info P sv dm bt rc ret) (new_parcel P) t = Some (0, reply, t)"
    "read_info P off a b u v reply = (ret, a @ sv, b @ dm, bt, rc)"
    using resolver_info_reply [OF assms(1-3,6,7)] by blast
  show ?thesis unfolding DnsResolverServiceProxy_GetResolverInfo_def Let_def
    by (rule one_u16.manager_call [where x = netId and us = "[WriteUint16 P netId]" and I = I
          and d = dns_descriptor and table = "DnsResolverServiceStub_table I W" and h = "DnsResolverServiceStub_OnGetResolverInfo I W" and reply = reply])
      (use assms r in \<open>simp_all add: DnsResolverServiceStub_OnGetResolverInfo_def DnsResolverServiceStub_table_entries
         DnsResolverServiceStub_OnRemoteRequest_def\<close>)
qed

text \<open>
  C32. A call through proxy, transport and stub is the call of the DNS service: results and lists come
  back as the service gives them, appended to what the caller passed in, and the state is the one the
  service leaves. The canonical name of the hints does not travel and does not matter. Only the empty host
  name is refused by the proxy itself. The lists have to be counted by an \<open>int32_t\<close>.
\<close>

theorem dns_call_through:
  assumes "parcel_laws P" and "parcel_never_fails P" and "mi_parcel I = P" and "connected (DnsResolverServiceStub_OnRemoteRequest I (N, D)) send"
  shows "(\<forall>h xs s. h \<noteq> [] \<longrightarrow>
      (case DnsResolverService_GetAddressesByName N D h [] s of ((ret, addrs), t) \<Rightarrow> int_list addrs \<longrightarrow>
        DnsResolverServiceProxy_GetAddressesByName P off (Some send) h xs s = (Some (ret, xs @ addrs), t))) \<and>
    (\<forall>h server d xs s. h \<noteq> [] \<longrightarrow>
      (\<exists>ret ds t. DnsResolverService_GetAddrInfo N D h server (Some d) [] s = Some ((ret, ds), t) \<and> (int_list ds \<longrightarrow>
        DnsResolverServiceProxy_GetAddrInfo P off (Some send) h server (Some d) xs s = (Some (ret, xs @ ds), t)))) \<and>
    (\<forall>xs ds server hints s. DnsResolverServiceProxy_GetAddressesByName P off (Some send) [] xs s = (Some (NETMANAGER_ERR_STRING_EMPTY off, xs), s) \<and>
      DnsResolverServiceProxy_GetAddrInfo P off (Some send) [] server hints ds s = (Some (NETMANAGER_ERR_STRING_EMPTY off, ds), s)) \<and>
    (\<forall>netId s. DnsResolverServiceProxy_CreateNetworkCache P off (Some send) netId s = DnsResolverService_CreateNetworkCache N netId s \<and>
      DnsResolverServiceProxy_DestoryNetworkCache P off (Some send) netId s = DnsResolverService_DestoryNetworkCache N netId s \<and>
      DnsResolverServiceProxy_FlushNetworkCache P off (Some send) netId s = DnsResolverService_FlushNetworkCache N netId s) \<and>
    (\<forall>netId bt rc sv dm s. int_list sv \<and> int_list dm \<longrightarrow>
      DnsResolverServiceProxy_SetResolverConfig P off (Some send) netId bt rc sv dm s = DnsResolverService_SetResolverConfig N netId bt rc sv dm s) \<and>
    (\<forall>netId a b u v s.
      (case DnsResolverService_GetResolverInfo N netId [] [] 0 0 s of ((ret, sv, dm, bt, rc), t) \<Rightarrow> int_list sv \<and> int_list dm \<longrightarrow>
        DnsResolverServiceProxy_GetResolverInfo P off (Some send) netId a b u v s = ((ret, a @ sv, b @ dm, bt, rc), t)))"
proof (intro conjI allI impI, goal_cases)
  case (1 h xs s)
  then show ?case using GetAddressesByName_through [OF assms 1] by (auto split: prod.splits)
next
  case (2 h server d xs s)
  obtain ret ds t where r: "DnsResolverService_GetAddrInfo N D h server (Some d) [] s = Some ((ret, ds), t)"
    using GetAddrInfo_returns [of N D h server d "[]" s] by (metis not_None_eq prod.collapse)
  then show ?case using GetAddrInfo_through [OF assms 2, of server d s ret ds t off xs] by auto
next
  case (8 netId bt rc sv dm s)
  then show ?case using SetResolverConfig_through [OF assms] by simp
next
  case (9 netId a b u v s)
  then show ?case using GetResolverInfo_through [OF assms, of netId s] by (auto split: prod.splits)
qed (simp_all add: DnsResolverServiceProxy_GetAddressesByName_def DnsResolverServiceProxy_GetAddrInfo_def
    net_id_through [OF assms] DnsResolverServiceProxy_CreateNetworkCache_def DnsResolverServiceProxy_DestoryNetworkCache_def
    DnsResolverServiceProxy_FlushNetworkCache_def DnsResolverServiceStub_table_entries DnsResolverServiceStub_OnCreateNetworkCache_def
    DnsResolverServiceStub_OnDestoryNetworkCache_def DnsResolverServiceStub_OnFlushNetworkCache_def)

definition sample_dns_ipc :: "(parcel_item list, dns_service) manager_ipc" where
  "sample_dns_ipc = \<lparr>mi_parcel = list_parcel, mi_offset = 0x200000, mi_default = (\<lambda>code data. refuse 1)\<rparr>"

definition sample_dns_send :: "(parcel_item list, dns_service) send_request" where
  "sample_dns_send code data reply s =
     (case DnsResolverServiceStub_OnRemoteRequest sample_dns_ipc (sample_resolver, sample_platform) code data reply s of None \<Rightarrow> (29, reply, s) | Some r \<Rightarrow> r)"

theorem dns_call_through_witness:
  "DnsResolverServiceProxy_SetResolverConfig list_parcel 0x200000 (Some sample_dns_send) 100 5 2 [''8.8.8.8''] [''example.com''] (DnsResolverService_new None) =
     (0, \<lparr>dr_running = False, dr_registerToService = False,
         dr_netd = Some (netd_logs [N_setResolverConfig 100 5 2 [''8.8.8.8''] [''example.com'']] (NetdController_new sample_resolver))\<rparr>)"
proof -
  have "connected (DnsResolverServiceStub_OnRemoteRequest sample_dns_ipc (sample_resolver, sample_platform)) sample_dns_send"
    by (simp add: connected_def sample_dns_send_def)
  note t = dns_call_through [OF list_parcel_laws list_parcel_never_fails _ this]
  have "netd_ready sample_resolver (NetdController_new sample_resolver)" by simp
  then have "DnsResolverService_SetResolverConfig sample_resolver 100 5 2 [''8.8.8.8''] [''example.com''] (DnsResolverService_new None) =
     (0, \<lparr>dr_running = False, dr_registerToService = False,
         dr_netd = Some (netd_logs [N_setResolverConfig 100 5 2 [''8.8.8.8''] [''example.com'']] (NetdController_new sample_resolver))\<rparr>)"
    by (simp add: DnsResolverService_SetResolverConfig_def with_dns_netd_def NetdController_SetResolverConfig_def netd_forward_def netd_ready_def
        DnsResolverService_new_def NetdController_GetInstance_def sample_resolver_def)
  then show ?thesis using t [where off = "0x200000"] by (simp add: sample_dns_ipc_def int_list_def)
qed

end
