(* ===== verification/Timer_Model.thy ===== *)
theory Timer_Model
  imports NM_Types
begin

text \<open>
  \<open>Timer\<close> (\<open>timer.h\<close>): a periodic task and one-shot tasks on detached threads, started and stopped by
  any number of calling threads. A thread is the place it is at; one step of a thread is one access to
  the two atomic flags, so that all interleavings of the flags are runs of the model.
\<close>

section \<open>Threads and their steps\<close>

text \<open>
  A periodic thread is at the loop test, asleep before its task, or past the loop; a one-shot thread is
  before its test or asleep before its task.
\<close>

datatype timer_thread = Loop_test | Loop_task | Loop_left | Once_test | Once_task | Ended

datatype timer_caller = Idle
  | Start_test | Start_set | Start_spawn
  | StartOnce_spawn
  | Stop_test_status | Stop_test_flag | Stop_set | Stop_wait | Stop_reset

record timer =
  tm_stopStatus :: bool
  tm_tryStopFlag :: bool
  tm_threads :: "timer_thread list"
  tm_callers :: "timer_caller list"
  tm_taskRuns :: nat

definition Timer_new :: "nat \<Rightarrow> timer" where
  "Timer_new callers = \<lparr>tm_stopStatus = True, tm_tryStopFlag = False, tm_threads = [],
     tm_callers = replicate callers Idle, tm_taskRuns = 0\<rparr>"

text \<open>The copy constructor takes the flags and no thread.\<close>

definition Timer_copy :: "nat \<Rightarrow> timer \<Rightarrow> timer" where
  "Timer_copy callers s = (Timer_new callers)\<lparr>tm_stopStatus := tm_stopStatus s, tm_tryStopFlag := tm_tryStopFlag s\<rparr>"

text \<open>\<open>Stop\<close> waits on the condition until \<open>stopStatus_\<close> holds; a caller that is blocked has no step.\<close>

fun caller_step :: "timer_caller \<Rightarrow> timer \<Rightarrow> (timer_caller \<times> timer) option" where
  "caller_step Idle s = None"
| "caller_step Start_test s = Some (if tm_stopStatus s then Start_set else Idle, s)"
| "caller_step Start_set s = Some (Start_spawn, s\<lparr>tm_stopStatus := False\<rparr>)"
| "caller_step Start_spawn s = Some (Idle, s\<lparr>tm_threads := tm_threads s @ [Loop_test]\<rparr>)"
| "caller_step StartOnce_spawn s = Some (Idle, s\<lparr>tm_threads := tm_threads s @ [Once_test]\<rparr>)"
| "caller_step Stop_test_status s = Some (if tm_stopStatus s then Idle else Stop_test_flag, s)"
| "caller_step Stop_test_flag s = Some (if tm_tryStopFlag s then Idle else Stop_set, s)"
| "caller_step Stop_set s = Some (Stop_wait, s\<lparr>tm_tryStopFlag := True\<rparr>)"
| "caller_step Stop_wait s = (if tm_stopStatus s then Some (Stop_reset, s) else None)"
| "caller_step Stop_reset s = Some (Idle, if tm_stopStatus s then s\<lparr>tm_tryStopFlag := False\<rparr> else s)"

fun thread_step :: "timer_thread \<Rightarrow> timer \<Rightarrow> (timer_thread \<times> timer) option" where
  "thread_step Loop_test s = Some (if tm_tryStopFlag s then Loop_left else Loop_task, s)"
| "thread_step Loop_task s = Some (Loop_test, s\<lparr>tm_taskRuns := Suc (tm_taskRuns s)\<rparr>)"
| "thread_step Loop_left s = Some (Ended, s\<lparr>tm_stopStatus := True\<rparr>)"
| "thread_step Once_test s = Some (if tm_tryStopFlag s then Ended else Once_task, s)"
| "thread_step Once_task s = Some (Ended, s\<lparr>tm_taskRuns := Suc (tm_taskRuns s)\<rparr>)"
| "thread_step Ended s = None"

text \<open>The calls of an idle caller, and the steps of one thread.\<close>

datatype timer_call = Start | StartOnce | Stop

fun entry :: "timer_call \<Rightarrow> timer_caller" where
  "entry Start = Start_test"
| "entry StartOnce = StartOnce_spawn"
| "entry Stop = Stop_test_status"

datatype timer_action = Call nat timer_call | Caller nat | Thread nat

fun timer_act :: "timer_action \<Rightarrow> timer \<Rightarrow> timer option" where
  "timer_act (Call i c) s =
     (if i < length (tm_callers s) \<and> tm_callers s ! i = Idle
      then Some (s\<lparr>tm_callers := (tm_callers s)[i := entry c]\<rparr>) else None)"
| "timer_act (Caller i) s =
     (if i < length (tm_callers s)
      then (case caller_step (tm_callers s ! i) s of None \<Rightarrow> None
            | Some (c, t) \<Rightarrow> Some (t\<lparr>tm_callers := (tm_callers t)[i := c]\<rparr>)) else None)"
| "timer_act (Thread j) s =
     (if j < length (tm_threads s)
      then (case thread_step (tm_threads s ! j) s of None \<Rightarrow> None
            | Some (w, t) \<Rightarrow> Some (t\<lparr>tm_threads := (tm_threads t)[j := w]\<rparr>)) else None)"

inductive timer_step :: "timer \<Rightarrow> timer \<Rightarrow> bool" where
  "timer_act a s = Some t \<Longrightarrow> timer_step s t"

inductive_cases timer_stepE: "timer_step s t"

definition timer_reachable :: "nat \<Rightarrow> timer \<Rightarrow> bool" where
  "timer_reachable n s \<longleftrightarrow> timer_step\<^sup>*\<^sup>* (Timer_new n) s"

fun timer_run :: "timer_action list \<Rightarrow> timer \<Rightarrow> timer option" where
  "timer_run [] s = Some s"
| "timer_run (a # as) s = (case timer_act a s of None \<Rightarrow> None | Some t \<Rightarrow> timer_run as t)"

section \<open>One calling thread\<close>

fun looping :: "timer_thread \<Rightarrow> bool" where
  "looping Loop_test = True"
| "looping Loop_task = True"
| "looping Loop_left = True"
| "looping _ = False"

definition loops :: "timer \<Rightarrow> nat" where
  "loops s = length (filter looping (tm_threads s))"

text \<open>The flags follow the place of the caller, and the periodic thread the flags.\<close>

definition stopping :: "timer_caller \<Rightarrow> bool" where
  "stopping c \<longleftrightarrow> c \<in> {Stop_wait, Stop_reset}"

definition caller_ok :: "timer_caller \<Rightarrow> timer \<Rightarrow> bool" where
  "caller_ok c s \<longleftrightarrow> (tm_tryStopFlag s \<longleftrightarrow> stopping c) \<and>
     (c \<in> {Start_set, Stop_reset} \<longrightarrow> tm_stopStatus s) \<and>
     (c \<in> {Start_spawn, Stop_test_flag, Stop_set} \<longrightarrow> \<not> tm_stopStatus s) \<and>
     loops s = (if tm_stopStatus s \<or> c = Start_spawn then 0 else 1) \<and>
     (Loop_left \<in> set (tm_threads s) \<longrightarrow> tm_tryStopFlag s)"

definition single_inv :: "timer \<Rightarrow> bool" where
  "single_inv s \<longleftrightarrow> (\<exists>c. tm_callers s = [c] \<and> caller_ok c s)"

lemma loops_none: "loops s = 0 \<longleftrightarrow> (\<forall>w \<in> set (tm_threads s). \<not> looping w)"
  by (simp add: loops_def filter_empty_conv)

lemma caller_keeps:
  assumes "caller_ok c s" and "caller_step c s = Some (c', t)"
  shows "caller_ok c' (t\<lparr>tm_callers := cs\<rparr>)"
  using assms by (cases c) (auto simp: caller_ok_def stopping_def loops_def filter_empty_conv dest: bspec [where x = Loop_left] split: if_splits)

lemma thread_keeps:
  assumes "caller_ok c s" and "j < length (tm_threads s)" and "thread_step (tm_threads s ! j) s = Some (w, t)"
  shows "caller_ok c (t\<lparr>tm_threads := (tm_threads t)[j := w]\<rparr>)"
proof -
  let ?x = "tm_threads s ! j" and ?s = "t\<lparr>tm_threads := (tm_threads t)[j := w]\<rparr>"
  have ts: "tm_threads t = tm_threads s" using assms(3) by (cases ?x) auto
  have u: "loops ?s + of_bool (looping ?x) = loops s + of_bool (looping w)"
    using filter_update [OF assms(2), of looping w] by (simp add: loops_def ts)
  have l: "Loop_left \<in> set (tm_threads ?s) \<Longrightarrow> Loop_left \<in> set (tm_threads s) \<or> w = Loop_left"
    using set_update_subset_insert by (fastforce simp: ts)
  show ?thesis
  proof (cases "?x = Loop_left")
    case True
    then have "Loop_left \<in> set (tm_threads s)" using assms(2) by (metis nth_mem)
    moreover have "loops s \<noteq> 0" using calculation loops_none [of s] looping.simps(3) by blast
    ultimately have "tm_tryStopFlag s" "\<not> tm_stopStatus s" "loops s = 1" "c = Stop_wait"
      using assms(1) unfolding caller_ok_def stopping_def by (auto split: if_splits)
    then show ?thesis using assms(3) u True by (auto simp: caller_ok_def stopping_def loops_def)
  next
    case False
    then have "tm_stopStatus t = tm_stopStatus s" "tm_tryStopFlag t = tm_tryStopFlag s" "looping w = looping ?x"
        "w = Loop_left \<Longrightarrow> tm_tryStopFlag s"
      using assms(3) by (cases ?x; auto split: if_splits)+
    moreover have "Loop_left \<in> set (tm_threads ?s) \<Longrightarrow> tm_tryStopFlag s"
      using l assms(1) calculation(4) unfolding caller_ok_def by blast
    ultimately show ?thesis using assms(1) u by (simp add: caller_ok_def loops_def)
  qed
qed

lemma entry_keeps: "caller_ok Idle s \<Longrightarrow> caller_ok (entry k) (s\<lparr>tm_callers := cs\<rparr>)"
  by (cases k) (auto simp: caller_ok_def stopping_def loops_def)

lemma act_keeps:
  assumes "single_inv s" and "timer_act a s = Some t"
  shows "single_inv t"
proof -
  obtain c where c: "tm_callers s = [c]" "caller_ok c s" using assms(1) unfolding single_inv_def by blast
  show ?thesis
  proof (cases a)
    case (Call i k)
    then show ?thesis using assms(2) c entry_keeps [of s k "[entry k]"] by (auto simp: single_inv_def split: if_splits)
  next
    case (Caller i)
    then obtain c' u where "caller_step c s = Some (c', u)" "t = u\<lparr>tm_callers := (tm_callers u)[0 := c']\<rparr>"
      using assms(2) c(1) by (auto split: if_splits option.splits)
    moreover have "tm_callers u = [c]" using calculation(1) c(1) by (cases c) (auto split: if_splits)
    ultimately show ?thesis using caller_keeps [OF c(2)] by (auto simp: single_inv_def)
  next
    case (Thread j)
    then obtain w u where w: "j < length (tm_threads s)" "thread_step (tm_threads s ! j) s = Some (w, u)"
        "t = u\<lparr>tm_threads := (tm_threads u)[j := w]\<rparr>"
      using assms(2) by (auto split: if_splits option.splits)
    moreover have "tm_callers u = [c]" using w(2) c(1) by (cases "tm_threads s ! j") auto
    ultimately show ?thesis using thread_keeps [OF c(2) w(1,2)] by (auto simp: single_inv_def)
  qed
qed

lemma reachable_single_inv: "timer_reachable 1 s \<Longrightarrow> single_inv s"
  unfolding timer_reachable_def
proof (induction rule: rtranclp_induct)
  case base
  then show ?case by (simp add: single_inv_def caller_ok_def stopping_def Timer_new_def loops_def)
next
  case (step t u)
  then show ?case using act_keeps by (blast elim: timer_stepE)
qed

text \<open>
  With one calling thread the timer is in order in every reachable state: between calls the flag that asks the
  periodic thread to end is down; there is exactly one periodic thread while \<open>stopStatus_\<close> is down, except
  for the moment before \<open>Start\<close> has made it, and none otherwise; so when \<open>Stop\<close> has returned there is none.
\<close>

theorem timer_single_caller:
  assumes "timer_reachable 1 s"
  shows "\<exists>c. tm_callers s = [c] \<and> (tm_tryStopFlag s \<longleftrightarrow> c \<in> {Stop_wait, Stop_reset}) \<and>
    length (filter looping (tm_threads s)) = (if tm_stopStatus s \<or> c = Start_spawn then 0 else 1)"
  using reachable_single_inv [OF assms] unfolding single_inv_def caller_ok_def stopping_def loops_def by blast

lemma timer_run_reachable: "timer_reachable n s \<Longrightarrow> timer_run as s = Some t \<Longrightarrow> timer_reachable n t"
proof (induction as arbitrary: s)
  case (Cons a as)
  then obtain u where u: "timer_act a s = Some u" "timer_run as u = Some t" by (auto split: option.splits)
  then have "timer_reachable n u" using Cons.prems(1) timer_step.intros unfolding timer_reachable_def
    by (meson rtranclp.rtrancl_into_rtrancl)
  then show ?case using Cons.IH u(2) by blast
qed simp

lemma timer_reachable_new: "timer_reachable n (Timer_new n)"
  by (simp add: timer_reachable_def)

theorem timer_single_caller_witness:
  "\<exists>s. timer_run [Call 0 Start, Caller 0, Caller 0, Caller 0, Thread 0, Thread 0] (Timer_new 1) = Some s \<and>
     length (filter looping (tm_threads s)) = 1 \<and> \<not> tm_tryStopFlag s"
proof -
  obtain s where s: "timer_run [Call 0 Start, Caller 0, Caller 0, Caller 0, Thread 0, Thread 0] (Timer_new 1) = Some s"
      "tm_callers s = [Idle]" "\<not> tm_stopStatus s"
    by (simp add: Timer_new_def)
  then show ?thesis using timer_single_caller [OF timer_run_reachable [OF timer_reachable_new s(1)]] by auto
qed

text \<open>While the flag is up every step of a thread brings it nearer to its end.\<close>

fun steps_left :: "timer_thread \<Rightarrow> nat" where
  "steps_left Loop_task = 3"
| "steps_left Loop_test = 2"
| "steps_left Loop_left = 1"
| "steps_left Once_task = 1"
| "steps_left Once_test = 1"
| "steps_left Ended = 0"

fun runs_left :: "timer_thread \<Rightarrow> nat" where
  "runs_left Loop_task = 1"
| "runs_left Once_task = 1"
| "runs_left _ = 0"

lemma sum_list_update_nat:
  "j < length xs \<Longrightarrow> sum_list (map f (xs[j := w])) + f (xs ! j) = sum_list (map f xs) + (f w :: nat)"
proof (induction xs arbitrary: j)
  case (Cons x xs)
  then show ?case by (cases j) auto
qed simp

lemma thread_step_measure:
  assumes "tm_tryStopFlag s" and "timer_act (Thread j) s = Some t"
  shows "tm_tryStopFlag t \<and> tm_callers t = tm_callers s \<and>
    Suc (sum_list (map steps_left (tm_threads t))) \<le> sum_list (map steps_left (tm_threads s)) \<and>
    tm_taskRuns t + sum_list (map runs_left (tm_threads t)) = tm_taskRuns s + sum_list (map runs_left (tm_threads s))"
proof -
  obtain w u where w: "j < length (tm_threads s)" "thread_step (tm_threads s ! j) s = Some (w, u)"
      "t = u\<lparr>tm_threads := (tm_threads u)[j := w]\<rparr>"
    using assms(2) by (auto split: if_splits option.splits)
  show ?thesis using sum_list_update_nat [OF w(1), of steps_left w] sum_list_update_nat [OF w(1), of runs_left w] assms(1) w(2,3)
    by (cases "tm_threads s ! j") auto
qed

lemma threads_run:
  assumes "tm_tryStopFlag s" and "timer_run (map Thread js) s = Some t"
  shows "tm_callers t = tm_callers s \<and> length js + sum_list (map steps_left (tm_threads t)) \<le> sum_list (map steps_left (tm_threads s)) \<and>
    tm_taskRuns t \<le> tm_taskRuns s + sum_list (map runs_left (tm_threads s))"
  using assms
proof (induction js arbitrary: s)
  case (Cons j js)
  then obtain u where u: "timer_act (Thread j) s = Some u" "timer_run (map Thread js) u = Some t"
    by (auto split: option.splits)
  from thread_step_measure [OF Cons.prems(1) u(1)] Cons.IH [OF _ u(2)] show ?case by force
qed simp

lemma sum_bounds: "sum_list (map steps_left ws) \<le> 3 * length ws" "sum_list (map runs_left ws) \<le> length ws"
proof (induction ws)
  case (Cons w ws)
  { case 1 then show ?case using Cons(1) by (cases w) auto }
  { case 2 then show ?case using Cons(2) by (cases w) auto }
qed simp_all



section \<open>Several calling threads\<close>

text \<open>
  Two callers break the timer, because the test of \<open>stopStatus_\<close> and its change are two steps: two \<open>Start\<close>
  that overlap make two periodic threads, \<open>Stop\<close> ends one of them and returns, and the other goes on for good:
  it repeats its task, and every later \<open>Stop\<close> returns at once. And a one-shot task that was started before a
  \<open>Stop\<close> runs after it has returned.
\<close>

theorem concurrent_Start_unstoppable:
  "(\<exists>as s. timer_run as (Timer_new 2) = Some s \<and> tm_callers s = [Idle, Idle] \<and> tm_threads s = [Ended, Loop_test] \<and>
      tm_stopStatus s \<and> \<not> tm_tryStopFlag s \<and>
      timer_run [Thread 1, Thread 1] s = Some (s\<lparr>tm_taskRuns := Suc (tm_taskRuns s)\<rparr>) \<and>
      timer_run [Call 0 Stop, Caller 0] s = Some s) \<and>
   (\<exists>s t. timer_run [Call 0 StartOnce, Caller 0, Thread 0, Call 0 Stop, Caller 0] (Timer_new 1) = Some s \<and> tm_callers s = [Idle] \<and>
      timer_run [Thread 0] s = Some t \<and> tm_taskRuns t = Suc (tm_taskRuns s))"
proof (intro conjI exI)
  show "timer_run [Call 0 Start, Call 1 Start, Caller 0, Caller 1, Caller 0, Caller 1, Caller 0, Caller 1,
      Call 0 Stop, Caller 0, Caller 0, Caller 0, Thread 0, Thread 0, Caller 0, Caller 0] (Timer_new 2) =
    Some \<lparr>tm_stopStatus = True, tm_tryStopFlag = False, tm_threads = [Ended, Loop_test], tm_callers = [Idle, Idle], tm_taskRuns = 0\<rparr>"
    by (simp add: Timer_new_def numeral_2_eq_2)
  show "timer_run [Call 0 StartOnce, Caller 0, Thread 0, Call 0 Stop, Caller 0] (Timer_new 1) =
    Some \<lparr>tm_stopStatus = True, tm_tryStopFlag = False, tm_threads = [Once_task], tm_callers = [Idle], tm_taskRuns = 0\<rparr>"
    by (simp add: Timer_new_def)
  show "timer_run [Thread 0] \<lparr>tm_stopStatus = True, tm_tryStopFlag = False, tm_threads = [Once_task], tm_callers = [Idle], tm_taskRuns = 0\<rparr> =
    Some \<lparr>tm_stopStatus = True, tm_tryStopFlag = False, tm_threads = [Ended], tm_callers = [Idle], tm_taskRuns = 1\<rparr>"
    by simp
qed simp_all

text \<open>A copy of a running timer has no thread that could end the wait of its \<open>Stop\<close>.\<close>

lemma copied_timer_hangs:
  assumes "\<not> tm_stopStatus s" and "\<not> tm_tryStopFlag s"
  shows "\<exists>t. timer_run [Call 0 Stop, Caller 0, Caller 0, Caller 0] (Timer_copy 1 s) = Some t \<and> tm_callers t = [Stop_wait] \<and>
    (\<forall>a. timer_act a t = None)"
proof -
  let ?t = "(Timer_copy 1 s)\<lparr>tm_tryStopFlag := True, tm_callers := [Stop_wait]\<rparr>"
  have "timer_run [Call 0 Stop, Caller 0, Caller 0, Caller 0] (Timer_copy 1 s) = Some ?t"
    using assms by (simp add: Timer_copy_def Timer_new_def)
  moreover have "timer_act a ?t = None" for a
    using assms by (cases a) (auto simp: Timer_copy_def Timer_new_def)
  ultimately show ?thesis by (intro exI [of _ ?t]) simp
qed

end
