(* ===== verification/Napi_Common.thy ===== *)
theory Napi_Common
  imports Ipc "HOL-Library.Multiset"
begin

text \<open>
  What the JavaScript bindings share (\<open>napi_common.cpp\<close> and the repeated parts of the three modules): the
  entry of a call, which makes a promise or keeps a callback and queues asynchronous work, and its end,
  which settles the promise or calls the callback. Executing and completing the works is a step relation
  in which any work can be the next one.

  N-API is a parameter: its values are a type \<open>'v\<close>, its calls the fields of a record. A conversion that
  fails is \<open>None\<close>; making values cannot fail here. \<open>NAPI_CALL\<close> throws a JavaScript exception for a call that
  failed and returns.
\<close>

section \<open>N-API\<close>

datatype napi_valuetype = napi_undefined | napi_null | napi_boolean | napi_number | napi_string | napi_object | napi_function

text \<open>
  \<open>napi_get_cb_info\<close> takes the capacity of \<open>argv\<close> and the arguments of the call; reading a property and
  making a promise depend on whether an exception is pending, settling a deferred on its being one.
\<close>

record 'v napi_ops =
  napi_get_cb_info :: "nat \<Rightarrow> 'v list \<Rightarrow> nat \<times> 'v list"
  napi_get_undefined :: 'v
  napi_typeof :: "'v \<Rightarrow> napi_valuetype"
  napi_create_int32 :: "int32 \<Rightarrow> 'v"
  napi_create_uint32 :: "uint32 \<Rightarrow> 'v"
  napi_create_string_utf8 :: "string \<Rightarrow> 'v"
  napi_create_array :: "'v list \<Rightarrow> 'v"
  napi_create_object :: 'v
  napi_create_error :: "'v \<Rightarrow> 'v \<Rightarrow> 'v"
  napi_set_named_property :: "'v \<Rightarrow> string \<Rightarrow> 'v \<Rightarrow> 'v"
  napi_get_named_property :: "bool \<Rightarrow> 'v \<Rightarrow> string \<Rightarrow> 'v option"
  napi_get_value_int32 :: "'v \<Rightarrow> int32 option"
  napi_get_value_uint32 :: "'v \<Rightarrow> uint32 option"
  napi_get_value_bool :: "'v \<Rightarrow> bool option"
  napi_get_value_string_utf8 :: "'v \<Rightarrow> nat \<Rightarrow> string option"
  napi_create_promise :: "bool \<Rightarrow> bool"
  napi_create_reference :: "'v \<Rightarrow> bool"
  napi_settle_deferred :: "nat option \<Rightarrow> bool"

text \<open>
  What the proofs use of its documentation: \<open>argc\<close> is the number of the arguments, and \<open>argv\<close> is filled up with
  \<open>undefined\<close>; a string is cut to the buffer less one byte; what was set can be read.
\<close>

definition napi_laws :: "'v napi_ops \<Rightarrow> bool" where
  "napi_laws N \<longleftrightarrow>
     (\<forall>n args. length args \<le> n \<longrightarrow>
        napi_get_cb_info N n args = (length args, args @ replicate (n - length args) (napi_get_undefined N))) \<and>
     (\<forall>n args. length (snd (napi_get_cb_info N n args)) = n) \<and>
     (\<forall>x. napi_get_value_int32 N (napi_create_int32 N x) = Some x) \<and>
     (\<forall>x. napi_get_value_uint32 N (napi_create_uint32 N x) = Some x) \<and>
     (\<forall>s n. 0 < n \<longrightarrow> napi_get_value_string_utf8 N (napi_create_string_utf8 N s) n = Some (take (n - 1) s)) \<and>
     napi_typeof N (napi_create_object N) = napi_object \<and>
     (\<forall>x k v. napi_typeof N x = napi_object \<longrightarrow> napi_typeof N (napi_set_named_property N x k v) = napi_object \<and>
        napi_get_named_property N False (napi_set_named_property N x k v) k = Some v) \<and>
     (\<forall>x k k' v. napi_typeof N x = napi_object \<and> k' \<noteq> k \<longrightarrow>
        napi_get_named_property N False (napi_set_named_property N x k' v) k = napi_get_named_property N False x k) \<and>
     napi_create_promise N False \<and> (\<forall>d. napi_settle_deferred N (Some d))"

section \<open>The environment of a module\<close>

text \<open>
  An asynchronous work with the context it points to: which work it is, whether it was executed, the
  promise or the callback, and the data of the module.
\<close>

record ('v, 'k, 'd) async_context =
  ac_kind :: 'k
  ac_executed :: bool
  ac_deferred :: "nat option"
  ac_callbackRef :: "'v option"
  ac_data :: 'd

text \<open>
  What JavaScript sees: an exception, a promise (a null one for a context without) that is resolved (\<open>Inr\<close>)
  or rejected (\<open>Inl\<close>), a callback called with error and result, of which a null pointer is \<open>None\<close>.
\<close>

datatype 'v js_event = Thrown | Settled "nat option" "'v + 'v" | Called 'v "'v option" "'v option"

record ('v, 'k, 'd) napi_env =
  ne_pending :: bool
  ne_promises :: nat
  ne_contexts :: nat
  ne_references :: nat
  ne_works :: "('v, 'k, 'd) async_context list"
  ne_events :: "'v js_event list"

definition napi_env_new :: "('v, 'k, 'd) napi_env" where
  "napi_env_new = \<lparr>ne_pending = False, ne_promises = 0, ne_contexts = 0, ne_references = 0, ne_works = [], ne_events = []\<rparr>"

definition napi_throw :: "('v, 'k, 'd) napi_env \<Rightarrow> ('v, 'k, 'd) napi_env" where
  "napi_throw e = e\<lparr>ne_pending := True, ne_events := ne_events e @ [Thrown]\<rparr>"

section \<open>NapiCommon\<close>

definition CALLBACK_REF_CNT :: uint32 where "CALLBACK_REF_CNT = 1"
definition PROPERTY_MAX_BYTE :: nat where "PROPERTY_MAX_BYTE = 128"
definition BUFFER_BYTE :: nat where "BUFFER_BYTE = 64"

definition NapiCommon_CreateCodeMessage :: "'v napi_ops \<Rightarrow> string \<Rightarrow> int32 \<Rightarrow> 'v" where
  "NapiCommon_CreateCodeMessage N msg code =
     napi_create_error N (napi_create_string_utf8 N (to_string_i32 code)) (napi_create_string_utf8 N msg)"

definition NapiCommon_SetPropertyInt32 :: "'v napi_ops \<Rightarrow> string \<Rightarrow> int32 \<Rightarrow> 'v \<Rightarrow> 'v" where
  "NapiCommon_SetPropertyInt32 N propertyName property object =
     napi_set_named_property N object propertyName (napi_create_int32 N property)"

definition NapiCommon_SetPropertyString :: "'v napi_ops \<Rightarrow> string \<Rightarrow> string \<Rightarrow> 'v \<Rightarrow> 'v" where
  "NapiCommon_SetPropertyString N propertyName property object =
     napi_set_named_property N object propertyName (napi_create_string_utf8 N property)"

text \<open>Both return the property as it was when a call fails.\<close>

definition NapiCommon_GetPropertyString ::
    "'v napi_ops \<Rightarrow> 'v \<Rightarrow> string \<Rightarrow> string \<Rightarrow> ('v, 'k, 'd) napi_env \<Rightarrow> string \<times> ('v, 'k, 'd) napi_env" where
  "NapiCommon_GetPropertyString N object propertyName property e =
     (case napi_get_named_property N (ne_pending e) object propertyName of None \<Rightarrow> (property, napi_throw e)
      | Some v \<Rightarrow>
          (case napi_get_value_string_utf8 N v PROPERTY_MAX_BYTE of None \<Rightarrow> (property, napi_throw e)
           | Some s \<Rightarrow> (c_str s, e)))"

definition NapiCommon_GetPropertyInt32 ::
    "'v napi_ops \<Rightarrow> 'v \<Rightarrow> string \<Rightarrow> int32 \<Rightarrow> ('v, 'k, 'd) napi_env \<Rightarrow> int32 \<times> ('v, 'k, 'd) napi_env" where
  "NapiCommon_GetPropertyInt32 N object propertyName property e =
     (case napi_get_named_property N (ne_pending e) object propertyName of None \<Rightarrow> (property, napi_throw e)
      | Some v \<Rightarrow>
          (case napi_get_value_int32 N v of None \<Rightarrow> (property, napi_throw e) | Some x \<Rightarrow> (x, e)))"

definition NapiCommon_NapiValueByInt32 :: "'v napi_ops \<Rightarrow> int32 \<Rightarrow> 'v" where
  "NapiCommon_NapiValueByInt32 N property = napi_create_int32 N property"

section \<open>The start and the end of a call\<close>

definition new_context :: "('v, 'k, 'd) napi_env \<Rightarrow> ('v, 'k, 'd) napi_env" where
  "new_context e = e\<lparr>ne_contexts := Suc (ne_contexts e)\<rparr>"

text \<open>
  The second half of every entry: a promise, or a reference to the callback, or neither, then the work is
  queued. The result is the promise, and \<open>None\<close> a null pointer, which JavaScript sees as \<open>undefined\<close>.
\<close>

definition napi_queue ::
    "'v napi_ops \<Rightarrow> bool \<Rightarrow> 'v option \<Rightarrow> 'k \<Rightarrow> 'd \<Rightarrow> ('v, 'k, 'd) napi_env \<Rightarrow> nat option \<times> ('v, 'k, 'd) napi_env" where
  "napi_queue N promise callback k d e =
     (let c = \<lparr>ac_kind = k, ac_executed = False, ac_deferred = None, ac_callbackRef = None, ac_data = d\<rparr> in
      if promise then
        if napi_create_promise N (ne_pending e)
        then (Some (ne_promises e), e\<lparr>ne_promises := Suc (ne_promises e), ne_works := ne_works e @ [c\<lparr>ac_deferred := Some (ne_promises e)\<rparr>]\<rparr>)
        else (None, napi_throw e)
      else
        case callback of None \<Rightarrow> (None, e\<lparr>ne_works := ne_works e @ [c]\<rparr>)
        | Some f \<Rightarrow>
            if napi_create_reference N f
            then (None, e\<lparr>ne_references := Suc (ne_references e), ne_works := ne_works e @ [c\<lparr>ac_callbackRef := Some f\<rparr>]\<rparr>)
            else (None, napi_throw e))"

text \<open>
  The end of every \<open>Complete\<close> function: without a callback the promise is settled, and a failure of that
  returns before the context is deleted; with a callback it is called with the error or with the result.
\<close>

definition napi_finish ::
    "'v napi_ops \<Rightarrow> ('v, 'k, 'd) async_context \<Rightarrow> 'v + 'v \<Rightarrow> 'v + 'v \<Rightarrow> ('v, 'k, 'd) napi_env \<Rightarrow> ('v, 'k, 'd) napi_env" where
  "napi_finish N c promise callback e =
     (case ac_callbackRef c of
        None \<Rightarrow>
          if napi_settle_deferred N (ac_deferred c)
          then e\<lparr>ne_events := ne_events e @ [Settled (ac_deferred c) promise], ne_contexts := ne_contexts e - 1\<rparr>
          else napi_throw e
      | Some f \<Rightarrow>
          e\<lparr>ne_events := ne_events e @ [case callback of Inl v \<Rightarrow> Called f (Some v) None | Inr v \<Rightarrow> Called f None (Some v)],
            ne_references := ne_references e - 1, ne_contexts := ne_contexts e - 1\<rparr>)"

section \<open>A module\<close>

text \<open>
  A module is its functions, the execution of a work (on the state of client and service; \<open>None\<close> where the
  process ends) and the outcomes of promise and callback it completes with. A call starts without a
  pending exception; works are executed and completed in any order, and others use client and service
  in between.
\<close>

type_synonym 'v outcomes = "('v + 'v) \<times> ('v + 'v)"

record ('v, 'k, 'd, 'x) napi_module =
  nm_call :: "'k \<Rightarrow> 'v list \<Rightarrow> ('v, 'k, 'd) napi_env \<Rightarrow> nat option \<times> ('v, 'k, 'd) napi_env"
  nm_execute :: "'k \<Rightarrow> 'd \<Rightarrow> 'x \<Rightarrow> ('d \<times> 'x) option"
  nm_outcome :: "'k \<Rightarrow> 'd \<Rightarrow> 'v outcomes"

text \<open>The client of the process and the remote objects its proxies stand for.\<close>

record ('p, 's) js_client =
  jc_codes :: ipc_codes
  jc_client :: client_env
  jc_parcel :: "'p parcel_ops"
  jc_offset :: int32
  jc_remotes :: "nat \<Rightarrow> ('p, 's) send_request option"

definition js_call ::
    "('v, 'k, 'd, 'x) napi_module \<Rightarrow> 'k \<Rightarrow> 'v list \<Rightarrow> ('v, 'k, 'd) napi_env \<Rightarrow> nat option \<times> ('v, 'k, 'd) napi_env" where
  "js_call M k args e = nm_call M k args (e\<lparr>ne_pending := False\<rparr>)"

definition execute_work ::
    "('v, 'k, 'd, 'x) napi_module \<Rightarrow> nat \<Rightarrow> ('v, 'k, 'd) napi_env \<times> 'x \<Rightarrow> (('v, 'k, 'd) napi_env \<times> 'x) option" where
  "execute_work M i s =
     (let e = fst s; c = ne_works e ! i in
      if i < length (ne_works e) \<and> \<not> ac_executed c
      then map_option (\<lambda>(d, x). (e\<lparr>ne_works := (ne_works e)[i := c\<lparr>ac_executed := True, ac_data := d\<rparr>]\<rparr>, x))
        (nm_execute M (ac_kind c) (ac_data c) (snd s))
      else None)"

definition remove_nth :: "nat \<Rightarrow> 'a list \<Rightarrow> 'a list" where
  "remove_nth i xs = take i xs @ drop (Suc i) xs"

definition complete_work ::
    "'v napi_ops \<Rightarrow> ('v, 'k, 'd, 'x) napi_module \<Rightarrow> nat \<Rightarrow> ('v, 'k, 'd) napi_env \<times> 'x \<Rightarrow> (('v, 'k, 'd) napi_env \<times> 'x) option" where
  "complete_work N M i s =
     (let e = fst s; c = ne_works e ! i in
      if i < length (ne_works e) \<and> ac_executed c
      then (case nm_outcome M (ac_kind c) (ac_data c) of (promise, callback) \<Rightarrow>
              Some (napi_finish N c promise callback (e\<lparr>ne_works := remove_nth i (ne_works e)\<rparr>), snd s))
      else None)"

inductive napi_step ::
    "'v napi_ops \<Rightarrow> ('v, 'k, 'd, 'x) napi_module \<Rightarrow> ('v, 'k, 'd) napi_env \<times> 'x \<Rightarrow> ('v, 'k, 'd) napi_env \<times> 'x \<Rightarrow> bool"
  for N :: "'v napi_ops" and M :: "('v, 'k, 'd, 'x) napi_module" where
  called: "js_call M k args e = (r, e') \<Longrightarrow> napi_step N M (e, x) (e', x)"
| other: "napi_step N M (e, x) (e, y)"
| executed: "execute_work M i s = Some t \<Longrightarrow> napi_step N M s t"
| completed: "complete_work N M i s = Some t \<Longrightarrow> napi_step N M s t"

inductive_cases napi_stepE: "napi_step N M s t"

definition napi_reachable ::
    "'v napi_ops \<Rightarrow> ('v, 'k, 'd, 'x) napi_module \<Rightarrow> 'x \<Rightarrow> ('v, 'k, 'd) napi_env \<times> 'x \<Rightarrow> bool" where
  "napi_reachable N M x s \<longleftrightarrow> (napi_step N M)\<^sup>*\<^sup>* (napi_env_new, x) s"

section \<open>Every promise is settled once\<close>

text \<open>What a call does to the environment: it throws, or it queues one work.\<close>

definition queued_with :: "nat option \<Rightarrow> 'v option \<Rightarrow> ('v, 'k, 'd) async_context \<Rightarrow> bool" where
  "queued_with d f c \<longleftrightarrow> \<not> ac_executed c \<and> ac_deferred c = d \<and> ac_callbackRef c = f"

definition started :: "('v, 'k, 'd) napi_env \<Rightarrow> nat \<Rightarrow> ('v, 'k, 'd) napi_env \<Rightarrow> bool" where
  "started e n ev \<longleftrightarrow> ne_events ev = ne_events e @ replicate n Thrown \<and> ne_contexts ev = Suc (ne_contexts e) \<and>
     ne_promises ev = ne_promises e \<and> ne_references ev = ne_references e \<and> ne_works ev = ne_works e"

definition entered :: "('v, 'k, 'd) napi_env \<Rightarrow> nat option \<times> ('v, 'k, 'd) napi_env \<Rightarrow> bool" where
  "entered e s \<longleftrightarrow> (\<exists>n ev. started e n ev \<and>
     (n > 0 \<and> s = (None, ev) \<or>
      (\<exists>c. queued_with (Some (ne_promises e)) None c \<and>
         s = (Some (ne_promises e), ev\<lparr>ne_promises := Suc (ne_promises e), ne_works := ne_works e @ [c]\<rparr>)) \<or>
      (\<exists>c f. queued_with None (Some f) c \<and>
         s = (None, ev\<lparr>ne_references := Suc (ne_references e), ne_works := ne_works e @ [c]\<rparr>)) \<or>
      (\<exists>c. queued_with None None c \<and> s = (None, ev\<lparr>ne_works := ne_works e @ [c]\<rparr>))))"

lemma started_new: "started e 0 (new_context e)"
  by (simp add: started_def new_context_def)

lemma started_throw: "started e n ev \<Longrightarrow> started e (Suc n) (napi_throw ev)"
  by (simp add: started_def napi_throw_def replicate_append_same [symmetric])

lemma throw_enters: "started e n ev \<Longrightarrow> entered e (None, napi_throw ev)"
  unfolding entered_def by (rule exI [of _ "Suc n"], rule exI [of _ "napi_throw ev"]) (simp add: started_throw)

lemma queue_enters:
  assumes "started e n ev"
  shows "entered e (napi_queue N promise callback k d ev)"
proof -
  let ?c = "\<lparr>ac_kind = k, ac_executed = False, ac_deferred = None, ac_callbackRef = None, ac_data = d\<rparr>"
  have eq: "ne_promises ev = ne_promises e" "ne_references ev = ne_references e" "ne_works ev = ne_works e"
    using assms by (simp_all add: started_def)
  consider "promise" "napi_create_promise N (ne_pending ev)" | "\<not> promise" "callback = None"
    | f where "\<not> promise" "callback = Some f" "napi_create_reference N f"
    | "promise" "\<not> napi_create_promise N (ne_pending ev)" | f where "\<not> promise" "callback = Some f" "\<not> napi_create_reference N f"
    by (cases callback) blast+
  then show ?thesis
  proof cases
    case 1
    have "queued_with (Some (ne_promises e)) None (?c\<lparr>ac_deferred := Some (ne_promises e)\<rparr>)" by (simp add: queued_with_def)
    with assms have "entered e (Some (ne_promises e),
        ev\<lparr>ne_promises := Suc (ne_promises e), ne_works := ne_works e @ [?c\<lparr>ac_deferred := Some (ne_promises e)\<rparr>]\<rparr>)"
      unfolding entered_def by blast
    then show ?thesis using 1 eq by (simp add: napi_queue_def)
  next
    case 2
    have "queued_with None None ?c" by (simp add: queued_with_def)
    with assms have "entered e (None, ev\<lparr>ne_works := ne_works e @ [?c]\<rparr>)" unfolding entered_def by blast
    then show ?thesis using 2 eq by (simp add: napi_queue_def)
  next
    case 3
    have "queued_with None (Some f) (?c\<lparr>ac_callbackRef := Some f\<rparr>)" by (simp add: queued_with_def)
    with assms have "entered e (None,
        ev\<lparr>ne_references := Suc (ne_references e), ne_works := ne_works e @ [?c\<lparr>ac_callbackRef := Some f\<rparr>]\<rparr>)"
      unfolding entered_def by blast
    then show ?thesis using 3 eq by (simp add: napi_queue_def)
  qed (use throw_enters [OF assms] in \<open>simp_all add: napi_queue_def Let_def\<close>)
qed

lemma get_string_started:
  assumes "started e n ev"
  obtains m where "started e m (snd (NapiCommon_GetPropertyString N object k property ev))"
  using assms started_throw [OF assms] by (fastforce simp: NapiCommon_GetPropertyString_def split: option.splits)

text \<open>The promises in the queue and those that are settled, and the references that are held.\<close>

definition waiting :: "('v, 'k, 'd) async_context list \<Rightarrow> nat list" where
  "waiting ws = concat (map (\<lambda>c. case ac_deferred c of None \<Rightarrow> [] | Some d \<Rightarrow> [d]) ws)"

definition settled :: "'v js_event list \<Rightarrow> nat list" where
  "settled es = concat (map (\<lambda>v. case v of Settled (Some d) _ \<Rightarrow> [d] | _ \<Rightarrow> []) es)"

definition refs_held :: "('v, 'k, 'd) async_context list \<Rightarrow> nat" where
  "refs_held ws = length (filter (\<lambda>c. ac_callbackRef c \<noteq> None) ws)"

definition one_answer :: "('v, 'k, 'd) async_context \<Rightarrow> bool" where
  "one_answer c \<longleftrightarrow> ac_deferred c = None \<or> ac_callbackRef c = None"

definition napi_inv :: "('v, 'k, 'd) napi_env \<Rightarrow> bool" where
  "napi_inv e \<longleftrightarrow> mset (settled (ne_events e)) + mset (waiting (ne_works e)) = mset [0..<ne_promises e] \<and>
     ne_references e = refs_held (ne_works e) \<and> length (ne_works e) \<le> ne_contexts e \<and> (\<forall>c \<in> set (ne_works e). one_answer c)"

lemma waiting_simps [simp]:
  "waiting [] = []"
  "waiting (c # ws) = (case ac_deferred c of None \<Rightarrow> [] | Some d \<Rightarrow> [d]) @ waiting ws"
  "waiting (vs @ ws) = waiting vs @ waiting ws"
  by (simp_all add: waiting_def)

lemma settled_simps [simp]:
  "settled [] = []"
  "settled (v # es) = (case v of Settled (Some d) _ \<Rightarrow> [d] | _ \<Rightarrow> []) @ settled es"
  "settled (es @ fs) = settled es @ settled fs"
  by (simp_all add: settled_def)

lemma settled_thrown [simp]: "settled (replicate n Thrown) = []"
  by (induction n) auto

lemma refs_held_simps [simp]:
  "refs_held [] = 0"
  "refs_held (c # ws) = (if ac_callbackRef c = None then 0 else 1) + refs_held ws"
  "refs_held (vs @ ws) = refs_held vs + refs_held ws"
  by (simp_all add: refs_held_def)

lemma split_at: "i < length xs \<Longrightarrow> xs = take i xs @ xs ! i # drop (Suc i) xs"
  by (simp add: id_take_nth_drop)

lemma remove_nth_counts:
  assumes "i < length ws"
  shows "mset (waiting ws) = mset (waiting [ws ! i]) + mset (waiting (remove_nth i ws))"
    and "refs_held ws = refs_held [ws ! i] + refs_held (remove_nth i ws)"
    and "length ws = Suc (length (remove_nth i ws))"
    and "set (remove_nth i ws) \<subseteq> set ws"
proof -
  have e: "ws = take i ws @ ws ! i # drop (Suc i) ws" by (rule split_at [OF assms])
  have "mset (waiting ws) = mset (waiting (take i ws @ [ws ! i] @ drop (Suc i) ws))" using e by simp
  then show "mset (waiting ws) = mset (waiting [ws ! i]) + mset (waiting (remove_nth i ws))"
    unfolding remove_nth_def by simp
  have "refs_held ws = refs_held (take i ws @ [ws ! i] @ drop (Suc i) ws)" using e by simp
  then show "refs_held ws = refs_held [ws ! i] + refs_held (remove_nth i ws)"
    unfolding remove_nth_def by simp
  show "length ws = Suc (length (remove_nth i ws))" using assms by (simp add: remove_nth_def)
  show "set (remove_nth i ws) \<subseteq> set ws" unfolding remove_nth_def by (auto dest: in_set_takeD in_set_dropD)
qed

lemma update_counts:
  assumes "i < length ws" and "ac_deferred c = ac_deferred (ws ! i)" and "ac_callbackRef c = ac_callbackRef (ws ! i)"
  shows "waiting (ws[i := c]) = waiting ws" and "refs_held (ws[i := c]) = refs_held ws"
proof -
  have u: "ws[i := c] = take i ws @ [c] @ drop (Suc i) ws" using assms(1) by (simp add: upd_conv_take_nth_drop)
  have e: "ws = take i ws @ [ws ! i] @ drop (Suc i) ws" using split_at [OF assms(1)] by simp
  have "waiting (ws[i := c]) = waiting (take i ws @ [ws ! i] @ drop (Suc i) ws)" unfolding u using assms(2) by simp
  then show "waiting (ws[i := c]) = waiting ws" using e by metis
  have "refs_held (ws[i := c]) = refs_held (take i ws @ [ws ! i] @ drop (Suc i) ws)" unfolding u using assms(3) by simp
  then show "refs_held (ws[i := c]) = refs_held ws" using e by metis
qed

lemma execute_keeps:
  assumes "napi_inv (fst s)" and "execute_work M i s = Some t"
  shows "napi_inv (fst t)"
proof -
  let ?e = "fst s" and ?ws = "ne_works (fst s)"
  obtain d x where t: "i < length ?ws" "t = (?e\<lparr>ne_works := ?ws[i := (?ws ! i)\<lparr>ac_executed := True, ac_data := d\<rparr>]\<rparr>, x)"
    using assms(2) by (auto simp: execute_work_def Let_def split: if_splits)
  let ?c = "(?ws ! i)\<lparr>ac_executed := True, ac_data := d\<rparr>"
  have "one_answer ?c" using assms(1) t(1) unfolding napi_inv_def one_answer_def by simp
  then have "\<forall>c \<in> set (?ws[i := ?c]). one_answer c"
    using assms(1) set_update_subset_insert unfolding napi_inv_def by fastforce
  then show ?thesis using assms(1) update_counts [OF t(1), of ?c] unfolding napi_inv_def t(2) by simp
qed

lemma finish_effect:
  assumes "\<forall>d. napi_settle_deferred N (Some d)" and "one_answer c"
  shows "settled (ne_events (napi_finish N c p q e)) = settled (ne_events e) @ waiting [c]"
    and "ne_references (napi_finish N c p q e) = ne_references e - refs_held [c]"
    and "ne_contexts e - 1 \<le> ne_contexts (napi_finish N c p q e)"
    and "ne_works (napi_finish N c p q e) = ne_works e \<and> ne_promises (napi_finish N c p q e) = ne_promises e"
  using assms by (auto simp: napi_finish_def napi_throw_def one_answer_def split: option.splits sum.splits)

lemma complete_keeps:
  assumes "\<forall>d. napi_settle_deferred N (Some d)" and "napi_inv (fst s)" and "complete_work N M i s = Some t"
  shows "napi_inv (fst t)"
proof -
  let ?e = "fst s" and ?ws = "ne_works (fst s)"
  let ?c = "?ws ! i" and ?e' = "?e\<lparr>ne_works := remove_nth i ?ws\<rparr>"
  obtain p q where t: "i < length ?ws" "fst t = napi_finish N ?c p q ?e'"
    using assms(3) by (auto simp: complete_work_def Let_def split: if_splits prod.splits)
  note r = remove_nth_counts [OF t(1)]
  have c: "one_answer ?c" "\<forall>c \<in> set (remove_nth i ?ws). one_answer c" using assms(2) t(1) r(4) unfolding napi_inv_def by auto
  note f = finish_effect [OF assms(1) c(1), where p = p and q = q and e = ?e', folded t(2)]
  have "mset (settled (ne_events (fst t))) + mset (waiting (remove_nth i ?ws)) = mset [0..<ne_promises ?e]"
    using assms(2) r(1) f(1) unfolding napi_inv_def by (simp add: add.assoc)
  moreover have "ne_references (fst t) = refs_held (remove_nth i ?ws)" using assms(2) r(2) f(2) unfolding napi_inv_def by simp
  moreover have "length (remove_nth i ?ws) \<le> ne_contexts (fst t)" using assms(2) r(3) f(3) unfolding napi_inv_def by simp linarith
  ultimately show ?thesis using c(2) f(4) unfolding napi_inv_def by simp
qed

lemma entered_keeps:
  assumes "napi_inv e" and "entered e (r, e')"
  shows "napi_inv e'"
  using assms unfolding entered_def started_def napi_inv_def queued_with_def one_answer_def
  by (elim exE conjE disjE) simp_all

text \<open>A module whose calls enter properly keeps the invariant.\<close>

locale napi_entries =
  fixes call :: "'k \<Rightarrow> 'v list \<Rightarrow> ('v, 'k, 'd) napi_env \<Rightarrow> nat option \<times> ('v, 'k, 'd) napi_env"
  assumes call_enters: "entered e (call k args e)"
begin

lemma reachable_inv:
  assumes "nm_call M = call" and "\<forall>d. napi_settle_deferred N (Some d)" and "napi_reachable N M x s"
  shows "napi_inv (fst s)"
  using assms(3) unfolding napi_reachable_def
proof (induction rule: rtranclp_induct)
  case base
  then show ?case by (simp add: napi_inv_def napi_env_new_def)
next
  case (step s t)
  from step.hyps(2) show ?case
  proof (cases rule: napi_step.cases)
    case (called k args e r e')
    have "napi_inv (e\<lparr>ne_pending := False\<rparr>)" using step.IH called by (simp add: napi_inv_def)
    then show ?thesis
      using entered_keeps [of "e\<lparr>ne_pending := False\<rparr>" r e'] call_enters [of "e\<lparr>ne_pending := False\<rparr>" k args] called assms(1)
      by (simp add: js_call_def)
  next
    case (other e x y)
    then show ?thesis using step.IH by simp
  next
    case (executed i)
    then show ?thesis using execute_keeps step.IH by blast
  next
    case (completed i)
    then show ?thesis using complete_keeps [OF assms(2)] step.IH by blast
  qed
qed

end

section \<open>One call from its start to its answer\<close>

text \<open>A call whose work is executed and completed before any other.\<close>

definition js_run ::
    "'v napi_ops \<Rightarrow> ('v, 'k, 'd, 'x) napi_module \<Rightarrow> 'k \<Rightarrow> 'v list \<Rightarrow> ('v, 'k, 'd) napi_env \<times> 'x
     \<Rightarrow> (nat option \<times> ('v, 'k, 'd) napi_env \<times> 'x) option" where
  "js_run N M k args s =
     (let i = length (ne_works (fst s)) in
      case js_call M k args (fst s) of (r, e) \<Rightarrow>
      case execute_work M i (e, snd s) of None \<Rightarrow> None | Some t \<Rightarrow> map_option (Pair r) (complete_work N M i t))"

definition promise_answer :: "'v + 'v \<Rightarrow> ('v, 'k, 'd) napi_env \<Rightarrow> ('v, 'k, 'd) napi_env" where
  "promise_answer p e = e\<lparr>ne_pending := False, ne_promises := Suc (ne_promises e),
     ne_events := ne_events e @ [Settled (Some (ne_promises e)) p]\<rparr>"

definition callback_answer :: "'v \<Rightarrow> 'v + 'v \<Rightarrow> ('v, 'k, 'd) napi_env \<Rightarrow> ('v, 'k, 'd) napi_env" where
  "callback_answer f q e = e\<lparr>ne_pending := False,
     ne_events := ne_events e @ [case q of Inl v \<Rightarrow> Called f (Some v) None | Inr v \<Rightarrow> Called f None (Some v)]\<rparr>"

lemma remove_last [simp]: "i = length xs \<Longrightarrow> remove_nth i (xs @ [x]) = xs"
  by (simp add: remove_nth_def)

lemma js_run_promise:
  assumes "napi_laws N" and "nm_call M k args (e\<lparr>ne_pending := False\<rparr>) = napi_queue N True f k d (new_context (e\<lparr>ne_pending := False\<rparr>))"
    and "nm_execute M k d x = Some (d', y)" and "nm_outcome M k d' = (p, q)"
  shows "js_run N M k args (e, x) = Some (Some (ne_promises e), promise_answer p e, y)"
  using assms by (simp add: js_run_def js_call_def napi_queue_def new_context_def execute_work_def complete_work_def napi_finish_def
      napi_laws_def promise_answer_def)

lemma js_run_callback:
  assumes "napi_create_reference N f" and "nm_call M k args (e\<lparr>ne_pending := False\<rparr>) = napi_queue N False (Some f) k d (new_context (e\<lparr>ne_pending := False\<rparr>))"
    and "nm_execute M k d x = Some (d', y)" and "nm_outcome M k d' = (p, q)"
  shows "js_run N M k args (e, x) = Some (None, callback_answer f q e, y)"
  using assms by (simp add: js_run_def js_call_def napi_queue_def new_context_def execute_work_def complete_work_def napi_finish_def
      callback_answer_def)

lemma cb_info:
  assumes "napi_laws N" and "length args \<le> n"
  shows "napi_get_cb_info N n args = (length args, args @ replicate (n - length args) (napi_get_undefined N))"
  using assms by (simp add: napi_laws_def)

section \<open>A client that is connected\<close>

text \<open>The client has, or gets, a proxy whose remote object is \<open>send\<close>.\<close>

definition js_connected :: "('p, 's) js_client \<Rightarrow> ('p, 's) send_request \<Rightarrow> client_state \<Rightarrow> client_state \<Rightarrow> bool" where
  "js_connected J send c c' \<longleftrightarrow> (\<exists>p. client_GetProxy (jc_client J) c = (Some p, c') \<and> jc_remotes J p = Some send)"

lemma connected_call:
  assumes "js_connected J send c c'"
  shows "client_call (jc_client J) (\<lambda>p. f (jc_remotes J p)) none c s = (case f (Some send) s of (r, t) \<Rightarrow> (r, c', t))"
  using assms by (auto simp: js_connected_def client_call_def)

section \<open>A concrete N-API\<close>

text \<open>For the witnesses: values as the engine has them, with numbers that are integers.\<close>

datatype js_value = Js_undefined | Js_boolean bool | Js_number int | Js_string string | Js_array "js_value list"
  | Js_object "(string \<times> js_value) list" | Js_function nat

fun js_typeof :: "js_value \<Rightarrow> napi_valuetype" where
  "js_typeof Js_undefined = napi_undefined"
| "js_typeof (Js_boolean _) = napi_boolean"
| "js_typeof (Js_number _) = napi_number"
| "js_typeof (Js_string _) = napi_string"
| "js_typeof (Js_function _) = napi_function"
| "js_typeof _ = napi_object"

fun js_set :: "js_value \<Rightarrow> string \<Rightarrow> js_value \<Rightarrow> js_value" where
  "js_set (Js_object ps) k v = Js_object ((k, v) # ps)"
| "js_set x k v = Js_object [(k, v)]"

fun js_get :: "js_value \<Rightarrow> string \<Rightarrow> js_value option" where
  "js_get (Js_object ps) k = Some (case map_of ps k of None \<Rightarrow> Js_undefined | Some v \<Rightarrow> v)"
| "js_get Js_undefined k = None"
| "js_get _ k = Some Js_undefined"

definition js_napi :: "js_value napi_ops" where
  "js_napi = \<lparr>
     napi_get_cb_info = (\<lambda>n args. (length args, take n (args @ replicate (n - length args) Js_undefined))),
     napi_get_undefined = Js_undefined, napi_typeof = js_typeof,
     napi_create_int32 = (\<lambda>x. Js_number (sint x)), napi_create_uint32 = (\<lambda>x. Js_number (uint x)),
     napi_create_string_utf8 = Js_string, napi_create_array = Js_array, napi_create_object = Js_object [],
     napi_create_error = (\<lambda>c m. Js_object [(''code'', c), (''message'', m)]), napi_set_named_property = js_set,
     napi_get_named_property = (\<lambda>pending x k. if pending then None else js_get x k),
     napi_get_value_int32 = (\<lambda>v. case v of Js_number n \<Rightarrow> Some (word_of_int n) | _ \<Rightarrow> None),
     napi_get_value_uint32 = (\<lambda>v. case v of Js_number n \<Rightarrow> Some (word_of_int n) | _ \<Rightarrow> None),
     napi_get_value_bool = (\<lambda>v. case v of Js_boolean b \<Rightarrow> Some b | _ \<Rightarrow> None),
     napi_get_value_string_utf8 = (\<lambda>v n. case v of Js_string s \<Rightarrow> Some (take (n - 1) s) | _ \<Rightarrow> None),
     napi_create_promise = (\<lambda>pending. \<not> pending),
     napi_create_reference = (\<lambda>v. js_typeof v \<in> {napi_function, napi_object}),
     napi_settle_deferred = (\<lambda>d. d \<noteq> None)\<rparr>"

lemma js_napi_laws: "napi_laws js_napi"
proof -
  have "js_get (js_set x k v) k = Some v" "js_typeof (js_set x k v) = napi_object" for x k v by (cases x; simp)+
  moreover have "js_get (js_set x k' v) k = js_get x k" if "k' \<noteq> k" "js_typeof x = napi_object" for x k k' v
    using that by (cases x) auto
  ultimately show ?thesis by (auto simp: napi_laws_def js_napi_def)
qed

end
