(* ===== verification/Napi_Ethernet.thy ===== *)
theory Napi_Ethernet
  imports Napi_Common Ethernet_Ipc
begin

text \<open>
  The JavaScript module \<open>netmanager.ethernet\<close> (\<open>napi_ethernet.cpp\<close>): its four functions on the client
  \<open>EthernetClient\<close>. The entry of a function reads the arguments into a context, \<open>Exec\<close> calls the client on a
  worker thread, \<open>Complete\<close> makes the values for JavaScript.
\<close>

section \<open>The context\<close>

definition ETHERNET_NAME_MAX_BYTE :: nat where "ETHERNET_NAME_MAX_BYTE = 32"

record ethernet_data =
  ed_ethernetName :: string
  ed_ifActivate :: int32
  ed_ethernetNameList :: "string list"
  ed_ipMode :: int32
  ed_ipAddrInfo :: string
  ed_routeAddrInfo :: string
  ed_gateAddrInfo :: string
  ed_maskAddrInfo :: string
  ed_dns0AddrInfo :: string
  ed_dns1AddrInfo :: string
  ed_result :: int32

definition ethernet_data_new :: ethernet_data where
  "ethernet_data_new = \<lparr>ed_ethernetName = [], ed_ifActivate = 0, ed_ethernetNameList = [], ed_ipMode = 0, ed_ipAddrInfo = [],
     ed_routeAddrInfo = [], ed_gateAddrInfo = [], ed_maskAddrInfo = [], ed_dns0AddrInfo = [], ed_dns1AddrInfo = [], ed_result = 0\<rparr>"

text \<open>The functions of the module, which are also the kinds of its works.\<close>

datatype ethernet_function = Fn_setIfaceConfig | Fn_getIfaceConfig | Fn_isActivate | Fn_getActivateInterfaces

type_synonym 'v js_ethernet_env = "('v, ethernet_function, ethernet_data) napi_env"

section \<open>The entries\<close>

text \<open>The properties of the configuration are read in the mode \<open>STATIC\<close> only.\<close>

definition static_property :: "'v napi_ops \<Rightarrow> int32 \<Rightarrow> 'v \<Rightarrow> string \<Rightarrow> 'v js_ethernet_env \<Rightarrow> string \<times> 'v js_ethernet_env" where
  "static_property N mode object k e =
     (if mode = STATIC then NapiCommon_GetPropertyString N object k [] e else ([], e))"

definition NapiEthernet_SetIfaceConfig :: "'v napi_ops \<Rightarrow> 'v list \<Rightarrow> 'v js_ethernet_env \<Rightarrow> nat option \<times> 'v js_ethernet_env" where
  "NapiEthernet_SetIfaceConfig N args e =
     (case napi_get_cb_info N 4 args of (argc, argv) \<Rightarrow>
      let e = new_context e in
      case napi_get_value_string_utf8 N (argv ! 0) ETHERNET_NAME_MAX_BYTE of None \<Rightarrow> (None, napi_throw e)
      | Some name \<Rightarrow>
          (case napi_get_value_int32 N (argv ! 1) of None \<Rightarrow> (None, napi_throw e)
           | Some mode \<Rightarrow>
               let get = static_property N mode (argv ! 2);
                   (ip, e) = get ''ipAddr'' e;
                   (route, e) = get ''routeAddr'' e;
                   (gate, e) = get ''gateAddr'' e;
                   (mask, e) = get ''maskAddr'' e;
                   (dns0, e) = get ''dnsAddr0'' e;
                   (dns1, e) = get ''dnsAddr1'' e;
                   d = ethernet_data_new\<lparr>ed_ethernetName := c_str name, ed_ipMode := mode, ed_ipAddrInfo := ip,
                     ed_routeAddrInfo := route, ed_gateAddrInfo := gate, ed_maskAddrInfo := mask,
                     ed_dns0AddrInfo := dns0, ed_dns1AddrInfo := dns1\<rparr>
               in napi_queue N (argc = 2 \<or> argc = 3 \<and> mode = STATIC)
                    (if argc = 4 \<or> argc = 3 \<and> mode = DHCP then Some (argv ! (argc - 1)) else None) Fn_setIfaceConfig d e))"

definition NapiEthernet_GetIfaceConfig :: "'v napi_ops \<Rightarrow> 'v list \<Rightarrow> 'v js_ethernet_env \<Rightarrow> nat option \<times> 'v js_ethernet_env" where
  "NapiEthernet_GetIfaceConfig N args e =
     (case napi_get_cb_info N 2 args of (argc, argv) \<Rightarrow>
      let e = new_context e in
      case napi_get_value_string_utf8 N (argv ! 0) ETHERNET_NAME_MAX_BYTE of None \<Rightarrow> (None, napi_throw e)
      | Some name \<Rightarrow> napi_queue N (argc = 1) (if argc = 2 then Some (argv ! 1) else None) Fn_getIfaceConfig
          (ethernet_data_new\<lparr>ed_ethernetName := c_str name\<rparr>) e)"

definition NapiEthernet_IsActivate :: "'v napi_ops \<Rightarrow> 'v list \<Rightarrow> 'v js_ethernet_env \<Rightarrow> nat option \<times> 'v js_ethernet_env" where
  "NapiEthernet_IsActivate N args e =
     (case napi_get_cb_info N 2 args of (argc, argv) \<Rightarrow>
      let e = new_context e in
      case napi_get_value_string_utf8 N (argv ! 0) ETHERNET_NAME_MAX_BYTE of None \<Rightarrow> (None, napi_throw e)
      | Some name \<Rightarrow> napi_queue N (argc = 1) (if argc = 2 then Some (argv ! 1) else None) Fn_isActivate
          (ethernet_data_new\<lparr>ed_ethernetName := c_str name\<rparr>) e)"

definition NapiEthernet_GetActivateInterfaces :: "'v napi_ops \<Rightarrow> 'v list \<Rightarrow> 'v js_ethernet_env \<Rightarrow> nat option \<times> 'v js_ethernet_env" where
  "NapiEthernet_GetActivateInterfaces N args e =
     (case napi_get_cb_info N 1 args of (argc, argv) \<Rightarrow>
      napi_queue N (argc = 0) (if argc = 1 then Some (argv ! 0) else None) Fn_getActivateInterfaces ethernet_data_new (new_context e))"

section \<open>The work\<close>

definition with_address :: "string \<Rightarrow> INetAddr" where
  "with_address a = INetAddr_new\<lparr>ia_address := a\<rparr>"

definition js_config :: "ethernet_data \<Rightarrow> InterfaceConfiguration" where
  "js_config d = \<lparr>ic_mode = ed_ipMode d, ic_ipStatic = \<lparr>sc_ipAddr = with_address (ed_ipAddrInfo d),
     sc_route = with_address (ed_routeAddrInfo d), sc_gate = with_address (ed_gateAddrInfo d),
     sc_netMask = with_address (ed_maskAddrInfo d),
     sc_dnsServers = [with_address (ed_dns0AddrInfo d), with_address (ed_dns1AddrInfo d)], sc_domain = []\<rparr>\<rparr>"

definition NapiEthernet_ExecSetIfaceConfig ::
    "('p, 's) js_client \<Rightarrow> ethernet_data \<Rightarrow> client_state \<times> 's \<Rightarrow> (ethernet_data \<times> client_state \<times> 's) option" where
  "NapiEthernet_ExecSetIfaceConfig J d x =
     (case EthernetClient_SetIfaceConfig (jc_codes J) (jc_client J) (jc_parcel J) (jc_offset J) (jc_remotes J)
        (ed_ethernetName d) (Some (js_config d)) (fst x) (snd x) of
        (None, _) \<Rightarrow> None | (Some r, y) \<Rightarrow> Some (d\<lparr>ed_result := r\<rparr>, y))"

text \<open>Both name servers are set in every round of the loop, so the last server is in both.\<close>

definition set_servers :: "INetAddr list \<Rightarrow> ethernet_data \<Rightarrow> ethernet_data" where
  "set_servers servers d = foldl (\<lambda>d a. d\<lparr>ed_dns0AddrInfo := INetAddr_ToString [] a, ed_dns1AddrInfo := INetAddr_ToString [] a\<rparr>) d servers"

definition read_js_config :: "InterfaceConfiguration \<Rightarrow> ethernet_data \<Rightarrow> ethernet_data" where
  "read_js_config c d =
     (let sc = ic_ipStatic c in
      set_servers (sc_dnsServers sc)
        (d\<lparr>ed_ifActivate := 1, ed_ipMode := ic_mode c, ed_ipAddrInfo := INetAddr_ToString [] (sc_ipAddr sc),
          ed_routeAddrInfo := INetAddr_ToString [] (sc_route sc), ed_gateAddrInfo := INetAddr_ToString [] (sc_gate sc),
          ed_maskAddrInfo := INetAddr_ToString [] (sc_netMask sc)\<rparr>))"

definition NapiEthernet_ExecGetIfaceConfig ::
    "('p, 's) js_client \<Rightarrow> ethernet_data \<Rightarrow> client_state \<times> 's \<Rightarrow> (ethernet_data \<times> client_state \<times> 's) option" where
  "NapiEthernet_ExecGetIfaceConfig J d x =
     (case EthernetClient_GetIfaceConfig (jc_client J) (jc_parcel J) (jc_remotes J) (ed_ethernetName d) (fst x) (snd x) of
        (Some c, y) \<Rightarrow> Some (read_js_config c d, y) | (None, y) \<Rightarrow> Some (d\<lparr>ed_ifActivate := - 1\<rparr>, y))"

definition NapiEthernet_ExecIsActivate ::
    "('p, 's) js_client \<Rightarrow> ethernet_data \<Rightarrow> client_state \<times> 's \<Rightarrow> (ethernet_data \<times> client_state \<times> 's) option" where
  "NapiEthernet_ExecIsActivate J d x =
     (case EthernetClient_IsActivate (jc_codes J) (jc_client J) (jc_parcel J) (jc_offset J) (jc_remotes J) (ed_ethernetName d) (fst x) (snd x) of
        (r, y) \<Rightarrow> Some (d\<lparr>ed_ifActivate := r\<rparr>, y))"

definition NapiEthernet_ExecGetActivateInterfaces ::
    "('p, 's) js_client \<Rightarrow> ethernet_data \<Rightarrow> client_state \<times> 's \<Rightarrow> (ethernet_data \<times> client_state \<times> 's) option" where
  "NapiEthernet_ExecGetActivateInterfaces J d x =
     (case EthernetClient_GetActivateInterfaces (jc_client J) (jc_parcel J) (jc_remotes J) (fst x) (snd x) of
        (r, y) \<Rightarrow> Some (d\<lparr>ed_ethernetNameList := r\<rparr>, y))"

section \<open>The outcome\<close>

definition NapiEthernet_CompleteSetIfaceConfig :: "'v napi_ops \<Rightarrow> ethernet_data \<Rightarrow> 'v outcomes" where
  "NapiEthernet_CompleteSetIfaceConfig N d =
     (let info = napi_create_int32 N (ed_result d)
      in (if ed_result d \<noteq> 0 then Inl info else Inr info, if ed_result d \<noteq> 0 then Inl info else Inr info))"

text \<open>The promise tests for \<open>-1\<close>, the callback for \<open>0\<close>.\<close>

definition NapiEthernet_CompleteGetIfaceConfig :: "'v napi_ops \<Rightarrow> ethernet_data \<Rightarrow> 'v outcomes" where
  "NapiEthernet_CompleteGetIfaceConfig N d =
     (let info = napi_create_object N;
          infoFail = napi_create_string_utf8 N ''fail'';
          info = NapiCommon_SetPropertyInt32 N ''mode'' (ed_ipMode d) info;
          info = NapiCommon_SetPropertyString N ''ipAddr'' (ed_ipAddrInfo d) info;
          info = NapiCommon_SetPropertyString N ''routeAddr'' (ed_routeAddrInfo d) info;
          info = NapiCommon_SetPropertyString N ''gateAddr'' (ed_gateAddrInfo d) info;
          info = NapiCommon_SetPropertyString N ''maskAddr'' (ed_maskAddrInfo d) info;
          info = NapiCommon_SetPropertyString N ''dns0Addr'' (ed_dns0AddrInfo d) info;
          info = NapiCommon_SetPropertyString N ''dns1Addr'' (ed_dns1AddrInfo d) info
      in (if ed_ifActivate d = - 1 then Inl infoFail else Inr info, if ed_ifActivate d = 0 then Inl infoFail else Inr info))"

definition NapiEthernet_CompleteIsActivate :: "'v napi_ops \<Rightarrow> ethernet_data \<Rightarrow> 'v outcomes" where
  "NapiEthernet_CompleteIsActivate N d =
     (let info = napi_create_int32 N (ed_ifActivate d)
      in (if ed_ifActivate d = - 1 then Inl info else Inr info, if ed_ifActivate d = - 1 then Inl info else Inr info))"

definition NapiEthernet_CompleteGetActivateInterfaces :: "'v napi_ops \<Rightarrow> ethernet_data \<Rightarrow> 'v outcomes" where
  "NapiEthernet_CompleteGetActivateInterfaces N d =
     (let infoAttay = napi_create_array N (map (\<lambda>name. napi_create_string_utf8 N (c_str name)) (ed_ethernetNameList d)) in (Inr infoAttay, Inr infoAttay))"

section \<open>The module\<close>

definition NapiEthernet_DeclareEthernetInterface :: "(string \<times> ethernet_function) list" where
  "NapiEthernet_DeclareEthernetInterface =
     [(''setIfaceConfig'', Fn_setIfaceConfig), (''getIfaceConfig'', Fn_getIfaceConfig), (''isActivate'', Fn_isActivate),
      (''getActivateInterfaces'', Fn_getActivateInterfaces)]"

definition NapiEthernet_DeclareEthernetData :: "'v napi_ops \<Rightarrow> (string \<times> 'v) list" where
  "NapiEthernet_DeclareEthernetData N =
     [(''STATIC'', NapiCommon_NapiValueByInt32 N STATIC), (''DHCP'', NapiCommon_NapiValueByInt32 N DHCP)]"

fun NapiEthernet_call :: "'v napi_ops \<Rightarrow> ethernet_function \<Rightarrow> 'v list \<Rightarrow> 'v js_ethernet_env \<Rightarrow> nat option \<times> 'v js_ethernet_env" where
  "NapiEthernet_call N Fn_setIfaceConfig = NapiEthernet_SetIfaceConfig N"
| "NapiEthernet_call N Fn_getIfaceConfig = NapiEthernet_GetIfaceConfig N"
| "NapiEthernet_call N Fn_isActivate = NapiEthernet_IsActivate N"
| "NapiEthernet_call N Fn_getActivateInterfaces = NapiEthernet_GetActivateInterfaces N"

fun NapiEthernet_execute ::
    "('p, 's) js_client \<Rightarrow> ethernet_function \<Rightarrow> ethernet_data \<Rightarrow> client_state \<times> 's \<Rightarrow> (ethernet_data \<times> client_state \<times> 's) option" where
  "NapiEthernet_execute J Fn_setIfaceConfig = NapiEthernet_ExecSetIfaceConfig J"
| "NapiEthernet_execute J Fn_getIfaceConfig = NapiEthernet_ExecGetIfaceConfig J"
| "NapiEthernet_execute J Fn_isActivate = NapiEthernet_ExecIsActivate J"
| "NapiEthernet_execute J Fn_getActivateInterfaces = NapiEthernet_ExecGetActivateInterfaces J"

fun NapiEthernet_outcome :: "'v napi_ops \<Rightarrow> ethernet_function \<Rightarrow> ethernet_data \<Rightarrow> 'v outcomes" where
  "NapiEthernet_outcome N Fn_setIfaceConfig = NapiEthernet_CompleteSetIfaceConfig N"
| "NapiEthernet_outcome N Fn_getIfaceConfig = NapiEthernet_CompleteGetIfaceConfig N"
| "NapiEthernet_outcome N Fn_isActivate = NapiEthernet_CompleteIsActivate N"
| "NapiEthernet_outcome N Fn_getActivateInterfaces = NapiEthernet_CompleteGetActivateInterfaces N"

definition ethernetModule ::
    "'v napi_ops \<Rightarrow> ('p, 's) js_client \<Rightarrow> ('v, ethernet_function, ethernet_data, client_state \<times> 's) napi_module" where
  "ethernetModule N J = \<lparr>nm_call = NapiEthernet_call N, nm_execute = NapiEthernet_execute J, nm_outcome = NapiEthernet_outcome N\<rparr>"

lemma static_property_enters:
  assumes "started e n ev" and "\<And>x ev' m. started e m ev' \<Longrightarrow> entered e (f x ev')"
  shows "entered e (case static_property N mode object k ev of (x, ev') \<Rightarrow> f x ev')"
proof -
  have "\<exists>m. started e m (snd (static_property N mode object k ev))"
  proof (cases "mode = STATIC")
    case True
    obtain m where "started e m (snd (NapiCommon_GetPropertyString N object k [] ev))" by (rule get_string_started [OF assms(1)])
    then show ?thesis using True by (auto simp: static_property_def)
  qed (use assms(1) in \<open>auto simp: static_property_def\<close>)
  then obtain m where "started e m (snd (static_property N mode object k ev))" ..
  then show ?thesis using assms(2) by (simp add: split_def)
qed

lemma SetIfaceConfig_enters: "entered e (NapiEthernet_SetIfaceConfig N args e)"
proof -
  obtain argc argv where a: "napi_get_cb_info N 4 args = (argc, argv)" by fastforce
  note r = static_property_enters queue_enters throw_enters [OF started_new]
  show ?thesis
  proof (cases "napi_get_value_string_utf8 N (argv ! 0) ETHERNET_NAME_MAX_BYTE")
    case None
    then show ?thesis using r(3) by (simp add: NapiEthernet_SetIfaceConfig_def a)
  next
    case (Some name)
    show ?thesis
    proof (cases "napi_get_value_int32 N (argv ! 1)")
      case None
      then show ?thesis using r(3) Some by (simp add: NapiEthernet_SetIfaceConfig_def a)
    next
      case mode: (Some mode)
      show ?thesis unfolding NapiEthernet_SetIfaceConfig_def a Let_def prod.case Some option.case mode
        by (rule r(1) [OF started_new], (erule r(1))+, erule r(2))
    qed
  qed
qed

interpretation ethernet_entries: napi_entries "NapiEthernet_call N" for N :: "'v napi_ops"
proof unfold_locales
  fix e :: "'v js_ethernet_env" and k args
  note enter = queue_enters throw_enters started_new
  show "entered e (NapiEthernet_call N k args e)"
    by (cases k) (auto simp: SetIfaceConfig_enters NapiEthernet_GetIfaceConfig_def NapiEthernet_IsActivate_def NapiEthernet_GetActivateInterfaces_def Let_def
      intro: enter split: prod.splits option.splits)
qed

end
