(* ===== verification/Napi_Net_Policy.thy ===== *)
theory Napi_Net_Policy
  imports Napi_Common Net_Policy_Ipc
begin

text \<open>
  The JavaScript module \<open>netmanager.netpolicy\<close> (\<open>napi_net_policy.cpp\<close>): its four functions on the client
  \<open>NetPolicyClient\<close>, and the constants it declares.
\<close>

section \<open>The context\<close>

record policy_data =
  pn_uid :: uint32
  pn_policy :: uint32
  pn_policyResult :: int32
  pn_uidTogether :: "uint32 list"
  pn_result :: bool
  pn_metered :: bool
  pn_interfaceName :: string

definition policy_data_new :: policy_data where
  "policy_data_new = \<lparr>pn_uid = 0, pn_policy = 0, pn_policyResult = 0, pn_uidTogether = [], pn_result = False, pn_metered = False,
     pn_interfaceName = []\<rparr>"

datatype policy_function = Fn_setUidPolicy | Fn_getUidPolicy | Fn_getUids | Fn_isUidNetAccess

type_synonym 'v js_policy_env = "('v, policy_function, policy_data) napi_env"

section \<open>The entries\<close>

definition NapiNetPolicy_SetUidPolicy :: "'v napi_ops \<Rightarrow> 'v list \<Rightarrow> 'v js_policy_env \<Rightarrow> nat option \<times> 'v js_policy_env" where
  "NapiNetPolicy_SetUidPolicy N args e =
     (case napi_get_cb_info N 3 args of (argc, argv) \<Rightarrow>
      let e = new_context e in
      case napi_get_value_uint32 N (argv ! 0) of None \<Rightarrow> (None, napi_throw e)
      | Some uid \<Rightarrow>
          (case napi_get_value_uint32 N (argv ! 1) of None \<Rightarrow> (None, napi_throw e)
           | Some policy \<Rightarrow> napi_queue N (argc = 2) (if argc = 3 then Some (argv ! 2) else None) Fn_setUidPolicy
               (policy_data_new\<lparr>pn_uid := uid, pn_policy := policy\<rparr>) e))"

definition NapiNetPolicy_GetUidPolicy :: "'v napi_ops \<Rightarrow> 'v list \<Rightarrow> 'v js_policy_env \<Rightarrow> nat option \<times> 'v js_policy_env" where
  "NapiNetPolicy_GetUidPolicy N args e =
     (case napi_get_cb_info N 2 args of (argc, argv) \<Rightarrow>
      let e = new_context e in
      case napi_get_value_uint32 N (argv ! 0) of None \<Rightarrow> (None, napi_throw e)
      | Some uid \<Rightarrow> napi_queue N (argc = 1) (if argc = 2 then Some (argv ! 1) else None) Fn_getUidPolicy
          (policy_data_new\<lparr>pn_uid := uid\<rparr>) e)"

definition NapiNetPolicy_GetUids :: "'v napi_ops \<Rightarrow> 'v list \<Rightarrow> 'v js_policy_env \<Rightarrow> nat option \<times> 'v js_policy_env" where
  "NapiNetPolicy_GetUids N args e =
     (case napi_get_cb_info N 2 args of (argc, argv) \<Rightarrow>
      let e = new_context e in
      case napi_get_value_uint32 N (argv ! 0) of None \<Rightarrow> (None, napi_throw e)
      | Some policy \<Rightarrow> napi_queue N (argc = 1) (if argc = 2 then Some (argv ! 1) else None) Fn_getUids
          (policy_data_new\<lparr>pn_policy := policy\<rparr>) e)"

text \<open>
  The second argument is a boolean or a string; the result of reading the string is not tested, and the
  buffer is empty when it fails.
\<close>

definition NapiNetPolicy_IsUidNetAccess :: "'v napi_ops \<Rightarrow> 'v list \<Rightarrow> 'v js_policy_env \<Rightarrow> nat option \<times> 'v js_policy_env" where
  "NapiNetPolicy_IsUidNetAccess N args e =
     (case napi_get_cb_info N 3 args of (argc, argv) \<Rightarrow>
      let e = new_context e in
      case napi_get_value_uint32 N (argv ! 0) of None \<Rightarrow> (None, napi_throw e)
      | Some uid \<Rightarrow>
          let valueType = napi_typeof N (argv ! 1); d = policy_data_new\<lparr>pn_uid := uid\<rparr>;
              call = (\<lambda>d. napi_queue N (argc = 2) (if argc = 3 then Some (argv ! 2) else None) Fn_isUidNetAccess d e)
          in if valueType = napi_boolean then
               (case napi_get_value_bool N (argv ! 1) of None \<Rightarrow> (None, napi_throw e)
                | Some metered \<Rightarrow> call (d\<lparr>pn_metered := metered\<rparr>))
             else if valueType = napi_string then
               call (d\<lparr>pn_interfaceName := (case napi_get_value_string_utf8 N (argv ! 1) BUFFER_BYTE of None \<Rightarrow> [] | Some s \<Rightarrow> c_str s)\<rparr>)
             else call d)"

section \<open>The work\<close>

definition NapiNetPolicy_ExecSetUidPolicy ::
    "('p, 'f policy_state) js_client \<Rightarrow> policy_data \<Rightarrow> client_state \<times> 'f policy_state \<Rightarrow> policy_data \<times> client_state \<times> 'f policy_state" where
  "NapiNetPolicy_ExecSetUidPolicy J d x =
     (case NetPolicyClient_SetUidPolicy (jc_client J) (jc_parcel J) (jc_remotes J) (pn_uid d) (pn_policy d) (fst x) (snd x) of
        (r, y) \<Rightarrow> (d\<lparr>pn_policyResult := r\<rparr>, y))"

definition NapiNetPolicy_ExecGetUids ::
    "('p, 'f policy_state) js_client \<Rightarrow> policy_data \<Rightarrow> client_state \<times> 'f policy_state \<Rightarrow> policy_data \<times> client_state \<times> 'f policy_state" where
  "NapiNetPolicy_ExecGetUids J d x =
     (case NetPolicyClient_GetUids (jc_client J) (jc_parcel J) (jc_remotes J) (pn_policy d) (fst x) (snd x) of
        (r, y) \<Rightarrow> (d\<lparr>pn_uidTogether := r\<rparr>, y))"

definition NapiNetPolicy_ExecGetUidPolicy ::
    "('p, 'f policy_state) js_client \<Rightarrow> policy_data \<Rightarrow> client_state \<times> 'f policy_state \<Rightarrow> policy_data \<times> client_state \<times> 'f policy_state" where
  "NapiNetPolicy_ExecGetUidPolicy J d x =
     (case NetPolicyClient_GetUidPolicy (jc_client J) (jc_parcel J) (jc_remotes J) (pn_uid d) (fst x) (snd x) of
        (r, y) \<Rightarrow> (d\<lparr>pn_policyResult := r\<rparr>, y))"

definition NapiNetPolicy_ExecIsUidNetAccess ::
    "('p, 'f policy_state) js_client \<Rightarrow> policy_data \<Rightarrow> client_state \<times> 'f policy_state \<Rightarrow> policy_data \<times> client_state \<times> 'f policy_state" where
  "NapiNetPolicy_ExecIsUidNetAccess J d x =
     (if length (pn_interfaceName d) > 0 then
        (case NetPolicyClient_IsUidNetAccess_iface (jc_client J) (jc_parcel J) (jc_remotes J) (pn_uid d) (pn_interfaceName d) (fst x) (snd x) of
           (r, y) \<Rightarrow> (d\<lparr>pn_result := r\<rparr>, y))
      else
        (case NetPolicyClient_IsUidNetAccess_metered (jc_client J) (jc_parcel J) (jc_remotes J) (pn_uid d) (pn_metered d) (fst x) (snd x) of
           (r, y) \<Rightarrow> (d\<lparr>pn_result := r\<rparr>, y)))"

section \<open>The outcome\<close>

definition NapiNetPolicy_CompleteSetUidPolicy :: "'v napi_ops \<Rightarrow> policy_data \<Rightarrow> 'v outcomes" where
  "NapiNetPolicy_CompleteSetUidPolicy N d =
     (let info = napi_create_int32 N (pn_policyResult d); failed = pn_policyResult d \<noteq> NetPolicyResultCode_val POLICY_ERR_NONE
      in (if failed then Inl info else Inr info, if failed then Inl info else Inr info))"

definition NapiNetPolicy_CompleteGetUids :: "'v napi_ops \<Rightarrow> policy_data \<Rightarrow> 'v outcomes" where
  "NapiNetPolicy_CompleteGetUids N d =
     (let info = napi_create_array N (map (napi_create_uint32 N) (pn_uidTogether d)) in (Inr info, Inr info))"

definition NapiNetPolicy_CompleteGetUidPolicy :: "'v napi_ops \<Rightarrow> policy_data \<Rightarrow> 'v outcomes" where
  "NapiNetPolicy_CompleteGetUidPolicy N d = (let info = napi_create_int32 N (pn_policyResult d) in (Inr info, Inr info))"

text \<open>The boolean becomes a number, and a refusal is an error.\<close>

definition NapiNetPolicy_CompleteIsUidNetAccess :: "'v napi_ops \<Rightarrow> policy_data \<Rightarrow> 'v outcomes" where
  "NapiNetPolicy_CompleteIsUidNetAccess N d =
     (let info = napi_create_int32 N (if pn_result d then 1 else 0)
      in (if \<not> pn_result d then Inl info else Inr info, if \<not> pn_result d then Inl info else Inr info))"

section \<open>The module\<close>

definition NapiNetPolicy_DeclareNapiNetPolicyData :: "'v napi_ops \<Rightarrow> (string \<times> 'v) list" where
  "NapiNetPolicy_DeclareNapiNetPolicyData N =
     [(''NET_POLICY_NONE'', NapiCommon_NapiValueByInt32 N NET_POLICY_NONE),
      (''NET_POLICY_ALLOW_METERED_BACKGROUND'', NapiCommon_NapiValueByInt32 N NET_POLICY_ALLOW_METERED_BACKGROUND),
      (''NET_POLICY_TEMPORARY_ALLOW_METERED'', NapiCommon_NapiValueByInt32 N NET_POLICY_TEMPORARY_ALLOW_METERED),
      (''NET_POLICY_REJECT_METERED_BACKGROUND'', NapiCommon_NapiValueByInt32 N NET_POLICY_REJECT_METERED_BACKGROUND),
      (''NET_POLICY_ALLOW_ALL'', NapiCommon_NapiValueByInt32 N NET_POLICY_ALLOW_ALL),
      (''NET_POLICY_REJECT_ALL'', NapiCommon_NapiValueByInt32 N NET_POLICY_REJECT_ALL)]"

definition NapiNetPolicy_DeclareNapiNetPolicyResultData :: "'v napi_ops \<Rightarrow> (string \<times> 'v) list" where
  "NapiNetPolicy_DeclareNapiNetPolicyResultData N =
     [(''ERR_NONE'', NapiCommon_NapiValueByInt32 N (NetPolicyResultCode_val POLICY_ERR_NONE)),
      (''ERR_INTERNAL_ERROR'', NapiCommon_NapiValueByInt32 N (NetPolicyResultCode_val ERR_INTERNAL_ERROR)),
      (''ERR_INVALID_UID'', NapiCommon_NapiValueByInt32 N (NetPolicyResultCode_val ERR_INVALID_UID)),
      (''ERR_INVALID_POLICY'', NapiCommon_NapiValueByInt32 N (NetPolicyResultCode_val ERR_INVALID_POLICY))]"

definition NapiNetPolicy_DeclareNapiNetPolicyInterface :: "(string \<times> policy_function) list" where
  "NapiNetPolicy_DeclareNapiNetPolicyInterface =
     [(''setUidPolicy'', Fn_setUidPolicy), (''getUidPolicy'', Fn_getUidPolicy), (''getUids'', Fn_getUids),
      (''isUidNetAccess'', Fn_isUidNetAccess)]"

fun NapiNetPolicy_call :: "'v napi_ops \<Rightarrow> policy_function \<Rightarrow> 'v list \<Rightarrow> 'v js_policy_env \<Rightarrow> nat option \<times> 'v js_policy_env" where
  "NapiNetPolicy_call N Fn_setUidPolicy = NapiNetPolicy_SetUidPolicy N"
| "NapiNetPolicy_call N Fn_getUidPolicy = NapiNetPolicy_GetUidPolicy N"
| "NapiNetPolicy_call N Fn_getUids = NapiNetPolicy_GetUids N"
| "NapiNetPolicy_call N Fn_isUidNetAccess = NapiNetPolicy_IsUidNetAccess N"

fun NapiNetPolicy_execute ::
    "('p, 'f policy_state) js_client \<Rightarrow> policy_function \<Rightarrow> policy_data \<Rightarrow> client_state \<times> 'f policy_state
     \<Rightarrow> policy_data \<times> client_state \<times> 'f policy_state" where
  "NapiNetPolicy_execute J Fn_setUidPolicy = NapiNetPolicy_ExecSetUidPolicy J"
| "NapiNetPolicy_execute J Fn_getUidPolicy = NapiNetPolicy_ExecGetUidPolicy J"
| "NapiNetPolicy_execute J Fn_getUids = NapiNetPolicy_ExecGetUids J"
| "NapiNetPolicy_execute J Fn_isUidNetAccess = NapiNetPolicy_ExecIsUidNetAccess J"

fun NapiNetPolicy_outcome :: "'v napi_ops \<Rightarrow> policy_function \<Rightarrow> policy_data \<Rightarrow> 'v outcomes" where
  "NapiNetPolicy_outcome N Fn_setUidPolicy = NapiNetPolicy_CompleteSetUidPolicy N"
| "NapiNetPolicy_outcome N Fn_getUidPolicy = NapiNetPolicy_CompleteGetUidPolicy N"
| "NapiNetPolicy_outcome N Fn_getUids = NapiNetPolicy_CompleteGetUids N"
| "NapiNetPolicy_outcome N Fn_isUidNetAccess = NapiNetPolicy_CompleteIsUidNetAccess N"

definition netPolicyModule ::
    "'v napi_ops \<Rightarrow> ('p, 'f policy_state) js_client \<Rightarrow> ('v, policy_function, policy_data, client_state \<times> 'f policy_state) napi_module" where
  "netPolicyModule N J = \<lparr>nm_call = NapiNetPolicy_call N, nm_execute = (\<lambda>k d x. Some (NapiNetPolicy_execute J k d x)),
     nm_outcome = NapiNetPolicy_outcome N\<rparr>"

interpretation policy_entries: napi_entries "NapiNetPolicy_call N" for N :: "'v napi_ops"
proof unfold_locales
  fix e :: "'v js_policy_env" and k args
  note enter = queue_enters throw_enters started_new
  show "entered e (NapiNetPolicy_call N k args e)"
    by (cases k) (auto simp: NapiNetPolicy_SetUidPolicy_def NapiNetPolicy_GetUidPolicy_def NapiNetPolicy_GetUids_def
      NapiNetPolicy_IsUidNetAccess_def Let_def intro: enter split: prod.splits option.splits)
qed

end
