(* ===== verification/Napi_Dns.thy ===== *)
theory Napi_Dns
  imports Napi_Common Dns_Ipc
begin

text \<open>
  The JavaScript module \<open>netmanager.dnsresolver\<close> (\<open>napi_dns_resolver.cpp\<close>): its function
  \<open>getAddressesByName\<close> on the client \<open>DnsResolverClient\<close>.
\<close>

definition HOST_MAX_BYTES :: nat where "HOST_MAX_BYTES = 256"

record dns_data =
  dd_host :: string
  dd_hostAddress :: "string list"

datatype dns_function = Fn_getAddressesByName

type_synonym 'v js_dns_env = "('v, dns_function, dns_data) napi_env"

definition NapiDnsResolver_GetAddressesByName :: "'v napi_ops \<Rightarrow> 'v list \<Rightarrow> 'v js_dns_env \<Rightarrow> nat option \<times> 'v js_dns_env" where
  "NapiDnsResolver_GetAddressesByName N args e =
     (case napi_get_cb_info N 2 args of (argc, argv) \<Rightarrow>
      let e = new_context e in
      case napi_get_value_string_utf8 N (argv ! 0) HOST_MAX_BYTES of None \<Rightarrow> (None, napi_throw e)
      | Some host \<Rightarrow> napi_queue N (argc = 1) (if argc = 2 then Some (argv ! 1) else None) Fn_getAddressesByName
          \<lparr>dd_host = c_str host, dd_hostAddress = []\<rparr> e)"

text \<open>The result of the client is not used, only the addresses.\<close>

definition NapiDnsResolver_ExecDnsResolverCallback ::
    "('p, 's) js_client \<Rightarrow> dns_data \<Rightarrow> client_state \<times> 's \<Rightarrow> (dns_data \<times> client_state \<times> 's) option" where
  "NapiDnsResolver_ExecDnsResolverCallback J d x =
     (case DnsResolverClient_GetAddressesByName (jc_codes J) (jc_client J) (jc_parcel J) (jc_offset J) (jc_remotes J)
        (dd_host d) [] (fst x) (snd x) of
        (None, _) \<Rightarrow> None
      | (Some (_, addrInfo), y) \<Rightarrow> Some (d\<lparr>dd_hostAddress := dd_hostAddress d @ map (INetAddr_ToString []) addrInfo\<rparr>, y))"

text \<open>\<open>info\<close> is ''fail'' before the loop and the last address after it, and is used when there is none.\<close>

definition NapiDnsResolver_CompleteDnsResolverCallback :: "'v napi_ops \<Rightarrow> dns_data \<Rightarrow> 'v outcomes" where
  "NapiDnsResolver_CompleteDnsResolverCallback N d =
     (let infos = map (\<lambda>a. napi_create_string_utf8 N (c_str a)) (dd_hostAddress d);
          info = last (napi_create_string_utf8 N ''fail'' # infos);
          infoAttay = napi_create_array N infos;
          found = length (dd_hostAddress d) > 0
      in (if found then Inr infoAttay else Inl info, if found then Inr infoAttay else Inl info))"

definition NapiDnsResolver_DeclareNapiDnsResolverInterface :: "(string \<times> dns_function) list" where
  "NapiDnsResolver_DeclareNapiDnsResolverInterface = [(''getAddressesByName'', Fn_getAddressesByName)]"

definition dnsResolverModule ::
    "'v napi_ops \<Rightarrow> ('p, 's) js_client \<Rightarrow> ('v, dns_function, dns_data, client_state \<times> 's) napi_module" where
  "dnsResolverModule N J = \<lparr>nm_call = (\<lambda>_. NapiDnsResolver_GetAddressesByName N),
     nm_execute = (\<lambda>_. NapiDnsResolver_ExecDnsResolverCallback J), nm_outcome = (\<lambda>_. NapiDnsResolver_CompleteDnsResolverCallback N)\<rparr>"

interpretation dns_entries: napi_entries "\<lambda>_. NapiDnsResolver_GetAddressesByName N" for N :: "'v napi_ops"
proof unfold_locales
  fix e :: "'v js_dns_env" and k :: dns_function and args
  note enter = queue_enters throw_enters started_new
  show "entered e (NapiDnsResolver_GetAddressesByName N args e)"
    by (auto simp: NapiDnsResolver_GetAddressesByName_def Let_def intro: enter split: prod.splits option.splits)
qed

end
