(* ===== verification/Napi_Properties.thy ===== *)
theory Napi_Properties
  imports Napi_Ethernet Napi_Net_Policy Napi_Dns Ethernet_Properties Net_Policy_Properties
begin

text \<open>
  What holds of the JavaScript modules: every promise is settled at most once and no reference to a
  callback is lost, whatever the order of the works; and what each function answers, from the arguments
  through client, proxy and stub to the service and back.
\<close>

section \<open>Promises and references\<close>

definition answers_once :: "('v, 'k, 'd) napi_env \<Rightarrow> bool" where
  "answers_once e \<longleftrightarrow> distinct (settled (ne_events e) @ waiting (ne_works e)) \<and>
     set (settled (ne_events e) @ waiting (ne_works e)) = {..<ne_promises e} \<and> ne_references e = refs_held (ne_works e)"

lemma inv_answers_once: "napi_inv e \<Longrightarrow> answers_once e"
proof -
  assume i: "napi_inv e"
  then have "mset (settled (ne_events e) @ waiting (ne_works e)) = mset [0..<ne_promises e]" by (simp add: napi_inv_def)
  then have "distinct (settled (ne_events e) @ waiting (ne_works e)) = distinct [0..<ne_promises e]"
      "set (settled (ne_events e) @ waiting (ne_works e)) = set [0..<ne_promises e]"
    by (rule mset_eq_imp_distinct_iff, rule mset_eq_setD)
  then show ?thesis using i by (auto simp: answers_once_def napi_inv_def)
qed

text \<open>
  C17. In every reachable state of the three modules, with works executed and completed in any order and
  other users of the services in between: each promise that a call returned is either settled, once, or
  waits in exactly one work of the queue; and the references that are held are those of the callbacks in
  the queue.
\<close>

theorem promises_settled_once:
  assumes "\<forall>d. napi_settle_deferred N (Some d)"
  shows "(napi_reachable N (ethernetModule N J) x (e, y) \<longrightarrow> answers_once e) \<and>
    (napi_reachable N (netPolicyModule N K) x' (e', y') \<longrightarrow> answers_once e') \<and>
    (napi_reachable N (dnsResolverModule N L) x'' (e'', y'') \<longrightarrow> answers_once e'')"
proof (intro conjI impI)
  show "answers_once e" if "napi_reachable N (ethernetModule N J) x (e, y)"
    using ethernet_entries.reachable_inv [OF _ assms that] by (simp add: ethernetModule_def inv_answers_once)
  show "answers_once e'" if "napi_reachable N (netPolicyModule N K) x' (e', y')"
    using policy_entries.reachable_inv [OF _ assms that] by (simp add: netPolicyModule_def inv_answers_once)
  show "answers_once e''" if "napi_reachable N (dnsResolverModule N L) x'' (e'', y'')"
    using dns_entries.reachable_inv [OF _ assms that] by (simp add: dnsResolverModule_def inv_answers_once)
qed

section \<open>netmanager.ethernet\<close>

lemma ethernet_client_calls:
  assumes "js_connected J send c c'"
  shows "EthernetClient_SetIfaceConfig (jc_codes J) (jc_client J) P off (jc_remotes J) iface ic c s =
      (case EthernetServiceProxy_SetIfaceConfig P off (Some send) iface ic s of (r, t) \<Rightarrow> (r, c', t))"
    and "EthernetClient_GetIfaceConfig (jc_client J) P (jc_remotes J) iface c s =
      (case EthernetServiceProxy_GetIfaceConfig P (Some send) iface s of (r, t) \<Rightarrow> (r, c', t))"
  unfolding EthernetClient_SetIfaceConfig_def EthernetClient_GetIfaceConfig_def
  using connected_call [OF assms, of "\<lambda>r. EthernetServiceProxy_SetIfaceConfig P off r iface ic"]
    connected_call [OF assms, of "\<lambda>r. EthernetServiceProxy_GetIfaceConfig P r iface"] by simp_all

definition static_config :: "(string \<Rightarrow> string) \<Rightarrow> InterfaceConfiguration" where
  "static_config val = \<lparr>ic_mode = STATIC, ic_ipStatic = \<lparr>sc_ipAddr = with_address (val ''ipAddr''),
     sc_route = with_address (val ''routeAddr''), sc_gate = with_address (val ''gateAddr''),
     sc_netMask = with_address (val ''maskAddr''),
     sc_dnsServers = [with_address (val ''dnsAddr0''), with_address (val ''dnsAddr1'')], sc_domain = []\<rparr>\<rparr>"

lemma get_string_read:
  assumes "napi_get_named_property N False object k = Some v" and "napi_get_value_string_utf8 N v PROPERTY_MAX_BYTE = Some x" and "\<not> ne_pending e"
  shows "static_property N STATIC object k e = (c_str x, e)"
  using assms by (simp add: static_property_def NapiCommon_GetPropertyString_def)

lemma STATIC_not_DHCP: "STATIC \<noteq> DHCP"
  by (simp add: STATIC_def DHCP_def)


text \<open>The properties of the object \<open>getIfaceConfig\<close> answers with.\<close>

definition has_config :: "'v napi_ops \<Rightarrow> 'v \<Rightarrow> int32 \<Rightarrow> string list \<Rightarrow> bool" where
  "has_config N ob mode addrs \<longleftrightarrow> napi_get_named_property N False ob ''mode'' = Some (napi_create_int32 N mode) \<and>
     (\<forall>(k, a) \<in> set (zip [''ipAddr'', ''routeAddr'', ''gateAddr'', ''maskAddr'', ''dns0Addr'', ''dns1Addr''] addrs).
        napi_get_named_property N False ob k = Some (napi_create_string_utf8 N a))"

lemma config_object:
  assumes "napi_laws N"
  shows "\<exists>ob. has_config N ob (ed_ipMode d) [ed_ipAddrInfo d, ed_routeAddrInfo d, ed_gateAddrInfo d, ed_maskAddrInfo d,
      ed_dns0AddrInfo d, ed_dns1AddrInfo d] \<and>
    NapiEthernet_CompleteGetIfaceConfig N d =
      (if ed_ifActivate d = - 1 then Inl (napi_create_string_utf8 N ''fail'') else Inr ob,
       if ed_ifActivate d = 0 then Inl (napi_create_string_utf8 N ''fail'') else Inr ob)"
proof -
  have l: "napi_typeof N (napi_create_object N) = napi_object"
    "\<And>x k v. napi_typeof N x = napi_object \<Longrightarrow> napi_typeof N (napi_set_named_property N x k v) = napi_object"
    "\<And>x k v. napi_typeof N x = napi_object \<Longrightarrow> napi_get_named_property N False (napi_set_named_property N x k v) k = Some v"
    "\<And>x k k' v. napi_typeof N x = napi_object \<Longrightarrow> k' \<noteq> k \<Longrightarrow>
      napi_get_named_property N False (napi_set_named_property N x k' v) k = napi_get_named_property N False x k"
    using assms unfolding napi_laws_def by blast+
  show ?thesis
    by (rule exI, rule conjI [rotated], unfold NapiEthernet_CompleteGetIfaceConfig_def Let_def, rule refl)
      (simp add: has_config_def NapiCommon_SetPropertyInt32_def NapiCommon_SetPropertyString_def l)
qed

lemma set_servers_fields [simp]:
  "ed_ifActivate (set_servers as d) = ed_ifActivate d" "ed_ipMode (set_servers as d) = ed_ipMode d"
  "ed_ipAddrInfo (set_servers as d) = ed_ipAddrInfo d" "ed_routeAddrInfo (set_servers as d) = ed_routeAddrInfo d"
  "ed_gateAddrInfo (set_servers as d) = ed_gateAddrInfo d" "ed_maskAddrInfo (set_servers as d) = ed_maskAddrInfo d"
  "ed_dns0AddrInfo (set_servers as d) = last (ed_dns0AddrInfo d # map (INetAddr_ToString []) as)"
  "ed_dns1AddrInfo (set_servers as d) = last (ed_dns1AddrInfo d # map (INetAddr_ToString []) as)"
  unfolding set_servers_def by (induction as arbitrary: d) simp_all

text \<open>The six texts \<open>getIfaceConfig\<close> answers with for a configuration.\<close>

definition config_texts :: "InterfaceConfiguration \<Rightarrow> string list" where
  "config_texts c = (let sc = ic_ipStatic c; server = last ([] # map (INetAddr_ToString []) (sc_dnsServers sc)) in
     map (INetAddr_ToString []) [sc_ipAddr sc, sc_route sc, sc_gate sc, sc_netMask sc] @ [server, server])"

text \<open>
  C36. \<open>getIfaceConfig(name)\<close> asks the service for the configuration of this device. If there is one, promise
  and callback get an object with its mode and the printed addresses, and the last of the name servers as
  both servers. If there is none, the promise is rejected with ''fail'' but the callback is not told: it gets an
  object with mode 0 and empty texts as its result.
\<close>

theorem js_getIfaceConfig:
  assumes "napi_laws N" and "parcel_laws (jc_parcel J)" and "parcel_never_fails (jc_parcel J)" and "mi_parcel I = jc_parcel J"
    and "connected (EthernetServiceStub_OnRemoteRequest I E) send" and "js_connected J send c c'"
    and "napi_get_value_string_utf8 N vname ETHERNET_NAME_MAX_BYTE = Some name" and "napi_create_reference N f"
    and "\<forall>ic. EthernetService_GetIfaceConfig (c_str name) (fst s) = Some ic \<longrightarrow> InterfaceConfiguration_short ic"
  shows "\<exists>ob. (case EthernetService_GetIfaceConfig (c_str name) (fst s) of
        Some ic \<Rightarrow> has_config N ob (ic_mode ic) (config_texts ic) | None \<Rightarrow> has_config N ob 0 [[], [], [], [], [], []]) \<and>
    js_run N (ethernetModule N J) Fn_getIfaceConfig [vname] (e, c, s) =
      Some (Some (ne_promises e), promise_answer
        (if EthernetService_GetIfaceConfig (c_str name) (fst s) = None then Inl (napi_create_string_utf8 N ''fail'') else Inr ob) e, c', s) \<and>
    js_run N (ethernetModule N J) Fn_getIfaceConfig [vname, f] (e, c, s) = Some (None, callback_answer f (Inr ob) e, c', s)"
proof -
  let ?e = "new_context (e\<lparr>ne_pending := False\<rparr>)" and ?g = "EthernetService_GetIfaceConfig (c_str name) (fst s)"
  let ?d = "ethernet_data_new\<lparr>ed_ethernetName := c_str name\<rparr>"
  define d' where "d' = (case ?g of Some ic \<Rightarrow> read_js_config ic ?d | None \<Rightarrow> ?d\<lparr>ed_ifActivate := - 1\<rparr>)"
  have call: "NapiEthernet_GetIfaceConfig N [vname] (e\<lparr>ne_pending := False\<rparr>) = napi_queue N True None Fn_getIfaceConfig ?d ?e"
    "NapiEthernet_GetIfaceConfig N [vname, f] (e\<lparr>ne_pending := False\<rparr>) = napi_queue N False (Some f) Fn_getIfaceConfig ?d ?e"
    using assms(7) by (simp_all add: NapiEthernet_GetIfaceConfig_def cb_info [OF assms(1)] Let_def)
  have x: "NapiEthernet_ExecGetIfaceConfig J ?d (c, s) = Some (d', c', s)"
    using GetIfaceConfig_through [OF assms(2-5,9)]
    by (simp add: NapiEthernet_ExecGetIfaceConfig_def ethernet_client_calls [OF assms(6)] d'_def split: option.splits)
  obtain ob where ob: "has_config N ob (ed_ipMode d') [ed_ipAddrInfo d', ed_routeAddrInfo d', ed_gateAddrInfo d', ed_maskAddrInfo d',
      ed_dns0AddrInfo d', ed_dns1AddrInfo d']"
    "NapiEthernet_CompleteGetIfaceConfig N d' =
      (if ed_ifActivate d' = - 1 then Inl (napi_create_string_utf8 N ''fail'') else Inr ob,
       if ed_ifActivate d' = 0 then Inl (napi_create_string_utf8 N ''fail'') else Inr ob)"
    using config_object [OF assms(1)] by blast
  have act: "ed_ifActivate d' = (if ?g = None then - 1 else 1)"
    by (simp add: d'_def read_js_config_def Let_def split: option.split)
  have "case ?g of Some ic \<Rightarrow> has_config N ob (ic_mode ic) (config_texts ic) | None \<Rightarrow> has_config N ob 0 [[], [], [], [], [], []]"
    using ob(1) by (cases ?g) (simp_all add: d'_def read_js_config_def Let_def config_texts_def ethernet_data_new_def)
  moreover have "NapiEthernet_CompleteGetIfaceConfig N d' = (if ?g = None then Inl (napi_create_string_utf8 N ''fail'') else Inr ob, Inr ob)"
    using ob(2) act by simp
  ultimately show ?thesis
    using js_run_promise [OF assms(1), of "ethernetModule N J" Fn_getIfaceConfig "[vname]" e None ?d "(c, s)"]
      js_run_callback [OF assms(8), of "ethernetModule N J" Fn_getIfaceConfig "[vname, f]" e ?d "(c, s)"] call x
    by (intro exI [of _ ob]) (simp add: ethernetModule_def)
qed

section \<open>netmanager.netpolicy\<close>

lemma policy_client_calls:
  assumes "js_connected J send c c'"
  shows "NetPolicyClient_SetUidPolicy (jc_client J) P (jc_remotes J) uid policy c s =
      (case NetPolicyServiceProxy_SetUidPolicy P (Some send) uid policy s of (r, t) \<Rightarrow> (r, c', t))"
    and "NetPolicyClient_GetUidPolicy (jc_client J) P (jc_remotes J) uid c s =
      (case NetPolicyServiceProxy_GetUidPolicy P (Some send) uid s of (r, t) \<Rightarrow> (r, c', t))"
    and "NetPolicyClient_GetUids (jc_client J) P (jc_remotes J) policy c s =
      (case NetPolicyServiceProxy_GetUids P (Some send) policy s of (r, t) \<Rightarrow> (r, c', t))"
    and "NetPolicyClient_IsUidNetAccess_metered (jc_client J) P (jc_remotes J) uid metered c s =
      (case NetPolicyServiceProxy_IsUidNetAccess_metered P (Some send) uid metered s of (r, t) \<Rightarrow> (r, c', t))"
    and "NetPolicyClient_IsUidNetAccess_iface (jc_client J) P (jc_remotes J) uid iface c s =
      (case NetPolicyServiceProxy_IsUidNetAccess_iface P (Some send) uid iface s of (r, t) \<Rightarrow> (r, c', t))"
  unfolding NetPolicyClient_SetUidPolicy_def NetPolicyClient_GetUidPolicy_def NetPolicyClient_GetUids_def
    NetPolicyClient_IsUidNetAccess_metered_def NetPolicyClient_IsUidNetAccess_iface_def
  using connected_call [OF assms, of "\<lambda>r. NetPolicyServiceProxy_SetUidPolicy P r uid policy"]
    connected_call [OF assms, of "\<lambda>r. NetPolicyServiceProxy_GetUidPolicy P r uid"]
    connected_call [OF assms, of "\<lambda>r. NetPolicyServiceProxy_GetUids P r policy"]
    connected_call [OF assms, of "\<lambda>r. NetPolicyServiceProxy_IsUidNetAccess_metered P r uid metered"]
    connected_call [OF assms, of "\<lambda>r. NetPolicyServiceProxy_IsUidNetAccess_iface P r uid iface"] by simp_all

text \<open>The second argument of \<open>isUidNetAccess\<close>: a boolean, or a string.\<close>

definition access_argument :: "'v napi_ops \<Rightarrow> 'v \<Rightarrow> bool" where
  "access_argument N v \<longleftrightarrow> (napi_typeof N v = napi_boolean \<and> napi_get_value_bool N v \<noteq> None) \<or> napi_typeof N v = napi_string"

definition policy_allows :: "(uint32 \<Rightarrow> NetUidPolicy option) \<Rightarrow> uint32 \<Rightarrow> bool" where
  "policy_allows m uid \<longleftrightarrow> m uid \<noteq> Some NET_POLICY_REJECT_METERED_BACKGROUND \<and> m uid \<noteq> Some NET_POLICY_REJECT_ALL"

lemma js_IsUidNetAccess:
  assumes "napi_laws N" and "parcel_laws (jc_parcel J)" and "parcel_never_fails (jc_parcel J)" and "pi_parcel I = jc_parcel J"
    and "policy_connected I send" and "js_connected J send c c'" and "represents s m" and "33 \<le> pe_long_bits (pi_service I)"
    and "napi_get_value_uint32 N vuid = Some uid" and "access_argument N v"
  shows "js_run N (netPolicyModule N J) Fn_isUidNetAccess [vuid, v] (e, c, s) = Some (Some (ne_promises e), promise_answer
      (if policy_allows m uid then Inr (napi_create_int32 N 1) else Inl (napi_create_int32 N 0)) e, c', s)"
proof -
  let ?e = "new_context (e\<lparr>ne_pending := False\<rparr>)"
  obtain d where d: "NapiNetPolicy_IsUidNetAccess N [vuid, v] (e\<lparr>ne_pending := False\<rparr>) = napi_queue N True None Fn_isUidNetAccess d ?e" "pn_uid d = uid"
    using assms(9,10) by (auto simp: NapiNetPolicy_IsUidNetAccess_def cb_info [OF assms(1)] Let_def access_argument_def policy_data_new_def)
  note p = assms(2,3) [folded assms(4)]
  have q: "NetPolicyService_IsUidNetAccess_metered (pi_service I) uid metered s = Inr (policy_allows m uid)"
      "NetPolicyService_IsUidNetAccess_iface (pi_service I) uid ifaceName s = Inr (policy_allows m uid)" for metered ifaceName
    using service_queries [OF assms(7,8), of uid _ metered ifaceName] unfolding policy_allows_def by metis+
  have "NapiNetPolicy_ExecIsUidNetAccess J d (c, s) = (d\<lparr>pn_result := policy_allows m uid\<rparr>, c', s)"
    using d(2) IsUidNetAccess_iface_through [OF p assms(5) q(2)] IsUidNetAccess_metered_through [OF p assms(5) q(1)]
    by (simp add: NapiNetPolicy_ExecIsUidNetAccess_def policy_client_calls [OF assms(6)] assms(4))
  then show ?thesis
    using js_run_promise [OF assms(1), of "netPolicyModule N J" Fn_isUidNetAccess "[vuid, v]" e None d "(c, s)"] d(1)
    by (simp add: netPolicyModule_def NapiNetPolicy_CompleteIsUidNetAccess_def Let_def)
qed

lemma policy_run:
  assumes "napi_laws N" and "NapiNetPolicy_call N k args (e\<lparr>ne_pending := False\<rparr>) = napi_queue N True None k d (new_context (e\<lparr>ne_pending := False\<rparr>))"
    and "NapiNetPolicy_execute J k d x = (d', y)"
  shows "js_run N (netPolicyModule N J) k args (e, x) = Some (Some (ne_promises e), promise_answer (fst (NapiNetPolicy_outcome N k d')) e, y)"
  using js_run_promise [OF assms(1), of "netPolicyModule N J" k args e None d x d' y "fst (NapiNetPolicy_outcome N k d')" "snd (NapiNetPolicy_outcome N k d')"] assms(2,3)
  by (simp add: netPolicyModule_def)

lemmas policy_outcomes = NapiNetPolicy_CompleteSetUidPolicy_def NapiNetPolicy_CompleteGetUidPolicy_def NapiNetPolicy_CompleteGetUids_def
  NapiNetPolicy_CompleteIsUidNetAccess_def Let_def


section \<open>netmanager.dnsresolver\<close>

text \<open>
  \<open>getAddressesByName(host)\<close>, for a host that is not empty, resolves with the array of the printed
  addresses in the order the service found them; with no address it is rejected with ''fail'', and the error of
  the service is not told. The callback form is called with the same as result or as error.
\<close>

theorem js_getAddressesByName:
  assumes "napi_laws N" and "parcel_laws (jc_parcel J)" and "parcel_never_fails (jc_parcel J)" and "mi_parcel I = jc_parcel J"
    and "connected (DnsResolverServiceStub_OnRemoteRequest I W) send" and "js_connected J send c c'"
    and "napi_get_value_string_utf8 N vhost HOST_MAX_BYTES = Some host" and "c_str host \<noteq> []" and "napi_create_reference N f"
    and "DnsResolverService_GetAddressesByName (fst W) (snd W) (c_str host) [] s = ((ret, addrs), t)" and "int_list addrs"
  shows "let answer = (if addrs = [] then Inl (napi_create_string_utf8 N ''fail'')
        else Inr (napi_create_array N (map (\<lambda>a. napi_create_string_utf8 N (c_str (INetAddr_ToString [] a))) addrs))) in
    js_run N (dnsResolverModule N J) Fn_getAddressesByName [vhost] (e, c, s) = Some (Some (ne_promises e), promise_answer answer e, c', t) \<and>
    js_run N (dnsResolverModule N J) Fn_getAddressesByName [vhost, f] (e, c, s) = Some (None, callback_answer f answer e, c', t)"
proof -
  let ?e = "new_context (e\<lparr>ne_pending := False\<rparr>)" and ?d = "\<lparr>dd_host = c_str host, dd_hostAddress = []\<rparr>"
  have call: "NapiDnsResolver_GetAddressesByName N [vhost] (e\<lparr>ne_pending := False\<rparr>) = napi_queue N True None Fn_getAddressesByName ?d ?e"
    "NapiDnsResolver_GetAddressesByName N [vhost, f] (e\<lparr>ne_pending := False\<rparr>) = napi_queue N False (Some f) Fn_getAddressesByName ?d ?e"
    using assms(7) by (simp_all add: NapiDnsResolver_GetAddressesByName_def cb_info [OF assms(1)] Let_def)
  have x: "NapiDnsResolver_ExecDnsResolverCallback J ?d (c, s) = Some (?d\<lparr>dd_hostAddress := map (INetAddr_ToString []) addrs\<rparr>, c', t)"
    using GetAddressesByName_through [OF assms(2-5,8,10,11)]
      connected_call [OF assms(6), of "\<lambda>r. DnsResolverServiceProxy_GetAddressesByName (jc_parcel J) (jc_offset J) r (c_str host) []"]
    by (simp add: NapiDnsResolver_ExecDnsResolverCallback_def DnsResolverClient_GetAddressesByName_def)
  then show ?thesis
    using js_run_promise [OF assms(1), of "dnsResolverModule N J" Fn_getAddressesByName "[vhost]" e None ?d "(c, s)"]
      js_run_callback [OF assms(9), of "dnsResolverModule N J" Fn_getAddressesByName "[vhost, f]" e ?d "(c, s)"] call
    by (simp add: dnsResolverModule_def NapiDnsResolver_CompleteDnsResolverCallback_def Let_def comp_def)
qed

section \<open>Concrete calls\<close>

definition sample_js :: "(parcel_item list, 's) send_request \<Rightarrow> (parcel_item list, 's) js_client" where
  "sample_js send = \<lparr>jc_codes = \<lparr>ERR_FLATTEN_OBJECT = 5, ERR_NULL_OBJECT = 7, IPC_PROXY_ERR = 9\<rparr>, jc_client = sample_client,
     jc_parcel = list_parcel, jc_offset = 0x200000, jc_remotes = (\<lambda>p. if p = 7 then Some send else None)\<rparr>"

lemma sample_js_connected: "js_connected (sample_js send) send fresh_client joined_client"
  by (simp add: js_connected_def sample_js_def sample_GetProxy)

lemma sample_js_fields [simp]: "jc_parcel (sample_js send) = list_parcel" "jc_offset (sample_js send) = 0x200000"
  by (simp_all add: sample_js_def)

lemma sample_eth_connected: "connected (EthernetServiceStub_OnRemoteRequest sample_eth_ipc (sample_eth_ops [])) sample_eth_send"
  by (simp add: connected_def sample_eth_send_def)

lemma sample_ipc_parcels [simp]: "mi_parcel sample_eth_ipc = list_parcel" "mi_parcel sample_dns_ipc = list_parcel" "pi_parcel sample_policy_ipc = list_parcel"
  by (simp_all add: sample_eth_ipc_def sample_dns_ipc_def sample_policy_ipc_def)

definition sample_texts :: "(string \<times> string) list" where
  "sample_texts = [(''ipAddr'', ''192.168.1.5''), (''routeAddr'', ''0.0.0.0''), (''gateAddr'', ''192.168.1.1''),
     (''maskAddr'', ''255.255.255.0''), (''dnsAddr0'', ''8.8.8.8''), (''dnsAddr1'', ''8.8.4.4'')]"

theorem promises_settled_once_witness:
  "\<exists>e y. napi_reachable js_napi (ethernetModule js_napi (sample_js sample_eth_send)) (fresh_client, sample_service, ()) (e, y) \<and>
     ne_promises e = 1 \<and> answers_once e"
proof -
  let ?M = "ethernetModule js_napi (sample_js sample_eth_send)" and ?x = "(fresh_client, sample_service, ())"
  have s: "\<forall>d. napi_settle_deferred js_napi (Some d)" using js_napi_laws by (simp add: napi_laws_def)
  obtain r e where c: "js_call ?M Fn_isActivate [Js_string ''eth0''] napi_env_new = (r, e)" by fastforce
  then have p: "ne_promises e = 1"
    by (auto simp: js_call_def ethernetModule_def NapiEthernet_IsActivate_def js_napi_def napi_queue_def napi_env_new_def new_context_def Let_def)
  have "napi_reachable js_napi ?M ?x (e, ?x)"
    unfolding napi_reachable_def using napi_step.called [OF c] by blast
  then show ?thesis using promises_settled_once [OF s] p by blast
qed


theorem js_getIfaceConfig_witness:
  "\<exists>ob. has_config js_napi ob 0 [[], [], [], [], [], []] \<and>
    js_run js_napi (ethernetModule js_napi (sample_js sample_eth_send)) Fn_getIfaceConfig [Js_string ''eth9''] (napi_env_new, fresh_client, sample_service, ()) =
      Some (Some 0, promise_answer (Inl (Js_string ''fail'')) napi_env_new, joined_client, sample_service, ()) \<and>
    js_run js_napi (ethernetModule js_napi (sample_js sample_eth_send)) Fn_getIfaceConfig [Js_string ''eth9'', Js_function 1]
        (napi_env_new, fresh_client, sample_service, ()) =
      Some (None, callback_answer (Js_function 1) (Inr ob) napi_env_new, joined_client, sample_service, ())"
proof -
  have g: "EthernetService_GetIfaceConfig (c_str ''eth9'') sample_service = None"
    by (simp add: EthernetService_GetIfaceConfig_def EthernetManagement_GetDevInterfaceCfg_def sample_service_def c_str_def)
  have v: "napi_get_value_string_utf8 js_napi (Js_string ''eth9'') ETHERNET_NAME_MAX_BYTE = Some ''eth9''"
      "napi_create_reference js_napi (Js_function 1)" "napi_create_string_utf8 js_napi ''fail'' = Js_string ''fail''"
    by (simp_all add: js_napi_def ETHERNET_NAME_MAX_BYTE_def)
  from js_getIfaceConfig [OF js_napi_laws _ _ _ sample_eth_connected sample_js_connected v(1,2), where s = "(sample_service, ())" and e = napi_env_new]
  show ?thesis by (simp add: list_parcel_laws list_parcel_never_fails g v(3)) (simp add: napi_env_new_def)
qed


lemma sample_lookup:
  "DnsResolverService_GetAddressesByName sample_resolver sample_platform ''www.example.com'' [] (DnsResolverService_new None) =
     ((DNS_SUCCESS, [INetAddr_new\<lparr>ia_family := 2, ia_address := ''127.0.0.1''\<rparr>]),
      snd (DnsResolverService_GetAddressesByName sample_resolver sample_platform ''www.example.com'' [] (DnsResolverService_new None)))"
proof -
  have r: "netd_ready sample_resolver (NetdController_GetInstance sample_resolver (dr_netd (DnsResolverService_new None)))"
    by (simp add: DnsResolverService_new_def NetdController_GetInstance_def)
  have "IsDomainValid ''www.example.com''" by code_simp
  then show ?thesis
    by (simp add: DnsResolverService_GetAddressesByName_def with_dns_netd_lookup [OF r] add_addresses_map split: prod.splits)
      (simp add: one_request_def sample_resolver_def sample_platform_def address_of_def InitAddrInfo_def Let_def)
qed

theorem js_getAddressesByName_witness:
  "\<exists>t. js_run js_napi (dnsResolverModule js_napi (sample_js sample_dns_send)) Fn_getAddressesByName [Js_string ''www.example.com'']
     (napi_env_new, fresh_client, DnsResolverService_new None) =
   Some (Some 0, promise_answer (Inr (Js_array [Js_string (c_str (INetAddr_ToString [] (INetAddr_new\<lparr>ia_family := 2, ia_address := ''127.0.0.1''\<rparr>)))]))
     napi_env_new, joined_client, t)"
proof -
  have c: "connected (DnsResolverServiceStub_OnRemoteRequest sample_dns_ipc (sample_resolver, sample_platform)) sample_dns_send"
    by (simp add: connected_def sample_dns_send_def)
  have v: "napi_get_value_string_utf8 js_napi (Js_string ''www.example.com'') HOST_MAX_BYTES = Some ''www.example.com''"
      "c_str ''www.example.com'' = ''www.example.com''" "napi_create_reference js_napi (Js_function 1)"
      "napi_create_array js_napi = Js_array" "napi_create_string_utf8 js_napi = Js_string"
    by (simp_all add: js_napi_def HOST_MAX_BYTES_def c_str_def)
  have n: "ne_promises (napi_env_new :: js_value js_dns_env) = 0" by (simp add: napi_env_new_def)
  from js_getAddressesByName [OF js_napi_laws _ _ _ c sample_js_connected v(1) _ v(3), of "DnsResolverService_new None", unfolded v(2) fst_conv snd_conv, OF _ _ _ _ sample_lookup]
  show ?thesis by (simp add: list_parcel_laws list_parcel_never_fails int_list_def v(4,5) Let_def n)
qed

end
