(* ===== verification/Blocking_Queue.thy ===== *)
theory Blocking_Queue
  imports NM_Types
begin

text \<open>
  \<open>blocking_queue\<close> (\<open>blocking_queue.h\<close>), the work queue of the thread pool of the native daemon: a ring buffer
  with one slot more than its capacity, a mutex and two condition variables. The ring implements a bounded
  queue; the threads are a step relation in which a critical section is one step.
\<close>

section \<open>The ring buffer\<close>

record 'a blocking_queue =
  bq_start :: uint32
  bq_end :: uint32
  bq_capacity :: uint32
  bq_vt :: "'a list"

definition blocking_queue_new :: "'a \<Rightarrow> uint32 \<Rightarrow> 'a blocking_queue" where
  "blocking_queue_new dflt capacity = \<lparr>bq_start = 0, bq_end = 0, bq_capacity = capacity, bq_vt = replicate (unat (capacity + 1)) dflt\<rparr>"

definition blocking_queue_isEmpty :: "'a blocking_queue \<Rightarrow> bool" where
  "blocking_queue_isEmpty q \<longleftrightarrow> bq_end q = bq_start q"

definition blocking_queue_isFull :: "'a blocking_queue \<Rightarrow> bool" where
  "blocking_queue_isFull q \<longleftrightarrow> (bq_start q + bq_capacity q - bq_end q) mod (bq_capacity q + 1) = 0"

text \<open>\<open>None\<close> is a caller that waits.\<close>

definition blocking_queue_push :: "'a \<Rightarrow> 'a blocking_queue \<Rightarrow> 'a blocking_queue option" where
  "blocking_queue_push e q =
     (if blocking_queue_isFull q then None
      else Some (q\<lparr>bq_vt := (bq_vt q)[unat (bq_end q) := e], bq_end := (bq_end q + 1) mod (bq_capacity q + 1)\<rparr>))"

definition blocking_queue_pop :: "'a blocking_queue \<Rightarrow> ('a \<times> 'a blocking_queue) option" where
  "blocking_queue_pop q =
     (if blocking_queue_isEmpty q then None
      else Some (bq_vt q ! unat (bq_start q), q\<lparr>bq_start := (bq_start q + 1) mod (bq_capacity q + 1)\<rparr>))"

section \<open>It implements a bounded queue\<close>

definition slots :: "'a blocking_queue \<Rightarrow> nat" where
  "slots q = Suc (unat (bq_capacity q))"

definition bq_ok :: "'a blocking_queue \<Rightarrow> bool" where
  "bq_ok q \<longleftrightarrow> slots q < 2 ^ 32 \<and> length (bq_vt q) = slots q \<and> unat (bq_start q) < slots q \<and> unat (bq_end q) < slots q"

text \<open>The elements from \<open>start_\<close> up to \<open>end_\<close>, around the end of the vector.\<close>

definition ring :: "nat \<Rightarrow> nat \<Rightarrow> nat \<Rightarrow> nat" where
  "ring n i j = (j + n - i) mod n"

definition contents_of :: "'a blocking_queue \<Rightarrow> 'a list" where
  "contents_of q = map (\<lambda>i. bq_vt q ! ((unat (bq_start q) + i) mod slots q)) [0..<ring (slots q) (unat (bq_start q)) (unat (bq_end q))]"

lemma ring_cases:
  assumes "i < n" and "j < n"
  shows "ring n i j = (if i \<le> j then j - i else j + n - i)"
  using assms by (auto simp: ring_def mod_if)

lemma ring_facts:
  assumes "i < n" and "j < n"
  shows "ring n i j < n" and "ring n i j = 0 \<longleftrightarrow> i = j"
    and "ring n i j \<noteq> n - 1 \<Longrightarrow> ring n i (Suc j mod n) = Suc (ring n i j)"
    and "i \<noteq> j \<Longrightarrow> ring n (Suc i mod n) j = ring n i j - 1"
    and "(i + ring n i j) mod n = j"
proof -
  have s: "Suc k mod n = (if Suc k = n then 0 else Suc k)" if "k < n" for k using that by auto
  have p: "0 < n" "Suc i mod n < n" "Suc j mod n < n" using assms by auto
  note c = ring_cases [OF assms] ring_cases [OF assms(1) p(3)] ring_cases [OF p(2) assms(2)]
  show "ring n i j < n" "ring n i j = 0 \<longleftrightarrow> i = j" using assms by (auto simp: c(1))
  show "ring n i (Suc j mod n) = Suc (ring n i j)" if "ring n i j \<noteq> n - 1"
    using that assms s [OF assms(2)] unfolding c(1,2) by (auto split: if_splits)
  show "ring n (Suc i mod n) j = ring n i j - 1" if "i \<noteq> j"
    using that assms s [OF assms(1)] unfolding c(1,3) by (auto split: if_splits)
  show "(i + ring n i j) mod n = j" using assms by (auto simp: c(1) mod_if)
qed

lemma unat_mod_slots:
  assumes "slots q < 2 ^ 32" and "unat i < slots q"
  shows "unat ((i + 1) mod (bq_capacity q + 1)) = Suc (unat i) mod slots q"
proof -
  have "unat (bq_capacity q + 1) = slots q" "unat (i + 1) = Suc (unat i)"
    using assms by (simp_all add: slots_def unat_word_ariths)
  then show ?thesis by (simp add: unat_mod)
qed

lemma ring_inverse: "i < n \<Longrightarrow> k < n \<Longrightarrow> ring n i ((i + k) mod n) = k"
  by (auto simp: ring_def mod_if)

lemma length_contents [simp]: "length (contents_of q) = ring (slots q) (unat (bq_start q)) (unat (bq_end q))"
  by (simp add: contents_of_def)

lemma contents_nth: "i < length (contents_of q) \<Longrightarrow> contents_of q ! i = bq_vt q ! ((unat (bq_start q) + i) mod slots q)"
  by (simp add: contents_of_def)

text \<open>\<open>isFull\<close> is exact unless the sum of \<open>start_\<close> and \<open>capacity_\<close> passes \<open>2 ^ 32\<close> in just this way.\<close>

lemma isFull_iff:
  assumes "bq_ok q"
  shows "blocking_queue_isFull q \<longleftrightarrow> length (contents_of q) = unat (bq_capacity q) \<or>
    unat (bq_start q) + unat (bq_capacity q) = 2 ^ 32 + unat (bq_end q)"
proof -
  let ?s = "unat (bq_start q)" and ?e = "unat (bq_end q)" and ?c = "unat (bq_capacity q)"
  let ?d = "?s + ?c - ?e"
  have b: "?s \<le> ?c" "?e \<le> ?c" "Suc ?c < 2 ^ 32" using assms by (auto simp: bq_ok_def slots_def)
  have "bq_start q + bq_capacity q - bq_end q = word_of_nat ?d"
    using b(2) by (simp add: of_nat_diff)
  then have u: "unat (bq_start q + bq_capacity q - bq_end q) = ?d mod 2 ^ 32" by (simp add: unat_of_nat)
  have "unat (bq_capacity q + 1) = Suc ?c" using b(3) by (simp add: unat_word_ariths)
  then have f: "blocking_queue_isFull q \<longleftrightarrow> ?d mod 2 ^ 32 mod Suc ?c = 0"
    using u by (simp add: blocking_queue_isFull_def word_unat_eq_iff unat_mod)
  have m: "x mod Suc ?c = 0 \<longleftrightarrow> x = 0 \<or> x = Suc ?c" if "x < 2 * Suc ?c" for x
    using that by (auto simp: mod_if split: if_splits)
  have l: "length (contents_of q) = (if ?s \<le> ?e then ?e - ?s else ?e + Suc ?c - ?s)"
    using b ring_cases [of ?s "Suc ?c" ?e] by (simp add: slots_def)
  show ?thesis
  proof (cases "?d < 2 ^ 32")
    case True
    then show ?thesis using f m [of ?d] b unfolding l by auto
  next
    case False
    then have "?d mod 2 ^ 32 = ?d - 2 ^ 32" using b by (simp add: mod_if)
    then show ?thesis using f m [of "?d - 2 ^ 32"] False b unfolding l by auto
  qed
qed

lemma contents_push:
  fixes e :: 'a
  assumes "bq_ok q" and "length (contents_of q) \<noteq> unat (bq_capacity q)"
  defines "r \<equiv> q\<lparr>bq_vt := (bq_vt q)[unat (bq_end q) := e], bq_end := (bq_end q + 1) mod (bq_capacity q + 1)\<rparr>"
  shows "bq_ok r \<and> contents_of r = contents_of q @ [e]"
proof -
  let ?n = "slots q" and ?s = "unat (bq_start q)" and ?e = "unat (bq_end q)"
  have b: "?n < 2 ^ 32" "length (bq_vt q) = ?n" "?s < ?n" "?e < ?n" using assms(1) by (auto simp: bq_ok_def)
  have u: "unat (bq_end r) = Suc ?e mod ?n" "bq_start r = bq_start q" "slots r = ?n" "bq_vt r = (bq_vt q)[?e := e]"
    using unat_mod_slots [OF b(1), of "bq_end q"] b(4) by (simp_all add: r_def slots_def)
  note f = ring_facts [OF b(3,4)]
  have "length (contents_of q) \<noteq> ?n - 1" using assms(2) by (simp add: slots_def)
  then have len: "length (contents_of r) = Suc (length (contents_of q))" using f(3) by (simp add: u)
  have "contents_of r ! i = (contents_of q @ [e]) ! i" if "i < length (contents_of r)" for i
  proof (cases "i = length (contents_of q)")
    case True
    then show ?thesis using contents_nth [OF that] f(5) b(2,4) by (simp add: u nth_append)
  next
    case False
    then have i: "i < length (contents_of q)" using that len by simp
    have "(?s + i) mod ?n \<noteq> ?e"
      using ring_inverse [OF b(3), of i] i f(1) by auto
    then show ?thesis using contents_nth [OF that] contents_nth [OF i] i by (simp add: u nth_append)
  qed
  then have "contents_of r = contents_of q @ [e]" using len by (intro nth_equalityI) simp_all
  moreover have "bq_ok r" using b by (simp add: bq_ok_def u)
  ultimately show ?thesis by blast
qed

lemma contents_pop:
  assumes "bq_ok q" and "bq_end q \<noteq> bq_start q"
  defines "r \<equiv> q\<lparr>bq_start := (bq_start q + 1) mod (bq_capacity q + 1)\<rparr>"
  shows "bq_ok r \<and> contents_of q = bq_vt q ! unat (bq_start q) # contents_of r"
proof -
  let ?n = "slots q" and ?s = "unat (bq_start q)" and ?e = "unat (bq_end q)"
  have b: "?n < 2 ^ 32" "length (bq_vt q) = ?n" "?s < ?n" "?e < ?n" using assms(1) by (auto simp: bq_ok_def)
  have u: "unat (bq_start r) = Suc ?s mod ?n" "bq_end r = bq_end q" "slots r = ?n" "bq_vt r = bq_vt q"
    using unat_mod_slots [OF b(1), of "bq_start q"] b(3) by (simp_all add: r_def slots_def)
  have ne: "?s \<noteq> ?e" using assms(2) by (simp add: word_unat_eq_iff)
  note f = ring_facts [OF b(3,4)]
  have len: "length (contents_of q) = Suc (length (contents_of r))" using f(2,4) ne by (simp add: u)
  have "contents_of q ! i = (bq_vt q ! ?s # contents_of r) ! i" if "i < length (contents_of q)" for i
  proof (cases i)
    case 0
    then show ?thesis using contents_nth [OF that] b(3) by simp
  next
    case (Suc j)
    then have "j < length (contents_of r)" using that len by simp
    then show ?thesis using contents_nth [OF that] contents_nth [of j r] Suc by (simp add: u mod_simps)
  qed
  then have "contents_of q = bq_vt q ! ?s # contents_of r" using len by (intro nth_equalityI) simp_all
  moreover have "bq_ok r" using b by (simp add: bq_ok_def u)
  ultimately show ?thesis by blast
qed

lemma ring_push:
  assumes "bq_ok q"
  shows "case blocking_queue_push e q of
        None \<Rightarrow> length (contents_of q) = unat (bq_capacity q) \<or> 2 ^ 31 \<le> unat (bq_capacity q)
      | Some r \<Rightarrow> bq_ok r \<and> bq_capacity r = bq_capacity q \<and> length (contents_of q) < unat (bq_capacity q) \<and>
          contents_of r = contents_of q @ [e]"
proof -
  have b: "length (contents_of q) \<le> unat (bq_capacity q)" "unat (bq_start q) \<le> unat (bq_capacity q)"
    using assms ring_facts(1) [of "unat (bq_start q)" "slots q" "unat (bq_end q)"] by (auto simp: bq_ok_def slots_def)
  show ?thesis
  proof (cases "blocking_queue_isFull q")
    case True
    then show ?thesis using isFull_iff [OF assms] b by (auto simp: blocking_queue_push_def)
  next
    case False
    then have "length (contents_of q) \<noteq> unat (bq_capacity q)" using isFull_iff [OF assms] by blast
    then show ?thesis using False contents_push [OF assms] b(1) by (simp add: blocking_queue_push_def)
  qed
qed

lemma ring_pop:
  assumes "bq_ok q"
  shows "case blocking_queue_pop q of
        None \<Rightarrow> contents_of q = []
      | Some (x, r) \<Rightarrow> bq_ok r \<and> bq_capacity r = bq_capacity q \<and> contents_of q = x # contents_of r"
  using contents_pop [OF assms] by (simp add: blocking_queue_pop_def blocking_queue_isEmpty_def contents_of_def ring_def)

text \<open>
  C33. The ring buffer is a queue of at most \<open>capacity_\<close> elements, at every position of its two indexes and
  across the end of the vector: \<open>push\<close> appends and never writes over an element, \<open>pop\<close> takes the oldest
  element, and each waits only when it has to. The one exception is an arithmetic one: where the sum of
  \<open>start_\<close> and \<open>capacity_\<close> passes \<open>2 ^ 32\<close>, which takes a capacity of \<open>2 ^ 31\<close> or more, \<open>push\<close> may wait although
  there is room.
\<close>

theorem blocking_queue_refines:
  assumes "bq_ok q"
  shows "(case blocking_queue_push e q of
        None \<Rightarrow> length (contents_of q) = unat (bq_capacity q) \<or> 2 ^ 31 \<le> unat (bq_capacity q)
      | Some r \<Rightarrow> bq_ok r \<and> bq_capacity r = bq_capacity q \<and> length (contents_of q) < unat (bq_capacity q) \<and>
          contents_of r = contents_of q @ [e]) \<and>
    (case blocking_queue_pop q of
        None \<Rightarrow> contents_of q = []
      | Some (x, r) \<Rightarrow> bq_ok r \<and> bq_capacity r = bq_capacity q \<and> contents_of q = x # contents_of r)"
  by (rule conjI [OF ring_push [OF assms] ring_pop [OF assms]])

theorem blocking_queue_refines_witness:
  "\<exists>r. blocking_queue_push 7 \<lparr>bq_start = 2, bq_end = 0, bq_capacity = 2, bq_vt = [1, 2, 3 :: nat]\<rparr> = Some r \<and> contents_of r = [3, 7]"
proof -
  let ?q = "\<lparr>bq_start = 2, bq_end = 0, bq_capacity = 2, bq_vt = [1, 2, 3 :: nat]\<rparr>"
  have ok: "bq_ok ?q" "contents_of ?q = [3]" by (simp_all add: bq_ok_def slots_def contents_of_def ring_def)
  have "blocking_queue_push 7 ?q \<noteq> None" by (simp add: blocking_queue_push_def blocking_queue_isFull_def)
  then show ?thesis using blocking_queue_refines [OF ok(1), of 7] ok(2) by auto
qed

declare length_contents [simp del]

section \<open>Threads and condition variables\<close>

text \<open>
  A thread is outside the queue, wants the lock for an operation (new or woken), or waits on the condition
  variable of the operation. With the lock it either goes to wait or finishes and notifies one waiting
  thread of the other kind, if there is one: which one is part of the action, \<open>None\<close> for none. A waiting
  thread may also wake up without being notified.
\<close>

datatype 'a bq_op = Push 'a | Pop

datatype 'a bq_thread = Outside | At_lock "'a bq_op" | Waiting "'a bq_op"

record 'a bq_system =
  bs_queue :: "'a blocking_queue"
  bs_threads :: "'a bq_thread list"
  bs_pushed :: "'a list"
  bs_popped :: "'a list"

definition bq_system_new :: "'a \<Rightarrow> uint32 \<Rightarrow> nat \<Rightarrow> 'a bq_system" where
  "bq_system_new dflt capacity n = \<lparr>bs_queue = blocking_queue_new dflt capacity, bs_threads = replicate n Outside,
     bs_pushed = [], bs_popped = []\<rparr>"

fun waits_pop :: "'a bq_thread \<Rightarrow> bool" where "waits_pop (Waiting Pop) = True" | "waits_pop _ = False"
fun waits_push :: "'a bq_thread \<Rightarrow> bool" where "waits_push (Waiting (Push _)) = True" | "waits_push _ = False"
fun wants_pop :: "'a bq_thread \<Rightarrow> bool" where "wants_pop (At_lock Pop) = True" | "wants_pop _ = False"
fun wants_push :: "'a bq_thread \<Rightarrow> bool" where "wants_push (At_lock (Push _)) = True" | "wants_push _ = False"

fun wake :: "'a bq_thread \<Rightarrow> 'a bq_thread" where
  "wake (Waiting x) = At_lock x"
| "wake t = t"

definition notify_one :: "('a bq_thread \<Rightarrow> bool) \<Rightarrow> nat option \<Rightarrow> 'a bq_thread list \<Rightarrow> 'a bq_thread list option" where
  "notify_one Q w ts =
     (case w of None \<Rightarrow> if list_ex Q ts then None else Some ts
      | Some j \<Rightarrow> if j < length ts \<and> Q (ts ! j) then Some (ts[j := wake (ts ! j)]) else None)"

datatype 'a bq_action = Begin nat "'a bq_op" | Locked nat "nat option" | Spurious nat

fun bq_act :: "'a bq_action \<Rightarrow> 'a bq_system \<Rightarrow> 'a bq_system option" where
  "bq_act (Begin i x) s =
     (if i < length (bs_threads s) \<and> bs_threads s ! i = Outside then Some (s\<lparr>bs_threads := (bs_threads s)[i := At_lock x]\<rparr>) else None)"
| "bq_act (Spurious i) s =
     (if i < length (bs_threads s) \<and> (waits_pop (bs_threads s ! i) \<or> waits_push (bs_threads s ! i))
      then Some (s\<lparr>bs_threads := (bs_threads s)[i := wake (bs_threads s ! i)]\<rparr>) else None)"
| "bq_act (Locked i w) s =
     (if i < length (bs_threads s) then
        (case bs_threads s ! i of
           At_lock (Push e) \<Rightarrow>
             (case blocking_queue_push e (bs_queue s) of
                None \<Rightarrow> Some (s\<lparr>bs_threads := (bs_threads s)[i := Waiting (Push e)]\<rparr>)
              | Some q \<Rightarrow> map_option (\<lambda>ts. s\<lparr>bs_queue := q, bs_threads := ts, bs_pushed := bs_pushed s @ [e]\<rparr>)
                  (notify_one waits_pop w ((bs_threads s)[i := Outside])))
         | At_lock Pop \<Rightarrow>
             (case blocking_queue_pop (bs_queue s) of
                None \<Rightarrow> Some (s\<lparr>bs_threads := (bs_threads s)[i := Waiting Pop]\<rparr>)
              | Some (x, q) \<Rightarrow> map_option (\<lambda>ts. s\<lparr>bs_queue := q, bs_threads := ts, bs_popped := bs_popped s @ [x]\<rparr>)
                  (notify_one waits_push w ((bs_threads s)[i := Outside])))
         | _ \<Rightarrow> None)
      else None)"

inductive bq_step :: "'a bq_system \<Rightarrow> 'a bq_system \<Rightarrow> bool" where
  "bq_act a s = Some t \<Longrightarrow> bq_step s t"

inductive_cases bq_stepE: "bq_step s t"

definition bq_reachable :: "'a \<Rightarrow> uint32 \<Rightarrow> nat \<Rightarrow> 'a bq_system \<Rightarrow> bool" where
  "bq_reachable dflt capacity n s \<longleftrightarrow> bq_step\<^sup>*\<^sup>* (bq_system_new dflt capacity n) s"

fun bq_run :: "'a bq_action list \<Rightarrow> 'a bq_system \<Rightarrow> 'a bq_system option" where
  "bq_run [] s = Some s"
| "bq_run (a # as) s = (case bq_act a s of None \<Rightarrow> None | Some t \<Rightarrow> bq_run as t)"

text \<open>
  While a consumer sleeps there are at least as many consumers on their way to the lock as elements, and
  the same for producers and free slots: so a notification to one thread is enough.
\<close>

definition number :: "('a \<Rightarrow> bool) \<Rightarrow> 'a list \<Rightarrow> nat" where
  "number Q xs = length (filter Q xs)"

definition bs_inv :: "uint32 \<Rightarrow> 'a bq_system \<Rightarrow> bool" where
  "bs_inv c s \<longleftrightarrow> bq_ok (bs_queue s) \<and> bq_capacity (bs_queue s) = c \<and> length (contents_of (bs_queue s)) \<le> unat c \<and>
     bs_pushed s = bs_popped s @ contents_of (bs_queue s) \<and>
     (number waits_pop (bs_threads s) > 0 \<longrightarrow> length (contents_of (bs_queue s)) \<le> number wants_pop (bs_threads s)) \<and>
     (number waits_push (bs_threads s) > 0 \<longrightarrow> unat c \<le> length (contents_of (bs_queue s)) + number wants_push (bs_threads s))"

lemma number_update:
  "i < length ts \<Longrightarrow> number Q (ts[i := x]) + of_bool (Q (ts ! i)) = number Q ts + of_bool (Q x)"
  by (simp add: number_def filter_update)

lemma number_none: "number Q ts = 0 \<longleftrightarrow> \<not> list_ex Q ts"
  by (simp add: number_def filter_empty_conv list_ex_iff)

lemma number_some: "number Q ts > 0 \<longleftrightarrow> (\<exists>i < length ts. Q (ts ! i))"
  using number_none [of Q ts] by (auto simp: list_ex_length)

lemma notify_pop:
  assumes "notify_one waits_pop w ts = Some us"
  shows "number waits_push us = number waits_push ts \<and> number wants_push us = number wants_push ts \<and>
    (number waits_pop us = 0 \<or> number waits_pop ts > 0 \<and> number wants_pop us = Suc (number wants_pop ts))"
proof (cases w)
  case None
  then show ?thesis using assms number_none [of waits_pop ts] by (auto simp: notify_one_def split: if_splits)
next
  case (Some j)
  then have j: "j < length ts" "waits_pop (ts ! j)" "us = ts[j := wake (ts ! j)]"
    using assms by (auto simp: notify_one_def split: if_splits)
  then have t: "ts ! j = Waiting Pop" by (cases "ts ! j" rule: waits_pop.cases) auto
  have "number waits_pop ts > 0" using j number_some by blast
  then show ?thesis
    using number_update [OF j(1), of waits_push "At_lock Pop"] number_update [OF j(1), of wants_push "At_lock Pop"]
      number_update [OF j(1), of wants_pop "At_lock Pop"] j(3) t by simp
qed

lemma notify_push:
  assumes "notify_one waits_push w ts = Some us"
  shows "number waits_pop us = number waits_pop ts \<and> number wants_pop us = number wants_pop ts \<and>
    (number waits_push us = 0 \<or> number waits_push ts > 0 \<and> number wants_push us = Suc (number wants_push ts))"
proof (cases w)
  case None
  then show ?thesis using assms number_none [of waits_push ts] by (auto simp: notify_one_def split: if_splits)
next
  case (Some j)
  then have j: "j < length ts" "waits_push (ts ! j)" "us = ts[j := wake (ts ! j)]"
    using assms by (auto simp: notify_one_def split: if_splits)
  then obtain e where t: "ts ! j = Waiting (Push e)" by (cases "ts ! j" rule: waits_push.cases) auto
  have "number waits_push ts > 0" using j number_some by blast
  then show ?thesis
    using number_update [OF j(1), of waits_pop "At_lock (Push e)"] number_update [OF j(1), of wants_pop "At_lock (Push e)"]
      number_update [OF j(1), of wants_push "At_lock (Push e)"] j(3) t by simp
qed

text \<open>A thread that goes from one place to another, in numbers.\<close>

lemmas moves = number_update [of _ _ waits_pop] number_update [of _ _ wants_pop] number_update [of _ _ waits_push] number_update [of _ _ wants_push]

lemma begin_keeps:
  assumes "bs_inv c s" and "bs_threads s ! i = Outside" and "i < length (bs_threads s)"
  shows "bs_inv c (s\<lparr>bs_threads := (bs_threads s)[i := At_lock x]\<rparr>)"
  using assms(1) moves [OF assms(3), of "At_lock x"] assms(2) unfolding bs_inv_def by (cases x) auto

lemma spurious_keeps:
  assumes "bs_inv c s" and "waits_pop (bs_threads s ! i) \<or> waits_push (bs_threads s ! i)" and "i < length (bs_threads s)"
  shows "bs_inv c (s\<lparr>bs_threads := (bs_threads s)[i := wake (bs_threads s ! i)]\<rparr>)"
proof -
  obtain x where x: "bs_threads s ! i = Waiting x" using assms(2) by (cases "bs_threads s ! i") auto
  show ?thesis using assms(1) moves [OF assms(3), of "At_lock x"] x unfolding bs_inv_def by (cases x) auto
qed

lemma push_keeps:
  assumes "bs_inv c s" and "unat c < 2 ^ 31" and "bs_threads s ! i = At_lock (Push e)" and "i < length (bs_threads s)"
    and "bq_act (Locked i w) s = Some t"
  shows "bs_inv c t"
proof -
  let ?L = "length (contents_of (bs_queue s))" and ?ts = "bs_threads s"
  have q: "bq_ok (bs_queue s)" "bq_capacity (bs_queue s) = c" using assms(1) by (auto simp: bs_inv_def)
  show ?thesis
  proof (cases "blocking_queue_push e (bs_queue s)")
    case None
    then have "?L = unat c" using ring_push [OF q(1), of e] q(2) assms(2) by simp
    then show ?thesis using assms(1,3,5) assms(4) None moves [OF assms(4), of "Waiting (Push e)"] unfolding bs_inv_def by auto
  next
    case (Some r)
    then have r: "bq_ok r" "bq_capacity r = c" "?L < unat c" "contents_of r = contents_of (bs_queue s) @ [e]"
      using ring_push [OF q(1), of e] q(2) by simp_all
    obtain us where us: "notify_one waits_pop w (?ts[i := Outside]) = Some us"
        "t = s\<lparr>bs_queue := r, bs_threads := us, bs_pushed := bs_pushed s @ [e]\<rparr>"
      using assms(3-5) Some by auto
    show ?thesis using notify_pop [OF us(1)] moves [OF assms(4), of Outside] assms(1,3) r us(2) unfolding bs_inv_def by auto
  qed
qed

lemma pop_keeps:
  assumes "bs_inv c s" and "bs_threads s ! i = At_lock Pop" and "i < length (bs_threads s)" and "bq_act (Locked i w) s = Some t"
  shows "bs_inv c t"
proof -
  let ?L = "length (contents_of (bs_queue s))" and ?ts = "bs_threads s"
  have q: "bq_ok (bs_queue s)" "bq_capacity (bs_queue s) = c" using assms(1) by (auto simp: bs_inv_def)
  show ?thesis
  proof (cases "blocking_queue_pop (bs_queue s)")
    case None
    then have "contents_of (bs_queue s) = []" using ring_pop [OF q(1)] by simp
    then show ?thesis using assms(1,2,4) assms(3) None moves [OF assms(3), of "Waiting Pop"] unfolding bs_inv_def by auto
  next
    case (Some a)
    then obtain x r where a: "a = (x, r)" by fastforce
    then have r: "bq_ok r" "bq_capacity r = c" "contents_of (bs_queue s) = x # contents_of r"
      using ring_pop [OF q(1)] q(2) Some by simp_all
    obtain us where us: "notify_one waits_push w (?ts[i := Outside]) = Some us"
        "t = s\<lparr>bs_queue := r, bs_threads := us, bs_popped := bs_popped s @ [x]\<rparr>"
      using assms(2-4) Some a by auto
    show ?thesis using notify_push [OF us(1)] moves [OF assms(3), of Outside] assms(1,2) r us(2) unfolding bs_inv_def by auto
  qed
qed

lemma bq_act_keeps:
  assumes "bs_inv c s" and "unat c < 2 ^ 31" and "bq_act a s = Some t"
  shows "bs_inv c t"
proof (cases a)
  case (Begin i x)
  then show ?thesis using assms(3) begin_keeps [OF assms(1), of i x] by (auto split: if_splits)
next
  case (Spurious i)
  then show ?thesis using assms(3) spurious_keeps [OF assms(1), of i] by (auto split: if_splits)
next
  case (Locked i w)
  then have i: "i < length (bs_threads s)" using assms(3) by (auto split: if_splits)
  consider e where "bs_threads s ! i = At_lock (Push e)" | "bs_threads s ! i = At_lock Pop" | "bq_act a s = None"
  proof (cases "bs_threads s ! i")
    case (At_lock x)
    then show ?thesis using that(1,2) by (cases x) auto
  qed (use that(3) Locked in auto)
  then show ?thesis
    by cases (use push_keeps [OF assms(1,2)] pop_keeps [OF assms(1)] i Locked assms(3) in auto)
qed

lemma new_inv: "unat c < 2 ^ 31 \<Longrightarrow> bs_inv c (bq_system_new dflt c n)"
proof -
  assume c: "unat c < 2 ^ 31"
  then have "unat (c + 1) = Suc (unat c)" by (simp add: unat_word_ariths)
  moreover have "number Q (replicate n Outside) = 0" if "\<not> Q Outside" for Q :: "'a bq_thread \<Rightarrow> bool"
    using that by (simp add: number_def filter_empty_conv)
  ultimately show ?thesis using c
    by (simp add: bs_inv_def bq_system_new_def blocking_queue_new_def bq_ok_def slots_def contents_of_def ring_def)
qed

lemma reachable_bs_inv:
  assumes "bq_reachable dflt c n s" and "unat c < 2 ^ 31"
  shows "bs_inv c s"
  using assms(1) unfolding bq_reachable_def
proof (induction rule: rtranclp_induct)
  case base
  then show ?case by (rule new_inv [OF assms(2)])
next
  case (step s t)
  then show ?case using bq_act_keeps [OF _ assms(2)] by (blast elim: bq_stepE)
qed

lemma locked_steps:
  assumes "i < length (bs_threads s)" and "bs_threads s ! i = At_lock x"
  shows "\<exists>w. bq_act (Locked i w) s \<noteq> None"
proof -
  have n: "\<exists>w. notify_one Q w ts \<noteq> None" for Q and ts :: "'a bq_thread list"
  proof (cases "list_ex Q ts")
    case True
    then obtain j where "j < length ts" "Q (ts ! j)" by (auto simp: list_ex_length)
    then show ?thesis by (intro exI [of _ "Some j"]) (simp add: notify_one_def)
  next
    case False
    then show ?thesis by (intro exI [of _ None]) (simp add: notify_one_def)
  qed
  show ?thesis using assms n [of waits_pop "(bs_threads s)[i := Outside]"] n [of waits_push "(bs_threads s)[i := Outside]"]
    by (cases x) (auto split: option.splits)
qed

lemma number_wants:
  "number wants_pop ts > 0 \<Longrightarrow> \<exists>i < length ts. ts ! i = At_lock Pop"
  "number wants_push ts > 0 \<Longrightarrow> \<exists>i < length ts. \<exists>e. ts ! i = At_lock (Push e)"
proof -
  have "x = At_lock Pop" if "wants_pop x" for x :: "'a bq_thread" using that by (cases x rule: wants_pop.cases) auto
  then show "number wants_pop ts > 0 \<Longrightarrow> \<exists>i < length ts. ts ! i = At_lock Pop" by (auto simp: number_some)
  have "\<exists>e. x = At_lock (Push e)" if "wants_push x" for x :: "'a bq_thread" using that by (cases x rule: wants_push.cases) auto
  then show "number wants_push ts > 0 \<Longrightarrow> \<exists>i < length ts. \<exists>e. ts ! i = At_lock (Push e)" by (auto simp: number_some)
qed

text \<open>
  C34. With any number of threads, in every reachable state of a queue of capacity below \<open>2 ^ 31\<close>: what was
  pushed is what was popped followed by what is in the queue, in this order, and the queue holds at most
  \<open>capacity\<close> elements. No wakeup is lost although each operation notifies one thread only: while a consumer
  waits and there is an element some consumer is on its way to the lock, while a producer waits and there
  is room some producer is, and a thread at the lock can take its step.
\<close>

theorem no_lost_wakeup:
  assumes "bq_reachable dflt capacity n s" and "unat capacity < 2 ^ 31"
  shows "bs_pushed s = bs_popped s @ contents_of (bs_queue s) \<and> length (contents_of (bs_queue s)) \<le> unat capacity \<and>
    ((\<exists>t \<in> set (bs_threads s). waits_pop t) \<and> contents_of (bs_queue s) \<noteq> [] \<longrightarrow>
      (\<exists>i w. bs_threads s ! i = At_lock Pop \<and> bq_act (Locked i w) s \<noteq> None)) \<and>
    ((\<exists>t \<in> set (bs_threads s). waits_push t) \<and> length (contents_of (bs_queue s)) < unat capacity \<longrightarrow>
      (\<exists>i w e. bs_threads s ! i = At_lock (Push e) \<and> bq_act (Locked i w) s \<noteq> None))"
proof -
  note inv = reachable_bs_inv [OF assms, unfolded bs_inv_def]
  have w: "number waits_pop (bs_threads s) > 0" if "\<exists>t \<in> set (bs_threads s). waits_pop t"
    using that number_some by (metis in_set_conv_nth)
  have v: "number waits_push (bs_threads s) > 0" if "\<exists>t \<in> set (bs_threads s). waits_push t"
    using that number_some by (metis in_set_conv_nth)
  have "number wants_pop (bs_threads s) > 0" if "\<exists>t \<in> set (bs_threads s). waits_pop t" "contents_of (bs_queue s) \<noteq> []"
    using w [OF that(1)] that(2) inv by (metis gr0I le_zero_eq length_0_conv)
  moreover have "number wants_push (bs_threads s) > 0"
    if "\<exists>t \<in> set (bs_threads s). waits_push t" "length (contents_of (bs_queue s)) < unat capacity"
    using v [OF that(1)] that(2) inv by linarith
  ultimately show ?thesis using inv number_wants [of "bs_threads s"] locked_steps [of _ s] by metis
qed

lemma bq_run_reachable: "bq_reachable dflt c n s \<Longrightarrow> bq_run as s = Some t \<Longrightarrow> bq_reachable dflt c n t"
proof (induction as arbitrary: s)
  case (Cons a as)
  then obtain u where u: "bq_act a s = Some u" "bq_run as u = Some t" by (auto split: option.splits)
  then have "bq_reachable dflt c n u" using Cons.prems(1) bq_step.intros unfolding bq_reachable_def
    by (meson rtranclp.rtrancl_into_rtrancl)
  then show ?case using Cons.IH u(2) by blast
qed simp

text \<open>Two consumers wait, a producer wakes the second, and the first wakes by itself and takes the element.\<close>

theorem no_lost_wakeup_witness:
  "\<exists>s. bq_run [Begin 0 Pop, Begin 1 Pop, Locked 0 None, Locked 1 None, Begin 2 (Push 5), Locked 2 (Some 1)] (bq_system_new (0 :: nat) 1 3) = Some s \<and>
     bs_pushed s = [5] \<and> contents_of (bs_queue s) = [5] \<and> (\<exists>i w. bs_threads s ! i = At_lock Pop \<and> bq_act (Locked i w) s \<noteq> None)"
proof -
  let ?as = "[Begin 0 Pop, Begin 1 Pop, Locked 0 None, Locked 1 None, Begin 2 (Push 5), Locked 2 (Some 1)]"
  obtain s where s: "bq_run ?as (bq_system_new (0 :: nat) 1 3) = Some s"
      "bs_threads s = [Waiting Pop, At_lock Pop, Outside]" "bs_pushed s = [5]" "bs_popped s = []"
    by (simp add: bq_system_new_def blocking_queue_new_def blocking_queue_push_def blocking_queue_pop_def blocking_queue_isFull_def
        blocking_queue_isEmpty_def notify_one_def numeral_3_eq_3)
  have "bq_reachable 0 1 3 s" using bq_run_reachable [OF _ s(1)] by (simp add: bq_reachable_def)
  note n = no_lost_wakeup [OF this]
  have c: "contents_of (bs_queue s) = [5]" using n s(3,4) by simp
  then have "\<exists>i w. bs_threads s ! i = At_lock Pop \<and> bq_act (Locked i w) s \<noteq> None" using n s(2) by (simp del: bq_act.simps)
  then show ?thesis using s(1,3) c by blast
qed

end
