(* ===== verification/Link_Events.thy ===== *)
theory Link_Events
  imports Ethernet_Conn Netlink_Properties
begin

text \<open>
  From the bytes of a netlink message to the connection service: one round of the listener thread
  (\<open>NetLinkRtnl\<close>) delivers its events to the Ethernet management, which reports to the connection service.
  What a round leaves there for every registered device.
\<close>

section \<open>A round of the listener over the joint system\<close>

definition listener_round ::
    "nl_headers \<Rightarrow> 's eth_ops \<Rightarrow> nl_round \<Rightarrow> timeval \<Rightarrow> dev_table \<times> 's \<Rightarrow> ((dev_table \<times> 's) \<times> timeval) run option" where
  "listener_round H E r timeout s =
     (case NetLinkRtnl_NetLinkHandle H r timeout of None \<Rightarrow> None | Some Fault \<Rightarrow> Some Fault
      | Some (Done (_, events, timeout')) \<Rightarrow> Some (Done (fold (EthernetManagement_Handle E) events s, timeout')))"

text \<open>Whether the supplier with an identifier is available, \<open>None\<close> for an identifier that is not there.\<close>

definition supplier_available :: "conn_state \<Rightarrow> uint32 \<Rightarrow> bool option" where
  "supplier_available s i = map_option (\<lambda>sr. ns_isAvailable (sup_at s sr)) (NetConnService_GetNetSupplierFromListById i s)"

definition link_up :: "uint64 \<Rightarrow> bool" where
  "link_up flags \<longleftrightarrow> flags AND IFF_UP \<noteq> 0 \<and> flags AND IFF_LOWER_UP \<noteq> 0"

section \<open>What reports change\<close>

lemma UpdateNetSupplierInfo_available:
  assumes "conn_inv E s" and "NetConnService_UpdateNetSupplierInfo E i (Some info) s = (res, t)"
  shows "supplier_available t j =
    (if j = i then map_option (\<lambda>_. si_isAvailable info) (supplier_available s j) else supplier_available s j)"
proof (cases "NetConnService_GetNetSupplierFromListById i s")
  case None
  then have "t = s" "supplier_available s i = None" using assms(2) by (auto simp: NetConnService_UpdateNetSupplierInfo_def supplier_available_def)
  then show ?thesis by simp
next
  case (Some sr)
  have p: "parts_inv {} s" using assms(1) by (simp add: conn_inv_parts_world)
  obtain nr where nr: "NetConnService_GetNetworkFromListBySupplierId i s = Some nr" "nw_supplier (net_at s nr) = sr"
      "nr \<in> set (cs_networkList s)" "sr \<in> set (cs_netSupplier s)" "ns_supplierId (sup_at s sr) = i" "net_sup s nr = sup_at s sr"
    by (rule find_by_id [OF p Some])
  have "registered s i (sup_key s sr)" using nr(4,5) by (auto simp: registered_def)
  note f = UpdateNetSupplierInfo_found [OF assms(1) this assms(2) nr(1)]
  obtain b nw spl w where run: "Network_UpdateNetSupplierInfo E info (net_at s nr) (net_sup s nr) (cs_world s) = (b, nw, spl, w)"
    by (metis prod.collapse)
  have t: "t = s\<lparr>cs_networks := (cs_networks s)(nr \<mapsto> nw), cs_suppliers := (cs_suppliers s)(sr \<mapsto> spl), cs_world := w\<rparr>"
    using assms(2) Some nr(1,2,5) run by (simp add: NetConnService_UpdateNetSupplierInfo_def Let_def)
  have "nw_supplier (net_at t nr) = sr" using shape_fields(5) [OF f(2)] nr(2) by simp
  then have own: "ns_isAvailable (sup_at t sr) = si_isAvailable info" using f(3) by (simp add: net_sup_def)
  have other: "sup_at t r = sup_at s r" if "r \<noteq> sr" for r using that unfolding t by (simp add: sup_at_def del: at_fold)
  have "r \<noteq> sr" if "NetConnService_GetNetSupplierFromListById j s = Some r" "j \<noteq> i" for r
    using that nr(5) unfolding NetConnService_GetNetSupplierFromListById_def by (auto simp: find_Some_iff)
  then show ?thesis using own other Some unfolding supplier_available_def shape_lookup(1) [OF f(2)]
    by (cases "NetConnService_GetNetSupplierFromListById j s") auto
qed

lemma UpdateNetLinkInfo_available:
  "supplier_available (snd (NetConnService_UpdateNetLinkInfo E i (Some li) s)) j = supplier_available s j"
proof -
  let ?t = "snd (NetConnService_UpdateNetLinkInfo E i (Some li) s)"
  have "cs_suppliers ?t = cs_suppliers s" "cs_netSupplier ?t = cs_netSupplier s"
    by (auto simp: NetConnService_UpdateNetLinkInfo_def Let_def split: option.splits prod.splits)
  then show ?thesis by (simp add: supplier_available_def NetConnService_GetNetSupplierFromListById_def sup_at_def del: at_fold)
qed

text \<open>A link change of one device, static or DHCP.\<close>

lemma RemoteUpdateNetSupplierInfo_available:
  assumes "conn_inv E (fst x)" and "dv_netSupplierInfo d \<noteq> None" and "dv_connLinkState d \<noteq> UNREGISTERED"
    and "DevInterfaceState_RemoteUpdateNetSupplierInfo (conn_eth_ops E B) d x = (r, d', y)"
  shows "supplier_available (fst y) j = (if j = dv_netSupplier d
      then map_option (\<lambda>_. dv_linkUp d \<and> dv_lowerUp d) (supplier_available (fst x) j) else supplier_available (fst x) j) \<and>
    conn_inv E (fst y)"
proof -
  obtain i where i: "dv_netSupplierInfo d = Some i" using assms(2) by blast
  let ?i = "i\<lparr>si_isAvailable := dv_linkUp d \<and> dv_lowerUp d\<rparr>"
  obtain q t where u: "NetConnService_UpdateNetSupplierInfo E (dv_netSupplier d) (Some ?i) (fst x) = (q, t)" by fastforce
  then have "fst y = t" using assms(3,4) i
    by (auto simp: DevInterfaceState_RemoteUpdateNetSupplierInfo_def DevInterfaceState_UpdateSupplierAvailable_def conn_eth_ops_def on_conn_def Let_def)
  then show ?thesis using UpdateNetSupplierInfo_available [OF assms(1) u] UpdateNetSupplierInfo_inv [OF assms(1), of "dv_netSupplier d" "Some ?i"] u
    by simp
qed

lemma RemoteUpdateNetLinkInfo_available:
  "supplier_available (fst (snd (DevInterfaceState_RemoteUpdateNetLinkInfo (conn_eth_ops E B) d x))) j = supplier_available (fst x) j"
proof -
  have "supplier_available t j = supplier_available s j" if "NetConnService_UpdateNetLinkInfo E i (Some li) s = (r, t)" for i li s r t
    using UpdateNetLinkInfo_available [of E i li s j] that by simp
  then show ?thesis
    by (auto simp: DevInterfaceState_RemoteUpdateNetLinkInfo_def conn_eth_ops_def on_conn_def split: option.splits prod.splits)
qed

lemma device_link_change_available:
  assumes "conn_inv E (fst x)" and "dv_netSupplierInfo d \<noteq> None" and "eo_hasDhcpService B"
  shows "supplier_available (fst (snd (device_link_change (conn_eth_ops E B) n up low d x))) j =
    (if dv_connLinkState d \<noteq> UNREGISTERED \<and> j = dv_netSupplier d
     then map_option (\<lambda>_. up \<and> low) (supplier_available (fst x) j) else supplier_available (fst x) j)"
proof -
  let ?E = "conn_eth_ops E B"
  have E: "eo_hasDhcpService ?E" "\<And>m b v x. fst (eo_StartDhcpClient ?E m v x) = fst x" "\<And>m v x. fst (eo_StopDhcpClient ?E m v x) = fst x"
      "\<And>m t x. fst (snd (eo_GetDhcpResult ?E m t x)) = fst x"
    using assms(3) by (simp_all add: conn_eth_ops_def on_rest_def split: prod.splits)
  have r: "supplier_available (fst (snd (snd (DevInterfaceState_RemoteUpdateNetSupplierInfo ?E e y)))) j =
      (if dv_connLinkState d \<noteq> UNREGISTERED \<and> j = dv_netSupplier d
       then map_option (\<lambda>_. up \<and> low) (supplier_available (fst x) j) else supplier_available (fst x) j)"
    if "e = d\<lparr>dv_linkUp := up, dv_lowerUp := low, dv_dhcpReqState := b\<rparr>" "fst y = fst x" for e y b
  proof (cases "dv_connLinkState d = UNREGISTERED")
    case True
    then show ?thesis using that by (simp add: DevInterfaceState_RemoteUpdateNetSupplierInfo_def)
  next
    case False
    obtain q d' z where u: "DevInterfaceState_RemoteUpdateNetSupplierInfo ?E e y = (q, d', z)" by (metis prod.collapse)
    have "conn_inv E (fst y)" "dv_netSupplierInfo e \<noteq> None" "dv_connLinkState e \<noteq> UNREGISTERED" using assms(1,2) False that by simp_all
    from RemoteUpdateNetSupplierInfo_available [OF this u, of j] show ?thesis using that u False by simp
  qed
  have same: "d\<lparr>dv_linkUp := up, dv_lowerUp := low\<rparr> = d\<lparr>dv_linkUp := up, dv_lowerUp := low, dv_dhcpReqState := dv_dhcpReqState d\<rparr>" by simp
  show ?thesis
  proof (cases low)
    case True
    obtain q d' z where u: "DevInterfaceState_RemoteUpdateNetSupplierInfo ?E (d\<lparr>dv_linkUp := up, dv_lowerUp := low\<rparr>) x = (q, d', z)" by (metis prod.collapse)
    obtain a w where g: "eo_GetDhcpResult ?E n DHCP_TIMEOUT (eo_StartDhcpClient ?E n False z) = (a, w)" by (metis prod.collapse)
    then have "fst w = fst z" using E(2,4) by (metis snd_conv)
    then show ?thesis using r [OF same refl] True u g E(1) RemoteUpdateNetLinkInfo_available [of E B d' z j]
      by (auto simp: device_link_change_def DevInterfaceState_SetLowerUp_def DevInterfaceState_SetLinkUp_def Let_def)
  next
    case False
    then show ?thesis using r [OF same refl] r [of "d\<lparr>dv_linkUp := up, dv_lowerUp := low, dv_dhcpReqState := False\<rparr>" False "eo_StopDhcpClient ?E n False x"] E
      by (auto simp: device_link_change_def DevInterfaceState_SetLowerUp_def DevInterfaceState_SetLinkUp_def DevInterfaceState_SetDhcpReqState_def Let_def
          split: prod.splits)
  qed
qed

section \<open>The events of a round\<close>

text \<open>A device that is registered under an identifier no other registered device has.\<close>

definition tracked :: "conn_env \<Rightarrow> string \<Rightarrow> uint32 \<Rightarrow> dev_table \<times> conn_state \<times> 'w \<Rightarrow> bool" where
  "tracked E n i s \<longleftrightarrow> joint_inv E s \<and>
     (\<exists>d. map_of (fst s) n = Some d \<and> dv_netSupplier d = i \<and> dv_connLinkState d \<noteq> UNREGISTERED) \<and>
     (\<forall>n' d'. map_of (fst s) n' = Some d' \<and> n' \<noteq> n \<and> dv_connLinkState d' \<noteq> UNREGISTERED \<longrightarrow> dv_netSupplier d' \<noteq> i)"

lemma Handle_known:
  "map_of devs (ne_iface info) = Some d \<Longrightarrow>
    EthernetManagement_Handle E info (devs, x) =
      (case device_link_change E (ne_iface info) (ne_ifiFlags info AND IFF_UP \<noteq> 0) (ne_ifiFlags info AND IFF_LOWER_UP \<noteq> 0) d x of
         (d', y) \<Rightarrow> (map_put (ne_iface info) d' devs, y))"
  by (simp add: EthernetManagement_Handle_def EthernetManagement_UpdateInterfaceState_def)

lemma Handle_tracked:
  assumes "tracked E n i s" and "eo_hasDhcpService B" and "t = EthernetManagement_Handle (conn_eth_ops E B) info s"
  shows "tracked E n i t" and "supplier_available (fst (snd t)) i =
    (if ne_iface info = n then Some (link_up (ne_ifiFlags info)) else supplier_available (fst (snd s)) i)"
proof -
  obtain devs x where s: "s = (devs, x)" by (cases s)
  have inv: "joint_inv E (devs, x)" using assms(1) s by (simp add: tracked_def)
  have inv': "joint_inv E t" unfolding assms(3) s by (rule Handle_joint [OF inv assms(2)])
  obtain d where d: "map_of devs n = Some d" "dv_netSupplier d = i" "dv_connLinkState d \<noteq> UNREGISTERED"
    using assms(1) by (auto simp: tracked_def s)
  have reg: "supplier_available (fst x) i \<noteq> None"
    using joint_inv_dev(2,3) [OF inv d(1)] d(2,3) registered_lookup [of E "fst x" i "(NET_TYPE_ETHERNET, n)"]
    by (auto simp: dev_registered_def supplier_available_def)
  have "tracked E n i t \<and> supplier_available (fst (snd t)) i =
    (if ne_iface info = n then Some (link_up (ne_ifiFlags info)) else supplier_available (fst (snd s)) i)"
  proof (cases "map_of devs (ne_iface info)")
    case None
    then have "t = s" "ne_iface info \<noteq> n" using d(1) assms(3) s
      by (auto simp: EthernetManagement_Handle_def EthernetManagement_UpdateInterfaceState_def)
    then show ?thesis using assms(1) by simp
  next
    case (Some e)
    let ?r = "device_link_change (conn_eth_ops E B) (ne_iface info) (ne_ifiFlags info AND IFF_UP \<noteq> 0)
      (ne_ifiFlags info AND IFF_LOWER_UP \<noteq> 0) e x"
    have ok: "dev_ok (ne_iface info) e" "conn_inv E (fst x)" using joint_inv_dev [OF inv Some] by simp_all
    then have si: "dv_netSupplierInfo e \<noteq> None" by (simp add: dev_ok_def)
    have dhcp: "eo_hasDhcpService (conn_eth_ops E B)" using assms(2) by (simp add: conn_eth_ops_def)
    have e': "dv_netSupplier (fst ?r) = dv_netSupplier e" "(dv_connLinkState (fst ?r) = UNREGISTERED) = (dv_connLinkState e = UNREGISTERED)"
      using device_link_change_dev [OF si dhcp] device_link_change_ok(4) [OF ok(1) dhcp refl] by simp_all
    have t: "t = (map_put (ne_iface info) (fst ?r) devs, snd ?r)" unfolding assms(3) s Handle_known [OF Some] by (simp add: split_def)
    have m: "map_of (fst t) k = (if k = ne_iface info then Some (fst ?r) else map_of devs k)" for k
      unfolding t fst_conv map_of_map_put using map_of_SomeD [OF Some] by force
    have "tracked E n i t"
      using assms(1) inv' e' Some unfolding tracked_def m s fst_conv by (auto split: if_splits)
    moreover have "supplier_available (fst (snd t)) i = (if dv_connLinkState e \<noteq> UNREGISTERED \<and> i = dv_netSupplier e
        then map_option (\<lambda>_. link_up (ne_ifiFlags info)) (supplier_available (fst x) i) else supplier_available (fst x) i)"
      using device_link_change_available [OF ok(2) si assms(2)] by (simp add: t link_up_def)
    moreover have "dv_connLinkState e \<noteq> UNREGISTERED \<and> i = dv_netSupplier e \<longleftrightarrow> ne_iface info = n"
      using assms(1) Some d unfolding tracked_def s fst_conv by (metis option.inject)
    ultimately show ?thesis using reg s by auto
  qed
  then show "tracked E n i t" "supplier_available (fst (snd t)) i =
    (if ne_iface info = n then Some (link_up (ne_ifiFlags info)) else supplier_available (fst (snd s)) i)" by blast+
qed

lemma events_tracked:
  assumes "tracked E n i s" and "eo_hasDhcpService B"
  shows "supplier_available (fst (snd (fold (EthernetManagement_Handle (conn_eth_ops E B)) infos s))) i =
    (case find (\<lambda>v. ne_iface v = n) (rev infos) of Some v \<Rightarrow> Some (link_up (ne_ifiFlags v)) | None \<Rightarrow> supplier_available (fst (snd s)) i) \<and>
    tracked E n i (fold (EthernetManagement_Handle (conn_eth_ops E B)) infos s)"
proof (induction infos rule: rev_induct)
  case Nil
  then show ?case using assms(1) by simp
next
  case (snoc v infos)
  then show ?case using Handle_tracked [OF conjunct2 [OF snoc.IH] assms(2) refl, of v] by simp
qed

text \<open>The events of a buffer for one interface are those of its Ethernet link messages of that name.\<close>

lemma find_link_events:
  "find (\<lambda>v. ne_iface v = n) (rev (map link_info (filter (\<lambda>k. kl_iftype k = 1) ks))) =
    map_option link_info (find (\<lambda>k. kl_iftype k = 1 \<and> ne_iface (link_info k) = n) (rev ks))"
  by (induction ks rule: rev_induct) simp_all

lemma messages_handled:
  assumes "\<forall>k \<in> set ms. msg_ok k" and "length (concat (map enc_msg ms)) < 2 ^ 31" and "3 \<le> mx"
    and "nr_select r timeout = (ready, True, timeout')" and "0 <s ready"
    and "nr_read r = (word_of_nat (length (concat (map enc_msg ms))), concat (map enc_msg ms) @ rest)"
  shows "NetLinkRtnl_NetLinkHandle (linux_headers mx) r timeout =
    Some (Done (ETHERNET_SUCCESS, map link_info (filter (\<lambda>k. kl_iftype k = 1) (links ms)), timeout'))"
proof -
  have "\<not> ready <s 0" using assms(5) by (simp add: word_sless_alt)
  then show ?thesis using conjunct2 [OF messages_decoded [OF assms(1-3)]] assms(4-6) by (simp add: NetLinkRtnl_NetLinkHandle_def)
qed

text \<open>
  C14. From the bytes of the kernel to the connection service: in every reachable state of the joint
  system one round of the listener over a buffer of complete messages ends, and afterwards the supplier of
  a registered device is available as the last message for that interface in the buffer says, both flags up
  and lower up; without such a message it is as before. The mode of the device, static or DHCP, does not
  matter.
\<close>

theorem link_messages_arrive:
  assumes "joint_reachable E B (devs, s, w)" and "eo_hasDhcpService B"
    and "map_of devs n = Some d" and "dv_connLinkState d \<noteq> UNREGISTERED"
    and "\<forall>n' d'. map_of devs n' = Some d' \<and> n' \<noteq> n \<and> dv_connLinkState d' \<noteq> UNREGISTERED \<longrightarrow> dv_netSupplier d' \<noteq> dv_netSupplier d"
    and "\<forall>k \<in> set ms. msg_ok k" and "length (concat (map enc_msg ms)) < 2 ^ 31" and "3 \<le> mx"
    and "nr_select r timeout = (ready, True, timeout')" and "0 <s ready"
    and "nr_read r = (word_of_nat (length (concat (map enc_msg ms))), concat (map enc_msg ms) @ rest)"
  shows "\<exists>devs' s' w'. listener_round (linux_headers mx) (conn_eth_ops E B) r timeout (devs, s, w) = Some (Done ((devs', s', w'), timeout')) \<and>
    supplier_available s' (dv_netSupplier d) =
      (case find (\<lambda>k. kl_iftype k = 1 \<and> ne_iface (link_info k) = n) (rev (links ms)) of
         Some k \<Rightarrow> Some (link_up (ne_ifiFlags (link_info k)))
       | None \<Rightarrow> supplier_available s (dv_netSupplier d))"
proof -
  let ?infos = "map link_info (filter (\<lambda>k. kl_iftype k = 1) (links ms))"
  let ?t = "fold (EthernetManagement_Handle (conn_eth_ops E B)) ?infos (devs, s, w)"
  have "joint_inv E (devs, s, w)" using joint_system.reach_inv [OF assms(1)] assms(2) by simp
  then have "tracked E n (dv_netSupplier d) (devs, s, w)" using assms(3-5) by (simp add: tracked_def)
  note ev = conjunct1 [OF events_tracked [OF this assms(2), of ?infos]]
  have "NetLinkRtnl_NetLinkHandle (linux_headers mx) r timeout = Some (Done (ETHERNET_SUCCESS, ?infos, timeout'))"
    by (rule messages_handled [OF assms(6-11)])
  moreover obtain devs' s' w' where t: "?t = (devs', s', w')" by (rule prod_cases3)
  ultimately have "listener_round (linux_headers mx) (conn_eth_ops E B) r timeout (devs, s, w) = Some (Done ((devs', s', w'), timeout'))"
    unfolding listener_round_def by simp
  moreover have "supplier_available s' (dv_netSupplier d) =
      (case find (\<lambda>k. kl_iftype k = 1 \<and> ne_iface (link_info k) = n) (rev (links ms)) of
         Some k \<Rightarrow> Some (link_up (ne_ifiFlags (link_info k)))
       | None \<Rightarrow> supplier_available s (dv_netSupplier d))"
    using ev unfolding t find_link_events fst_conv snd_conv by (simp split: option.splits)
  ultimately show ?thesis by blast
qed

definition sample_round :: nl_round where
  "sample_round = \<lparr>nr_select = \<lambda>timeout. (1, True, timeout), nr_read = (44, enc_msg (KLink sample_link))\<rparr>"

lemma sample_round_facts:
  "\<forall>k \<in> set [KLink sample_link]. msg_ok k" "length (concat (map enc_msg [KLink sample_link])) < 2 ^ 31"
  "nr_select sample_round (5, 0) = (1, True, (5, 0))" "(0 :: int32) <s 1"
  "nr_read sample_round = (word_of_nat (length (concat (map enc_msg [KLink sample_link]))), concat (map enc_msg [KLink sample_link]) @ [])"
proof -
  show "\<forall>k \<in> set [KLink sample_link]. msg_ok k" by (simp add: sample_link_def link_ok_def attr_fits_def)
  have len: "length (concat (map enc_msg [KLink sample_link])) = 44"
    by (simp add: enc_parts_def enc_link_def enc_attrs_def enc_attr_def pad_def sample_link_def)
  then show "length (concat (map enc_msg [KLink sample_link])) < 2 ^ 31" by simp
  show "nr_select sample_round (5, 0) = (1, True, (5, 0))" "(0 :: int32) <s 1" by (simp_all add: sample_round_def word_sless_alt)
  show "nr_read sample_round = (word_of_nat (length (concat (map enc_msg [KLink sample_link]))), concat (map enc_msg [KLink sample_link]) @ [])"
    unfolding len sample_round_def by (simp only: nl_round.select_convs of_nat_numeral list.map concat.simps append_Nil2)
qed

theorem link_messages_arrive_witness:
  "\<exists>d t s' devs' w'. joint_reachable sample_env (sample_eth_ops [sample_info 0]) ([(''eth0'', d)], t, ()) \<and>
    listener_round (linux_headers 60) (conn_eth_ops sample_env (sample_eth_ops [sample_info 0])) sample_round (5, 0) ([(''eth0'', d)], t, ()) =
      Some (Done ((devs', s', w'), (5, 0))) \<and> supplier_available s' 0x03EB = Some True"
proof -
  obtain d t where r: "joint_reachable sample_env (sample_eth_ops [sample_info 0]) ([(''eth0'', d)], t, ())"
    "dv_connLinkState d = REGISTERED" "dv_netSupplier d = 0x03EB" by (rule sample_joint)
  have dhcp: "eo_hasDhcpService (sample_eth_ops [sample_info 0])" by (simp add: sample_eth_ops_def)
  have info: "link_info sample_link = \<lparr>ne_iface = ''eth0'', ne_ifiFlags = 0x10001\<rparr>" "kl_iftype sample_link = 1"
    by (simp_all add: link_info_def sample_link_def text_of_def char_of_def bit_Suc_0_iff)
  have up: "link_up 0x10001 = True" by (simp add: link_up_def IFF_UP_def IFF_LOWER_UP_def)
  have last: "find (\<lambda>k. kl_iftype k = 1 \<and> ne_iface (link_info k) = ''eth0'') (rev (links [KLink sample_link])) = Some sample_link"
    by (simp add: info)
  have dev: "map_of [(''eth0'', d)] ''eth0'' = Some d" "dv_connLinkState d \<noteq> UNREGISTERED"
    "\<forall>n' d'. map_of [(''eth0'', d)] n' = Some d' \<and> n' \<noteq> ''eth0'' \<and> dv_connLinkState d' \<noteq> UNREGISTERED \<longrightarrow> dv_netSupplier d' \<noteq> dv_netSupplier d"
    using r(2) by simp_all
  have mx: "(3 :: nat) \<le> 60" by simp
  note f = sample_round_facts
  from link_messages_arrive [OF r(1) dhcp dev f(1,2) mx f(3-5)] show ?thesis
    unfolding last option.case info nlk_event_info.select_convs r(3) up using r(1) by blast
qed

end
