(* ===== verification/Ethernet_Client.thy ===== *)
theory Ethernet_Client
  imports Link_Events Net_Conn_Ipc
begin

text \<open>
  The Ethernet service reaches the connection service through \<open>NetConnClient\<close>; from another process the calls go
  through the proxy, the transport and the stub. What it does over the client is what it does over the service itself:
  the locale states when one environment of \<open>EthernetManagement\<close> can stand for another, and its
  interpretation gives the client for the service.
\<close>

section \<open>One environment for another\<close>

text \<open>The same result, the same state behind the abstraction, and the condition on the state is kept.\<close>

definition same_answer :: "('s \<Rightarrow> 't) \<Rightarrow> ('s \<Rightarrow> bool) \<Rightarrow> 'r \<times> 's \<Rightarrow> 'r \<times> 't \<Rightarrow> bool" where
  "same_answer view good a b \<longleftrightarrow> b = (fst a, view (snd a)) \<and> good (snd a)"

definition links_ok :: "(NetLinkInfo \<Rightarrow> bool) \<Rightarrow> dev_table \<Rightarrow> bool" where
  "links_ok li_ok devs \<longleftrightarrow> (\<forall>(n, d) \<in> set devs. \<forall>li. dv_linkInfo d = Some li \<longrightarrow> li_ok li)"

locale eth_refinement =
  fixes E :: "'s eth_ops" and F :: "'t eth_ops" and view :: "'s \<Rightarrow> 't" and good :: "'s \<Rightarrow> bool" and li_ok :: "NetLinkInfo \<Rightarrow> bool"
  assumes update_link: "good w \<Longrightarrow> li_ok li \<Longrightarrow> same_answer view good (eo_UpdateNetLinkInfo E i li w) (eo_UpdateNetLinkInfo F i li (view w))"
    and update_supplier: "good w \<Longrightarrow> same_answer view good (eo_UpdateNetSupplierInfo E i si w) (eo_UpdateNetSupplierInfo F i si (view w))"
    and has_dhcp: "eo_hasDhcpService E = eo_hasDhcpService F"
    and start_dhcp: "good w \<Longrightarrow> view (eo_StartDhcpClient E n v6 w) = eo_StartDhcpClient F n v6 (view w) \<and> good (eo_StartDhcpClient E n v6 w)"
    and stop_dhcp: "good w \<Longrightarrow> view (eo_StopDhcpClient E n v6 w) = eo_StopDhcpClient F n v6 (view w) \<and> good (eo_StopDhcpClient E n v6 w)"
    and set_ip: "good w \<Longrightarrow> same_answer view good (eo_SetIpAddr E n ip w) (eo_SetIpAddr F n ip (view w))"
    and dhcp_result: "good w \<Longrightarrow> same_answer view good (eo_GetDhcpResult E n t w) (eo_GetDhcpResult F n t (view w))"
begin

lemma supplier_report:
  assumes "good w" and "DevInterfaceState_RemoteUpdateNetSupplierInfo E d w = (r, d', w')"
  shows "DevInterfaceState_RemoteUpdateNetSupplierInfo F d (view w) = (r, d', view w')" and "good w'" and "dv_linkInfo d' = dv_linkInfo d"
proof -
  have "DevInterfaceState_RemoteUpdateNetSupplierInfo F d (view w) = (r, d', view w') \<and> good w' \<and> dv_linkInfo d' = dv_linkInfo d"
  proof (cases "dv_connLinkState d = UNREGISTERED \<or> dv_netSupplierInfo (DevInterfaceState_UpdateSupplierAvailable d) = None")
    case True
    then show ?thesis using assms by (auto simp: DevInterfaceState_RemoteUpdateNetSupplierInfo_def)
  next
    case False
    then obtain i where i: "dv_connLinkState d \<noteq> UNREGISTERED" "dv_netSupplierInfo (DevInterfaceState_UpdateSupplierAvailable d) = Some i" by blast
    obtain q u where u: "eo_UpdateNetSupplierInfo E (dv_netSupplier d) i w = (q, u)" by fastforce
    then have "eo_UpdateNetSupplierInfo F (dv_netSupplier d) i (view w) = (q, view u)" "good u"
      using update_supplier [OF assms(1), of "dv_netSupplier d" i] by (simp_all add: same_answer_def)
    then show ?thesis using assms(2) i u
      by (auto simp: DevInterfaceState_RemoteUpdateNetSupplierInfo_def DevInterfaceState_UpdateSupplierAvailable_def Let_def)
  qed
  then show "DevInterfaceState_RemoteUpdateNetSupplierInfo F d (view w) = (r, d', view w')" "good w'" "dv_linkInfo d' = dv_linkInfo d" by blast+
qed

lemma link_report:
  assumes "good w" and "\<And>li. dv_linkInfo d = Some li \<Longrightarrow> li_ok li"
  shows "same_answer view good (DevInterfaceState_RemoteUpdateNetLinkInfo E d w) (DevInterfaceState_RemoteUpdateNetLinkInfo F d (view w))"
  using assms update_link [OF assms(1)]
  by (auto simp: DevInterfaceState_RemoteUpdateNetLinkInfo_def same_answer_def split: option.splits)

lemma link_up_change:
  assumes "good w" and "\<And>li. dv_linkInfo d = Some li \<Longrightarrow> li_ok li"
  shows "same_answer view good (device_link_change E n up True d w) (device_link_change F n up True d (view w)) \<and>
    dv_linkInfo (fst (device_link_change E n up True d w)) = dv_linkInfo d"
proof -
  let ?d = "d\<lparr>dv_linkUp := up, dv_lowerUp := True\<rparr>"
  obtain q d1 w1 where a: "DevInterfaceState_RemoteUpdateNetSupplierInfo E ?d w = (q, d1, w1)" by (metis prod.collapse)
  note s = supplier_report [OF assms(1) a]
  have "same_answer view good (DevInterfaceState_RemoteUpdateNetLinkInfo E d1 w1) (DevInterfaceState_RemoteUpdateNetLinkInfo F d1 (view w1))"
    by (rule link_report [OF s(2)]) (use assms(2) s(3) in simp)
  moreover have "same_answer view good (eo_GetDhcpResult E n t (eo_StartDhcpClient E n v6 w1)) (eo_GetDhcpResult F n t (eo_StartDhcpClient F n v6 (view w1)))" for t v6
    using dhcp_result [of "eo_StartDhcpClient E n v6 w1"] start_dhcp [OF s(2)] by simp
  ultimately show ?thesis using a s has_dhcp
    by (simp add: device_link_change_def Let_def same_answer_def DevInterfaceState_GetIPSetMode_def split_def)
qed

lemma link_down_change:
  assumes "good w"
  shows "same_answer view good (device_link_change E n up False d w) (device_link_change F n up False d (view w)) \<and>
    dv_linkInfo (fst (device_link_change E n up False d w)) = dv_linkInfo d"
proof -
  let ?d = "d\<lparr>dv_linkUp := up, dv_lowerUp := False\<rparr>" and ?e = "d\<lparr>dv_linkUp := up, dv_lowerUp := False, dv_dhcpReqState := False\<rparr>"
  let ?x = "eo_StopDhcpClient E n False w"
  have x: "view ?x = eo_StopDhcpClient F n False (view w)" "good ?x" using stop_dhcp [OF assms] by blast+
  obtain q d1 w1 where a: "DevInterfaceState_RemoteUpdateNetSupplierInfo E ?d w = (q, d1, w1)" by (metis prod.collapse)
  obtain p d2 w2 where b: "DevInterfaceState_RemoteUpdateNetSupplierInfo E ?e ?x = (p, d2, w2)" by (metis prod.collapse)
  show ?thesis using a b supplier_report [OF assms a] supplier_report [OF x(2) b] x assms has_dhcp
    by (simp add: device_link_change_def Let_def same_answer_def DevInterfaceState_GetIPSetMode_def)
qed

lemma link_change:
  assumes "good w" and "\<And>li. dv_linkInfo d = Some li \<Longrightarrow> li_ok li"
  shows "same_answer view good (device_link_change E n up low d w) (device_link_change F n up low d (view w)) \<and>
    dv_linkInfo (fst (device_link_change E n up low d w)) = dv_linkInfo d"
proof (cases low)
  case True
  then show ?thesis using link_up_change [OF assms(1), of d n up] assms(2) by simp
next
  case False
  then show ?thesis using link_down_change [OF assms(1), of n up d] by simp
qed

lemma dhcp_success:
  assumes "good w" and "links_ok li_ok (fst (EthDhcpResultNotify_OnSuccess F status n result devs (view w)))"
  shows "same_answer view good (EthDhcpResultNotify_OnSuccess E status n result devs w) (EthDhcpResultNotify_OnSuccess F status n result devs (view w))"
proof (cases "map_of devs n")
  case (Some d)
  let ?d = "DevInterfaceState_UpdateLinkInfo_dhcp n result d"
  show ?thesis
  proof (cases "dv_linkUp d")
    case True
    have "(n, ?d) \<in> set (map_put n ?d devs)" using map_of_SomeD [OF Some] by (force simp: map_put_def)
    then have "li_ok li" if "dv_linkInfo ?d = Some li" for li
      using assms(2) that True Some
      by (auto simp: links_ok_def EthDhcpResultNotify_OnSuccess_def EthernetManagement_UpdateDevInterfaceLinkInfo_def Let_def)
    from link_report [OF assms(1) this] show ?thesis using True Some
      by (simp add: EthDhcpResultNotify_OnSuccess_def EthernetManagement_UpdateDevInterfaceLinkInfo_def same_answer_def Let_def)
  qed (use Some assms(1) in \<open>simp add: EthDhcpResultNotify_OnSuccess_def EthernetManagement_UpdateDevInterfaceLinkInfo_def same_answer_def\<close>)
qed (use assms(1) in \<open>simp add: EthDhcpResultNotify_OnSuccess_def EthernetManagement_UpdateDevInterfaceLinkInfo_def same_answer_def\<close>)

lemma set_address:
  assumes "good w"
  shows "case DevInterfaceState_SetIpAddr F d (view w) of None \<Rightarrow> DevInterfaceState_SetIpAddr E d w = None
    | Some t \<Rightarrow> \<exists>w'. DevInterfaceState_SetIpAddr E d w = Some w' \<and> view w' = t \<and> good w'"
  using set_ip [OF assms] by (auto simp: DevInterfaceState_SetIpAddr_def same_answer_def split: option.splits)

lemma configured:
  assumes "good w" and "\<And>d' t li. DevInterfaceState_SetIfcfg F cfg d (view w) = Some (d', t) \<Longrightarrow> dv_linkInfo d' = Some li \<Longrightarrow> li_ok li"
  shows "case DevInterfaceState_SetIfcfg F cfg d (view w) of None \<Rightarrow> DevInterfaceState_SetIfcfg E cfg d w = None
    | Some (d', t) \<Rightarrow> \<exists>w'. DevInterfaceState_SetIfcfg E cfg d w = Some (d', w') \<and> view w' = t \<and> good w'"
proof (cases cfg)
  case (Some c)
  let ?d = "d\<lparr>dv_ifcfg := Some c\<rparr>"
  show ?thesis
  proof (cases "ic_mode c = STATIC")
    case True
    obtain d1 where d1: "DevInterfaceState_UpdateLinkInfo_static ?d = Some d1" by (simp add: DevInterfaceState_UpdateLinkInfo_static_def Let_def)
    show ?thesis
    proof (cases "DevInterfaceState_SetIpAddr F d1 (view w)")
      case None
      then show ?thesis using set_address [OF assms(1), of d1] Some True d1 by (simp add: DevInterfaceState_SetIfcfg_def)
    next
      case ip: (Some t)
      then obtain w1 where w1: "DevInterfaceState_SetIpAddr E d1 w = Some w1" "view w1 = t" "good w1"
        using set_address [OF assms(1), of d1] by auto
      have "li_ok li" if "dv_linkInfo d1 = Some li" for li
        using assms(2) that Some True d1 ip by (simp add: DevInterfaceState_SetIfcfg_def)
      from link_report [OF w1(3) this] show ?thesis using Some True d1 ip w1
        by (simp add: DevInterfaceState_SetIfcfg_def same_answer_def)
    qed
  qed (use Some assms(1) in \<open>simp add: DevInterfaceState_SetIfcfg_def\<close>)
qed (simp add: DevInterfaceState_SetIfcfg_def)

lemma configure:
  assumes "good w"
    and "\<And>r devs' t. EthernetManagement_UpdateDevInterfaceState F n cfg devs (view w) = Some (r, devs', t) \<Longrightarrow> links_ok li_ok devs'"
  shows "case EthernetManagement_UpdateDevInterfaceState F n cfg devs (view w) of
      None \<Rightarrow> EthernetManagement_UpdateDevInterfaceState E n cfg devs w = None
    | Some (r, devs', t) \<Rightarrow> \<exists>w'. EthernetManagement_UpdateDevInterfaceState E n cfg devs w = Some (r, devs', w') \<and> view w' = t \<and> good w'"
proof (cases "\<exists>d. map_of devs n = Some d \<and> dv_linkUp d")
  case True
  then obtain d where d: "map_of devs n = Some d" "dv_linkUp d" by blast
  have "(n, d') \<in> set (map_put n d' devs)" for d' using map_of_SomeD [OF d(1)] by (force simp: map_put_def)
  then have ok: "li_ok li" if "DevInterfaceState_SetIfcfg F cfg d (view w) = Some (d', t)" "dv_linkInfo d' = Some li" for d' t li
    using assms(2) that d by (fastforce simp: links_ok_def EthernetManagement_UpdateDevInterfaceState_def)
  have c: "case DevInterfaceState_SetIfcfg F cfg d (view w) of None \<Rightarrow> DevInterfaceState_SetIfcfg E cfg d w = None
    | Some (d', t) \<Rightarrow> \<exists>w'. DevInterfaceState_SetIfcfg E cfg d w = Some (d', w') \<and> view w' = t \<and> good w'"
    by (rule configured [OF assms(1)]) (rule ok)
  show ?thesis using c d
    by (auto simp: EthernetManagement_UpdateDevInterfaceState_def split: option.splits)
next
  case False
  then show ?thesis using assms(1) by (cases "map_of devs n") (auto simp: EthernetManagement_UpdateDevInterfaceState_def)
qed

lemma handle:
  assumes "good w" and "links_ok li_ok devs"
  shows "same_answer view good (EthernetManagement_Handle E info (devs, w)) (EthernetManagement_Handle F info (devs, view w)) \<and>
    links_ok li_ok (fst (EthernetManagement_Handle E info (devs, w)))"
proof (cases "map_of devs (ne_iface info)")
  case None
  then show ?thesis using assms by (simp add: EthernetManagement_Handle_def EthernetManagement_UpdateInterfaceState_def same_answer_def)
next
  case (Some d)
  let ?d = "device_link_change E (ne_iface info) (ne_ifiFlags info AND IFF_UP \<noteq> 0) (ne_ifiFlags info AND IFF_LOWER_UP \<noteq> 0) d w"
  have ok: "li_ok li" if "dv_linkInfo d = Some li" for li
    using assms(2) map_of_SomeD [OF Some] that by (auto simp: links_ok_def)
  have c: "same_answer view good ?d (device_link_change F (ne_iface info) (ne_ifiFlags info AND IFF_UP \<noteq> 0)
      (ne_ifiFlags info AND IFF_LOWER_UP \<noteq> 0) d (view w))" "dv_linkInfo (fst ?d) = dv_linkInfo d"
    using link_change [OF assms(1), of d "ne_iface info" "ne_ifiFlags info AND IFF_UP \<noteq> 0" "ne_ifiFlags info AND IFF_LOWER_UP \<noteq> 0"] ok by blast+
  have "set (map_put (ne_iface info) (fst ?d) devs) \<subseteq> insert (ne_iface info, fst ?d) (set devs)" by (rule set_map_put)
  then have "links_ok li_ok (map_put (ne_iface info) (fst ?d) devs)" using assms(2) c ok unfolding links_ok_def by fastforce
  then show ?thesis using c unfolding Handle_known [OF Some] same_answer_def by (auto split: prod.splits)
qed

lemma events:
  assumes "good w" and "links_ok li_ok devs"
  shows "same_answer view good (fold (EthernetManagement_Handle E) infos (devs, w)) (fold (EthernetManagement_Handle F) infos (devs, view w))"
  using assms
proof (induction infos arbitrary: devs w)
  case (Cons info infos)
  obtain devs' w' where h: "EthernetManagement_Handle E info (devs, w) = (devs', w')" by fastforce
  then have "EthernetManagement_Handle F info (devs, view w) = (devs', view w')" "good w'" "links_ok li_ok devs'"
    using handle [OF Cons.prems, of info] by (auto simp: same_answer_def prod_eq_iff)
  then show ?case using Cons.IH h by simp
qed (simp add: same_answer_def)

lemma round:
  assumes "good w" and "links_ok li_ok devs"
  shows "case listener_round H F r timeout (devs, view w) of None \<Rightarrow> listener_round H E r timeout (devs, w) = None
    | Some Fault \<Rightarrow> listener_round H E r timeout (devs, w) = Some Fault
    | Some (Done ((devs', t), timeout')) \<Rightarrow>
        \<exists>w'. listener_round H E r timeout (devs, w) = Some (Done ((devs', w'), timeout')) \<and> view w' = t \<and> good w'"
proof -
  have "\<exists>w'. fold (EthernetManagement_Handle E) infos (devs, w) = (fst (fold (EthernetManagement_Handle F) infos (devs, view w)), w') \<and>
      view w' = snd (fold (EthernetManagement_Handle F) infos (devs, view w)) \<and> good w'" for infos
    using events [OF assms, of infos] unfolding same_answer_def
    by (intro exI [of _ "snd (fold (EthernetManagement_Handle E) infos (devs, w))"]) simp
  then show ?thesis by (auto simp: listener_round_def split: option.splits run.splits prod.splits) (metis fst_conv snd_conv)+
qed

end

section \<open>The client of the connection service\<close>

definition on_client :: "(client_state \<Rightarrow> conn_state \<Rightarrow> 'a \<times> client_state \<times> conn_state) \<Rightarrow>
    client_state \<times> conn_state \<times> 'w \<Rightarrow> 'a \<times> client_state \<times> conn_state \<times> 'w" where
  "on_client f s = (case f (fst s) (fst (snd s)) of (r, c, t) \<Rightarrow> (r, c, t, snd (snd s)))"
definition beside_client :: "('w \<Rightarrow> 'a \<times> 'w) \<Rightarrow> client_state \<times> conn_state \<times> 'w \<Rightarrow> 'a \<times> client_state \<times> conn_state \<times> 'w" where
  "beside_client f s = (case on_rest f (snd s) of (r, t) \<Rightarrow> (r, fst s, t))"

text \<open>The calls of \<open>DevInterfaceState\<close> go to \<open>NetConnClient\<close>.\<close>

definition client_eth_ops ::
    "'p conn_ipc \<Rightarrow> client_env \<Rightarrow> (nat \<Rightarrow> 'p conn_remote) \<Rightarrow> 'w eth_ops \<Rightarrow> (client_state \<times> conn_state \<times> 'w) eth_ops" where
  "client_eth_ops I C remotes B =
     \<lparr>eo_RegisterNetSupplier = (\<lambda>ty ident caps. on_client (NetConnClient_RegisterNetSupplier I C remotes ty ident caps)),
      eo_UnregisterNetSupplier = (\<lambda>i. on_client (NetConnClient_UnregisterNetSupplier I C remotes i)),
      eo_UpdateNetLinkInfo = (\<lambda>i li. on_client (NetConnClient_UpdateNetLinkInfo I C remotes i li)),
      eo_UpdateNetSupplierInfo = (\<lambda>i si. on_client (NetConnClient_UpdateNetSupplierInfo I C remotes i si)),
      eo_SetIpAddr = (\<lambda>ifc ip. beside_client (eo_SetIpAddr B ifc ip)),
      eo_GetHWaddr = (\<lambda>ifc. beside_client (eo_GetHWaddr B ifc)),
      eo_GetLinkInfo = beside_client (eo_GetLinkInfo B),
      eo_hasDhcpService = eo_hasDhcpService B,
      eo_StartDhcpClient = (\<lambda>ifc v6 s. (fst s, fst (snd s), eo_StartDhcpClient B ifc v6 (snd (snd s)))),
      eo_StopDhcpClient = (\<lambda>ifc v6 s. (fst s, fst (snd s), eo_StopDhcpClient B ifc v6 (snd (snd s)))),
      eo_GetDhcpResult = (\<lambda>ifc t. beside_client (eo_GetDhcpResult B ifc t))\<rparr>"

text \<open>The client can find the service: the remote object it gets or has is that of the stub.\<close>

definition finds_service :: "'p conn_ipc \<Rightarrow> client_env \<Rightarrow> (nat \<Rightarrow> 'p conn_remote) \<Rightarrow> client_state \<Rightarrow> bool" where
  "finds_service I C remotes c \<longleftrightarrow>
     (\<exists>p. fst (client_GetProxy C c) = Some p \<and> remotes p = Some (NetConnServiceStub_OnRemoteRequest I))"

lemma GetProxy_again:
  assumes "client_GetProxy C c = (Some p, c')"
  shows "client_GetProxy C c' = (Some p, c')"
  using assms by (auto simp: client_GetProxy_def Let_def split: if_splits option.splits)

lemma found_call:
  assumes "finds_service I C remotes c"
    and "\<And>p. remotes p = Some (NetConnServiceStub_OnRemoteRequest I) \<Longrightarrow> call p t = (r, u)"
  shows "\<exists>c'. conn_client I C call c t = (r, c', u) \<and> finds_service I C remotes c'"
proof -
  obtain p c' where p: "client_GetProxy C c = (Some p, c')" "remotes p = Some (NetConnServiceStub_OnRemoteRequest I)"
    using assms(1) by (auto simp: finds_service_def prod_eq_iff)
  then have "conn_client I C call c t = (r, c', u)" using assms(2) by (simp add: conn_client_def client_call_def)
  then show ?thesis using GetProxy_again [OF p(1)] p(2) by (auto simp: finds_service_def)
qed

definition client_good :: "'p conn_ipc \<Rightarrow> client_env \<Rightarrow> (nat \<Rightarrow> 'p conn_remote) \<Rightarrow> client_state \<times> conn_state \<times> 'w \<Rightarrow> bool" where
  "client_good I C remotes s \<longleftrightarrow> parcel_laws (cn_parcel I) \<and> parcel_never_fails (cn_parcel I) \<and> finds_service I C remotes (fst s)"

lemma client_update_link:
  assumes "client_good I C remotes w" and "NetLinkInfo_short li"
  shows "same_answer snd (client_good I C remotes) (eo_UpdateNetLinkInfo (client_eth_ops I C remotes B) i li w)
    (eo_UpdateNetLinkInfo (conn_eth_ops (cn_env I) B) i li (snd w))"
proof -
  obtain c s b where w: "w = (c, s, b)" by (rule prod_cases3)
  have laws: "parcel_laws (cn_parcel I)" "parcel_never_fails (cn_parcel I)" and c: "finds_service I C remotes c"
    using assms(1) by (simp_all add: client_good_def w)
  obtain r u where u: "NetConnService_UpdateNetLinkInfo (cn_env I) i (Some li) s = (r, u)" by fastforce
  have "\<exists>c'. conn_client I C (\<lambda>p. NetConnServiceProxy_UpdateNetLinkInfo I (remotes p) i li) c s = (r, c', u) \<and> finds_service I C remotes c'"
    by (rule found_call [OF c]) (simp add: UpdateNetLinkInfo_through [OF laws assms(2)] u)
  then show ?thesis using u laws
    by (auto simp: same_answer_def client_good_def client_eth_ops_def conn_eth_ops_def on_client_def on_conn_def NetConnClient_UpdateNetLinkInfo_def w)
qed

lemma client_update_supplier:
  assumes "client_good I C remotes w"
  shows "same_answer snd (client_good I C remotes) (eo_UpdateNetSupplierInfo (client_eth_ops I C remotes B) i si w)
    (eo_UpdateNetSupplierInfo (conn_eth_ops (cn_env I) B) i si (snd w))"
proof -
  obtain c s b where w: "w = (c, s, b)" by (rule prod_cases3)
  have laws: "parcel_laws (cn_parcel I)" "parcel_never_fails (cn_parcel I)" and c: "finds_service I C remotes c"
    using assms(1) by (simp_all add: client_good_def w)
  obtain r u where u: "NetConnService_UpdateNetSupplierInfo (cn_env I) i (Some si) s = (r, u)" by fastforce
  have "\<exists>c'. conn_client I C (\<lambda>p. NetConnServiceProxy_UpdateNetSupplierInfo I (remotes p) i si) c s = (r, c', u) \<and> finds_service I C remotes c'"
    by (rule found_call [OF c]) (simp add: UpdateNetSupplierInfo_through [OF laws] u)
  then show ?thesis using u laws
    by (auto simp: same_answer_def client_good_def client_eth_ops_def conn_eth_ops_def on_client_def on_conn_def NetConnClient_UpdateNetSupplierInfo_def w)
qed

interpretation conn_client: eth_refinement "client_eth_ops I C remotes B" "conn_eth_ops (cn_env I) B" snd "client_good I C remotes" NetLinkInfo_short
  for I :: "'p conn_ipc" and C :: client_env and remotes :: "nat \<Rightarrow> 'p conn_remote" and B :: "'w eth_ops"
  by (unfold_locales, erule (1) client_update_link, erule client_update_supplier)
    (simp_all add: same_answer_def client_good_def client_eth_ops_def conn_eth_ops_def beside_client_def on_rest_def split_def)

text \<open>
  The Ethernet service in a process of its own: one round of the listener, whatever it reads, a result
  of the DHCP client and a new configuration do to the devices and to the connection service over
  \<open>NetConnClient\<close>, proxy, parcels, transport and stub exactly what they do on the service itself, a read outside the
  buffer and a null configuration included; the client still finds the service afterwards. The link
  information of the devices, before and after, must fit the counters of a parcel.
\<close>

theorem ethernet_through_client:
  assumes "parcel_laws (cn_parcel I)" and "parcel_never_fails (cn_parcel I)"
    and "client_GetProxy C c = (Some p, c1)" and "remotes p = Some (NetConnServiceStub_OnRemoteRequest I)"
    and "links_ok NetLinkInfo_short devs"
    and "links_ok NetLinkInfo_short (fst (EthDhcpResultNotify_OnSuccess (conn_eth_ops (cn_env I) B) status n result devs (s, w)))"
    and "\<forall>ret devs' t. EthernetManagement_UpdateDevInterfaceState (conn_eth_ops (cn_env I) B) n cfg devs (s, w) = Some (ret, devs', t) \<longrightarrow>
      links_ok NetLinkInfo_short devs'"
  shows "(case listener_round H (conn_eth_ops (cn_env I) B) r timeout (devs, s, w) of
        None \<Rightarrow> listener_round H (client_eth_ops I C remotes B) r timeout (devs, c, s, w) = None
      | Some Fault \<Rightarrow> listener_round H (client_eth_ops I C remotes B) r timeout (devs, c, s, w) = Some Fault
      | Some (Done ((devs', s', w'), timeout')) \<Rightarrow>
          \<exists>c'. listener_round H (client_eth_ops I C remotes B) r timeout (devs, c, s, w) = Some (Done ((devs', c', s', w'), timeout')) \<and>
            finds_service I C remotes c') \<and>
    (case EthDhcpResultNotify_OnSuccess (conn_eth_ops (cn_env I) B) status n result devs (s, w) of
      (devs', s', w') \<Rightarrow>
        \<exists>c'. EthDhcpResultNotify_OnSuccess (client_eth_ops I C remotes B) status n result devs (c, s, w) = (devs', c', s', w') \<and>
          finds_service I C remotes c') \<and>
    (case EthernetManagement_UpdateDevInterfaceState (conn_eth_ops (cn_env I) B) n cfg devs (s, w) of
        None \<Rightarrow> EthernetManagement_UpdateDevInterfaceState (client_eth_ops I C remotes B) n cfg devs (c, s, w) = None
      | Some (ret, devs', s', w') \<Rightarrow>
          \<exists>c'. EthernetManagement_UpdateDevInterfaceState (client_eth_ops I C remotes B) n cfg devs (c, s, w) = Some (ret, devs', c', s', w') \<and>
            finds_service I C remotes c')"
proof -
  have g: "client_good I C remotes (c, s, w)" using assms(1-4) by (auto simp: client_good_def finds_service_def)
  have 1: "case listener_round H (conn_eth_ops (cn_env I) B) r timeout (devs, s, w) of
        None \<Rightarrow> listener_round H (client_eth_ops I C remotes B) r timeout (devs, c, s, w) = None
      | Some Fault \<Rightarrow> listener_round H (client_eth_ops I C remotes B) r timeout (devs, c, s, w) = Some Fault
      | Some (Done ((devs', s', w'), timeout')) \<Rightarrow>
          \<exists>c'. listener_round H (client_eth_ops I C remotes B) r timeout (devs, c, s, w) = Some (Done ((devs', c', s', w'), timeout')) \<and>
            finds_service I C remotes c'"
    using conn_client.round [OF g assms(5), of H B r timeout] by (auto simp: client_good_def split: option.splits run.splits prod.splits)
  have 2: "case EthDhcpResultNotify_OnSuccess (conn_eth_ops (cn_env I) B) status n result devs (s, w) of
      (devs', s', w') \<Rightarrow>
        \<exists>c'. EthDhcpResultNotify_OnSuccess (client_eth_ops I C remotes B) status n result devs (c, s, w) = (devs', c', s', w') \<and>
          finds_service I C remotes c'"
    using conn_client.dhcp_success [OF g, of B status n result devs] assms(6)
    by (cases "EthDhcpResultNotify_OnSuccess (client_eth_ops I C remotes B) status n result devs (c, s, w)")
      (auto simp: same_answer_def client_good_def split: prod.splits)
  have "case EthernetManagement_UpdateDevInterfaceState (conn_eth_ops (cn_env I) B) n cfg devs (s, w) of
        None \<Rightarrow> EthernetManagement_UpdateDevInterfaceState (client_eth_ops I C remotes B) n cfg devs (c, s, w) = None
      | Some (ret, devs', s', w') \<Rightarrow>
          \<exists>c'. EthernetManagement_UpdateDevInterfaceState (client_eth_ops I C remotes B) n cfg devs (c, s, w) = Some (ret, devs', c', s', w') \<and>
            finds_service I C remotes c'"
    using conn_client.configure [OF g, of B n cfg devs] assms(7) by (auto simp: client_good_def split: option.splits prod.splits)
  with 1 2 show ?thesis by blast
qed

definition sample_reported_device :: dev_state where
  "sample_reported_device = DevInterfaceState_new\<lparr>dv_connLinkState := LINK_AVAILABLE, dv_netSupplier := 0x03EB, dv_linkUp := True,
     dv_linkInfo := Some NetLinkInfo_new\<rparr>"

definition sample_lease :: dhcp_result where
  "sample_lease = \<lparr>dr_iptype = 0, dr_strYourCli = ''10.0.0.9'', dr_strServer = ''10.0.0.1'', dr_strDns1 = ''10.0.0.1'',
     dr_strDns2 = ''10.0.0.2'', dr_strRouter1 = ''10.0.0.1'', dr_strRouter2 = ''*''\<rparr>"

abbreviation sample_conn_client :: "(client_state \<times> conn_state \<times> unit) eth_ops" where
  "sample_conn_client \<equiv> client_eth_ops sample_conn_ipc sample_client (\<lambda>_. Some (NetConnServiceStub_OnRemoteRequest sample_conn_ipc)) (sample_eth_ops [])"

theorem ethernet_through_client_witness:
  "(\<exists>devs' s' w' c'. listener_round (linux_headers 60) (conn_eth_ops sample_env (sample_eth_ops [])) sample_round (5, 0)
        ([(''eth0'', sample_reported_device)], sample_registered, ()) = Some (Done ((devs', s', w'), (5, 0))) \<and>
      listener_round (linux_headers 60) sample_conn_client sample_round (5, 0)
        ([(''eth0'', sample_reported_device)], fresh_client, sample_registered, ()) = Some (Done ((devs', c', s', w'), (5, 0)))) \<and>
    (\<exists>devs' c'. EthDhcpResultNotify_OnSuccess sample_conn_client 0 ''eth0'' sample_lease [(''eth0'', sample_reported_device)] (fresh_client, sample_registered, ()) =
      (devs', c', snd (NetConnService_UpdateNetLinkInfo sample_env 0x03EB (dv_linkInfo (DevInterfaceState_UpdateLinkInfo_dhcp ''eth0'' sample_lease sample_reported_device))
        sample_registered), ()))"
proof -
  let ?remotes = "\<lambda>_ :: nat. Some (NetConnServiceStub_OnRemoteRequest sample_conn_ipc)"
  let ?devs = "[(''eth0'', sample_reported_device)]" and ?E = "conn_eth_ops sample_env (sample_eth_ops [])"
  let ?d = "DevInterfaceState_UpdateLinkInfo_dhcp ''eth0'' sample_lease sample_reported_device"
  have mx: "(3 :: nat) \<le> 60" by simp
  note f = sample_round_facts
  note n = messages_handled [OF f(1,2) mx f(3-5)]
  obtain devs' s' w' where t: "fold (EthernetManagement_Handle ?E) (map link_info (filter (\<lambda>k. kl_iftype k = 1) (links [KLink sample_link])))
      (?devs, sample_registered, ()) = (devs', s', w')" by (rule prod_cases3)
  have r: "listener_round (linux_headers 60) ?E sample_round (5, 0) (?devs, sample_registered, ()) = Some (Done ((devs', s', w'), (5, 0)))"
    unfolding listener_round_def n option.case run.case prod.case t by (rule refl)
  have laws: "parcel_laws (cn_parcel sample_conn_ipc)" "parcel_never_fails (cn_parcel sample_conn_ipc)" "cn_env sample_conn_ipc = sample_env"
    by (simp_all add: sample_conn_ipc_def)
  have short: "links_ok NetLinkInfo_short ?devs"
    by (simp add: links_ok_def sample_reported_device_def NetLinkInfo_new_def NetLinkInfo_short_def short_list_def)
  have dhcp: "EthDhcpResultNotify_OnSuccess ?E 0 ''eth0'' sample_lease ?devs (sample_registered, ()) =
      ([(''eth0'', ?d)], snd (NetConnService_UpdateNetLinkInfo sample_env 0x03EB (dv_linkInfo ?d) sample_registered), ())"
    by (simp add: EthDhcpResultNotify_OnSuccess_def EthernetManagement_UpdateDevInterfaceLinkInfo_def DevInterfaceState_RemoteUpdateNetLinkInfo_def
        DevInterfaceState_UpdateLinkInfo_dhcp_def sample_reported_device_def map_put_def conn_eth_ops_def on_conn_def split_def Let_def)
  have after: "links_ok NetLinkInfo_short (fst (EthDhcpResultNotify_OnSuccess ?E 0 ''eth0'' sample_lease ?devs (sample_registered, ())))"
    unfolding dhcp by (simp add: links_ok_def DevInterfaceState_UpdateLinkInfo_dhcp_def sample_reported_device_def sample_lease_def
        NetLinkInfo_new_def NetLinkInfo_short_def short_list_def Let_def)
  have none: "\<forall>ret devs' t. EthernetManagement_UpdateDevInterfaceState ?E ''eth0'' None ?devs (sample_registered, ()) = Some (ret, devs', t) \<longrightarrow>
      links_ok NetLinkInfo_short devs'"
    by (simp add: EthernetManagement_UpdateDevInterfaceState_def sample_reported_device_def DevInterfaceState_SetIfcfg_def)
  note all = ethernet_through_client [where remotes = ?remotes and I = sample_conn_ipc and B = "sample_eth_ops []",
      OF laws(1,2) sample_GetProxy refl short, unfolded laws(3), OF after none, where H = "linux_headers 60" and r = sample_round and timeout = "(5, 0)"]
  from conjunct1 [OF all] have "\<exists>c'. listener_round (linux_headers 60) sample_conn_client sample_round (5, 0)
        (?devs, fresh_client, sample_registered, ()) = Some (Done ((devs', c', s', w'), (5, 0)))"
    unfolding r option.case run.case prod.case by blast
  moreover from conjunct1 [OF conjunct2 [OF all]] have "\<exists>c'. EthDhcpResultNotify_OnSuccess sample_conn_client 0 ''eth0'' sample_lease ?devs
      (fresh_client, sample_registered, ()) = ([(''eth0'', ?d)], c', snd (NetConnService_UpdateNetLinkInfo sample_env 0x03EB (dv_linkInfo ?d) sample_registered), ())"
    unfolding dhcp prod.case by blast
  ultimately show ?thesis using r by blast
qed

end
