(* ===== verification/Ethernet_System.thy ===== *)
theory Ethernet_System
  imports Ethernet_Client
begin

text \<open>
  The whole life of the Ethernet service in a process of its own, from \<open>Init\<close> on: every run over
  \<open>NetConnClient\<close>, proxy and stub is a run on the connection service itself, death notifications of the
  client included. The registration of a device is where the two could differ, because the stub translates
  two results of \<open>RegisterNetSupplier\<close>: identifiers are handed out as \<open>uint32_t\<close>, returned as \<open>int32_t\<close> and
  compared with error codes. Last, what becomes of the devices when the connection service restarts.
\<close>

section \<open>Identifiers that are left\<close>

text \<open>All suppliers have a positive identifier, and so will the next \<open>n\<close>.\<close>

definition ids_left :: "nat \<Rightarrow> conn_state \<Rightarrow> bool" where
  "ids_left n s \<longleftrightarrow> unat (cs_nextNetSupplierId s) + n < 2 ^ 31 \<and>
     (\<forall>r \<in> set (cs_netSupplier s). unat (ns_supplierId (sup_at s r)) < 2 ^ 31)"

lemma ids_left_shape: "same_shape s t \<Longrightarrow> cs_nextNetSupplierId t = cs_nextNetSupplierId s \<Longrightarrow> ids_left n s \<Longrightarrow> ids_left n t"
  by (simp add: ids_left_def shape_lists shape_fields)

lemma ids_left_less: "ids_left (Suc n) s \<Longrightarrow> ids_left n s"
  by (simp add: ids_left_def)

lemma create_objects_next: "cs_nextNetSupplierId (snd (create_objects E netType ident caps s)) = cs_nextNetSupplierId s + 1"
  by (simp add: create_objects_def create_services_def new_network_def new_supplier_def NetSupplier_new_def nm_frame split_def Let_def)

lemma connect_default_next: "cs_nextNetSupplierId (connect_default E s) = cs_nextNetSupplierId s"
  by (simp add: connect_default_def run_service_fields split_def Let_def split: option.splits)

lemma low_id: "unat (i :: uint32) < 2 ^ 31 \<Longrightarrow> i \<noteq> ResultCode_val ERR_NO_NETWORK \<and> i \<noteq> ResultCode_val ERR_NO_SUPPLIER"
  by auto

lemma RegisterNetSupplier_ids:
  assumes "conn_inv E s" and "ids_left (Suc n) s" and "ty \<in> {NET_TYPE_CELLULAR, NET_TYPE_ETHERNET}"
    and "NetConnService_RegisterNetSupplier E (NetworkType_val ty) ident caps s = (i, t)"
  shows "ids_left n t" and "unat i < 2 ^ 31"
proof -
  have "ids_left n t \<and> unat i < 2 ^ 31"
  proof (cases "NetConnService_GetNetSupplierFromList (NetworkType_val ty) ident s")
    case (Some r)
    then have "r \<in> set (cs_netSupplier s)" by (auto simp: NetConnService_GetNetSupplierFromList_def dest: find_Some_D)
    then show ?thesis using assms(2,4) RegisterNetSupplier_known [OF assms(3) Some] by (auto simp: ids_left_def)
  next
    case None
    obtain sr u where co: "create_objects E (NetworkType_val ty) ident caps s = (sr, u)" by (rule prod.exhaust)
    note c = create_objects_inv [OF assms(1,3) None co]
    have t: "t = connect_default E u" "i = ns_supplierId (sup_at t sr)"
      using RegisterNetSupplier_new [OF assms(3) None co] assms(4) by simp_all
    have sh: "same_shape u t" unfolding t(1) using c(1) by (rule connect_default_shape)
    have i: "i = cs_nextNetSupplierId s" using c(9) t(2) shape_fields(4) [OF sh] by simp
    have "cs_nextNetSupplierId u = cs_nextNetSupplierId s + 1" using create_objects_next [of E "NetworkType_val ty" ident caps s] co by simp
    moreover have "unat (cs_nextNetSupplierId s + 1) = Suc (unat (cs_nextNetSupplierId s))"
      using assms(2) by (subst unat_add_lem [THEN iffD1]) (simp_all add: ids_left_def)
    ultimately have "ids_left n u" using assms(2) c(3,9,14) by (auto simp: ids_left_def)
    then have "ids_left n t" unfolding t(1) using connect_default_shape [OF c(1)] connect_default_next by (rule ids_left_shape [rotated 2])
    then show ?thesis using assms(2) i by (simp add: ids_left_def)
  qed
  then show "ids_left n t" "unat i < 2 ^ 31" by blast+
qed

lemma UpdateNetSupplierInfo_ids:
  assumes "ids_left n s"
  shows "ids_left n (snd (NetConnService_UpdateNetSupplierInfo E i (Some si) s))"
proof -
  let ?t = "snd (NetConnService_UpdateNetSupplierInfo E i (Some si) s)"
  have "ns_supplierId (sup_at ?t r) = ns_supplierId (sup_at s r)" if "r \<in> set (cs_netSupplier s)" for r
    using UpdateNetSupplierInfo_keeps [of s E i "Some si"] that by (simp add: keeps_suppliers_def ns_shape_def)
  moreover have "cs_netSupplier ?t = cs_netSupplier s" "cs_nextNetSupplierId ?t = cs_nextNetSupplierId s"
    by (auto simp: NetConnService_UpdateNetSupplierInfo_def Let_def split: option.splits prod.splits)
  ultimately show ?thesis using assms by (simp add: ids_left_def)
qed

section \<open>Starting over another environment\<close>

text \<open>
  What \<open>Init\<close> needs on top: while there is room for one more device the registration is answered alike
  and takes one place; the other calls of \<open>Init\<close> take none.
\<close>

locale eth_start_refinement = eth_refinement E F view good li_ok
  for E :: "'s eth_ops" and F :: "'t eth_ops" and view :: "'s \<Rightarrow> 't" and good :: "'s \<Rightarrow> bool" and li_ok :: "NetLinkInfo \<Rightarrow> bool" +
  fixes room :: "nat \<Rightarrow> 't \<Rightarrow> bool"
  assumes register: "good w \<Longrightarrow> room (Suc k) (view w) \<Longrightarrow>
      same_answer view good (eo_RegisterNetSupplier E (NetworkType_val NET_TYPE_ETHERNET) ident caps w)
        (eo_RegisterNetSupplier F (NetworkType_val NET_TYPE_ETHERNET) ident caps (view w))"
    and register_room: "room (Suc k) t \<Longrightarrow> room k (snd (eo_RegisterNetSupplier F (NetworkType_val NET_TYPE_ETHERNET) ident caps t))"
    and room_less: "room (Suc k) t \<Longrightarrow> room k t"
    and hw_addr: "good w \<Longrightarrow> same_answer view good (eo_GetHWaddr E n w) (eo_GetHWaddr F n (view w))"
    and get_links: "good w \<Longrightarrow> same_answer view good (eo_GetLinkInfo E w) (eo_GetLinkInfo F (view w))"
    and others_room: "room k t \<Longrightarrow> room k (snd (eo_SetIpAddr F n ip t))" "room k t \<Longrightarrow> room k (snd (eo_GetHWaddr F n t))"
      "room k t \<Longrightarrow> room k (snd (eo_GetLinkInfo F t))" "room k t \<Longrightarrow> room k (snd (eo_UpdateNetSupplierInfo F i si t))"
    and start_link: "DevInterfaceState_UpdateLinkInfo_static (DevInterfaceState_new\<lparr>dv_ifcfg := Some static_ifcfg\<rparr>) = Some d \<Longrightarrow>
      dv_linkInfo d = Some li \<Longrightarrow> li_ok li"
begin

lemma registered_device:
  assumes "good w" and "room (Suc k) (view w)" and "dv_connLinkState d = UNREGISTERED"
    and "DevInterfaceState_RemoteRegisterNetSupplier E d w = (r, d', w')"
  shows "DevInterfaceState_RemoteRegisterNetSupplier F d (view w) = (r, d', view w')" and "good w'" and "room k (view w')"
    and "dv_linkInfo d' = dv_linkInfo d"
proof -
  obtain i u where u: "eo_RegisterNetSupplier E (NetworkType_val NET_TYPE_ETHERNET) (dv_devName d) (dv_netCapabilities d) w = (i, u)" by fastforce
  then have f: "eo_RegisterNetSupplier F (NetworkType_val NET_TYPE_ETHERNET) (dv_devName d) (dv_netCapabilities d) (view w) = (i, view u)" "good u"
    using register [OF assms(1,2), of "dv_devName d" "dv_netCapabilities d"] by (simp_all add: same_answer_def)
  from register_room [OF assms(2), of "dv_devName d" "dv_netCapabilities d"] have "room k (view u)" using f by simp
  then show "DevInterfaceState_RemoteRegisterNetSupplier F d (view w) = (r, d', view w')" "good w'" "room k (view w')"
    "dv_linkInfo d' = dv_linkInfo d"
    using assms(3,4) u f by (auto simp: DevInterfaceState_RemoteRegisterNetSupplier_def Let_def)
qed

lemma reported_room:
  assumes "room k t"
  shows "room k (snd (snd (DevInterfaceState_RemoteUpdateNetSupplierInfo F d t)))"
  using assms others_room(4) by (auto simp: DevInterfaceState_RemoteUpdateNetSupplierInfo_def split_def split: option.splits)

lemma new_device:
  assumes "good w" and "room (Suc k) (view w)"
  shows "\<exists>d w'. init_device E info w = Some (d, w') \<and> init_device F info (view w) = Some (d, view w') \<and> good w' \<and>
    room k (view w') \<and> (\<forall>li. dv_linkInfo d = Some li \<longrightarrow> li_ok li)"
proof -
  let ?up = "ne_ifiFlags info AND IFF_UP \<noteq> 0" and ?low = "ne_ifiFlags info AND IFF_LOWER_UP \<noteq> 0" and ?new = "DevInterfaceState_new\<lparr>dv_ifcfg := Some static_ifcfg\<rparr>"
  obtain d0 where d0: "DevInterfaceState_UpdateLinkInfo_static ?new = Some d0"
    by (simp add: DevInterfaceState_UpdateLinkInfo_static_def Let_def)
  have un: "dv_connLinkState d0 = UNREGISTERED" "dv_ifcfg d0 = Some static_ifcfg"
    using d0 by (auto simp: DevInterfaceState_UpdateLinkInfo_static_def Let_def DevInterfaceState_new_def)
  let ?ip = "ia_address (sc_ipAddr (ic_ipStatic static_ifcfg))"
  obtain q w0 where a: "eo_SetIpAddr E (dv_devName d0) ?ip w = (q, w0)" by fastforce
  then have b: "eo_SetIpAddr F (dv_devName d0) ?ip (view w) = (q, view w0)" "good w0"
    using set_ip [OF assms(1), of "dv_devName d0" ?ip] by (simp_all add: same_answer_def)
  have "room (Suc k) (view w0)" using others_room(1) [OF assms(2), of "dv_devName d0" ?ip] b by simp
  have cfg: "DevInterfaceState_SetIfcfg E (Some static_ifcfg) DevInterfaceState_new w = Some (d0, w0)"
    "DevInterfaceState_SetIfcfg F (Some static_ifcfg) DevInterfaceState_new (view w) = Some (d0, view w0)"
    using d0 un a b by (simp_all add: DevInterfaceState_SetIfcfg_def DevInterfaceState_SetIpAddr_def static_ifcfg_def)
  obtain hw w1 where h: "eo_GetHWaddr E (ne_iface info) w0 = (hw, w1)" by fastforce
  then have g: "eo_GetHWaddr F (ne_iface info) (view w0) = (hw, view w1)" "good w1"
    using hw_addr [OF b(2), of "ne_iface info"] by (simp_all add: same_answer_def)
  have r1: "room (Suc k) (view w1)" using others_room(2) [OF \<open>room (Suc k) (view w0)\<close>, of "ne_iface info"] g by simp
  let ?d = "d0\<lparr>dv_devName := ne_iface info, dv_devHWaddr := hw, dv_linkUp := ?up, dv_lowerUp := ?low\<rparr>"
  obtain x d2 w2 where reg: "DevInterfaceState_RemoteRegisterNetSupplier E ?d w1 = (x, d2, w2)" by (metis prod.collapse)
  note n = registered_device [OF g(2) r1 _ reg]
  obtain y d3 w3 where rep: "DevInterfaceState_RemoteUpdateNetSupplierInfo E d2 w2 = (y, d3, w3)" by (metis prod.collapse)
  note s = supplier_report [OF n(2) rep]
  have "room k (view w3)" using reported_room [OF n(3), of d2] s(1) un by simp
  moreover have "li_ok li" if "dv_linkInfo ?d = Some li" for li using start_link [OF d0] that by simp
  ultimately show ?thesis using cfg h g n reg rep s un
    by (cases "?up \<and> ?low") (auto simp: init_device_def Let_def)
qed

lemma new_devices:
  assumes "good w" and "room (length infos) (view w)" and "links_ok li_ok devs"
  shows "\<exists>devs' w'. init_devices E infos (devs, w) = Some (devs', w') \<and> init_devices F infos (devs, view w) = Some (devs', view w') \<and>
    good w' \<and> links_ok li_ok devs'"
  using assms
proof (induction infos arbitrary: devs w)
  case (Cons info infos)
  have r: "room (Suc (length infos)) (view w)" using Cons.prems(2) by simp
  show ?case
  proof (cases "ne_iface info = []")
    case True
    then show ?thesis using Cons.IH [OF Cons.prems(1) room_less [OF r] Cons.prems(3)] by simp
  next
    case False
    obtain d w' where d: "init_device E info w = Some (d, w')" "init_device F info (view w) = Some (d, view w')" "good w'"
      "room (length infos) (view w')" "\<forall>li. dv_linkInfo d = Some li \<longrightarrow> li_ok li" using new_device [OF Cons.prems(1) r] by blast
    have "links_ok li_ok (map_insert (ne_iface info) d devs)"
      using Cons.prems(3) d(5) set_map_insert [of "ne_iface info" d devs] by (fastforce simp: links_ok_def)
    from Cons.IH [OF d(3,4) this] show ?thesis using False d(1,2) by simp
  qed
qed simp

lemma start:
  assumes "good w" and "links_ok li_ok devs" and "room (length (fst (eo_GetLinkInfo F (view w)))) (view w)"
  shows "\<exists>devs' w'. EthernetManagement_Init E (devs, w) = Some (devs', w') \<and> EthernetManagement_Init F (devs, view w) = Some (devs', view w') \<and>
    good w' \<and> links_ok li_ok devs'"
proof -
  obtain infos u where u: "eo_GetLinkInfo E w = (infos, u)" by fastforce
  then have f: "eo_GetLinkInfo F (view w) = (infos, view u)" "good u" using get_links [OF assms(1)] by (simp_all add: same_answer_def)
  have "room (length infos) (view u)" using others_room(3) [OF assms(3)] f by simp
  from new_devices [OF f(2) this assms(2)] show ?thesis using u f by (simp add: EthernetManagement_Init_def)
qed

end

section \<open>The client from the start\<close>

text \<open>Room in the connection service: its invariant, and identifiers left.\<close>

definition conn_room :: "conn_env \<Rightarrow> nat \<Rightarrow> conn_state \<times> 'w \<Rightarrow> bool" where
  "conn_room E k a \<longleftrightarrow> conn_inv E (fst a) \<and> ids_left k (fst a)"

lemma client_register:
  assumes "client_good I C remotes w" and "conn_room (cn_env I) (Suc k) (snd w)"
  shows "same_answer snd (client_good I C remotes) (eo_RegisterNetSupplier (client_eth_ops I C remotes B) (NetworkType_val NET_TYPE_ETHERNET) ident caps w)
    (eo_RegisterNetSupplier (conn_eth_ops (cn_env I) B) (NetworkType_val NET_TYPE_ETHERNET) ident caps (snd w))"
proof -
  obtain c s b where w: "w = (c, s, b)" by (rule prod_cases3)
  have laws: "parcel_laws (cn_parcel I)" "parcel_never_fails (cn_parcel I)" and c: "finds_service I C remotes c"
    using assms(1) by (simp_all add: client_good_def w)
  obtain r u where u: "NetConnService_RegisterNetSupplier (cn_env I) (NetworkType_val NET_TYPE_ETHERNET) ident caps s = (r, u)" by fastforce
  have "unat r < 2 ^ 31" using RegisterNetSupplier_ids(2) [OF _ _ _ u, of k] assms(2) by (simp add: conn_room_def w)
  from low_id [OF this] have r: "r \<noteq> ResultCode_val ERR_NO_NETWORK" "r \<noteq> ResultCode_val ERR_NO_SUPPLIER" by blast+
  have "\<exists>c'. conn_client I C (\<lambda>p. NetConnServiceProxy_RegisterNetSupplier I (remotes p) (NetworkType_val NET_TYPE_ETHERNET) ident caps) c s = (r, c', u) \<and>
      finds_service I C remotes c'"
    by (rule found_call [OF c]) (simp add: RegisterNetSupplier_through [OF laws u] r del: ResultCode_val.simps NetworkType_val.simps)
  then show ?thesis using u laws
    by (auto simp: same_answer_def client_good_def client_eth_ops_def conn_eth_ops_def on_client_def on_conn_def NetConnClient_RegisterNetSupplier_def w)
qed

lemma conn_register_room:
  assumes "conn_room E (Suc k) t"
  shows "conn_room E k (snd (eo_RegisterNetSupplier (conn_eth_ops E B) (NetworkType_val NET_TYPE_ETHERNET) ident caps t))"
proof -
  obtain r u where u: "NetConnService_RegisterNetSupplier E (NetworkType_val NET_TYPE_ETHERNET) ident caps (fst t) = (r, u)" by fastforce
  have "ids_left k u" using assms RegisterNetSupplier_ids(1) [OF _ _ _ u] by (simp add: conn_room_def)
  moreover have "conn_inv E u" using assms RegisterNetSupplier_inv [of E "fst t" "NetworkType_val NET_TYPE_ETHERNET" ident caps] u
    by (simp add: conn_room_def)
  ultimately show ?thesis using u by (simp add: conn_room_def conn_eth_ops_def on_conn_def)
qed

lemma conn_others_room:
  assumes "conn_room E k t"
  shows "conn_room E k (snd (eo_SetIpAddr (conn_eth_ops E B) n ip t))" "conn_room E k (snd (eo_GetHWaddr (conn_eth_ops E B) n t))"
    "conn_room E k (snd (eo_GetLinkInfo (conn_eth_ops E B) t))" "conn_room E k (snd (eo_UpdateNetSupplierInfo (conn_eth_ops E B) i si t))"
  using assms UpdateNetSupplierInfo_ids [of k "fst t" E i si] UpdateNetSupplierInfo_inv [of E "fst t" i "Some si"]
  by (auto simp: conn_room_def conn_eth_ops_def on_conn_def on_rest_def split_def)

lemma start_link_short:
  "DevInterfaceState_UpdateLinkInfo_static (DevInterfaceState_new\<lparr>dv_ifcfg := Some static_ifcfg\<rparr>) = Some d \<Longrightarrow> dv_linkInfo d = Some li \<Longrightarrow> NetLinkInfo_short li"
  by (auto simp: DevInterfaceState_UpdateLinkInfo_static_def DevInterfaceState_new_def static_ifcfg_def NetLinkInfo_new_def NetLinkInfo_short_def
      short_list_def Let_def)

section \<open>The processes together\<close>

text \<open>
  Ethernet service, client, connection service with all its other users, and the rest of the world. The client may be told
  at any time that a remote object has died. What limits a deployment are the link information the client can carry
  (\<open>li_ok\<close>), for the devices after a DHCP result or a configuration, and the identifiers that must be left (\<open>ids\<close>)
  for what the kernel lists at \<open>Init\<close>.
\<close>

inductive client_step :: "conn_env \<Rightarrow> client_env \<Rightarrow> (client_state \<times> conn_state \<times> 'w) eth_ops \<Rightarrow> (NetLinkInfo \<Rightarrow> bool) \<Rightarrow> (nat \<Rightarrow> conn_state \<Rightarrow> bool) \<Rightarrow>
    dev_table \<times> client_state \<times> conn_state \<times> 'w \<Rightarrow> dev_table \<times> client_state \<times> conn_state \<times> 'w \<Rightarrow> bool" for E C X li_ok ids where
  client_init: "EthernetManagement_Init X (devs, c, s, w) = Some y \<Longrightarrow> ids (length (fst (eo_GetLinkInfo X (c, s, w)))) s \<Longrightarrow>
    client_step E C X li_ok ids (devs, c, s, w) y"
| client_link: "client_step E C X li_ok ids x (EthernetManagement_Handle X info x)"
| client_dhcp: "EthDhcpResultNotify_OnSuccess X status ifname result devs a = y \<Longrightarrow> links_ok li_ok (fst y) \<Longrightarrow> client_step E C X li_ok ids (devs, a) y"
| client_config: "EthernetManagement_UpdateDevInterfaceState X iface cfg devs a = Some (ret, y) \<Longrightarrow> links_ok li_ok (fst y) \<Longrightarrow>
    client_step E C X li_ok ids (devs, a) y"
| client_conn: "conn_step E s t \<Longrightarrow> \<forall>i \<in> held devs. t \<noteq> snd (NetConnService_UnregisterNetSupplier E i s) \<Longrightarrow>
    client_step E C X li_ok ids (devs, c, s, w) (devs, c, t, w)"
| client_world: "client_step E C X li_ok ids (devs, c, s, w) (devs, c, s, w')"
| client_died: "client_step E C X li_ok ids (devs, c, a) (devs, client_OnRemoteDied C remote c, a)"

abbreviation client_reachable :: "conn_env \<Rightarrow> client_env \<Rightarrow> (client_state \<times> conn_state \<times> 'w) eth_ops \<Rightarrow> (NetLinkInfo \<Rightarrow> bool) \<Rightarrow>
    (nat \<Rightarrow> conn_state \<Rightarrow> bool) \<Rightarrow> dev_table \<times> client_state \<times> conn_state \<times> 'w \<Rightarrow> bool" where
  "client_reachable E C X li_ok ids \<equiv> reach (\<lambda>x. fst x = [] \<and> fst (snd x) = fresh_client \<and> fst (snd (snd x)) = NetConnService_new E)
     (client_step E C X li_ok ids)"

text \<open>What a DHCP result and a configuration make of the table does not depend on the environment.\<close>

lemma dhcp_table: "fst (EthDhcpResultNotify_OnSuccess E status n result devs a) = fst (EthDhcpResultNotify_OnSuccess F status n result devs b)"
  by (simp add: EthDhcpResultNotify_OnSuccess_def EthernetManagement_UpdateDevInterfaceLinkInfo_def Let_def split: option.split)

lemma config_table:
  assumes "EthernetManagement_UpdateDevInterfaceState E n cfg devs a = Some (r, devs', x)"
    and "EthernetManagement_UpdateDevInterfaceState F n cfg devs b = Some (q, devs'', y)"
  shows "devs'' = devs'"
  using assms
  by (auto simp: EthernetManagement_UpdateDevInterfaceState_def DevInterfaceState_SetIfcfg_def DevInterfaceState_SetIpAddr_def Let_def
      split: option.splits if_splits)

text \<open>
  A deployment: an environment that stands for the connection service itself, whose condition is one on the client
  alone and survives a death notification.
\<close>

locale client_deployment = eth_start_refinement X "conn_eth_ops E B" snd good li_ok room
  for E :: conn_env and B :: "'w eth_ops" and X :: "(client_state \<times> conn_state \<times> 'w) eth_ops" and good :: "client_state \<times> conn_state \<times> 'w \<Rightarrow> bool"
    and li_ok :: "NetLinkInfo \<Rightarrow> bool" and room :: "nat \<Rightarrow> conn_state \<times> 'w \<Rightarrow> bool" +
  fixes C :: client_env and ids :: "nat \<Rightarrow> conn_state \<Rightarrow> bool"
  assumes good_client: "good (c, a) \<Longrightarrow> good (c, b)"
    and good_died: "good (c, a) \<Longrightarrow> good (client_OnRemoteDied C remote c, a)"
    and has_room: "conn_inv E s \<Longrightarrow> ids k s \<Longrightarrow> room k (s, w)"
begin

text \<open>The two calls that may fail do so in both environments.\<close>

lemma init_agrees:
  assumes "eo_hasDhcpService B" and "good (c, s, w)" and "links_ok li_ok devs" and "joint_reachable E B (devs, s, w)"
    and "ids (length (fst (eo_GetLinkInfo X (c, s, w)))) s"
  obtains y where "EthernetManagement_Init X (devs, c, s, w) = Some y" and
    "EthernetManagement_Init (conn_eth_ops E B) (devs, s, w) = Some (fst y, snd (snd y))" and "good (snd y)" and "links_ok li_ok (fst y)"
proof -
  have "conn_inv E s" using joint_system.reach_inv [OF assms(4)] assms(1) by (simp add: joint_inv_def)
  moreover have "fst (eo_GetLinkInfo (conn_eth_ops E B) (s, w)) = fst (eo_GetLinkInfo X (c, s, w))"
    using get_links [OF assms(2)] by (simp add: same_answer_def)
  ultimately have "room (length (fst (eo_GetLinkInfo (conn_eth_ops E B) (snd (c, s, w))))) (snd (c, s, w))"
    using has_room assms(5) by simp
  from start [OF assms(2,3) this] that show thesis by auto
qed

lemma config_agrees:
  assumes "good a" and "EthernetManagement_UpdateDevInterfaceState X iface cfg devs a = Some (ret, y)" and "links_ok li_ok (fst y)"
  shows "EthernetManagement_UpdateDevInterfaceState (conn_eth_ops E B) iface cfg devs (snd a) = Some (ret, fst y, snd (snd y))" and "good (snd y)"
proof -
  have e: "EthernetManagement_UpdateDevInterfaceState X iface cfg devs a = Some (ret, fst y, snd y)" using assms(2) by simp
  have ok: "links_ok li_ok devs'" if "EthernetManagement_UpdateDevInterfaceState (conn_eth_ops E B) iface cfg devs (snd a) = Some (r, devs', t)" for r devs' t
    using config_table [OF e that] assms(3) by simp
  have "case EthernetManagement_UpdateDevInterfaceState (conn_eth_ops E B) iface cfg devs (snd a) of
      None \<Rightarrow> EthernetManagement_UpdateDevInterfaceState X iface cfg devs a = None
    | Some (r, devs', t) \<Rightarrow> \<exists>w'. EthernetManagement_UpdateDevInterfaceState X iface cfg devs a = Some (r, devs', w') \<and> snd w' = t \<and> good w'"
    by (rule configure [OF assms(1)]) (rule ok)
  with e show "EthernetManagement_UpdateDevInterfaceState (conn_eth_ops E B) iface cfg devs (snd a) = Some (ret, fst y, snd (snd y))" "good (snd y)"
    by (auto split: option.splits prod.splits)
qed

lemma step_kept:
  assumes "eo_hasDhcpService B"
    and "good (snd x)" and "links_ok li_ok (fst x)" and "joint_reachable E B (fst x, snd (snd x))" and "client_step E C X li_ok ids x y"
  shows "good (snd y) \<and> links_ok li_ok (fst y) \<and> joint_reachable E B (fst y, snd (snd y))"
  using assms(5,2-4)
proof (induction rule: client_step.induct)
  case (client_init devs c s w y)
  then have j: "joint_reachable E B (devs, s, w)" and g: "good (c, s, w)" "links_ok li_ok devs" by simp_all
  obtain x where "EthernetManagement_Init X (devs, c, s, w) = Some x"
    "EthernetManagement_Init (conn_eth_ops E B) (devs, s, w) = Some (fst x, snd (snd x))" "good (snd x)" "links_ok li_ok (fst x)"
    using client_init(2) by (rule init_agrees [OF assms(1) g j])
  then show ?case using client_init(1) reach_step [OF j joint_init] by simp
next
  case (client_link x info)
  have h: "EthernetManagement_Handle (conn_eth_ops E B) info (fst x, snd (snd x)) =
      (fst (EthernetManagement_Handle X info x), snd (snd (EthernetManagement_Handle X info x)))"
    "good (snd (EthernetManagement_Handle X info x))" "links_ok li_ok (fst (EthernetManagement_Handle X info x))"
    using handle [OF client_link(1,2), of info] by (simp_all add: same_answer_def)
  show ?case using reach_step [OF client_link(3) joint_link, of info] h by simp
next
  case (client_dhcp status ifname result devs a y)
  then have j: "joint_reachable E B (devs, snd a)" and g: "good a" by simp_all
  have "links_ok li_ok (fst (EthDhcpResultNotify_OnSuccess (conn_eth_ops E B) status ifname result devs (snd a)))"
    using client_dhcp(1,2) dhcp_table by metis
  from dhcp_success [OF g this] client_dhcp(1)
  have h: "EthDhcpResultNotify_OnSuccess (conn_eth_ops E B) status ifname result devs (snd a) = (fst y, snd (snd y))" "good (snd y)"
    by (simp_all add: same_answer_def)
  show ?case using reach_step [OF j joint_dhcp, of status ifname result] h client_dhcp(2) by simp
next
  case (client_config iface cfg devs a ret y)
  then have j: "joint_reachable E B (devs, snd a)" and g: "good a" by simp_all
  note h = config_agrees [OF g client_config(1,2)]
  show ?case using reach_step [OF j joint_config [OF h(1)]] h(2) client_config(2) by simp
next
  case (client_conn s t devs c w)
  have "joint_step E B (devs, s, w) (devs, t, w)" using client_conn(1,2) by (rule joint_conn)
  then have "joint_reachable E B (devs, t, w)" using client_conn(5) by (auto intro: reach_step)
  then show ?case using client_conn(3,4) good_client [of c "(s, w)" "(t, w)"] by simp
next
  case (client_world devs c s w w')
  have "joint_step E B (devs, s, w) (devs, s, w')" by (rule joint_world)
  then have "joint_reachable E B (devs, s, w')" using client_world(3) by (auto intro: reach_step)
  then show ?case using client_world(1,2) good_client [of c "(s, w)" "(s, w')"] by simp
next
  case (client_died devs c a remote)
  then show ?case using good_died by simp
qed

lemma reached:
  assumes "eo_hasDhcpService B" and "\<And>a. good (fresh_client, a)" and "client_reachable E C X li_ok ids x"
  shows "good (snd x) \<and> links_ok li_ok (fst x) \<and> joint_reachable E B (fst x, snd (snd x))"
  using assms(3)
proof (induction rule: reach.induct)
  case (reach_init x)
  then show ?case using assms(2) [of "snd (snd x)"] by (cases x) (auto simp: links_ok_def intro: reach.reach_init)
next
  case (reach_step x y)
  then show ?case using step_kept [OF assms(1), of x y] by blast
qed

lemma reached_registered:
  assumes "eo_hasDhcpService B" and "\<And>a. good (fresh_client, a)" and "client_reachable E C X li_ok ids (devs, c, s, w)"
    and "(n, d) \<in> set devs" and "dv_connLinkState d \<noteq> UNREGISTERED"
  shows "conn_inv E s" and "registered s (dv_netSupplier d) (NET_TYPE_ETHERNET, n)"
    and "fst (eo_UpdateNetSupplierInfo X (dv_netSupplier d) si (c, s, w)) = ResultCode_val ERR_NONE"
proof -
  have g: "good (c, s, w)" and j: "joint_reachable E B (devs, s, w)" using reached [OF assms(1-3)] by simp_all
  have inv: "joint_inv E (devs, s, w)" using joint_system.reach_inv [OF j] assms(1) by simp
  then show c: "conn_inv E s" and r: "registered s (dv_netSupplier d) (NET_TYPE_ETHERNET, n)"
    using assms(4,5) by (auto simp: joint_inv_def dev_registered_def)
  obtain nr where "NetConnService_GetNetworkFromListBySupplierId (dv_netSupplier d) s = Some nr" using registered_lookup [OF c r] by metis
  from UpdateNetSupplierInfo_found(1) [OF c r prod.collapse [symmetric] this]
  have "fst (eo_UpdateNetSupplierInfo (conn_eth_ops E B) (dv_netSupplier d) si (s, w)) = ResultCode_val ERR_NONE"
    by (simp add: conn_eth_ops_def on_conn_def split_def)
  then show "fst (eo_UpdateNetSupplierInfo X (dv_netSupplier d) si (c, s, w)) = ResultCode_val ERR_NONE"
    using update_supplier [OF g, of "dv_netSupplier d" si] by (simp add: same_answer_def)
qed

lemma reached_start:
  assumes "eo_hasDhcpService B" and "\<And>a. good (fresh_client, a)" and "client_reachable E C X li_ok ids (devs, c, s, w)"
    and "ids (length (fst (eo_GetLinkInfo X (c, s, w)))) s"
  shows "\<exists>y. EthernetManagement_Init X (devs, c, s, w) = Some y \<and> client_step E C X li_ok ids (devs, c, s, w) y"
proof -
  have g: "good (c, s, w)" "links_ok li_ok devs" and j: "joint_reachable E B (devs, s, w)" using reached [OF assms(1-3)] by simp_all
  obtain y where y: "EthernetManagement_Init X (devs, c, s, w) = Some y" using assms(4) by (rule init_agrees [OF assms(1) g j])
  have "client_step E C X li_ok ids (devs, c, s, w) y" by (rule client_init [OF y]) (rule assms(4))
  then show ?thesis using y by blast
qed

end

section \<open>Two processes\<close>

text \<open>The client of another process goes through proxy, transport and stub.\<close>

interpretation conn_client_start: eth_start_refinement "client_eth_ops I C remotes B" "conn_eth_ops (cn_env I) B" snd "client_good I C remotes"
    NetLinkInfo_short "conn_room (cn_env I)"
  for I :: "'p conn_ipc" and C :: client_env and remotes :: "nat \<Rightarrow> 'p conn_remote" and B :: "'w eth_ops"
proof (unfold_locales, goal_cases)
  case (1 w k ident caps)
  then show ?case by (rule client_register)
next
  case (2 k t ident caps)
  then show ?case by (rule conn_register_room)
next
  case (3 k t)
  then show ?case by (simp add: conn_room_def ids_left_less)
next
  case (4 w n)
  then show ?case by (simp add: same_answer_def client_good_def client_eth_ops_def conn_eth_ops_def beside_client_def on_rest_def split_def)
next
  case (5 w)
  then show ?case by (simp add: same_answer_def client_good_def client_eth_ops_def conn_eth_ops_def beside_client_def on_rest_def split_def)
next
  case (6 k t n ip)
  then show ?case by (rule conn_others_room)
next
  case (7 k t n)
  then show ?case by (rule conn_others_room)
next
  case (8 k t)
  then show ?case by (rule conn_others_room)
next
  case (9 k t i si)
  then show ?case by (rule conn_others_room)
next
  case (10 d li)
  then show ?case by (rule start_link_short)
qed

text \<open>A condition that nothing changes can be added.\<close>

lemma eth_start_refinement_conj:
  "eth_start_refinement E F view good li_ok room \<Longrightarrow> eth_start_refinement E F view (\<lambda>x. Q \<and> good x) li_ok room"
  unfolding eth_start_refinement_def eth_start_refinement_axioms_def eth_refinement_def same_answer_def by simp

definition remote_good :: "'p conn_ipc \<Rightarrow> client_env \<Rightarrow> (nat \<Rightarrow> 'p conn_remote) \<Rightarrow> client_state \<times> conn_state \<times> 'w \<Rightarrow> bool" where
  "remote_good I C remotes x \<longleftrightarrow> finds_service I C remotes fresh_client \<and> client_good I C remotes x"

lemma died_finds:
  assumes "finds_service I C remotes fresh_client" and "finds_service I C remotes c"
  shows "finds_service I C remotes (client_OnRemoteDied C remote c)"
  using assms
  by (auto simp: finds_service_def fresh_client_def client_OnRemoteDied_def client_GetProxy_def Let_def split: option.splits if_splits)

interpretation remote: client_deployment "cn_env I" B "client_eth_ops I C remotes B" "remote_good I C remotes" NetLinkInfo_short
    "conn_room (cn_env I)" C ids_left
  for I :: "'p conn_ipc" and B :: "'w eth_ops" and C :: client_env and remotes :: "nat \<Rightarrow> 'p conn_remote"
proof (rule client_deployment.intro)
  show "eth_start_refinement (client_eth_ops I C remotes B) (conn_eth_ops (cn_env I) B) snd (remote_good I C remotes) NetLinkInfo_short (conn_room (cn_env I))"
    unfolding remote_good_def [abs_def]
    by (rule eth_start_refinement_conj) (rule conn_client_start.eth_start_refinement_axioms)
next
  show "client_deployment_axioms (cn_env I) (remote_good I C remotes) (conn_room (cn_env I)) C ids_left"
    by unfold_locales (auto simp: remote_good_def client_good_def conn_room_def intro: died_finds)
qed

text \<open>A report over the client is answered by the service.\<close>

lemma client_eth_report:
  "fst (eo_UpdateNetSupplierInfo (client_eth_ops I C remotes B) i si (c, s, w)) = fst (NetConnClient_UpdateNetSupplierInfo I C remotes i si c s)"
  by (simp add: client_eth_ops_def on_client_def split_def)

lemma client_report:
  assumes "client_good I C remotes (c, s, w)"
  shows "fst (NetConnClient_UpdateNetSupplierInfo I C remotes i si c s) = fst (NetConnService_UpdateNetSupplierInfo (cn_env I) i (Some si) s)"
  using conn_client.update_supplier [OF assms, of B i si] unfolding client_eth_report [symmetric, where B = B and w = w]
  by (simp add: same_answer_def conn_eth_ops_def on_conn_def split_def)


section \<open>One process\<close>

text \<open>
  The profiles of the services put them into one process. There \<open>CheckSystemAbility\<close> gives the service object itself,
  \<open>iface_cast\<close> returns it as the interface, and the methods of \<open>NetConnClient\<close> call it without a proxy; no death recipient is
  added. Neither the parcel nor the error codes of the stub limit this deployment.
\<close>

definition local_eth_ops :: "conn_env \<Rightarrow> client_env \<Rightarrow> int32 \<Rightarrow> 'w eth_ops \<Rightarrow> (client_state \<times> conn_state \<times> 'w) eth_ops" where
  "local_eth_ops E C err B =
     \<lparr>eo_RegisterNetSupplier = (\<lambda>ty ident caps. on_client (client_call C (\<lambda>_. NetConnService_RegisterNetSupplier E ty ident caps) err)),
      eo_UnregisterNetSupplier = (\<lambda>i. on_client (client_call C (\<lambda>_. NetConnService_UnregisterNetSupplier E i) err)),
      eo_UpdateNetLinkInfo = (\<lambda>i li. on_client (client_call C (\<lambda>_. NetConnService_UpdateNetLinkInfo E i (Some li)) err)),
      eo_UpdateNetSupplierInfo = (\<lambda>i si. on_client (client_call C (\<lambda>_. NetConnService_UpdateNetSupplierInfo E i (Some si)) err)),
      eo_SetIpAddr = (\<lambda>ifc ip. beside_client (eo_SetIpAddr B ifc ip)),
      eo_GetHWaddr = (\<lambda>ifc. beside_client (eo_GetHWaddr B ifc)),
      eo_GetLinkInfo = beside_client (eo_GetLinkInfo B),
      eo_hasDhcpService = eo_hasDhcpService B,
      eo_StartDhcpClient = (\<lambda>ifc v6 s. (fst s, fst (snd s), eo_StartDhcpClient B ifc v6 (snd (snd s)))),
      eo_StopDhcpClient = (\<lambda>ifc v6 s. (fst s, fst (snd s), eo_StopDhcpClient B ifc v6 (snd (snd s)))),
      eo_GetDhcpResult = (\<lambda>ifc t. beside_client (eo_GetDhcpResult B ifc t))\<rparr>"

definition local_good :: "client_env \<Rightarrow> client_state \<times> conn_state \<times> 'w \<Rightarrow> bool" where
  "local_good C x \<longleftrightarrow> fst (client_GetProxy C fresh_client) \<noteq> None \<and> fst (client_GetProxy C (fst x)) \<noteq> None"

lemma local_call:
  assumes "local_good C x"
  shows "same_answer snd (local_good C) (on_client (client_call C (\<lambda>_. f) err) x) (on_conn f (snd x))"
proof -
  obtain c s w where x: "x = (c, s, w)" by (rule prod_cases3)
  obtain p c' where p: "client_GetProxy C c = (Some p, c')" using assms x by (auto simp: local_good_def prod_eq_iff)
  show ?thesis using assms GetProxy_again [OF p] p unfolding x
    by (simp add: same_answer_def on_client_def on_conn_def client_call_def local_good_def split_def)
qed

lemma local_died:
  assumes "local_good C (c, a)"
  shows "local_good C (client_OnRemoteDied C remote c, a)"
  using assms by (auto simp: local_good_def fresh_client_def client_OnRemoteDied_def client_GetProxy_def Let_def split: option.splits if_splits)

lemmas local_ops = local_eth_ops_def conn_eth_ops_def same_answer_def beside_client_def on_rest_def local_good_def split_def

interpretation local_client: client_deployment E B "local_eth_ops E C err B" "local_good C" "\<lambda>_. True" "\<lambda>_ _. True" C "\<lambda>_ _. True"
  for E :: conn_env and B :: "'w eth_ops" and C :: client_env and err :: int32
proof (unfold_locales, goal_cases)
  case (1 w li i)
  then show ?case using local_call by (simp add: local_eth_ops_def conn_eth_ops_def)
next
  case (2 w i si)
  then show ?case using local_call by (simp add: local_eth_ops_def conn_eth_ops_def)
next
  case (8 w k ident caps)
  then show ?case using local_call by (simp add: local_eth_ops_def conn_eth_ops_def)
next
  case (18 c a remote)
  then show ?case by (rule local_died)
qed (simp_all add: local_ops)

text \<open>
  The Ethernet service in the process of the connection service: the same without limits, from \<open>Init\<close> on.
\<close>

theorem local_system_refines:
  assumes "fst (client_GetProxy C fresh_client) \<noteq> None" and "eo_hasDhcpService B"
    and "client_reachable E C (local_eth_ops E C err B) (\<lambda>_. True) (\<lambda>_ _. True) (devs, c, s, w)"
  shows "joint_reachable E B (devs, s, w) \<and>
    (\<forall>n d. (n, d) \<in> set devs \<and> dv_connLinkState d \<noteq> UNREGISTERED \<longrightarrow>
      registered s (dv_netSupplier d) (NET_TYPE_ETHERNET, n) \<and>
      fst (client_call C (\<lambda>_. NetConnService_UpdateNetSupplierInfo E (dv_netSupplier d) (Some si)) err c s) = ResultCode_val ERR_NONE) \<and>
    (\<exists>y. EthernetManagement_Init (local_eth_ops E C err B) (devs, c, s, w) = Some y)"
proof -
  have g: "local_good C (fresh_client, a)" for a :: "conn_state \<times> 'w" using assms(1) by (simp add: local_good_def)
  have rep: "fst (eo_UpdateNetSupplierInfo (local_eth_ops E C err B) i si (c, s, w)) =
      fst (client_call C (\<lambda>_. NetConnService_UpdateNetSupplierInfo E i (Some si)) err c s)" for i
    by (simp add: local_eth_ops_def on_client_def split_def)
  note reg = local_client.reached_registered [OF assms(2) g assms(3)]
  have "fst (client_call C (\<lambda>_. NetConnService_UpdateNetSupplierInfo E (dv_netSupplier d) (Some si)) err c s) = ResultCode_val ERR_NONE"
    if "(n, d) \<in> set devs" "dv_connLinkState d \<noteq> UNREGISTERED" for n d
    using reg(3) [OF that, of si] by (simp only: rep)
  then show ?thesis using local_client.reached [OF assms(2) g assms(3)] reg(2) local_client.reached_start [OF assms(2) g assms(3)] by fastforce
qed

section \<open>A restart of the connection service\<close>

text \<open>A link change registers nobody.\<close>

lemma conn_updates_list:
  "cs_netSupplier (snd (NetConnService_UpdateNetSupplierInfo E i info s)) = cs_netSupplier s"
  "cs_netSupplier (snd (NetConnService_UpdateNetLinkInfo E i li s)) = cs_netSupplier s"
  by (auto simp: NetConnService_UpdateNetSupplierInfo_def NetConnService_UpdateNetLinkInfo_def Let_def split: option.splits prod.splits)

lemma device_reports_list:
  "cs_netSupplier (fst (snd (snd (DevInterfaceState_RemoteUpdateNetSupplierInfo (conn_eth_ops E B) d a)))) = cs_netSupplier (fst a)"
  "cs_netSupplier (fst (snd (DevInterfaceState_RemoteUpdateNetLinkInfo (conn_eth_ops E B) d a))) = cs_netSupplier (fst a)"
  using conn_updates_list [of E "dv_netSupplier d" _ "fst a"]
  by (auto simp: DevInterfaceState_RemoteUpdateNetSupplierInfo_def DevInterfaceState_RemoteUpdateNetLinkInfo_def conn_eth_ops_def on_conn_def split_def
      split: option.splits)

lemma device_link_change_list:
  "cs_netSupplier (fst (snd (device_link_change (conn_eth_ops E B) n up low d a))) = cs_netSupplier (fst a)"
proof -
  have others: "fst (eo_StartDhcpClient (conn_eth_ops E B) n v6 a) = fst a" "fst (eo_StopDhcpClient (conn_eth_ops E B) n v6 a) = fst a"
    "fst (snd (eo_GetDhcpResult (conn_eth_ops E B) n t a)) = fst a" for v6 t a
    by (simp_all add: conn_eth_ops_def on_rest_def split_def)
  show ?thesis by (simp add: device_link_change_def device_reports_list others split_def Let_def)
qed

lemma first_registered:
  assumes "ty \<in> {NET_TYPE_CELLULAR, NET_TYPE_ETHERNET}"
    and "NetConnService_RegisterNetSupplier E (NetworkType_val ty) ident caps (NetConnService_new E) = (i, s)"
  shows "conn_inv E s" "i = g_nextNetSupplierId_init" "registered s i (ty, ident)" "length (cs_netSupplier s) = 1"
proof -
  have none: "NetConnService_GetNetSupplierFromList (NetworkType_val ty) ident (NetConnService_new E) = None"
    by (simp add: NetConnService_GetNetSupplierFromList_def NetConnService_new_def)
  obtain sr u where co: "create_objects E (NetworkType_val ty) ident caps (NetConnService_new E) = (sr, u)" by (rule prod.exhaust)
  note c = create_objects_inv [OF conn_inv_new assms(1) none co]
  have t: "s = connect_default E u" "i = ns_supplierId (sup_at s sr)"
    using RegisterNetSupplier_new [OF assms(1) none co] assms(2) by simp_all
  have sh: "same_shape u s" unfolding t(1) using c(1) by (rule connect_default_shape)
  show "conn_inv E s" using connect_default_inv [OF c(1)] t(1) by simp
  show "i = g_nextNetSupplierId_init" using c(9) t(2) shape_fields(4) [OF sh] by (simp add: NetConnService_new_def)
  show "registered s i (ty, ident)" by (rule RegisterNetSupplier_registers [OF conn_inv_new assms])
  show "length (cs_netSupplier s) = 1" using c(3) shape_lists(2) [OF sh] by (simp add: NetConnService_new_def)
qed

text \<open>
  Where the two services are in different processes, the connection service can restart alone. It forgets its suppliers
  then, and counts identifiers from the start again; the Ethernet service does not notice, because its client only drops the proxy and fetches a new one. The reports of a
  device are refused as long as nobody has its identifier; and when a cellular supplier is the first to register
  with the new service it gets the identifier of the first device, whose next link event, over the client, then decides
  whether the cellular supplier is available. No supplier of the device is ever registered again.
\<close>

theorem restart_gives_identifiers_again:
  assumes "parcel_laws (cn_parcel I)" and "parcel_never_fails (cn_parcel I)"
    and "finds_service I C remotes fresh_client" and "eo_hasDhcpService B"
    and "client_reachable (cn_env I) C (client_eth_ops I C remotes B) NetLinkInfo_short ids_left (devs, c, s, w)" and "c' = client_OnRemoteDied C remote c"
    and "map_of devs (ne_iface info) = Some d" and "dv_connLinkState d \<noteq> UNREGISTERED" and "dv_netSupplier d = g_nextNetSupplierId_init"
    and "NetConnService_RegisterNetSupplier (cn_env I) (NetworkType_val NET_TYPE_CELLULAR) ident caps (NetConnService_new (cn_env I)) = (i, s')"
  shows "fst (NetConnClient_UpdateNetSupplierInfo I C remotes (dv_netSupplier d) si c' (NetConnService_new (cn_env I))) = ResultCode_val ERR_NO_SUPPLIER \<and>
    i = dv_netSupplier d \<and>
    (\<exists>devs' c'' s'' w'. EthernetManagement_Handle (client_eth_ops I C remotes B) info (devs, c', s', w) = (devs', c'', s'', w') \<and>
      supplier_available s'' i = Some (link_up (ne_ifiFlags info)) \<and> registered s'' i (NET_TYPE_CELLULAR, ident) \<and>
      (\<forall>j k. registered s'' j k \<longrightarrow> k = (NET_TYPE_CELLULAR, ident)))"
proof -
  let ?E = "cn_env I" and ?up = "ne_ifiFlags info AND IFF_UP \<noteq> 0" and ?low = "ne_ifiFlags info AND IFF_LOWER_UP \<noteq> 0"
  let ?r = "device_link_change (conn_eth_ops ?E B) (ne_iface info) ?up ?low d (s', w)"
  have "remote_good I C remotes (fresh_client, a)" for a :: "conn_state \<times> 'w"
    using assms(1-3) by (simp add: remote_good_def client_good_def)
  note r = remote.reached [OF assms(4) this assms(5)]
  have g: "client_good I C remotes (c', x, w)" for x
    using r died_finds [OF assms(3), of c remote] by (simp add: remote_good_def client_good_def assms(6))
  have links: "links_ok NetLinkInfo_short devs" using r by simp
  have "joint_inv ?E (devs, s, w)" using r joint_system.reach_inv assms(4) by fastforce
  from joint_inv_dev(1) [OF this assms(7)] have si: "dv_netSupplierInfo d \<noteq> None" by (simp add: dev_ok_def)
  note f = first_registered [OF _ assms(10), simplified]
  have "fst (NetConnClient_UpdateNetSupplierInfo I C remotes (dv_netSupplier d) si c' (NetConnService_new ?E)) = ResultCode_val ERR_NO_SUPPLIER"
    by (simp add: client_report [OF g] NetConnService_UpdateNetSupplierInfo_def NetConnService_GetNetSupplierFromListById_def NetConnService_new_def)
  moreover have i: "i = dv_netSupplier d" using f(2) assms(9) by simp
  moreover obtain devs' c'' s'' w' where e: "EthernetManagement_Handle (client_eth_ops I C remotes B) info (devs, c', s', w) = (devs', c'', s'', w')"
    by (rule prod_cases4)
  have "EthernetManagement_Handle (conn_eth_ops ?E B) info (devs, s', w) = (map_put (ne_iface info) (fst ?r) devs, snd ?r)"
    unfolding Handle_known [OF assms(7)] by (simp add: split_def)
  then have s'': "fst (snd ?r) = s''" using conjunct1 [OF conn_client.handle [OF g [of s'] links, of B info]] e by (simp add: same_answer_def)
  have "supplier_available s' i \<noteq> None" using registered_lookup [OF f(1,3)] by (auto simp: supplier_available_def)
  then have "supplier_available s'' i = Some (link_up (ne_ifiFlags info))"
    using device_link_change_available [of ?E "(s', w)" d B] f(1) si assms(4,8) i s'' by (auto simp: link_up_def)
  moreover have "keeps_suppliers {} s' s''"
    using device_link_change_kept [of ?E "(s', w)" B "ne_iface info" ?up ?low d] f(1) s'' by (simp add: conn_kept_def)
  from keeps_registered [OF this _ f(3)] have "registered s'' i (NET_TYPE_CELLULAR, ident)" by simp
  moreover from this have "k = (NET_TYPE_CELLULAR, ident)" if "registered s'' j k" for j k
    using that f(4) device_link_change_list [of ?E B "ne_iface info" ?up ?low d "(s', w)"] s'' by (auto simp: registered_def length_Suc_conv)
  moreover note e
  ultimately show ?thesis by blast
qed

section \<open>A concrete run\<close>

text \<open>One device, down at the start, over the client of another process and over that of the same process.\<close>

abbreviation sample_remotes :: "nat \<Rightarrow> parcel_item list conn_remote" where
  "sample_remotes \<equiv> \<lambda>_. Some (NetConnServiceStub_OnRemoteRequest sample_conn_ipc)"

abbreviation sample_over_ipc :: "(client_state \<times> conn_state \<times> unit) eth_ops" where
  "sample_over_ipc \<equiv> client_eth_ops sample_conn_ipc sample_client sample_remotes (sample_eth_ops [sample_info 0])"

abbreviation sample_inside :: "(client_state \<times> conn_state \<times> unit) eth_ops" where
  "sample_inside \<equiv> local_eth_ops sample_env sample_client (- 1) (sample_eth_ops [sample_info 0])"

lemma sample_over_client: "finds_service sample_conn_ipc sample_client sample_remotes fresh_client"
  using sample_GetProxy by (simp add: finds_service_def)

lemma sample_laws:
  "parcel_laws (cn_parcel sample_conn_ipc)" "parcel_never_fails (cn_parcel sample_conn_ipc)" "cn_env sample_conn_ipc = sample_env"
  "eo_hasDhcpService (sample_eth_ops l)"
  by (simp_all add: sample_conn_ipc_def sample_eth_ops_def)

text \<open>Every deployment starts with the table that the service itself gives.\<close>

lemma sample_start:
  assumes d: "client_deployment sample_env (sample_eth_ops [sample_info 0]) X good li_ok room sample_client ids"
    and g: "good (fresh_client, NetConnService_new sample_env, ())" and ids: "ids 1 (NetConnService_new sample_env)"
  obtains d c s where "client_reachable sample_env sample_client X li_ok ids ([(''eth0'', d)], c, s, ())"
    "dv_connLinkState d = REGISTERED" "dv_netSupplier d = 0x03EB"
proof -
  note e = client_deployment.axioms(1) [OF d]
  let ?x = "(fresh_client, NetConnService_new sample_env, ())" and ?F = "conn_eth_ops sample_env (sample_eth_ops [sample_info 0])"
  obtain d t where i: "EthernetManagement_Init ?F ([], NetConnService_new sample_env, ()) = Some ([(''eth0'', d)], t, ())"
    "dv_connLinkState d = REGISTERED" "dv_netSupplier d = 0x03EB" by (rule sample_init)
  have one: "length (fst (eo_GetLinkInfo ?F (NetConnService_new sample_env, ()))) = 1"
    by (simp add: conn_eth_ops_def on_rest_def sample_eth_ops_def)
  have "room (length (fst (eo_GetLinkInfo ?F (snd ?x)))) (snd ?x)"
    using client_deployment.has_room [OF d conn_inv_new ids] one by simp
  from eth_start_refinement.start [OF e g _ this, of "[]"] obtain devs w where
    w: "EthernetManagement_Init X ([], ?x) = Some (devs, w)" "EthernetManagement_Init ?F ([], snd ?x) = Some (devs, snd w)"
    by (auto simp: links_ok_def)
  have "devs = [(''eth0'', d)]" "snd w = (t, ())" using w(2) i(1) by simp_all
  then obtain c where "EthernetManagement_Init X ([], ?x) = Some ([(''eth0'', d)], c, t, ())" using w(1) by (cases w) auto
  moreover have "ids (length (fst (eo_GetLinkInfo X ?x))) (NetConnService_new sample_env)"
    using eth_start_refinement.get_links [OF e g] one ids by (simp add: same_answer_def)
  ultimately have "client_step sample_env sample_client X li_ok ids ([], ?x) ([(''eth0'', d)], c, t, ())" by (rule client_init)
  moreover have "client_reachable sample_env sample_client X li_ok ids ([], ?x)" by (rule reach_init) simp
  ultimately have "client_reachable sample_env sample_client X li_ok ids ([(''eth0'', d)], c, t, ())" by (rule reach_step [rotated])
  then show thesis using that i(2,3) by blast
qed

lemma sample_client_reach:
  obtains d c s where "client_reachable sample_env sample_client sample_over_ipc NetLinkInfo_short ids_left ([(''eth0'', d)], c, s, ())"
    "dv_connLinkState d = REGISTERED" "dv_netSupplier d = 0x03EB"
proof (rule sample_start)
  show "client_deployment sample_env (sample_eth_ops [sample_info 0]) sample_over_ipc (remote_good sample_conn_ipc sample_client sample_remotes)
      NetLinkInfo_short (conn_room sample_env) sample_client ids_left"
    using remote.client_deployment_axioms [of sample_conn_ipc] unfolding sample_laws(3) .
  show "remote_good sample_conn_ipc sample_client sample_remotes (fresh_client, NetConnService_new sample_env, ())"
    using sample_laws sample_over_client by (simp add: remote_good_def client_good_def)
  show "ids_left 1 (NetConnService_new sample_env)" by (simp add: ids_left_def NetConnService_new_def g_nextNetSupplierId_init_def)
qed


theorem local_system_refines_witness:
  "\<exists>d c s. client_reachable sample_env sample_client sample_inside (\<lambda>_. True) (\<lambda>_ _. True) ([(''eth0'', d)], c, s, ()) \<and>
    registered s 0x03EB (NET_TYPE_ETHERNET, ''eth0'')"
proof -
  have "fst (client_GetProxy sample_client fresh_client) \<noteq> None" using sample_GetProxy by simp
  then have p: "fst (client_GetProxy sample_client fresh_client) \<noteq> None" "local_good sample_client (fresh_client, NetConnService_new sample_env, ())"
    by (simp_all add: local_good_def)
  obtain d c s where r: "client_reachable sample_env sample_client sample_inside (\<lambda>_. True) (\<lambda>_ _. True) ([(''eth0'', d)], c, s, ())"
    "dv_connLinkState d = REGISTERED" "dv_netSupplier d = 0x03EB" by (rule sample_start [OF local_client.client_deployment_axioms p(2) TrueI])
  from local_system_refines [OF p(1) sample_laws(4) r(1), of NetSupplierInfo_new] r(2,3)
  have "registered s 0x03EB (NET_TYPE_ETHERNET, ''eth0'')" by simp
  with r(1) show ?thesis by blast
qed

theorem restart_gives_identifiers_again_witness:
  "\<exists>d c s s' devs' c' s'' w'. client_reachable sample_env sample_client sample_over_ipc NetLinkInfo_short ids_left ([(''eth0'', d)], c, s, ()) \<and>
    NetConnService_RegisterNetSupplier sample_env (NetworkType_val NET_TYPE_CELLULAR) ''simId1'' 1 (NetConnService_new sample_env) = (0x03EB, s') \<and>
    EthernetManagement_Handle sample_over_ipc (sample_info 0x10001) ([(''eth0'', d)], client_OnRemoteDied sample_client (Some 7) c, s', ()) =
      (devs', c', s'', w') \<and>
    supplier_available s'' 0x03EB = Some True"
proof -
  obtain d c s where r: "client_reachable sample_env sample_client sample_over_ipc NetLinkInfo_short ids_left ([(''eth0'', d)], c, s, ())"
    "dv_connLinkState d = REGISTERED" "dv_netSupplier d = 0x03EB" by (rule sample_client_reach)
  obtain i s' where reg: "NetConnService_RegisterNetSupplier sample_env (NetworkType_val NET_TYPE_CELLULAR) ''simId1'' 1
      (NetConnService_new sample_env) = (i, s')" by (rule prod.exhaust)
  have d: "map_of [(''eth0'', d)] (ne_iface (sample_info 0x10001)) = Some d" "dv_connLinkState d \<noteq> UNREGISTERED" "dv_netSupplier d = g_nextNetSupplierId_init"
    using r(2,3) by (simp_all add: sample_info_def g_nextNetSupplierId_init_def)
  have up: "link_up (ne_ifiFlags (sample_info 0x10001))" by (simp add: link_up_def sample_info_def IFF_UP_def IFF_LOWER_UP_def)
  note all = restart_gives_identifiers_again [OF sample_laws(1,2) sample_over_client sample_laws(4) r(1) [folded sample_laws(3)]
      refl [of "client_OnRemoteDied sample_client (Some 7) c"] d reg [folded sample_laws(3)], of NetSupplierInfo_new]
  have i: "i = 0x03EB" using conjunct1 [OF conjunct2 [OF all]] r(3) by simp
  from conjunct2 [OF conjunct2 [OF all]] obtain devs' c' s'' w' where
    h: "EthernetManagement_Handle sample_over_ipc (sample_info 0x10001) ([(''eth0'', d)], client_OnRemoteDied sample_client (Some 7) c, s', ()) =
      (devs', c', s'', w')"
    and "supplier_available s'' i = Some (link_up (ne_ifiFlags (sample_info 0x10001)))" by blast
  then have av: "supplier_available s'' 0x03EB = Some True" using up i by simp
  show ?thesis using r(1) reg [unfolded i] h av by blast
qed

end
