(* ===== verification/Net_Utils.thy ===== *)
theory Net_Utils
  imports NM_Types "HOL-Library.Product_Lexorder" "HOL-Library.List_Lexorder"
begin

text \<open>
  The address and descriptor types of the native daemon (\<open>net_utils.h\<close>) and the resolver state built on
  them (\<open>dnsresolv.h\<close>). Bytes in network order are byte lists. The values of \<open>AF_UNSPEC\<close>, \<open>AF_INET\<close> and
  \<open>AF_INET6\<close>, the sizes of the socket address structures and the constructors of \<open>ip_address\<close> that the
  header only declares are parameters.
\<close>

section \<open>The C library: byte order and comparison of memory\<close>

fun big_endian :: "uint8 list \<Rightarrow> nat" where
  "big_endian [] = 0"
| "big_endian (b # bs) = unat b * 256 ^ length bs + big_endian bs"

definition ntohl :: "uint8 list \<Rightarrow> uint32" where
  "ntohl bs = word_of_nat (big_endian bs)"

definition ntohs :: "uint8 list \<Rightarrow> uint16" where
  "ntohs bs = word_of_nat (big_endian bs)"

definition htons :: "uint16 \<Rightarrow> uint8 list" where
  "htons p = [ucast (drop_bit 8 p), ucast p]"

text \<open>Only the sign of \<open>memcmp\<close> is specified.\<close>

fun memcmp :: "uint8 list \<Rightarrow> uint8 list \<Rightarrow> int" where
  "memcmp (x # xs) (y # ys) = (if x = y then memcmp xs ys else if x < y then - 1 else 1)"
| "memcmp _ _ = 0"

lemma big_endian_less: "big_endian bs < 256 ^ length bs"
proof (induction bs)
  case (Cons b bs)
  have "unat b < 2 ^ LENGTH(8)" by (rule unsigned_less)
  then have "unat b \<le> 255" by simp
  then have "unat b * 256 ^ length bs \<le> 255 * 256 ^ length bs" by (rule mult_le_mono1)
  then have "unat b * 256 ^ length bs + big_endian bs < 256 * 256 ^ length bs" using Cons.IH by linarith
  then show ?case by simp
qed simp

lemma digits_less:
  fixes a b x y m :: nat
  assumes "x < m" and "y < m"
  shows "a * m + x < b * m + y \<longleftrightarrow> a < b \<or> a = b \<and> x < y"
proof (cases a b rule: linorder_cases)
  case less
  then have "(a + 1) * m \<le> b * m" by (intro mult_right_mono) simp_all
  then show ?thesis using less assms by (simp add: algebra_simps)
next
  case greater
  then have "(b + 1) * m \<le> a * m" by (intro mult_right_mono) simp_all
  then show ?thesis using greater assms by (simp add: algebra_simps)
qed simp

lemma big_endian_lexicographic:
  "length xs = length ys \<Longrightarrow> big_endian xs < big_endian ys \<longleftrightarrow> xs < ys"
proof (induction xs ys rule: list_induct2)
  case (Cons x xs y ys)
  have "big_endian xs < 256 ^ length ys" "big_endian ys < 256 ^ length ys"
    using big_endian_less [of xs] big_endian_less [of ys] Cons.hyps by simp_all
  from digits_less [OF this] show ?case using Cons by (simp add: word_less_nat_alt word_unat_eq_iff)
qed simp

lemma unat_ntohl: "length bs = 4 \<Longrightarrow> unat (ntohl bs) = big_endian bs"
  using big_endian_less [of bs] by (simp add: ntohl_def unsigned_of_nat take_bit_eq_mod)

lemma ntohl_less: "length xs = 4 \<Longrightarrow> length ys = 4 \<Longrightarrow> ntohl xs < ntohl ys \<longleftrightarrow> xs < ys"
  by (simp add: word_less_nat_alt unat_ntohl big_endian_lexicographic)

lemma memcmp_sign:
  "length xs = length ys \<Longrightarrow> (memcmp xs ys = 0 \<longleftrightarrow> xs = ys) \<and> (memcmp xs ys < 0 \<longleftrightarrow> xs < ys)"
  by (induction xs ys rule: list_induct2) auto

lemma ntohs_htons [simp]: "ntohs (htons p) = p"
proof -
  have "unat p < 2 ^ LENGTH(16)" by (rule unsigned_less)
  then have d: "unat p div 256 mod 256 = unat p div 256" by simp
  have "big_endian (htons p) = (unat p div 256) mod 256 * 256 + unat p mod 256"
    by (simp add: htons_def unsigned_ucast_eq unat_drop_bit_eq drop_bit_eq_div take_bit_eq_mod unat_div_distrib)
  then show ?thesis unfolding d by (simp add: ntohs_def div_mult_mod_eq)
qed

lemma length_htons [simp]: "length (htons p) = 2"
  by (simp add: htons_def)

lemma inj_ucast_8_16: "(ucast x :: uint16) = ucast y \<longleftrightarrow> x = y" for x y :: uint8
proof -
  have "unat x < 2 ^ LENGTH(8)" "unat y < 2 ^ LENGTH(8)" by (rule unsigned_less)+
  then show ?thesis by (simp add: word_unat_eq_iff unsigned_ucast_eq take_bit_eq_mod)
qed

section \<open>Addresses\<close>

record compact_ipdata =
  ci_family :: uint8
  ci_cidrlen :: uint8
  ci_port :: uint16
  ci_scope_id :: uint32
  ci_ip :: "uint8 list"

text \<open>What the header does not define.\<close>

record net_platform =
  np_AF_UNSPEC :: uint8
  np_AF_INET :: uint8
  np_AF_INET6 :: uint8
  np_sizeof_sockaddr_in :: uint32
  np_sizeof_sockaddr_in6 :: uint32
  np_ip_address4 :: "uint8 list \<Rightarrow> compact_ipdata"
  np_ip_address6 :: "uint8 list \<Rightarrow> uint32 \<Rightarrow> compact_ipdata"

definition IPV4_ADDR_BITS :: uint8 where "IPV4_ADDR_BITS = 32"
definition IPV6_ADDR_BITS :: uint8 where "IPV6_ADDR_BITS = 128"
definition IPV6_ADDR_LEN :: nat where "IPV6_ADDR_LEN = 16"

definition compact_ipdata_new :: "net_platform \<Rightarrow> compact_ipdata" where
  "compact_ipdata_new N = \<lparr>ci_family = np_AF_UNSPEC N, ci_cidrlen = 0, ci_port = 0, ci_scope_id = 0, ci_ip = replicate 16 0\<rparr>"

text \<open>The members of the union: an IPv4 address is its first four bytes.\<close>

definition ip_v4 :: "compact_ipdata \<Rightarrow> uint8 list" where
  "ip_v4 d = take 4 (ci_ip d)"

definition ipdata_eq :: "net_platform \<Rightarrow> compact_ipdata \<Rightarrow> compact_ipdata \<Rightarrow> bool" where
  "ipdata_eq N a b =
     (if ci_family a \<noteq> ci_family b \<or> ci_cidrlen a \<noteq> ci_cidrlen b \<or> ci_port a \<noteq> ci_port b \<or> ci_scope_id a \<noteq> ci_scope_id b then False
      else if ci_family a = np_AF_UNSPEC N then True
      else if ci_family a = np_AF_INET N then ip_v4 a = ip_v4 b
      else if ci_family a = np_AF_INET6 N then ci_ip a = ci_ip b
      else False)"

definition ipdata_ne :: "net_platform \<Rightarrow> compact_ipdata \<Rightarrow> compact_ipdata \<Rightarrow> bool" where
  "ipdata_ne N a b \<longleftrightarrow> \<not> ipdata_eq N a b"

definition less_rest :: "compact_ipdata \<Rightarrow> compact_ipdata \<Rightarrow> bool" where
  "less_rest a b =
     (if ci_cidrlen a \<noteq> ci_cidrlen b then ci_cidrlen a < ci_cidrlen b
      else if ci_port a \<noteq> ci_port b then ci_port a < ci_port b
      else ci_scope_id a < ci_scope_id b)"

definition ipdata_less :: "net_platform \<Rightarrow> compact_ipdata \<Rightarrow> compact_ipdata \<Rightarrow> bool" where
  "ipdata_less N a b =
     (if ci_family a \<noteq> ci_family b then ci_family a < ci_family b
      else if ci_family a = np_AF_INET N then
        (if ip_v4 a \<noteq> ip_v4 b then ntohl (ip_v4 a) < ntohl (ip_v4 b) else less_rest a b)
      else if ci_family a = np_AF_INET6 N then
        (let cmp = memcmp (take IPV6_ADDR_LEN (ci_ip a)) (take IPV6_ADDR_LEN (ci_ip b)) in
         if cmp \<noteq> 0 then cmp < 0 else less_rest a b)
      else less_rest a b)"

text \<open>
  \<open>ip_address\<close>, \<open>ip_prefix\<close> and \<open>ip_sock_addr\<close> have the data as their one member; the other comparisons
  are the same in the three classes.
\<close>

definition ip_greater :: "net_platform \<Rightarrow> compact_ipdata \<Rightarrow> compact_ipdata \<Rightarrow> bool" where
  "ip_greater N a b \<longleftrightarrow> ipdata_less N b a"
definition ip_less_eq :: "net_platform \<Rightarrow> compact_ipdata \<Rightarrow> compact_ipdata \<Rightarrow> bool" where
  "ip_less_eq N a b \<longleftrightarrow> ipdata_less N a b \<or> ipdata_eq N a b"
definition ip_greater_eq :: "net_platform \<Rightarrow> compact_ipdata \<Rightarrow> compact_ipdata \<Rightarrow> bool" where
  "ip_greater_eq N a b \<longleftrightarrow> ipdata_less N b a \<or> ipdata_eq N a b"

definition IN6_IS_ADDR_LINKLOCAL :: "uint8 list \<Rightarrow> bool" where
  "IN6_IS_ADDR_LINKLOCAL ip \<longleftrightarrow> ip ! 0 = 0xfe \<and> ip ! 1 AND 0xc0 = 0x80"
definition IN6_IS_ADDR_MC_LINKLOCAL :: "uint8 list \<Rightarrow> bool" where
  "IN6_IS_ADDR_MC_LINKLOCAL ip \<longleftrightarrow> ip ! 0 = 0xff \<and> ip ! 1 AND 0x0f = 2"

definition usesScopedIds :: "uint8 list \<Rightarrow> bool" where
  "usesScopedIds ip \<longleftrightarrow> IN6_IS_ADDR_LINKLOCAL ip \<or> IN6_IS_ADDR_MC_LINKLOCAL ip"

definition ip_address_scoped :: "net_platform \<Rightarrow> compact_ipdata \<Rightarrow> uint32 \<Rightarrow> compact_ipdata" where
  "ip_address_scoped N ip scope =
     ip\<lparr>ci_scope_id := (if ci_family ip = np_AF_INET6 N \<and> usesScopedIds (ci_ip ip) then scope else 0)\<rparr>"

definition ip_address_of_ipdata :: "net_platform \<Rightarrow> compact_ipdata \<Rightarrow> compact_ipdata" where
  "ip_address_of_ipdata N ipdata =
     (let m = ipdata\<lparr>ci_port := 0\<rparr> in
      if ci_family m = np_AF_INET N then m\<lparr>ci_cidrlen := IPV4_ADDR_BITS, ci_scope_id := 0\<rparr>
      else if ci_family m = np_AF_INET6 N then
        (let m1 = m\<lparr>ci_cidrlen := IPV6_ADDR_BITS\<rparr> in
         if usesScopedIds (ci_ip ipdata) then m1\<lparr>ci_scope_id := ci_scope_id ipdata\<rparr> else m1)
      else m\<lparr>ci_cidrlen := 0, ci_scope_id := 0\<rparr>)"

section \<open>The comparisons are those of a key\<close>

definition ip_key :: "net_platform \<Rightarrow> compact_ipdata \<Rightarrow> uint8 \<times> uint8 list \<times> uint8 \<times> uint16 \<times> uint32" where
  "ip_key N d =
     (ci_family d, (if ci_family d = np_AF_INET N then ip_v4 d else if ci_family d = np_AF_INET6 N then ci_ip d else []),
      ci_cidrlen d, ci_port d, ci_scope_id d)"

definition families :: "net_platform \<Rightarrow> uint8 set" where
  "families N = {np_AF_UNSPEC N, np_AF_INET N, np_AF_INET6 N}"

lemma less_rest_key:
  "less_rest a b \<longleftrightarrow> (ci_cidrlen a, ci_port a, ci_scope_id a) < (ci_cidrlen b, ci_port b, ci_scope_id b)"
  by (auto simp: less_rest_def less_prod_def)

lemma less_pair: "(a, x) < (b, y) \<longleftrightarrow> (if a \<noteq> b then a < b else x < y)" for a b :: "'a :: linorder" and x y :: "'b :: linorder"
  by (auto simp: less_prod_def)

lemma ipdata_less_key:
  assumes "length (ci_ip a) = 16" and "length (ci_ip b) = 16"
  shows "ipdata_less N a b \<longleftrightarrow> ip_key N a < ip_key N b"
proof -
  have v4: "length (ip_v4 a) = 4" "length (ip_v4 b) = 4" using assms by (simp_all add: ip_v4_def)
  have v6: "memcmp (ci_ip a) (ci_ip b) = 0 \<longleftrightarrow> ci_ip a = ci_ip b" "memcmp (ci_ip a) (ci_ip b) < 0 \<longleftrightarrow> ci_ip a < ci_ip b"
    using memcmp_sign [of "ci_ip a" "ci_ip b"] assms by simp_all
  show ?thesis unfolding ipdata_less_def ip_key_def less_pair [of "ci_family a"] less_pair [where 'a = "uint8 list"]
    by (simp add: ntohl_less [OF v4] v6 less_rest_key Let_def assms IPV6_ADDR_LEN_def)
qed

lemma ipdata_eq_key:
  assumes "ci_family a \<in> families N" and "distinct [np_AF_UNSPEC N, np_AF_INET N, np_AF_INET6 N]"
  shows "ipdata_eq N a b \<longleftrightarrow> ip_key N a = ip_key N b"
  using assms by (auto simp: ipdata_eq_def ip_key_def families_def)

text \<open>Data of any other family is not even equal to itself, and so not less than or equal to itself.\<close>

lemma other_family_incomparable:
  "ci_family a \<notin> families N \<Longrightarrow> \<not> ipdata_eq N a a \<and> \<not> ip_less_eq N a a \<and> \<not> ip_greater_eq N a a"
  by (simp add: families_def ipdata_eq_def ip_less_eq_def ip_greater_eq_def ipdata_less_def less_rest_def memcmp_sign)

text \<open>
  C39. The comparisons of addresses, prefixes and socket addresses are the order of a key: the family, the
  address in network order, the length, the port and the scope, in this order; bytes of the union
  beyond the address do not count. So of two values of the known families exactly one is less than, equal
  to or greater than the other, and all orders between more values are transitive.
\<close>

theorem comparisons_by_key:
  assumes "distinct [np_AF_UNSPEC N, np_AF_INET N, np_AF_INET6 N]"
    and "length (ci_ip a) = 16" and "length (ci_ip b) = 16" and "{ci_family a, ci_family b} \<subseteq> families N"
  shows "(ipdata_less N a b \<longleftrightarrow> ip_key N a < ip_key N b) \<and> (ip_greater N a b \<longleftrightarrow> ip_key N b < ip_key N a) \<and>
    (ipdata_eq N a b \<longleftrightarrow> ip_key N a = ip_key N b) \<and> (ipdata_ne N a b \<longleftrightarrow> ip_key N a \<noteq> ip_key N b) \<and>
    (ip_less_eq N a b \<longleftrightarrow> ip_key N a \<le> ip_key N b) \<and> (ip_greater_eq N a b \<longleftrightarrow> ip_key N b \<le> ip_key N a)"
  using ipdata_less_key [OF assms(2,3), of N] ipdata_less_key [OF assms(3,2), of N] ipdata_eq_key [OF _ assms(1), of a b] assms(4)
  by (auto simp: ip_greater_def ipdata_ne_def ip_less_eq_def ip_greater_eq_def)

section \<open>Prefixes and socket addresses\<close>

definition ip_prefix_new :: "compact_ipdata \<Rightarrow> compact_ipdata" where
  "ip_prefix_new ip = ip"
definition ip_prefix_ip :: "net_platform \<Rightarrow> compact_ipdata \<Rightarrow> compact_ipdata" where
  "ip_prefix_ip N prefix = ip_address_of_ipdata N prefix"
definition ip_prefix_length :: "compact_ipdata \<Rightarrow> int" where
  "ip_prefix_length prefix = uint (ci_cidrlen prefix)"

definition ip_sock_addr_new :: "compact_ipdata \<Rightarrow> uint16 \<Rightarrow> compact_ipdata" where
  "ip_sock_addr_new ip port = ip\<lparr>ci_port := port\<rparr>"
definition ip_sock_addr_ip :: "net_platform \<Rightarrow> compact_ipdata \<Rightarrow> compact_ipdata" where
  "ip_sock_addr_ip N a = ip_address_of_ipdata N a"

text \<open>
  A socket address in memory: the family, and the members of the structure of that family. The port has
  the same place in both.
\<close>

record sockaddr_storage =
  sa_family :: uint16
  sa_port :: "uint8 list"
  sin_addr :: "uint8 list"
  sin6_flowinfo :: uint32
  sin6_addr :: "uint8 list"
  sin6_scope_id :: uint32

definition ip_sock_addr_of_sockaddr_in :: "net_platform \<Rightarrow> sockaddr_storage \<Rightarrow> compact_ipdata" where
  "ip_sock_addr_of_sockaddr_in N sa = ip_sock_addr_new (np_ip_address4 N (sin_addr sa)) (ntohs (sa_port sa))"

definition ip_sock_addr_of_sockaddr_in6 :: "net_platform \<Rightarrow> sockaddr_storage \<Rightarrow> compact_ipdata" where
  "ip_sock_addr_of_sockaddr_in6 N sa = ip_sock_addr_new (np_ip_address6 N (sin6_addr sa) (sin6_scope_id sa)) (ntohs (sa_port sa))"

definition toIPSockAddr :: "net_platform \<Rightarrow> sockaddr_storage \<Rightarrow> compact_ipdata" where
  "toIPSockAddr N sa =
     (if sa_family sa = ucast (np_AF_INET N) then ip_sock_addr_of_sockaddr_in N sa
      else if sa_family sa = ucast (np_AF_INET6 N) then ip_sock_addr_of_sockaddr_in6 N sa
      else compact_ipdata_new N)"

text \<open>
  From text: the parser \<open>forString(repr, ip)\<close>, of which the header has only the declaration, is a parameter with \<open>None\<close> for false. A
  text that is no address gives the default one; a socket address has the port all the same.
\<close>

definition ip_address_forString :: "net_platform \<Rightarrow> (string \<Rightarrow> compact_ipdata option) \<Rightarrow> string \<Rightarrow> compact_ipdata" where
  "ip_address_forString N parse repr = (case parse repr of None \<Rightarrow> compact_ipdata_new N | Some ip \<Rightarrow> ip)"
definition ip_prefix_forString :: "net_platform \<Rightarrow> (string \<Rightarrow> compact_ipdata option) \<Rightarrow> string \<Rightarrow> compact_ipdata" where
  "ip_prefix_forString N parse repr = (case parse repr of None \<Rightarrow> compact_ipdata_new N | Some prefix \<Rightarrow> prefix)"

definition toIPSockAddr_of_string :: "net_platform \<Rightarrow> (string \<Rightarrow> compact_ipdata option) \<Rightarrow> string \<Rightarrow> uint16 \<Rightarrow> compact_ipdata" where
  "toIPSockAddr_of_string N parse repr port = ip_sock_addr_new (ip_address_forString N parse repr) port"

text \<open>The local variable \<open>ss\<close> is not initialised: what it holds before is the argument.\<close>

definition to_sockaddr_storage :: "net_platform \<Rightarrow> sockaddr_storage \<Rightarrow> compact_ipdata \<Rightarrow> sockaddr_storage" where
  "to_sockaddr_storage N ss a =
     (let ss1 = ss\<lparr>sa_family := ucast (ci_family a)\<rparr> in
      if ci_family a = np_AF_INET N then ss1\<lparr>sin_addr := ip_v4 a, sa_port := htons (ci_port a)\<rparr>
      else if ci_family a = np_AF_INET6 N then
        ss1\<lparr>sin6_addr := ci_ip a, sa_port := htons (ci_port a), sin6_scope_id := ci_scope_id a\<rparr>
      else ss1)"

definition sockaddrSize :: "net_platform \<Rightarrow> sockaddr_storage option \<Rightarrow> uint32" where
  "sockaddrSize N sa =
     (case sa of None \<Rightarrow> 0
      | Some a \<Rightarrow> if sa_family a = ucast (np_AF_INET N) then np_sizeof_sockaddr_in N
                 else if sa_family a = ucast (np_AF_INET6 N) then np_sizeof_sockaddr_in6 N else 0)"

text \<open>The constructors from raw addresses, which the header only declares, set what their class says.\<close>

definition platform_laws :: "net_platform \<Rightarrow> bool" where
  "platform_laws N \<longleftrightarrow> distinct [np_AF_UNSPEC N, np_AF_INET N, np_AF_INET6 N] \<and>
     (\<forall>v. length v = 4 \<longrightarrow> (\<exists>rest. length rest = 12 \<and>
        np_ip_address4 N v = \<lparr>ci_family = np_AF_INET N, ci_cidrlen = 32, ci_port = 0, ci_scope_id = 0, ci_ip = v @ rest\<rparr>)) \<and>
     (\<forall>v scope. length v = 16 \<and> (scope = 0 \<or> usesScopedIds v) \<longrightarrow>
        np_ip_address6 N v scope = \<lparr>ci_family = np_AF_INET6 N, ci_cidrlen = 128, ci_port = 0, ci_scope_id = scope, ci_ip = v\<rparr>)"

text \<open>The form of an address: the length of its family, and a scope only where it means something.\<close>

definition addr_normal :: "net_platform \<Rightarrow> compact_ipdata \<Rightarrow> bool" where
  "addr_normal N d \<longleftrightarrow> length (ci_ip d) = 16 \<and>
     (ci_family d = np_AF_UNSPEC N \<and> ci_cidrlen d = 0 \<and> ci_scope_id d = 0 \<or>
      ci_family d = np_AF_INET N \<and> ci_cidrlen d = 32 \<and> ci_scope_id d = 0 \<or>
      ci_family d = np_AF_INET6 N \<and> ci_cidrlen d = 128 \<and> (ci_scope_id d = 0 \<or> usesScopedIds (ci_ip d)))"

lemma normal_of_normal:
  "distinct [np_AF_UNSPEC N, np_AF_INET N, np_AF_INET6 N] \<Longrightarrow> addr_normal N d \<Longrightarrow> ip_address_of_ipdata N d = d\<lparr>ci_port := 0\<rparr>"
  by (cases d) (auto simp: addr_normal_def ip_address_of_ipdata_def IPV4_ADDR_BITS_def IPV6_ADDR_BITS_def Let_def)

lemma normal_port [simp]: "addr_normal N (d\<lparr>ci_port := p\<rparr>) = addr_normal N d"
  by (simp add: addr_normal_def)

lemma toIPSockAddr_normal:
  assumes "platform_laws N" and "length (sin_addr sa) = 4" and "length (sin6_addr sa) = 16"
    and "sin6_scope_id sa = 0 \<or> usesScopedIds (sin6_addr sa)"
  shows "addr_normal N (toIPSockAddr N sa)"
proof -
  have "addr_normal N (np_ip_address4 N (sin_addr sa))" "addr_normal N (np_ip_address6 N (sin6_addr sa) (sin6_scope_id sa))"
    using assms by (force simp: platform_laws_def addr_normal_def)+
  moreover have "addr_normal N (compact_ipdata_new N)" by (simp add: addr_normal_def compact_ipdata_new_def)
  ultimately show ?thesis
    by (simp add: toIPSockAddr_def ip_sock_addr_of_sockaddr_in_def ip_sock_addr_of_sockaddr_in6_def ip_sock_addr_new_def)
qed



section \<open>A concrete platform\<close>

definition sample_platform6 :: net_platform where
  "sample_platform6 = \<lparr>np_AF_UNSPEC = 0, np_AF_INET = 2, np_AF_INET6 = 10, np_sizeof_sockaddr_in = 16, np_sizeof_sockaddr_in6 = 28,
     np_ip_address4 = \<lambda>v. \<lparr>ci_family = 2, ci_cidrlen = 32, ci_port = 0, ci_scope_id = 0, ci_ip = v @ replicate 12 0\<rparr>,
     np_ip_address6 = \<lambda>v scope. \<lparr>ci_family = 10, ci_cidrlen = 128, ci_port = 0,
       ci_scope_id = (if usesScopedIds v then scope else 0), ci_ip = v\<rparr>\<rparr>"

lemma sample_platform6_laws: "platform_laws sample_platform6"
  by (auto simp: platform_laws_def sample_platform6_def intro: exI [of _ "replicate 12 0"])

text \<open>10.0.0.1, port 8080, with garbage in the rest of the union, and a link-local address with a scope.\<close>

definition sample_v4 :: compact_ipdata where
  "sample_v4 = \<lparr>ci_family = 2, ci_cidrlen = 32, ci_port = 8080, ci_scope_id = 0, ci_ip = [10, 0, 0, 1] @ replicate 12 7\<rparr>"

definition sample_v6 :: compact_ipdata where
  "sample_v6 = \<lparr>ci_family = 10, ci_cidrlen = 128, ci_port = 53, ci_scope_id = 3, ci_ip = [0xfe, 0x80] @ replicate 14 1\<rparr>"

definition sample_ss :: sockaddr_storage where
  "sample_ss = \<lparr>sa_family = 77, sa_port = [1, 2], sin_addr = replicate 4 9, sin6_flowinfo = 0xdeadbeef, sin6_addr = replicate 16 9, sin6_scope_id = 0\<rparr>"

lemma sample_normal:
  "addr_normal sample_platform6 sample_v4" "addr_normal sample_platform6 sample_v6"
  by (simp_all add: addr_normal_def sample_v4_def sample_v6_def sample_platform6_def usesScopedIds_def IN6_IS_ADDR_LINKLOCAL_def)

definition sample_parse :: "string \<Rightarrow> compact_ipdata option" where
  "sample_parse repr = (if repr = ''10.0.0.1'' then Some (sample_v4\<lparr>ci_port := 0\<rparr>) else None)"

lemma sample_parse: "\<forall>t ip. sample_parse t = Some ip \<longrightarrow> addr_normal sample_platform6 ip"
  using sample_normal(1) by (auto simp: sample_parse_def split: if_splits)

theorem comparisons_by_key_witness:
  "ipdata_less sample_platform6 sample_v4 sample_v6 \<and> \<not> ip_greater_eq sample_platform6 sample_v4 sample_v6"
  using comparisons_by_key [of sample_platform6 sample_v4 sample_v6]
  by (simp add: sample_platform6_def sample_v4_def sample_v6_def families_def ip_key_def)



section \<open>Descriptors\<close>

text \<open>
  \<open>fd_wrapper\<close>: the descriptor it owns and, next to it, the descriptors that were closed, in order. The
  destructor resets.
\<close>

type_synonym closed = "int32 list"

definition fd_wrapper_reset :: "int32 \<Rightarrow> int32 \<Rightarrow> closed \<Rightarrow> int32 \<times> closed" where
  "fd_wrapper_reset newFd fd log = (newFd, if fd \<noteq> - 1 then log @ [fd] else log)"

definition fd_wrapper_new :: "int32 \<Rightarrow> closed \<Rightarrow> int32 \<times> closed" where
  "fd_wrapper_new fd log = fd_wrapper_reset fd (- 1) log"

definition fd_wrapper_destroy :: "int32 \<Rightarrow> closed \<Rightarrow> closed" where
  "fd_wrapper_destroy fd log = snd (fd_wrapper_reset (- 1) fd log)"

text \<open>A wrapper that is made of one descriptor and reset to others, one after the other.\<close>

definition fd_wrapper_run :: "int32 \<Rightarrow> int32 list \<Rightarrow> closed \<Rightarrow> int32 \<times> closed" where
  "fd_wrapper_run fd fds log = fold (\<lambda>f (cur, l). fd_wrapper_reset f cur l) fds (fd_wrapper_new fd log)"

lemma resets_close:
  "fold (\<lambda>f (cur, l). fd_wrapper_reset f cur l) fds (cur, l) = (last (cur # fds), l @ filter (\<lambda>f. f \<noteq> - 1) (butlast (cur # fds)))"
  by (induction fds arbitrary: cur l) (simp_all add: fd_wrapper_reset_def)

text \<open>
  Every descriptor given to a wrapper is closed, in the order given and as often as given, once the
  wrapper is destroyed, and until then all but the current one; -1 is never closed. A wrapper that is reset
  to the descriptor it has closes it and keeps it.
\<close>

theorem descriptors_closed:
  "fst (fd_wrapper_run fd fds log) = last (fd # fds) \<and>
    snd (fd_wrapper_run fd fds log) = log @ filter (\<lambda>f. f \<noteq> - 1) (butlast (fd # fds)) \<and>
    (case fd_wrapper_run fd fds log of (cur, l) \<Rightarrow> fd_wrapper_destroy cur l) = log @ filter (\<lambda>f. f \<noteq> - 1) (fd # fds)"
proof -
  have "filter P (butlast xs) @ (if P (last xs) then [last xs] else []) = filter P xs" if "xs \<noteq> []" for P and xs :: "int32 list"
    using that by (cases xs rule: rev_cases) simp_all
  from this [of "fd # fds" "\<lambda>f. f \<noteq> - 1"] show ?thesis
    using resets_close [of fds fd log]
    by (simp add: fd_wrapper_run_def fd_wrapper_new_def fd_wrapper_reset_def fd_wrapper_destroy_def del: last.simps butlast.simps filter.simps split: if_splits)
qed

section \<open>The state of a resolver\<close>

definition MAXNS :: nat where "MAXNS = 4"

record netd_net_context =
  nx_appNetId :: uint16
  nx_appMark :: uint32
  nx_dnsNetId :: uint16
  nx_dnsMark :: uint32
  nx_uid :: uint32
  nx_flags :: uint32
  nx_pid :: int32

record dns_res_state =
  rs_netid :: uint16
  rs_uid :: uint32
  rs_pid :: int32
  rs_id :: uint16
  rs_searchDomains :: "string list"
  rs_nsaddrs :: "compact_ipdata list"
  rs_nssocks :: "int32 list"
  rs_ndots :: "4 word"
  rs_mark :: uint32
  rs_tcpNsSock :: int32
  rs_isTcp :: bool

text \<open>The loop over the sockets, each of which is reset.\<close>

definition reset_all :: "int32 list \<Rightarrow> closed \<Rightarrow> int32 list \<times> closed" where
  "reset_all fds log = fold (\<lambda>fd (done_fds, l). case fd_wrapper_reset (- 1) fd l of (fd', l') \<Rightarrow> (done_fds @ [fd'], l')) fds ([], log)"

definition dns_res_state_init :: "netd_net_context option \<Rightarrow> dns_res_state \<Rightarrow> closed \<Rightarrow> dns_res_state \<times> closed" where
  "dns_res_state_init netcontext st log =
     (case netcontext of None \<Rightarrow> (st, log)
      | Some c \<Rightarrow>
          (let st1 = st\<lparr>rs_netid := nx_dnsNetId c, rs_ndots := 1, rs_mark := nx_dnsMark c\<rparr> in
           case reset_all (rs_nssocks st1) log of (socks, log1) \<Rightarrow> (st1\<lparr>rs_nssocks := socks\<rparr>, log1)))"

definition dns_res_state_closeSockets :: "dns_res_state \<Rightarrow> closed \<Rightarrow> dns_res_state \<times> closed" where
  "dns_res_state_closeSockets st log =
     (case fd_wrapper_reset (- 1) (rs_tcpNsSock st) log of (tcp, log1) \<Rightarrow>
      case reset_all (rs_nssocks st) log1 of (socks, log2) \<Rightarrow>
        (st\<lparr>rs_tcpNsSock := tcp, rs_isTcp := False, rs_nssocks := socks\<rparr>, log2))"

definition nameserverCount :: "dns_res_state \<Rightarrow> nat" where
  "nameserverCount st = length (rs_nsaddrs st)"

record dns_res_params =
  rp_baseTimeoutMsec :: uint16
  rp_retryCount :: uint8

definition dns_res_params_assign :: "dns_res_params \<Rightarrow> dns_res_params \<Rightarrow> dns_res_params" where
  "dns_res_params_assign this param = this\<lparr>rp_baseTimeoutMsec := rp_baseTimeoutMsec param, rp_retryCount := rp_retryCount param\<rparr>"

lemma reset_all_closes:
  "reset_all fds log = (replicate (length fds) (- 1), log @ filter (\<lambda>f. f \<noteq> - 1) fds)"
proof -
  have "fold (\<lambda>fd (done_fds, l). case fd_wrapper_reset (- 1) fd l of (fd', l') \<Rightarrow> (done_fds @ [fd'], l')) fds (ds, l) =
      (ds @ replicate (length fds) (- 1), l @ filter (\<lambda>f. f \<noteq> - 1) fds)" for ds l
    by (induction fds arbitrary: ds l) (simp_all add: fd_wrapper_reset_def)
  then show ?thesis by (simp add: reset_all_def)
qed

text \<open>
  Closing the sockets of a resolver closes each open one exactly once, the TCP socket first, and
  leaves none; doing it again, or a later \<open>init\<close>, closes nothing. \<open>init\<close> alone leaves the TCP socket open
  and takes neither the user nor the process of the context.
\<close>

theorem resolver_sockets_closed:
  assumes "dns_res_state_closeSockets st log = (st', log')"
  shows "log' = log @ filter (\<lambda>f. f \<noteq> - 1) (rs_tcpNsSock st # rs_nssocks st) \<and>
    st' = st\<lparr>rs_tcpNsSock := - 1, rs_isTcp := False, rs_nssocks := replicate (length (rs_nssocks st)) (- 1)\<rparr> \<and>
    dns_res_state_closeSockets st' log' = (st', log') \<and>
    snd (dns_res_state_init (Some c) st' log') = log' \<and>
    (case dns_res_state_init (Some c) st log of (st2, log2) \<Rightarrow>
       rs_tcpNsSock st2 = rs_tcpNsSock st \<and> rs_uid st2 = rs_uid st \<and> rs_pid st2 = rs_pid st \<and>
       log2 = log @ filter (\<lambda>f. f \<noteq> - 1) (rs_nssocks st))"
  using assms by (auto simp: dns_res_state_closeSockets_def dns_res_state_init_def reset_all_closes fd_wrapper_reset_def)

definition sample_sockets :: dns_res_state where
  "sample_sockets = \<lparr>rs_netid = 100, rs_uid = 1000, rs_pid = 7, rs_id = 1, rs_searchDomains = [], rs_nsaddrs = [sample_v4, sample_v6],
     rs_nssocks = [5, - 1, 6, - 1], rs_ndots = 1, rs_mark = 0, rs_tcpNsSock = 4, rs_isTcp = True\<rparr>"

theorem resolver_sockets_closed_witness:
  "snd (dns_res_state_closeSockets sample_sockets []) = [4, 5, 6]"
  using resolver_sockets_closed [OF prod.collapse [symmetric], of sample_sockets "[]"]
  by (simp add: sample_sockets_def)

end
