(* ===== verification/Addr_Info_Memory.thy ===== *)
theory Addr_Info_Memory
  imports NM_Types
begin

text \<open>
  The memory of a result list of the resolver: the loop of \<open>FreeAddrInfo2\<close> (\<open>dns_resolver_service.cpp\<close>) over
  a heap of blocks, in which freeing or using a block that is not allocated is a fault.
\<close>

section \<open>The heap\<close>

record addr_node =
  an_addr :: "nat option"
  an_canonname :: "nat option"
  an_next :: "nat option"

datatype heap_block = Bytes | Node addr_node

type_synonym addr_heap = "nat \<rightharpoonup> heap_block"

definition free_block :: "nat \<Rightarrow> addr_heap \<Rightarrow> addr_heap option" where
  "free_block p h = (if h p = None then None else Some (h(p := None)))"

text \<open>Read the node, free what its field points to, and write a null pointer to the field.\<close>

definition free_field ::
    "(addr_node \<Rightarrow> nat option) \<Rightarrow> (addr_node \<Rightarrow> addr_node) \<Rightarrow> nat \<Rightarrow> addr_heap \<Rightarrow> addr_heap option" where
  "free_field get clear a h =
     (case h a of
        Some (Node n) \<Rightarrow>
          (case get n of None \<Rightarrow> Some h
           | Some p \<Rightarrow>
               (case free_block p h of None \<Rightarrow> None
                | Some h1 \<Rightarrow> (case h1 a of Some (Node n1) \<Rightarrow> Some (h1(a \<mapsto> Node (clear n1))) | _ \<Rightarrow> None)))
      | _ \<Rightarrow> None)"

text \<open>One round of the loop; the result is the next node.\<close>

definition free_node :: "nat \<Rightarrow> addr_heap \<Rightarrow> (nat option \<times> addr_heap) option" where
  "free_node a h =
     (case free_field an_addr (\<lambda>n. n\<lparr>an_addr := None\<rparr>) a h of None \<Rightarrow> None
      | Some h1 \<Rightarrow>
          (case free_field an_canonname (\<lambda>n. n\<lparr>an_canonname := None\<rparr>) a h1 of None \<Rightarrow> None
           | Some h2 \<Rightarrow>
               (case h2 a of
                  Some (Node n) \<Rightarrow> map_option (\<lambda>h3. (an_next n, h3)) (free_block a h2)
                | _ \<Rightarrow> None)))"

partial_function (option) FreeAddrInfo2 :: "nat option \<Rightarrow> addr_heap \<Rightarrow> addr_heap run option" where
  "FreeAddrInfo2 ai h =
     (case ai of None \<Rightarrow> Some (Done h)
      | Some a \<Rightarrow>
          (case free_node a h of None \<Rightarrow> Some Fault
           | Some (aiNext, h1) \<Rightarrow> if aiNext = None then Some (Done h1) else FreeAddrInfo2 aiNext h1))"

section \<open>Lists\<close>

text \<open>A chain of nodes, and the blocks a node owns, itself last.\<close>

fun addr_list :: "addr_heap \<Rightarrow> nat option \<Rightarrow> nat list \<Rightarrow> bool" where
  "addr_list h ai [] \<longleftrightarrow> ai = None"
| "addr_list h ai (a # as) \<longleftrightarrow> ai = Some a \<and> (case h a of Some (Node n) \<Rightarrow> addr_list h (an_next n) as | _ \<Rightarrow> False)"

definition pointed :: "nat option \<Rightarrow> nat list" where
  "pointed p = (case p of None \<Rightarrow> [] | Some a \<Rightarrow> [a])"

definition node_blocks :: "addr_heap \<Rightarrow> nat \<Rightarrow> nat list" where
  "node_blocks h a = (case h a of Some (Node n) \<Rightarrow> pointed (an_addr n) @ pointed (an_canonname n) @ [a] | _ \<Rightarrow> [])"

definition list_blocks :: "addr_heap \<Rightarrow> nat list \<Rightarrow> nat list" where
  "list_blocks h as = concat (map (node_blocks h) as)"

lemma pointed_simps [simp]: "pointed None = []" "pointed (Some a) = [a]"
  by (simp_all add: pointed_def)

lemma addr_list_nodes: "addr_list h ai as \<Longrightarrow> a \<in> set as \<Longrightarrow> a \<in> set (node_blocks h a)"
  by (induction as arbitrary: ai) (auto simp: node_blocks_def split: option.splits heap_block.splits)

lemma free_node_frees:
  assumes "h a = Some (Node n)" and "distinct (node_blocks h a)" and "set (node_blocks h a) \<subseteq> dom h"
  shows "free_node a h = Some (an_next n, h |` (- set (node_blocks h a)))"
proof -
  have d: "distinct (pointed (an_addr n) @ pointed (an_canonname n) @ [a])" "set (pointed (an_addr n) @ pointed (an_canonname n) @ [a]) \<subseteq> dom h"
    using assms by (simp_all add: node_blocks_def)
  have "h |` (- set (node_blocks h a)) = h(a := None) |` (- set (pointed (an_addr n)) - set (pointed (an_canonname n)))"
    using assms(1) by (auto simp: node_blocks_def restrict_map_def fun_eq_iff)
  moreover have "free_node a h = Some (an_next n, h(a := None) |` (- set (pointed (an_addr n)) - set (pointed (an_canonname n))))"
    using d assms(1)
    by (cases "an_addr n"; cases "an_canonname n")
      (auto simp: free_node_def free_field_def free_block_def restrict_map_def fun_eq_iff)
  ultimately show ?thesis by simp
qed

lemma free_node_smaller:
  "free_node a h = Some (nx, h') \<Longrightarrow> dom h' \<subset> dom h"
  unfolding free_node_def free_field_def free_block_def
  by (auto split: option.splits heap_block.splits if_splits)

lemma chain_kept:
  assumes "addr_list h ai as" and "set as \<inter> X = {}"
  shows "addr_list (h |` (- X)) ai as" and "list_blocks (h |` (- X)) as = list_blocks h as"
proof -
  have eq: "(h |` (- X)) a = h a" if "a \<in> set as" for a using assms(2) that by (auto simp: restrict_map_def)
  show "list_blocks (h |` (- X)) as = list_blocks h as"
    unfolding list_blocks_def node_blocks_def by (rule arg_cong [of _ _ concat], rule map_cong [OF refl]) (simp add: eq)
  show "addr_list (h |` (- X)) ai as" using assms(1) eq
    by (induction as arbitrary: ai) (auto split: option.splits heap_block.splits)
qed

text \<open>
  C37. On a list of the resolver whose blocks are all allocated and not shared \<open>FreeAddrInfo2\<close> returns and has freed
  exactly the blocks of the list, nodes, addresses and canonical names, each once; every other block is as
  before. Freeing the list again is a fault.
\<close>

theorem address_list_freed:
  assumes "addr_list h ai as" and "distinct (list_blocks h as)" and "set (list_blocks h as) \<subseteq> dom h"
  shows "FreeAddrInfo2 ai h = Some (Done (h |` (- set (list_blocks h as)))) \<and>
    (ai \<noteq> None \<longrightarrow> FreeAddrInfo2 ai (h |` (- set (list_blocks h as))) = Some Fault)"
proof -
  have "FreeAddrInfo2 ai h = Some (Done (h |` (- set (list_blocks h as))))" using assms
  proof (induction as arbitrary: ai h)
    case Nil
    then show ?case by (subst FreeAddrInfo2.simps) (simp add: list_blocks_def restrict_map_def)
  next
    case (Cons a as)
    obtain n where n: "ai = Some a" "h a = Some (Node n)" "addr_list h (an_next n) as"
      using Cons.prems(1) by (auto split: option.splits heap_block.splits)
    have b: "list_blocks h (a # as) = node_blocks h a @ list_blocks h as" by (simp add: list_blocks_def)
    let ?h = "h |` (- set (node_blocks h a))"
    have f: "free_node a h = Some (an_next n, ?h)" using free_node_frees [where h = h and a = a and n = n] n(2) Cons.prems(2,3) b by simp
    have "set as \<subseteq> set (list_blocks h as)" using addr_list_nodes [OF n(3)] by (auto simp: list_blocks_def)
    then have "set as \<inter> set (node_blocks h a) = {}" using Cons.prems(2) b by auto
    note k = chain_kept [OF n(3) this]
    have "distinct (list_blocks ?h as)" "set (list_blocks ?h as) \<subseteq> dom ?h"
      using Cons.prems(2,3) unfolding k(2) b by auto
    then have "FreeAddrInfo2 (an_next n) ?h = Some (Done (?h |` (- set (list_blocks ?h as))))" by (rule Cons.IH [OF k(1)])
    moreover have "?h |` (- set (list_blocks ?h as)) = h |` (- set (list_blocks h (a # as)))"
      unfolding k(2) b by simp
    moreover have "FreeAddrInfo2 ai h = FreeAddrInfo2 (an_next n) ?h"
      by (subst FreeAddrInfo2.simps) (auto simp: n(1) f FreeAddrInfo2.simps)
    ultimately show ?case by simp
  qed
  moreover have "FreeAddrInfo2 ai (h |` (- set (list_blocks h as))) = Some Fault" if some: "ai \<noteq> None"
  proof -
    obtain a where a: "ai = Some a" using some by blast
    then have "a \<in> set (list_blocks h as)" using assms(1) addr_list_nodes [OF assms(1), of a] by (cases as) (auto simp: list_blocks_def)
    then have "free_node a (h |` (- set (list_blocks h as))) = None" by (simp add: free_node_def free_field_def)
    then show ?thesis by (subst FreeAddrInfo2.simps) (simp add: a)
  qed
  ultimately show ?thesis by blast
qed

text \<open>The loop ends on every finite heap, also where nodes form a ring: a node that comes back is freed already.\<close>

lemma FreeAddrInfo2_returns:
  "finite (dom h) \<Longrightarrow> FreeAddrInfo2 ai h \<noteq> None"
proof (induction "dom h" arbitrary: ai h rule: finite_psubset_induct)
  case psubset
  have "FreeAddrInfo2 x h' \<noteq> None" if "free_node a h = Some (x, h')" for a x h'
    using psubset.hyps(2) [OF free_node_smaller [OF that]] .
  then show ?case by (subst FreeAddrInfo2.simps) (auto split: option.splits)
qed

definition sample_heap :: addr_heap where
  "sample_heap = [1 \<mapsto> Node \<lparr>an_addr = Some 2, an_canonname = None, an_next = Some 3\<rparr>, 2 \<mapsto> Bytes,
     3 \<mapsto> Node \<lparr>an_addr = Some 4, an_canonname = Some 5, an_next = None\<rparr>, 4 \<mapsto> Bytes, 5 \<mapsto> Bytes, 6 \<mapsto> Bytes]"

theorem address_list_freed_witness:
  "FreeAddrInfo2 (Some 1) sample_heap = Some (Done [6 \<mapsto> Bytes])"
proof -
  have b: "list_blocks sample_heap [1, 3] = [2, 1, 4, 5, 3]" by (simp add: list_blocks_def node_blocks_def sample_heap_def)
  have "addr_list sample_heap (Some 1) [1, 3]" by (simp add: sample_heap_def)
  moreover have "distinct (list_blocks sample_heap [1, 3])" "set (list_blocks sample_heap [1, 3]) \<subseteq> dom sample_heap"
    unfolding b by (simp_all add: sample_heap_def)
  ultimately have "FreeAddrInfo2 (Some 1) sample_heap = Some (Done (sample_heap |` (- set (list_blocks sample_heap [1, 3]))))"
    using address_list_freed by blast
  moreover have "sample_heap |` (- set (list_blocks sample_heap [1, 3])) = [6 \<mapsto> Bytes]"
    unfolding b by (auto simp: sample_heap_def restrict_map_def fun_eq_iff)
  ultimately show ?thesis by simp
qed

end
