(* ===== verification/Log_Wrapper.thy ===== *)
theory Log_Wrapper
  imports NM_Types
begin

text \<open>
  \<open>NetMgrLogWrapper\<close> (\<open>net_mgr_log_wrapper.cpp\<close>): the level of the log, which a process starts with
  \<open>DEBUG\<close>, and the name of a file without its directories.
\<close>

datatype NetMgrLogLevel = LOG_DEBUG | LOG_INFO | LOG_WARN | LOG_ERROR | LOG_FATAL

fun NetMgrLogLevel_val :: "NetMgrLogLevel \<Rightarrow> int" where
  "NetMgrLogLevel_val LOG_DEBUG = 0"
| "NetMgrLogLevel_val LOG_INFO = 1"
| "NetMgrLogLevel_val LOG_WARN = 2"
| "NetMgrLogLevel_val LOG_ERROR = 3"
| "NetMgrLogLevel_val LOG_FATAL = 4"

text \<open>Scoped enumerations are compared by their values.\<close>

instantiation NetMgrLogLevel :: linorder
begin

definition less_eq_NetMgrLogLevel :: "NetMgrLogLevel \<Rightarrow> NetMgrLogLevel \<Rightarrow> bool" where
  "less_eq_NetMgrLogLevel a b \<longleftrightarrow> NetMgrLogLevel_val a \<le> NetMgrLogLevel_val b"
definition less_NetMgrLogLevel :: "NetMgrLogLevel \<Rightarrow> NetMgrLogLevel \<Rightarrow> bool" where
  "less_NetMgrLogLevel a b \<longleftrightarrow> NetMgrLogLevel_val a < NetMgrLogLevel_val b"

instance
proof
  fix a b :: NetMgrLogLevel
  show "a \<le> b \<Longrightarrow> b \<le> a \<Longrightarrow> a = b" unfolding less_eq_NetMgrLogLevel_def by (cases a; cases b) simp_all
qed (auto simp: less_eq_NetMgrLogLevel_def less_NetMgrLogLevel_def)

end

definition log_level_init :: NetMgrLogLevel where
  "log_level_init = LOG_DEBUG"
definition SetLogLevel :: "NetMgrLogLevel \<Rightarrow> NetMgrLogLevel \<Rightarrow> NetMgrLogLevel" where
  "SetLogLevel level old = level"
definition JudgeLevel :: "NetMgrLogLevel \<Rightarrow> NetMgrLogLevel \<Rightarrow> bool" where
  "JudgeLevel curLevel level = (if level < curLevel then False else True)"

text \<open>\<open>std::string::find_last_of\<close> of one character; \<open>None\<close> is \<open>npos\<close>.\<close>

fun find_last_of :: "char \<Rightarrow> string \<Rightarrow> nat option" where
  "find_last_of c [] = None"
| "find_last_of c (x # xs) =
     (case find_last_of c xs of Some i \<Rightarrow> Some (Suc i) | None \<Rightarrow> if x = c then Some 0 else None)"

definition GetBriefFileName :: "string \<Rightarrow> string" where
  "GetBriefFileName file =
     (case find_last_of (CHR ''/'') file of Some pos \<Rightarrow> drop (pos + 1) file
      | None \<Rightarrow> (case find_last_of (CHR 0x5C) file of Some pos \<Rightarrow> drop (pos + 1) file | None \<Rightarrow> file))"

lemma find_last_of_None: "find_last_of c s = None \<longleftrightarrow> c \<notin> set s"
  by (induction s) (auto split: option.splits)

lemma find_last_of_split: "c \<notin> set t \<Longrightarrow> find_last_of c (s @ c # t) = Some (length s)"
proof (induction s)
  case Nil
  then show ?case using find_last_of_None [of c t] by simp
qed simp

text \<open>Directories are cut off at the last slash, or at the last backslash where there is no slash.\<close>

lemma GetBriefFileName_slash: "CHR ''/'' \<notin> set name \<Longrightarrow> GetBriefFileName (dir @ CHR ''/'' # name) = name"
  by (simp add: GetBriefFileName_def find_last_of_split)

lemma GetBriefFileName_backslash:
  "CHR ''/'' \<notin> set (dir @ name) \<Longrightarrow> CHR 0x5C \<notin> set name \<Longrightarrow> GetBriefFileName (dir @ CHR 0x5C # name) = name"
  using find_last_of_None [of "CHR ''/''" "dir @ CHR 0x5C # name"] by (simp add: GetBriefFileName_def find_last_of_split)

lemma GetBriefFileName_plain: "CHR ''/'' \<notin> set name \<Longrightarrow> CHR 0x5C \<notin> set name \<Longrightarrow> GetBriefFileName name = name"
  by (simp add: GetBriefFileName_def iffD2 [OF find_last_of_None])

lemma JudgeLevel_iff: "JudgeLevel curLevel level \<longleftrightarrow> curLevel \<le> level"
  by (auto simp: JudgeLevel_def)

end
